(* ===== verification/IMS_Prelude.thy ===== *)
theory IMS_Prelude
  imports Main "HOL-Library.Word" "HOL-Library.Monad_Syntax"
begin

text \<open>
  The vocabulary every component shares: C's 32-bit \<open>int\<close>, C strings with
  \<open>strcmp\<close>, decimal printing (\<open>sprintf "%d"\<close>) and \<open>atoi\<close>, the memory
  allocator, and the generic lemmas on lists that the component proofs use.

  A C string is the HOL \<^typ>\<open>string\<close> of the characters before its terminator, so a
  buffer of \<open>n\<close> bytes holds a string \<open>s\<close> iff \<open>length s < n\<close>.  A \<open>char *\<close> that
  the code compares with \<open>NULL\<close> is a \<^typ>\<open>string option\<close>.
\<close>

named_theorems ops \<comment> \<open>the defining equations of operations, unfolded by component proofs\<close>
named_theorems frame \<comment> \<open>what an operation leaves unchanged\<close>

section \<open>C integers\<close>

text \<open>\<open>int\<close> is 32 bits wide, two's complement; \<^const>\<open>sint\<close> is its value.\<close>

type_synonym cint = "32 word"

lemma sint_cint_lower: "- (2 ^ 31) \<le> sint (x :: cint)"
  using sint_greater_eq [of x] by simp

lemma sint_cint_upper: "sint (x :: cint) < 2 ^ 31"
  using sint_lt [of x] by simp

lemma cint_eq_iff: "(x :: cint) = y \<longleftrightarrow> sint x = sint y"
  by (simp add: word_eq_iff_signed)

text \<open>Comparison by subtraction, as the code's \<open>*_comp\<close> functions do it: the
  difference wraps, but it is zero exactly for equal values.\<close>

definition cint_diff :: "cint \<Rightarrow> cint \<Rightarrow> int" where
  "cint_diff a b = sint (a - b)"

lemma cint_diff_zero [simp]: "cint_diff a b = 0 \<longleftrightarrow> a = b"
proof -
  have "sint (a - b) = 0 \<longleftrightarrow> a - b = 0"
    by (metis cint_eq_iff sint_0)
  then show ?thesis by (simp add: cint_diff_def)
qed

section \<open>Strings\<close>

abbreviation strlen :: "string \<Rightarrow> nat" where
  "strlen \<equiv> length"

text \<open>\<open>strcmp\<close>: only the sign of the result is specified by the C standard.\<close>

fun strcmp :: "string \<Rightarrow> string \<Rightarrow> int" where
  "strcmp [] [] = 0"
| "strcmp [] (b # bs) = -1"
| "strcmp (a # as) [] = 1"
| "strcmp (a # as) (b # bs) =
     (if (of_char a :: nat) < of_char b then -1
      else if (of_char b :: nat) < of_char a then 1
      else strcmp as bs)"

lemma strcmp_refl [simp]: "strcmp s s = 0"
  by (induction s) auto

lemma strcmp_zero [simp]: "strcmp s t = 0 \<longleftrightarrow> s = t"
proof (induction s t rule: strcmp.induct)
  case (4 a as b bs)
  have "(of_char a :: nat) = of_char b \<longleftrightarrow> a = b" by simp
  with 4 show ?case by (auto simp: not_less)
qed auto

section \<open>Decimal numbers\<close>

definition digit :: "nat \<Rightarrow> char" where
  "digit d = char_of (48 + d)"

fun digits :: "nat \<Rightarrow> string" where
  "digits n = (if n < 10 then [digit n] else digits (n div 10) @ [digit (n mod 10)])"

declare digits.simps [simp del]

text \<open>\<open>sprintf(buf, "%d", i)\<close>.\<close>

definition print_int :: "int \<Rightarrow> string" where
  "print_int i = (if i < 0 then CHR ''-'' # digits (nat (- i)) else digits (nat i))"

definition str_d :: "cint \<Rightarrow> string" where
  "str_d x = print_int (sint x)"

definition is_digit :: "char \<Rightarrow> bool" where
  "is_digit c \<longleftrightarrow> 48 \<le> (of_char c :: nat) \<and> (of_char c :: nat) \<le> 57"

definition is_space :: "char \<Rightarrow> bool" where
  "is_space c \<longleftrightarrow> c \<in> {CHR '' '', CHR 0x09, CHR 0x0A, CHR 0x0B, CHR 0x0C, CHR 0x0D}"

fun atoi_digits :: "nat \<Rightarrow> string \<Rightarrow> nat" where
  "atoi_digits acc [] = acc"
| "atoi_digits acc (c # cs) =
     (if is_digit c then atoi_digits (10 * acc + (of_char c - 48)) cs else acc)"

text \<open>\<open>atoi\<close>: white space, an optional sign, then digits up to the first other character.\<close>

definition atoi_int :: "string \<Rightarrow> int" where
  "atoi_int s =
     (case dropWhile is_space s of
        [] \<Rightarrow> 0
      | c # cs \<Rightarrow>
          if c = CHR ''-'' then - int (atoi_digits 0 cs)
          else if c = CHR ''+'' then int (atoi_digits 0 cs)
          else int (atoi_digits 0 (c # cs)))"

definition atoi :: "string \<Rightarrow> cint" where
  "atoi s = word_of_int (atoi_int s)"

lemma of_char_digit [simp]: "d < 10 \<Longrightarrow> (of_char (digit d) :: nat) = 48 + d"
  by (simp add: digit_def)

lemma is_digit_digit [simp]: "d < 10 \<Longrightarrow> is_digit (digit d)"
  by (simp add: is_digit_def)

lemma digits_nonempty [simp]: "digits n \<noteq> []"
  by (subst digits.simps) simp

lemma digits_all_digits: "c \<in> set (digits n) \<Longrightarrow> is_digit c"
proof (induction n rule: digits.induct)
  case (1 n)
  then show ?case
    by (subst (asm) (2) digits.simps) (auto split: if_splits)
qed

lemma atoi_digits_snoc:
  "\<forall>c \<in> set cs. is_digit c \<Longrightarrow> d < 10 \<Longrightarrow>
   atoi_digits acc (cs @ [digit d]) = 10 * atoi_digits acc cs + d"
  by (induction cs arbitrary: acc) auto

lemma atoi_digits_digits: "atoi_digits 0 (digits n) = n"
proof (induction n rule: digits.induct)
  case (1 n)
  show ?case
  proof (cases "n < 10")
    case True
    then show ?thesis by (subst digits.simps) simp
  next
    case False
    with 1 have "atoi_digits 0 (digits (n div 10)) = n div 10" by simp
    then show ?thesis
      using False by (subst digits.simps)
        (simp add: atoi_digits_snoc digits_all_digits)
  qed
qed

lemma is_digit_not_space: "is_digit c \<Longrightarrow> \<not> is_space c"
  by (auto simp: is_digit_def is_space_def)

lemma is_digit_not_sign: "is_digit c \<Longrightarrow> c \<noteq> CHR ''-'' \<and> c \<noteq> CHR ''+''"
  by (auto simp: is_digit_def)

text \<open>Printing and parsing are inverse.\<close>

lemma atoi_print_int: "atoi_int (print_int i) = i"
proof (cases "i < 0")
  case True
  have "\<not> is_space (CHR ''-'')" by (simp add: is_space_def)
  with True show ?thesis
    by (simp add: atoi_int_def print_int_def atoi_digits_digits)
next
  case False
  obtain c cs where ds: "digits (nat i) = c # cs"
    by (cases "digits (nat i)") auto
  then have "is_digit c" using digits_all_digits [of c "nat i"] by simp
  with False ds atoi_digits_digits [of "nat i"] show ?thesis
    by (simp add: atoi_int_def print_int_def is_digit_not_space is_digit_not_sign del: atoi_digits.simps)
qed

lemma atoi_str_d [simp]: "atoi (str_d x) = x"
  by (simp add: atoi_def str_d_def atoi_print_int)

lemma str_d_inject [simp]: "str_d x = str_d y \<longleftrightarrow> x = y"
  by (metis atoi_str_d)

lemma length_digits: "0 < k \<Longrightarrow> n < 10 ^ k \<Longrightarrow> length (digits n) \<le> k"
proof (induction k arbitrary: n)
  case (Suc k)
  show ?case
  proof (cases "n < 10")
    case True
    then show ?thesis by (subst digits.simps) simp
  next
    case False
    with Suc.prems have "n div 10 < 10 ^ k" and "0 < k"
      by (auto simp: less_mult_imp_div_less mult.commute intro: gr0I)
    with Suc.IH have "length (digits (n div 10)) \<le> k" by blast
    with False show ?thesis by (subst digits.simps) simp
  qed
qed simp

lemma length_digits_ge: "10 ^ k \<le> n \<Longrightarrow> k < length (digits n)"
proof (induction k arbitrary: n)
  case 0
  then show ?case by simp
next
  case (Suc k)
  have "(1::nat) \<le> 10 ^ k" by simp
  then have "(10::nat) \<le> 10 ^ Suc k" by simp
  with Suc.prems have "10 ^ k \<le> n div 10" and "\<not> n < 10"
    by (simp add: less_eq_div_iff_mult_less_eq mult.commute, linarith)
  with Suc.IH show ?case by (subst digits.simps) simp
qed

lemma length_str_d_le: "strlen (str_d x) \<le> 11"
proof -
  have "nat (- sint x) < 10 ^ 10" "nat (sint x) < 10 ^ 10"
    using sint_cint_lower [of x] sint_cint_upper [of x] by auto
  then have "length (digits (nat (- sint x))) \<le> 10" "length (digits (nat (sint x))) \<le> 10"
    using length_digits [of 10] by auto
  then show ?thesis by (simp add: str_d_def print_int_def)
qed

lemma length_str_d_pos [simp]: "0 < strlen (str_d x)"
  by (simp add: str_d_def print_int_def)

section \<open>The memory allocator\<close>

text \<open>
  \<open>malloc\<close> may fail at any call.  The allocator is an oracle: \<open>avail k\<close> tells whether
  the \<open>k\<close>-th call succeeds, and the address it returns is \<open>k\<close> itself, so addresses are
  never reused.
\<close>

record mem =
  avail :: "nat \<Rightarrow> bool"
  brk :: nat

definition malloc :: "'z mem_scheme \<Rightarrow> nat option \<times> 'z mem_scheme" where
  "malloc m = ((if avail m (brk m) then Some (brk m) else None), m\<lparr>brk := Suc (brk m)\<rparr>)"

text \<open>Memory that never runs out, for the statements about successful runs.\<close>

definition plenty :: "'z mem_scheme \<Rightarrow> bool" where
  "plenty m \<longleftrightarrow> (\<forall>k \<ge> brk m. avail m k)"

lemma plenty_brk [simp]: "plenty m \<Longrightarrow> brk m \<le> k \<Longrightarrow> plenty (m\<lparr>brk := k\<rparr>)"
  by (simp add: plenty_def)

lemma malloc_plenty [simp]:
  "plenty m \<Longrightarrow> malloc m = (Some (brk m), m\<lparr>brk := Suc (brk m)\<rparr>)"
  by (simp add: malloc_def plenty_def)

section \<open>Runs in the option monad\<close>

lemma bind_SomeE:
  "Option.bind m f = Some y \<Longrightarrow> (\<And>x. m = Some x \<Longrightarrow> f x = Some y \<Longrightarrow> P) \<Longrightarrow> P"
  by (auto simp: bind_eq_Some_conv)

section \<open>Lists\<close>

lemma those_map_Some: "(\<And>x. x \<in> set xs \<Longrightarrow> f x = Some (g x)) \<Longrightarrow> those (map f xs) = Some (map g xs)"
  by (induction xs) auto

lemma those_Some_length: "those xs = Some ys \<Longrightarrow> length ys = length xs"
  by (induction xs arbitrary: ys) (auto split: option.splits)

lemma distinct_map_filter: "distinct (map f xs) \<Longrightarrow> distinct (map f (filter P xs))"
  by (induction xs) auto

lemma find_None_iff_set: "List.find P xs = None \<longleftrightarrow> (\<forall>x \<in> set xs. \<not> P x)"
  by (induction xs) auto

lemma find_Some_set: "List.find P xs = Some x \<Longrightarrow> x \<in> set xs \<and> P x"
  by (induction xs) (auto split: if_splits)

end
