(* ===== verification/Linked_List.thy ===== *)
theory Linked_List
  imports IMS_Prelude
begin

text \<open>
  \<open>common/list.c\<close> and \<open>common/list.h\<close>: the circular doubly linked list with a ghost
  node on which the client keeps all its data.  The list is modelled on an explicit heap of
  nodes, pointer by pointer; an access through a pointer that designates no node is
  \<^const>\<open>None\<close>.  \<open>ring h g ps xs\<close> relates such a heap to the HOL list \<open>xs\<close> it
  represents, and the refinement lemmas show that every operation of the code acts on \<open>xs\<close>
  as the corresponding list function.
\<close>

section \<open>Nodes and the heap\<close>

record 'i list_node =
  item :: "'i option"
  "next" :: nat
  prev :: nat

text \<open>\<open>released\<close> is the sequence of items handed to the list's \<open>item_free\<close>;
  \<open>info_released\<close> counts the calls of \<open>info_free\<close>.\<close>

record 'i heap = mem +
  cells :: "nat \<Rightarrow> 'i list_node option"
  released :: "'i list"
  info_released :: nat

record ('i, 'v) linked_list =
  ghost_item :: nat
  list_info :: cint
  n_elems :: int
  max_elems :: int
  info_free :: bool \<comment> \<open>is the function pointer set?\<close>
  item_free :: bool
  item_comp :: "('i \<Rightarrow> 'i \<Rightarrow> int) option"
  item_value_comp :: "('i \<Rightarrow> 'v \<Rightarrow> int) option"

definition nx :: "'i heap \<Rightarrow> nat \<Rightarrow> nat option" where
  "nx h p = map_option next (cells h p)"

definition pv :: "'i heap \<Rightarrow> nat \<Rightarrow> nat option" where
  "pv h p = map_option prev (cells h p)"

definition it :: "'i heap \<Rightarrow> nat \<Rightarrow> 'i option option" where
  "it h p = map_option item (cells h p)"

text \<open>Stores through a pointer, \<open>p->next = v\<close> and \<open>p->prev = v\<close>.\<close>

definition set_next :: "nat \<Rightarrow> nat \<Rightarrow> 'i heap \<Rightarrow> 'i heap option" where
  "set_next p v h =
     (case cells h p of None \<Rightarrow> None
      | Some n \<Rightarrow> Some (h\<lparr>cells := (cells h)(p \<mapsto> n\<lparr>next := v\<rparr>)\<rparr>))"

definition set_prev :: "nat \<Rightarrow> nat \<Rightarrow> 'i heap \<Rightarrow> 'i heap option" where
  "set_prev p v h =
     (case cells h p of None \<Rightarrow> None
      | Some n \<Rightarrow> Some (h\<lparr>cells := (cells h)(p \<mapsto> n\<lparr>prev := v\<rparr>)\<rparr>))"

definition free_node :: "nat \<Rightarrow> 'i heap \<Rightarrow> 'i heap" where
  "free_node p h = h\<lparr>cells := (cells h)(p := None)\<rparr>"

definition release_item :: "'i option \<Rightarrow> 'i heap \<Rightarrow> 'i heap" where
  "release_item i h = (case i of None \<Rightarrow> h | Some x \<Rightarrow> h\<lparr>released := released h @ [x]\<rparr>)"

section \<open>The operations of \<open>list.c\<close>\<close>

definition node_delete :: "nat \<Rightarrow> 'i heap \<Rightarrow> 'i heap option" where
  "node_delete node h = do {
     before \<leftarrow> pv h node;
     after \<leftarrow> nx h node;
     h \<leftarrow> set_next before after h;
     after \<leftarrow> nx h node;
     before \<leftarrow> pv h node;
     h \<leftarrow> set_prev after before h;
     i \<leftarrow> it h node;
     Some (free_node node (release_item i h))
   }"

definition node_add :: "('i, 'v) linked_list \<Rightarrow> nat \<Rightarrow> 'i heap \<Rightarrow> 'i heap option" where
  "node_add l node h = do {
     h \<leftarrow> set_next node (ghost_item l) h;
     before \<leftarrow> pv h (ghost_item l);
     h \<leftarrow> set_prev node before h;
     before \<leftarrow> pv h (ghost_item l);
     h \<leftarrow> set_next before node h;
     set_prev (ghost_item l) node h
   }"

text \<open>The loop of \<open>_find_node\<close>; \<open>Some None\<close> is its result \<open>NULL\<close>.\<close>

partial_function (option) find_loop :: "nat \<Rightarrow> ('i \<Rightarrow> int) \<Rightarrow> nat \<Rightarrow> 'i heap \<Rightarrow> nat option option" where
  "find_loop g cmp node h =
     (if node = g then Some None
      else do {
        i \<leftarrow> it h node;
        x \<leftarrow> i;
        if cmp x = 0 then Some (Some node)
        else do { after \<leftarrow> nx h node; find_loop g cmp after h }
      })"

definition find_node :: "('i, 'v) linked_list \<Rightarrow> ('i \<Rightarrow> int) \<Rightarrow> 'i heap \<Rightarrow> nat option option" where
  "find_node l cmp h = do { node \<leftarrow> nx h (ghost_item l); find_loop (ghost_item l) cmp node h }"

text \<open>The comparison functions are not set by \<open>list_new\<close>: they hold whatever the
  allocated block held, here the parameter \<open>junk\<close>.\<close>

definition list_new ::
  "('i \<Rightarrow> 'i \<Rightarrow> int) option \<times> ('i \<Rightarrow> 'v \<Rightarrow> int) option \<Rightarrow> cint \<Rightarrow> int \<Rightarrow> bool \<Rightarrow> bool \<Rightarrow> 'i heap \<Rightarrow>
   ('i, 'v) linked_list option \<times> 'i heap" where
  "list_new junk info limit ifree itfree h =
     (if \<not> ifree \<or> \<not> itfree then (None, h)
      else case malloc h of
        (None, h) \<Rightarrow> (None, h)
      | (Some _, h) \<Rightarrow>
        (case malloc h of
          (None, h) \<Rightarrow> (None, h)
        | (Some g, h) \<Rightarrow>
           (Some \<lparr>ghost_item = g, list_info = info, n_elems = 0, max_elems = limit,
              info_free = ifree, item_free = itfree,
              item_comp = fst junk, item_value_comp = snd junk\<rparr>,
            h\<lparr>cells := (cells h)(g \<mapsto> \<lparr>item = None, next = g, prev = g\<rparr>)\<rparr>)))"

text \<open>The loop of \<open>list_free\<close>: delete the node after the ghost until there is none.\<close>

partial_function (option) free_loop :: "nat \<Rightarrow> 'i heap \<Rightarrow> 'i heap option" where
  "free_loop g h = do {
     after \<leftarrow> nx h g;
     if g = after then Some h
     else do { h \<leftarrow> node_delete after h; free_loop g h }
   }"

definition list_free :: "('i, 'v) linked_list \<Rightarrow> 'i heap \<Rightarrow> 'i heap option" where
  "list_free l h =
     (if \<not> item_free l \<or> \<not> info_free l then Some h
      else do {
        h \<leftarrow> free_loop (ghost_item l) h;
        let h = free_node (ghost_item l) h;
        Some (h\<lparr>info_released := Suc (info_released h)\<rparr>)
      })"

definition list_find_node :: "('i, 'v) linked_list \<Rightarrow> 'v \<Rightarrow> 'i heap \<Rightarrow> nat option option" where
  "list_find_node l v h =
     (case item_value_comp l of None \<Rightarrow> Some None
      | Some cmp \<Rightarrow> find_node l (\<lambda>x. cmp x v) h)"

definition list_find_item :: "('i, 'v) linked_list \<Rightarrow> 'v \<Rightarrow> 'i heap \<Rightarrow> 'i option option" where
  "list_find_item l v h =
     (case item_value_comp l of None \<Rightarrow> Some None
      | Some cmp \<Rightarrow> do {
          r \<leftarrow> find_node l (\<lambda>x. cmp x v) h;
          case r of None \<Rightarrow> Some None | Some node \<Rightarrow> it h node
        })"

definition list_add_item ::
  "('i, 'v) linked_list \<Rightarrow> 'i option \<Rightarrow> 'i heap \<Rightarrow> (int \<times> ('i, 'v) linked_list \<times> 'i heap) option" where
  "list_add_item l i h =
     (case i of None \<Rightarrow> Some (-1, l, h)
      | Some x \<Rightarrow>
        (case item_comp l of None \<Rightarrow> Some (-1, l, h)
         | Some cmp \<Rightarrow>
           if max_elems l \<le> n_elems l then Some (-1, l, h)
           else do {
             r \<leftarrow> find_node l (\<lambda>y. cmp y x) h;
             if r \<noteq> None then Some (-1, l, h)
             else case malloc h of
               (None, h) \<Rightarrow> Some (-1, l, h)
             | (Some node, h) \<Rightarrow> do {
                 let h = h\<lparr>cells := (cells h)(node \<mapsto> \<lparr>item = Some x, next = 0, prev = 0\<rparr>)\<rparr>;
                 h \<leftarrow> node_add l node h;
                 Some (0, l\<lparr>n_elems := n_elems l + 1\<rparr>, h)
               }
           }))"

definition list_delete_node ::
  "('i, 'v) linked_list \<Rightarrow> nat \<Rightarrow> 'i heap \<Rightarrow> (('i, 'v) linked_list \<times> 'i heap) option" where
  "list_delete_node l node h = do {
     h \<leftarrow> node_delete node h;
     Some (l\<lparr>n_elems := n_elems l - 1\<rparr>, h)
   }"

text \<open>\<open>for (; num_elems > 0; num_elems--)\<close> deletes the first, or the last, node.\<close>

fun delete_first_loop ::
  "nat \<Rightarrow> ('i, 'v) linked_list \<Rightarrow> 'i heap \<Rightarrow> (('i, 'v) linked_list \<times> 'i heap) option" where
  "delete_first_loop 0 l h = Some (l, h)"
| "delete_first_loop (Suc k) l h = do {
     after \<leftarrow> nx h (ghost_item l);
     if after = ghost_item l then Some (l, h)
     else do {
       h \<leftarrow> node_delete after h;
       delete_first_loop k (l\<lparr>n_elems := n_elems l - 1\<rparr>) h
     }
   }"

definition list_delete_first ::
  "('i, 'v) linked_list \<Rightarrow> int \<Rightarrow> 'i heap \<Rightarrow> (('i, 'v) linked_list \<times> 'i heap) option" where
  "list_delete_first l num h = delete_first_loop (nat num) l h"

fun delete_last_loop ::
  "nat \<Rightarrow> ('i, 'v) linked_list \<Rightarrow> 'i heap \<Rightarrow> (('i, 'v) linked_list \<times> 'i heap) option" where
  "delete_last_loop 0 l h = Some (l, h)"
| "delete_last_loop (Suc k) l h = do {
     before \<leftarrow> pv h (ghost_item l);
     if before = ghost_item l then Some (l, h)
     else do {
       h \<leftarrow> node_delete before h;
       delete_last_loop k (l\<lparr>n_elems := n_elems l - 1\<rparr>) h
     }
   }"

definition list_delete_last ::
  "('i, 'v) linked_list \<Rightarrow> int \<Rightarrow> 'i heap \<Rightarrow> (('i, 'v) linked_list \<times> 'i heap) option" where
  "list_delete_last l num h = delete_last_loop (nat num) l h"

text \<open>The iterator macros of \<open>list.h\<close>; an iterator is a node pointer or \<open>NULL\<close>.\<close>

definition list_iterator :: "('i, 'v) linked_list \<Rightarrow> 'i heap \<Rightarrow> nat option option" where
  "list_iterator l h = do {
     after \<leftarrow> nx h (ghost_item l);
     if after \<noteq> ghost_item l then Some (Some after) else Some None
   }"

definition list_iterator_next :: "('i, 'v) linked_list \<Rightarrow> nat \<Rightarrow> 'i heap \<Rightarrow> nat option option" where
  "list_iterator_next l iter h = do {
     after \<leftarrow> nx h iter;
     if after \<noteq> ghost_item l then Some (Some after) else Some None
   }"

definition list_iterator_prev :: "('i, 'v) linked_list \<Rightarrow> nat \<Rightarrow> 'i heap \<Rightarrow> nat option option" where
  "list_iterator_prev l iter h = do {
     before \<leftarrow> pv h iter;
     if before \<noteq> ghost_item l then Some (Some before) else Some None
   }"

definition list_iterator_info :: "nat \<Rightarrow> 'i heap \<Rightarrow> 'i option option" where
  "list_iterator_info iter h = it h iter"

definition list_full :: "('i, 'v) linked_list \<Rightarrow> bool" where
  "list_full l \<longleftrightarrow> max_elems l \<le> n_elems l"

definition list_gaps :: "('i, 'v) linked_list \<Rightarrow> int" where
  "list_gaps l = max_elems l - n_elems l"

text \<open>A client's loop \<open>for (i = iterator; i != NULL; i = next(i))\<close>, collecting the items.\<close>

partial_function (option) walk :: "('i, 'v) linked_list \<Rightarrow> nat option \<Rightarrow> 'i heap \<Rightarrow> 'i list option" where
  "walk l iter h =
     (case iter of None \<Rightarrow> Some []
      | Some p \<Rightarrow> do {
          i \<leftarrow> list_iterator_info p h;
          x \<leftarrow> i;
          iter \<leftarrow> list_iterator_next l p h;
          xs \<leftarrow> walk l iter h;
          Some (x # xs)
        })"

end
