(* ===== verification/List_Refinement.thy ===== *)
theory List_Refinement
  imports Linked_List
begin

text \<open>
  \<open>ring h g ps xs\<close>: in heap \<open>h\<close> the nodes \<open>ps\<close> form, with the ghost node \<open>g\<close>, a
  circular doubly linked list whose items are \<open>xs\<close>.  Every operation of
  \<open>Linked_List\<close> is shown to run without an invalid access on such a heap and to
  transform \<open>xs\<close> as the list function that specifies it.
\<close>

section \<open>Stores and their effect\<close>

lemma set_next_Some:
  assumes "nx h p \<noteq> None"
  obtains h' where "set_next p v h = Some h'" "nx h' = (nx h)(p \<mapsto> v)" "pv h' = pv h"
    "it h' = it h" "brk h' = brk h" "avail h' = avail h" "released h' = released h"
    "info_released h' = info_released h"
  using assms
  by (auto simp: set_next_def nx_def pv_def it_def fun_eq_iff split: option.splits)

lemma set_prev_Some:
  assumes "nx h p \<noteq> None"
  obtains h' where "set_prev p v h = Some h'" "nx h' = nx h" "pv h' = (pv h)(p \<mapsto> v)"
    "it h' = it h" "brk h' = brk h" "avail h' = avail h" "released h' = released h"
    "info_released h' = info_released h"
  using assms
  by (auto simp: set_prev_def nx_def pv_def it_def fun_eq_iff split: option.splits)

lemma nx_dom: "nx h p = None \<longleftrightarrow> pv h p = None" "nx h p = None \<longleftrightarrow> it h p = None"
  by (auto simp: nx_def pv_def it_def)

lemma free_node_simps [simp]:
  "nx (free_node p h) = (nx h)(p := None)"
  "pv (free_node p h) = (pv h)(p := None)"
  "it (free_node p h) = (it h)(p := None)"
  "brk (free_node p h) = brk h" "avail (free_node p h) = avail h"
  "released (free_node p h) = released h" "info_released (free_node p h) = info_released h"
  by (auto simp: free_node_def nx_def pv_def it_def fun_eq_iff)

lemma brk_simps [simp]:
  "nx (h\<lparr>brk := k\<rparr>) = nx h" "pv (h\<lparr>brk := k\<rparr>) = pv h" "it (h\<lparr>brk := k\<rparr>) = it h"
  by (auto simp: nx_def pv_def it_def fun_eq_iff)

lemma release_item_simps [simp]:
  "nx (release_item i h) = nx h" "pv (release_item i h) = pv h" "it (release_item i h) = it h"
  "brk (release_item i h) = brk h" "avail (release_item i h) = avail h"
  "released (release_item i h) = released h @ (case i of None \<Rightarrow> [] | Some x \<Rightarrow> [x])"
  "info_released (release_item i h) = info_released h"
  by (auto simp: release_item_def nx_def pv_def it_def fun_eq_iff split: option.splits)

section \<open>Chains of links\<close>

text \<open>\<open>links f b qs\<close>: each element of \<open>qs\<close> points forward to the next one through \<open>f\<close>,
  and the next one back to it through \<open>b\<close>.\<close>

fun links :: "(nat \<Rightarrow> nat option) \<Rightarrow> (nat \<Rightarrow> nat option) \<Rightarrow> nat list \<Rightarrow> bool" where
  "links f b (p # q # rs) = (f p = Some q \<and> b q = Some p \<and> links f b (q # rs))"
| "links f b _ = True"

lemma links_append:
  "links f b (as @ p # cs) \<longleftrightarrow> links f b (as @ [p]) \<and> links f b (p # cs)"
proof (induction as)
  case (Cons a as)
  then show ?case by (cases as) auto
qed simp

lemma links_cong:
  "(\<And>p. p \<in> set (butlast qs) \<Longrightarrow> f' p = f p) \<Longrightarrow> (\<And>p. p \<in> set (tl qs) \<Longrightarrow> b' p = b p) \<Longrightarrow>
   links f b qs \<Longrightarrow> links f' b' qs"
proof (induction f b qs rule: links.induct)
  case (1 f b p q rs)
  have "links f' b' (q # rs)"
  proof (rule "1.IH")
    show "\<And>p. p \<in> set (butlast (q # rs)) \<Longrightarrow> f' p = f p" using "1.prems"(1) by simp
    show "\<And>p. p \<in> set (tl (q # rs)) \<Longrightarrow> b' p = b p" using "1.prems"(2) by simp
    show "links f b (q # rs)" using "1.prems"(3) by simp
  qed
  then show ?case using "1.prems" by simp
qed auto

lemma links_upd_ends:
  assumes "links f b qs" "u \<notin> set (butlast qs)" "w \<notin> set (tl qs)"
  shows "links (f(u := x)) (b(w := y)) qs"
  using assms(1) by (rule links_cong [rotated 2]) (use assms in auto)

lemma links_split_mid:
  "links f b (as @ p # q # bs) \<longleftrightarrow> links f b (as @ [p]) \<and> f p = Some q \<and> b q = Some p \<and> links f b (q # bs)"
  by (subst links_append) simp

definition ring :: "'i heap \<Rightarrow> nat \<Rightarrow> nat list \<Rightarrow> 'i list \<Rightarrow> bool" where
  "ring h g ps xs \<longleftrightarrow>
     distinct (g # ps) \<and> links (nx h) (pv h) (g # ps @ [g]) \<and>
     map (it h) ps = map (\<lambda>x. Some (Some x)) xs \<and>
     (\<forall>p \<in> set (g # ps). p < brk h) \<and> nx h g \<noteq> None"

lemma ring_length: "ring h g ps xs \<Longrightarrow> length ps = length xs"
  unfolding ring_def by (metis length_map)

lemma ring_it_nth: "ring h g ps xs \<Longrightarrow> i < length xs \<Longrightarrow> it h (ps ! i) = Some (Some (xs ! i))"
  using ring_length [of h g ps xs] unfolding ring_def by (metis nth_map)

lemma ring_cell: "ring h g ps xs \<Longrightarrow> p \<in> set (g # ps) \<Longrightarrow> nx h p \<noteq> None"
proof -
  assume r: "ring h g ps xs" and p: "p \<in> set (g # ps)"
  show ?thesis
  proof (cases "p = g")
    case False
    with p have "it h p \<in> set (map (it h) ps)" by simp
    with r have "it h p \<noteq> None" unfolding ring_def by auto
    then show ?thesis by (simp add: nx_dom(2))
  qed (use r in \<open>simp add: ring_def\<close>)
qed

lemma ring_next:
  assumes "ring h g (as @ p # bs) xs" shows "nx h p = Some (hd (bs @ [g]))"
proof -
  have "links (nx h) (pv h) ((g # as) @ p # (bs @ [g]))"
    using assms by (simp add: ring_def)
  then have "links (nx h) (pv h) (p # bs @ [g])" by (subst (asm) links_append) simp
  then show ?thesis by (cases bs) auto
qed

lemma ring_prev:
  assumes "ring h g (as @ p # bs) xs" shows "pv h p = Some (last (g # as))"
proof -
  obtain cs l where cs: "g # as = cs @ [l]" by (metis append_butlast_last_id list.distinct(1))
  have "links (nx h) (pv h) ((g # as) @ p # (bs @ [g]))"
    using assms by (simp add: ring_def)
  then have "links (nx h) (pv h) (cs @ l # p # (bs @ [g]))" by (simp add: cs)
  then have "pv h p = Some l" by (simp only: links_split_mid)
  then show ?thesis using cs by (metis last_snoc)
qed

lemma ring_next_ghost:
  assumes "ring h g ps xs" shows "nx h g = Some (hd (ps @ [g]))"
  using assms by (cases ps) (auto simp: ring_def)

lemma ring_prev_ghost:
  assumes "ring h g ps xs" shows "pv h g = Some (last (g # ps))"
proof -
  obtain cs l where cs: "g # ps = cs @ [l]" by (metis append_butlast_last_id list.distinct(1))
  have "links (nx h) (pv h) (cs @ l # [g])" using assms cs by (simp add: ring_def) 
      (metis append.assoc append_Cons append_Nil)
  then have "pv h g = Some l" by (simp only: links_split_mid)
  then show ?thesis using cs by (metis last_snoc)
qed

section \<open>Unlinking and linking a node\<close>

lemma snoc_last: obtains cs where "g # as = cs @ [last (g # as)]"
  by (metis append_butlast_last_id list.distinct(1))

lemma links_join:
  assumes A: "links f b (cs @ [l])" and B: "links f b (s # ds)"
    and "distinct (cs @ [l])" and "distinct (s # ds)"
    and "l \<notin> set (butlast (s # ds))" and "s \<notin> set (tl (cs @ [l]))"
  shows "links (f(l \<mapsto> s)) (b(s \<mapsto> l)) (cs @ l # s # ds)"
proof -
  have "links (f(l \<mapsto> s)) (b(s \<mapsto> l)) (cs @ [l])"
    using A by (rule links_upd_ends) (use assms in auto)
  moreover have "links (f(l \<mapsto> s)) (b(s \<mapsto> l)) (s # ds)"
    using B by (rule links_upd_ends) (use assms in auto)
  ultimately show ?thesis by (simp only: links_split_mid) simp
qed

lemma links_unlink:
  assumes L: "links f b (g # as @ p # bs @ [g])" and dist: "distinct (g # as @ p # bs)"
    and l: "l = last (g # as)" and s: "s = hd (bs @ [g])"
  shows "links ((f(l \<mapsto> s))(p := None)) ((b(s \<mapsto> l))(p := None)) (g # as @ bs @ [g])"
proof -
  obtain cs where cs: "g # as = cs @ [l]" unfolding l by (rule snoc_last)
  obtain ds where ds: "bs @ [g] = s # ds" unfolding s
    by (metis append_is_Nil_conv list.collapse list.distinct(1))
  have sin: "s \<in> set (g # bs)" unfolding s by (cases bs) auto
  have lin: "l \<in> set (g # as)" unfolding l by (rule last_in_set) simp
  from L have "links f b ((g # as) @ p # (bs @ [g]))" by simp
  then have A: "links f b (cs @ [l])" and B: "links f b (s # ds)"
    by (simp_all only: cs ds append.assoc append_Cons append_Nil links_split_mid) simp_all
  have "links (f(l \<mapsto> s)) (b(s \<mapsto> l)) (cs @ l # s # ds)"
    using A B
  proof (rule links_join)
    show "distinct (cs @ [l])" using dist by (simp only: cs [symmetric]) simp
    show "distinct (s # ds)" using dist by (simp only: ds [symmetric]) auto
    show "l \<notin> set (butlast (s # ds))" using dist lin by (simp only: ds [symmetric]) auto
    show "s \<notin> set (tl (cs @ [l]))" using dist sin by (simp only: cs [symmetric]) auto
  qed
  moreover have e: "cs @ l # s # ds = g # as @ bs @ [g]" by (metis append.assoc append_Cons append_Nil cs ds)
  ultimately have "links (f(l \<mapsto> s)) (b(s \<mapsto> l)) (g # as @ bs @ [g])" by simp
  then show ?thesis by (rule links_cong [rotated 2]) (use dist in \<open>auto simp: butlast_append\<close>)
qed

section \<open>Deleting a node\<close>

lemma node_delete_run:
  assumes "nx h p = Some s" "pv h p = Some l" "it h p = Some i"
    and "nx h l \<noteq> None" "nx h s \<noteq> None" "l \<noteq> p" "s \<noteq> p"
  obtains h' where "node_delete p h = Some h'"
    "nx h' = ((nx h)(l \<mapsto> s))(p := None)" "pv h' = ((pv h)(s \<mapsto> l))(p := None)"
    "it h' = (it h)(p := None)" "released h' = released (release_item i h)"
    "brk h' = brk h" "avail h' = avail h" "info_released h' = info_released h"
proof -
  obtain h1 where h1: "set_next l s h = Some h1" "nx h1 = (nx h)(l \<mapsto> s)" "pv h1 = pv h"
    "it h1 = it h" "brk h1 = brk h" "avail h1 = avail h" "released h1 = released h"
    "info_released h1 = info_released h"
    using assms(4) by (rule set_next_Some)
  then have "nx h1 s \<noteq> None" using assms(5) by auto
  then obtain h2 where h2: "set_prev s l h1 = Some h2" "nx h2 = nx h1" "pv h2 = (pv h1)(s \<mapsto> l)"
    "it h2 = it h1" "brk h2 = brk h1" "avail h2 = avail h1" "released h2 = released h1"
    "info_released h2 = info_released h1"
    by (rule set_prev_Some)
  show ?thesis
  proof (rule that)
    show "node_delete p h = Some (free_node p (release_item i h2))"
      using assms h1 h2 by (simp add: node_delete_def)
  qed (use h1 h2 in simp_all)
qed

lemma ring_map_it_split:
  assumes "ring h g (as @ p # bs) (xs @ x # ys)" "length as = length xs"
  shows "map (it h) as = map (\<lambda>x. Some (Some x)) xs" "it h p = Some (Some x)"
    "map (it h) bs = map (\<lambda>x. Some (Some x)) ys"
  using assms by (simp_all add: ring_def)

lemma node_delete_ring:
  assumes r: "ring h g (as @ p # bs) (xs @ x # ys)" and len: "length as = length xs"
  obtains h' where "node_delete p h = Some h'" "ring h' g (as @ bs) (xs @ ys)"
    "nx h' p = None" "released h' = released h @ [x]" "brk h' = brk h" "avail h' = avail h"
    "info_released h' = info_released h" "\<And>q. nx h q = None \<Longrightarrow> nx h' q = None"
proof -
  define l where "l = last (g # as)"
  define s where "s = hd (bs @ [g])"
  have dist: "distinct (g # as @ p # bs)" using r by (simp add: ring_def)
  have lin: "l \<in> set (g # as)" unfolding l_def by (rule last_in_set) simp
  have sin: "s \<in> set (g # bs)" unfolding s_def by (cases bs) auto
  have cells: "nx h l \<noteq> None" "nx h s \<noteq> None" using ring_cell [OF r] lin sin by auto
  have "l \<noteq> p" "s \<noteq> p" using dist lin sin by auto
  with cells obtain h' where h': "node_delete p h = Some h'"
    "nx h' = ((nx h)(l \<mapsto> s))(p := None)" "pv h' = ((pv h)(s \<mapsto> l))(p := None)"
    "it h' = (it h)(p := None)" "released h' = released (release_item (Some x) h)"
    "brk h' = brk h" "avail h' = avail h" "info_released h' = info_released h"
    using node_delete_run [of h p s l "Some x"] ring_next [OF r] ring_prev [OF r]
      ring_map_it_split(2) [OF r len] by (auto simp: l_def s_def)
  have "ring h' g (as @ bs) (xs @ ys)"
    unfolding ring_def
  proof (intro conjI)
    have "links (nx h) (pv h) (g # as @ p # bs @ [g])" using r by (simp add: ring_def)
    from links_unlink [OF this dist l_def s_def]
    show "links (nx h') (pv h') (g # (as @ bs) @ [g])" by (simp add: h')
    show "map (it h') (as @ bs) = map (\<lambda>x. Some (Some x)) (xs @ ys)"
      using ring_map_it_split [OF r len] dist by (simp add: h')
  qed (use dist r h' in \<open>auto simp: ring_def\<close>)
  with h' cells show ?thesis by (intro that [of h']) auto
qed

section \<open>Adding a node\<close>

lemma links_link_last:
  assumes L: "links f b (g # ps @ [g])" and dist: "distinct (g # ps)" and p: "p \<notin> set (g # ps)"
    and l: "l = last (g # ps)"
  shows "links (f(p \<mapsto> g, l \<mapsto> p)) (b(p \<mapsto> l, g \<mapsto> p)) (g # (ps @ [p]) @ [g])"
proof -
  obtain cs where cs: "g # ps = cs @ [l]" unfolding l by (rule snoc_last)
  have "links f b ((g # ps) @ [g])" using L by simp
  then have A: "links f b (cs @ [l])"
    by (simp only: cs append.assoc append_Cons append_Nil links_split_mid)
  have "links (f(p \<mapsto> g, l \<mapsto> p)) (b(p \<mapsto> l, g \<mapsto> p)) (cs @ [l])"
    using A
  proof (rule links_cong [rotated 2])
    have d: "distinct (cs @ [l])" "p \<notin> set (cs @ [l])"
      using dist p by (simp_all only: cs [symmetric]) auto
    fix q assume "q \<in> set (butlast (cs @ [l]))"
    then show "(f(p \<mapsto> g, l \<mapsto> p)) q = f q" using d by auto
  next
    fix q assume "q \<in> set (tl (cs @ [l]))"
    then have "q \<in> set ps" by (simp only: cs [symmetric]) simp
    then show "(b(p \<mapsto> l, g \<mapsto> p)) q = b q" using dist p by auto
  qed
  moreover have "l \<noteq> p" using p l last_in_set [of "g # ps"] by auto
  ultimately have "links (f(p \<mapsto> g, l \<mapsto> p)) (b(p \<mapsto> l, g \<mapsto> p)) (cs @ l # p # [g])"
    using p by (simp only: links_split_mid) simp
  moreover have "cs @ l # p # [g] = g # (ps @ [p]) @ [g]"
    by (metis append.assoc append_Cons append_Nil cs)
  ultimately show ?thesis by simp
qed

text \<open>The state \<open>list_add_item\<close> calls \<open>_node_add\<close> in: a fresh node that holds the item.\<close>

definition with_node :: "nat \<Rightarrow> 'i \<Rightarrow> 'i heap \<Rightarrow> 'i heap" where
  "with_node p x h = h\<lparr>brk := Suc p, cells := (cells h)(p \<mapsto> \<lparr>item = Some x, next = 0, prev = 0\<rparr>)\<rparr>"

lemma with_node_simps [simp]:
  "nx (with_node p x h) = (nx h)(p \<mapsto> 0)" "pv (with_node p x h) = (pv h)(p \<mapsto> 0)"
  "it (with_node p x h) = (it h)(p \<mapsto> Some x)" "brk (with_node p x h) = Suc p"
  "avail (with_node p x h) = avail h" "released (with_node p x h) = released h"
  "info_released (with_node p x h) = info_released h"
  by (auto simp: with_node_def nx_def pv_def it_def fun_eq_iff)

lemma node_add_run:
  assumes g: "nx h (ghost_item l) \<noteq> None" "pv h (ghost_item l) = Some z" "nx h z \<noteq> None"
    and p: "nx h p \<noteq> None" "ghost_item l \<noteq> p"
  obtains h' where "node_add l p h = Some h'"
    "nx h' = (nx h)(p \<mapsto> ghost_item l, z \<mapsto> p)" "pv h' = (pv h)(p \<mapsto> z, ghost_item l \<mapsto> p)"
    "it h' = it h" "released h' = released h" "brk h' = brk h" "avail h' = avail h"
    "info_released h' = info_released h"
proof -
  obtain h1 where h1: "set_next p (ghost_item l) h = Some h1" "nx h1 = (nx h)(p \<mapsto> ghost_item l)"
    "pv h1 = pv h" "it h1 = it h" "brk h1 = brk h" "avail h1 = avail h" "released h1 = released h"
    "info_released h1 = info_released h"
    using p(1) by (rule set_next_Some)
  obtain h2 where h2: "set_prev p z h1 = Some h2" "nx h2 = nx h1" "pv h2 = (pv h1)(p \<mapsto> z)"
    "it h2 = it h1" "brk h2 = brk h1" "avail h2 = avail h1" "released h2 = released h1"
    "info_released h2 = info_released h1"
    by (rule set_prev_Some [of h1 p]) (auto simp: h1)
  obtain h3 where h3: "set_next z p h2 = Some h3" "nx h3 = (nx h2)(z \<mapsto> p)"
    "pv h3 = pv h2" "it h3 = it h2" "brk h3 = brk h2" "avail h3 = avail h2" "released h3 = released h2"
    "info_released h3 = info_released h2"
    by (rule set_next_Some [of h2 z]) (use g h1 h2 in auto)
  obtain h4 where h4: "set_prev (ghost_item l) p h3 = Some h4" "nx h4 = nx h3"
    "pv h4 = (pv h3)(ghost_item l \<mapsto> p)"
    "it h4 = it h3" "brk h4 = brk h3" "avail h4 = avail h3" "released h4 = released h3"
    "info_released h4 = info_released h3"
    by (rule set_prev_Some [of h3 "ghost_item l"]) (use g h1 h2 h3 in auto)
  show ?thesis
  proof (rule that)
    show "node_add l p h = Some h4"
      using g p h1 h2 h3 h4 by (simp add: node_add_def)
  qed (use h1 h2 h3 h4 in simp_all)
qed

lemma node_add_ring:
  assumes r: "ring h (ghost_item l) ps xs"
  obtains h' where "node_add l (brk h) (with_node (brk h) x h) = Some h'"
    "ring h' (ghost_item l) (ps @ [brk h]) (xs @ [x])" "released h' = released h"
    "brk h' = Suc (brk h)" "avail h' = avail h" "info_released h' = info_released h"
proof -
  let ?g = "ghost_item l" and ?p = "brk h"
  let ?h = "with_node ?p x h"
  define z where "z = last (?g # ps)"
  have p: "?p \<notin> set (?g # ps)" using r by (auto simp: ring_def)
  have dist: "distinct (?g # ps)" using r by (simp add: ring_def)
  have zin: "z \<in> set (?g # ps)" unfolding z_def by (rule last_in_set) simp
  have "nx ?h ?g \<noteq> None" "pv ?h ?g = Some z" "nx ?h z \<noteq> None" "nx ?h ?p \<noteq> None" "?g \<noteq> ?p"
    using ring_cell [OF r] ring_prev_ghost [OF r] zin p by (auto simp: z_def)
  then obtain h' where h': "node_add l ?p ?h = Some h'"
    "nx h' = (nx ?h)(?p \<mapsto> ?g, z \<mapsto> ?p)" "pv h' = (pv ?h)(?p \<mapsto> z, ?g \<mapsto> ?p)"
    "it h' = it ?h" "released h' = released ?h" "brk h' = brk ?h" "avail h' = avail ?h"
    "info_released h' = info_released ?h"
    by (rule node_add_run)
  have "ring h' ?g (ps @ [?p]) (xs @ [x])"
    unfolding ring_def
  proof (intro conjI)
    have "links (nx h) (pv h) (?g # ps @ [?g])" using r by (simp add: ring_def)
    from links_link_last [OF this dist p z_def]
    show "links (nx h') (pv h') (?g # (ps @ [?p]) @ [?g])" by (simp add: h')
    show "map (it h') (ps @ [?p]) = map (\<lambda>x. Some (Some x)) (xs @ [x])"
      using r p by (simp add: h' ring_def)
  qed (use r p in \<open>auto simp: h' ring_def less_Suc_eq\<close>)
  with h' show ?thesis by (intro that [of h']) auto
qed

section \<open>Searching\<close>

lemma find_loop_ring:
  assumes "ring h g (as @ bs) (xs @ ys)" "length as = length xs"
  shows "find_loop g cmp (hd (bs @ [g])) h =
    Some (map_option fst (List.find (\<lambda>(p, x). cmp x = 0) (zip bs ys)))"
  using assms
proof (induction bs arbitrary: as xs ys)
  case Nil
  then show ?case by (simp add: find_loop.simps)
next
  case (Cons b bs)
  then have "length ys = Suc (length bs)" using ring_length [OF Cons.prems(1)] by simp
  then obtain y zs where ys: "ys = y # zs" by (cases ys) auto
  have r: "ring h g (as @ b # bs) (xs @ y # zs)" using Cons.prems ys by simp
  have "b \<noteq> g" using r by (auto simp: ring_def)
  moreover have "it h b = Some (Some y)" using ring_map_it_split [OF r Cons.prems(2)] by simp
  moreover have "nx h b = Some (hd (bs @ [g]))" using ring_next [OF r] .
  moreover have "find_loop g cmp (hd (bs @ [g])) h =
      Some (map_option fst (List.find (\<lambda>(p, x). cmp x = 0) (zip bs zs)))"
    using Cons.IH [of "as @ [b]" "xs @ [y]" zs] Cons.prems ys by simp
  ultimately show ?case by (simp add: find_loop.simps [of g cmp b h] ys)
qed

lemma find_node_ring:
  assumes "ring h (ghost_item l) ps xs"
  shows "find_node l cmp h = Some (map_option fst (List.find (\<lambda>(p, x). cmp x = 0) (zip ps xs)))"
  using find_loop_ring [of h "ghost_item l" "[]" ps "[]" xs cmp] assms ring_next_ghost [OF assms]
  by (simp add: find_node_def)

lemma find_zip_snd:
  "length ps = length xs \<Longrightarrow>
   map_option snd (List.find (\<lambda>(p, x). P x) (zip ps xs)) = List.find P xs"
  by (induction ps xs rule: list_induct2) auto

lemma find_zip_None:
  "length ps = length xs \<Longrightarrow>
   List.find (\<lambda>(p, x). P x) (zip ps xs) = None \<longleftrightarrow> (\<forall>x \<in> set xs. \<not> P x)"
  by (induction ps xs rule: list_induct2) auto

section \<open>Refinement of the list operations\<close>

text \<open>\<open>represents l h ps xs\<close>: the list structure \<open>l\<close> on heap \<open>h\<close> holds the items
  \<open>xs\<close>, in the nodes \<open>ps\<close>, and counts them.\<close>

definition represents :: "('i, 'v) linked_list \<Rightarrow> 'i heap \<Rightarrow> nat list \<Rightarrow> 'i list \<Rightarrow> bool" where
  "represents l h ps xs \<longleftrightarrow> ring h (ghost_item l) ps xs \<and> n_elems l = int (length xs)"

lemma list_new_represents:
  assumes "list_new junk info m True True h = (Some l, h')"
  shows "represents l h' [] []" "max_elems l = m" "item_comp l = fst junk" "list_info l = info"
    "item_value_comp l = snd junk" "released h' = released h"
  using assms
  by (auto simp: list_new_def malloc_def represents_def ring_def nx_def pv_def Let_def
      split: if_splits)

lemma list_add_item_cases:
  assumes rep: "represents l h ps xs" and cmp: "item_comp l = Some cmp"
  obtains (full) "max_elems l \<le> int (length xs)" "list_add_item l (Some x) h = Some (-1, l, h)"
  | (exists) y where "int (length xs) < max_elems l" "y \<in> set xs" "cmp y x = 0"
      "list_add_item l (Some x) h = Some (-1, l, h)"
  | (oom) "int (length xs) < max_elems l" "\<forall>y \<in> set xs. cmp y x \<noteq> 0" "\<not> avail h (brk h)"
      "list_add_item l (Some x) h = Some (-1, l, h\<lparr>brk := Suc (brk h)\<rparr>)"
  | (added) h' where "int (length xs) < max_elems l" "\<forall>y \<in> set xs. cmp y x \<noteq> 0" "avail h (brk h)"
      "list_add_item l (Some x) h = Some (0, l\<lparr>n_elems := n_elems l + 1\<rparr>, h')"
      "represents (l\<lparr>n_elems := n_elems l + 1\<rparr>) h' (ps @ [brk h]) (xs @ [x])"
      "released h' = released h" "brk h' = Suc (brk h)" "avail h' = avail h"
proof -
  have r: "ring h (ghost_item l) ps xs" and n: "n_elems l = int (length xs)"
    using rep by (auto simp: represents_def)
  have len: "length ps = length xs" by (rule ring_length [OF r])
  note run = list_add_item_def cmp n find_node_ring [OF r] malloc_def
  consider "max_elems l \<le> int (length xs)"
    | "int (length xs) < max_elems l" "\<exists>y \<in> set xs. cmp y x = 0"
    | "int (length xs) < max_elems l" "\<forall>y \<in> set xs. cmp y x \<noteq> 0" by fastforce
  then show ?thesis
  proof cases
    case 1
    then show ?thesis using full by (simp add: run)
  next
    case 2
    then have "List.find (\<lambda>(p, y). cmp y x = 0) (zip ps xs) \<noteq> None"
      using find_zip_None [OF len, of "\<lambda>y. cmp y x = 0"] by auto
    with 2 show ?thesis using exists by (auto simp: run)
  next
    case 3
    then have none: "List.find (\<lambda>(p, y). cmp y x = 0) (zip ps xs) = None"
      using find_zip_None [OF len, of "\<lambda>y. cmp y x = 0"] by auto
    show ?thesis
    proof (cases "avail h (brk h)")
      case False
      with 3 none show ?thesis using oom by (simp add: run)
    next
      case True
      obtain h' where "node_add l (brk h) (with_node (brk h) x h) = Some h'"
        "ring h' (ghost_item l) (ps @ [brk h]) (xs @ [x])" "released h' = released h"
        "brk h' = Suc (brk h)" "avail h' = avail h"
        by (rule node_add_ring [OF r]) auto
      with 3 none True show ?thesis
        by (intro added [of h'])
          (simp_all add: run with_node_def represents_def)
    qed
  qed
qed

lemma list_delete_node_represents:
  assumes rep: "represents l h (as @ p # bs) (xs @ x # ys)" and len: "length as = length xs"
  obtains h' where "list_delete_node l p h = Some (l\<lparr>n_elems := n_elems l - 1\<rparr>, h')"
    "represents (l\<lparr>n_elems := n_elems l - 1\<rparr>) h' (as @ bs) (xs @ ys)"
    "released h' = released h @ [x]" "nx h' p = None"
proof -
  have r: "ring h (ghost_item l) (as @ p # bs) (xs @ x # ys)"
    using rep by (simp add: represents_def)
  obtain h' where "node_delete p h = Some h'" "ring h' (ghost_item l) (as @ bs) (xs @ ys)"
    "nx h' p = None" "released h' = released h @ [x]"
    by (rule node_delete_ring [OF r len]) auto
  then show ?thesis
    using rep by (intro that [of h']) (auto simp: list_delete_node_def represents_def)
qed

lemma list_find_item_represents:
  assumes rep: "represents l h ps xs" and cmp: "item_value_comp l = Some cmp"
  shows "list_find_item l v h = Some (List.find (\<lambda>x. cmp x v = 0) xs)"
proof -
  have r: "ring h (ghost_item l) ps xs" using rep by (simp add: represents_def)
  have len: "length ps = length xs" by (rule ring_length [OF r])
  let ?f = "List.find (\<lambda>(p, x). cmp x v = 0) (zip ps xs)"
  have eq: "List.find (\<lambda>x. cmp x v = 0) xs = map_option snd ?f"
    using find_zip_snd [OF len, of "\<lambda>x. cmp x v = 0"] by simp
  show ?thesis
  proof (cases ?f)
    case None
    then show ?thesis by (simp add: eq list_find_item_def cmp find_node_ring [OF r])
  next
    case (Some px)
    then have "px \<in> set (zip ps xs)" by (auto dest: find_Some_set)
    then obtain i where "i < length xs" "px = (ps ! i, xs ! i)" by (auto simp: set_zip len)
    then show ?thesis
      using Some ring_it_nth [OF r] by (simp add: eq list_find_item_def cmp find_node_ring [OF r])
  qed
qed

lemma list_find_node_represents:
  assumes rep: "represents l h ps xs" and cmp: "item_value_comp l = Some cmp"
  shows "list_find_node l v h = Some (map_option fst (List.find (\<lambda>(p, x). cmp x v = 0) (zip ps xs)))"
  using rep by (simp add: list_find_node_def cmp represents_def find_node_ring)

lemma list_delete_first_represents:
  assumes "represents l h ps xs"
  shows "\<exists>l' h'. list_delete_first l k h = Some (l', h') \<and>
    represents l' h' (drop (nat k) ps) (drop (nat k) xs) \<and>
    released h' = released h @ take (nat k) xs \<and> max_elems l' = max_elems l"
  unfolding list_delete_first_def
  using assms
proof (induction "nat k" arbitrary: k l h ps xs)
  case 0
  then show ?case by simp
next
  case (Suc j)
  have r: "ring h (ghost_item l) ps xs" using Suc.prems by (simp add: represents_def)
  show ?case
  proof (cases ps)
    case Nil
    with r have "xs = []" using ring_length [OF r] by simp
    with Nil Suc.hyps(2) [symmetric] Suc.prems show ?thesis
      using ring_next_ghost [OF r] by simp
  next
    case (Cons p qs)
    then obtain x ys where xs: "xs = x # ys" using ring_length [OF r] by (cases xs) auto
    have rep: "represents l h ([] @ p # qs) ([] @ x # ys)" using Suc.prems Cons xs by simp
    obtain h' where h': "list_delete_node l p h = Some (l\<lparr>n_elems := n_elems l - 1\<rparr>, h')"
      "represents (l\<lparr>n_elems := n_elems l - 1\<rparr>) h' qs ys" "released h' = released h @ [x]"
      using list_delete_node_represents [OF rep] by auto
    have pg: "p \<noteq> ghost_item l" using r Cons by (auto simp: ring_def)
    have nd: "node_delete p h = Some h'" using h'(1)
      by (auto simp: list_delete_node_def bind_eq_Some_conv)
    have j: "nat (int j) = j" by simp
    from Suc.hyps(1) [of "int j", OF _ h'(2)] Suc.hyps(2) [symmetric] show ?thesis
      using ring_next_ghost [OF r] Cons xs nd pg h'(3) by simp
  qed
qed

lemma list_delete_last_represents:
  assumes "represents l h ps xs"
  shows "\<exists>l' h'. list_delete_last l k h = Some (l', h') \<and>
    represents l' h' (take (length ps - nat k) ps) (take (length xs - nat k) xs) \<and>
    released h' = released h @ rev (drop (length xs - nat k) xs) \<and> max_elems l' = max_elems l"
  unfolding list_delete_last_def
  using assms
proof (induction "nat k" arbitrary: k l h ps xs)
  case 0
  then show ?case by simp
next
  case (Suc j)
  have r: "ring h (ghost_item l) ps xs" using Suc.prems by (simp add: represents_def)
  show ?case
  proof (cases ps rule: rev_cases)
    case Nil
    with r have "xs = []" using ring_length [OF r] by simp
    with Nil Suc.hyps(2) [symmetric] Suc.prems show ?thesis
      using ring_prev_ghost [OF r] by simp
  next
    case (snoc qs p)
    then obtain x ys where xs: "xs = ys @ [x]" using ring_length [OF r]
      by (cases xs rule: rev_cases) auto
    have len: "length qs = length ys" using ring_length [OF r] snoc xs by simp
    have rep: "represents l h (qs @ p # []) (ys @ x # [])" using Suc.prems snoc xs by simp
    obtain h' where h': "list_delete_node l p h = Some (l\<lparr>n_elems := n_elems l - 1\<rparr>, h')"
      "represents (l\<lparr>n_elems := n_elems l - 1\<rparr>) h' qs ys" "released h' = released h @ [x]"
      using list_delete_node_represents [OF rep len] by auto
    have pg: "p \<noteq> ghost_item l" using r snoc by (auto simp: ring_def)
    have nd: "node_delete p h = Some h'" using h'(1)
      by (auto simp: list_delete_node_def bind_eq_Some_conv)
    from Suc.hyps(1) [of "int j", OF _ h'(2)] Suc.hyps(2) [symmetric] show ?thesis
      using ring_prev_ghost [OF r] snoc xs nd pg h'(3) by simp
  qed
qed

section \<open>Freeing and walking the whole list\<close>

lemma free_loop_ring:
  assumes "ring h g ps xs"
  obtains h' where "free_loop g h = Some h'" "ring h' g [] []" "released h' = released h @ xs"
    "\<forall>p \<in> set ps. nx h' p = None" "info_released h' = info_released h"
    "\<And>q. nx h q = None \<Longrightarrow> nx h' q = None"
  using assms
proof (induction ps arbitrary: h xs thesis)
  case Nil
  then have "xs = []" using ring_length by fastforce
  with Nil show ?case using ring_next_ghost [of h g "[]" xs] by (simp add: free_loop.simps)
next
  case (Cons p ps)
  note r = \<open>ring h g (p # ps) xs\<close>
  obtain x ys where xs: "xs = x # ys" using ring_length [OF r] by (cases xs) auto
  obtain h1 where h1: "node_delete p h = Some h1" "ring h1 g ps ys" "nx h1 p = None"
    "released h1 = released h @ [x]" "info_released h1 = info_released h"
    "\<And>q. nx h q = None \<Longrightarrow> nx h1 q = None"
    using node_delete_ring [of h g "[]" p ps "[]" x ys] r xs by auto
  obtain h' where h': "free_loop g h1 = Some h'" "ring h' g [] []" "released h' = released h1 @ ys"
    "\<forall>q \<in> set ps. nx h' q = None" "info_released h' = info_released h1"
    "\<And>q. nx h1 q = None \<Longrightarrow> nx h' q = None"
    using Cons.IH [OF _ h1(2)] by blast
  have "p \<noteq> g" using r by (auto simp: ring_def)
  then have "free_loop g h = Some h'"
    using h1(1) h'(1) ring_next_ghost [OF r] by (simp add: free_loop.simps [of g h])
  then show ?case by (rule Cons.prems(1)) (use h1 h' xs in auto)
qed

lemma list_free_represents:
  assumes "represents l h ps xs" "item_free l" "info_free l"
  obtains h' where "list_free l h = Some h'" "released h' = released h @ xs"
    "\<forall>p \<in> set (ghost_item l # ps). nx h' p = None"
    "info_released h' = Suc (info_released h)"
proof -
  have "ring h (ghost_item l) ps xs" using assms(1) by (simp add: represents_def)
  then obtain h1 where "free_loop (ghost_item l) h = Some h1" "released h1 = released h @ xs"
    "\<forall>p \<in> set ps. nx h1 p = None" "info_released h1 = info_released h"
    by (rule free_loop_ring) blast
  then show ?thesis
    using assms by (intro that [of "free_node (ghost_item l) h1\<lparr>info_released := Suc (info_released h1)\<rparr>"])
      (auto simp: list_free_def free_node_def nx_def)
qed

lemma walk_ring:
  assumes "ring h (ghost_item l) (as @ bs) (xs @ ys)" "length as = length xs"
  shows "walk l (if bs = [] then None else Some (hd bs)) h = Some ys"
  using assms
proof (induction bs arbitrary: as xs ys)
  case Nil
  then have "ys = []" using ring_length [OF Nil.prems(1)] by simp
  then show ?case by (simp add: walk.simps)
next
  case (Cons b bs)
  then obtain y zs where ys: "ys = y # zs" using ring_length [OF Cons.prems(1)] by (cases ys) auto
  have r: "ring h (ghost_item l) (as @ b # bs) (xs @ y # zs)" using Cons.prems ys by simp
  have "it h b = Some (Some y)" using ring_map_it_split [OF r Cons.prems(2)] by simp
  moreover have "list_iterator_next l b h = Some (if bs = [] then None else Some (hd bs))"
    using r by (cases bs) (auto simp: list_iterator_next_def ring_next [OF r] ring_def)
  moreover have "walk l (if bs = [] then None else Some (hd bs)) h = Some zs"
    using Cons.IH [of "as @ [b]" "xs @ [y]" zs] Cons.prems ys by simp
  ultimately show ?case
    by (simp add: walk.simps [of l "Some b"] list_iterator_info_def ys)
qed

lemma list_iterator_ring:
  assumes r: "ring h (ghost_item l) ps xs"
  shows "list_iterator l h = Some (if ps = [] then None else Some (hd ps))"
  using ring_next_ghost [OF r] r
  by (cases ps) (auto simp: list_iterator_def ring_def)

lemma walk_represents:
  assumes rep: "represents l h ps xs"
  shows "list_iterator l h \<bind> (\<lambda>iter. walk l iter h) = Some xs"
proof -
  have r: "ring h (ghost_item l) ps xs" using rep by (simp add: represents_def)
  then show ?thesis
    using walk_ring [of h l "[]" ps "[]" xs] by (simp add: list_iterator_ring [OF r])
qed

end
