(* ===== verification/Keyed_List.thy ===== *)
theory Keyed_List
  imports List_Refinement
begin

text \<open>
  The abstract specification of \<open>common/list.c\<close> that the client's containers are modelled
  on: a bounded sequence of items in insertion order.  The refinement lemmas say that the
  pointer code of \<open>Linked_List\<close> computes these functions; the locale \<open>keyed_list\<close> is
  the contract the five containers (friends, friend requests, chat members, messages, chats)
  share: the comparison functions they install identify an item by its key.
\<close>

section \<open>Bounded lists\<close>

record 'i clist =
  entries :: "'i list"
  limit :: int
  stamp :: cint \<comment> \<open>the timestamp behind \<open>list_info\<close>\<close>

definition cl_new :: "cint \<Rightarrow> int \<Rightarrow> 'z mem_scheme \<Rightarrow> 'i clist option \<times> 'z mem_scheme" where
  "cl_new t n m =
     (case malloc m of (None, m) \<Rightarrow> (None, m)
      | (Some _, m) \<Rightarrow>
        (case malloc m of (None, m) \<Rightarrow> (None, m)
         | (Some _, m) \<Rightarrow> (Some \<lparr>entries = [], limit = n, stamp = t\<rparr>, m)))"

definition cl_add :: "('i \<Rightarrow> 'i \<Rightarrow> int) \<Rightarrow> 'i \<Rightarrow> 'i clist \<Rightarrow> 'z mem_scheme \<Rightarrow> int \<times> 'i clist \<times> 'z mem_scheme" where
  "cl_add cmp x l m =
     (if limit l \<le> int (length (entries l)) then (-1, l, m)
      else if List.find (\<lambda>y. cmp y x = 0) (entries l) \<noteq> None then (-1, l, m)
      else case malloc m of
        (None, m) \<Rightarrow> (-1, l, m)
      | (Some _, m) \<Rightarrow> (0, l\<lparr>entries := entries l @ [x]\<rparr>, m))"

definition cl_find :: "('i \<Rightarrow> 'v \<Rightarrow> int) \<Rightarrow> 'v \<Rightarrow> 'i clist \<Rightarrow> 'i option" where
  "cl_find vcmp v l = List.find (\<lambda>x. vcmp x v = 0) (entries l)"

text \<open>\<open>list_find_node\<close> followed by \<open>list_delete_node\<close>; \<^const>\<open>None\<close> when there is
  no such node.\<close>

fun drop_match :: "('i \<Rightarrow> bool) \<Rightarrow> 'i list \<Rightarrow> 'i list option" where
  "drop_match P [] = None"
| "drop_match P (x # xs) = (if P x then Some xs else map_option ((#) x) (drop_match P xs))"

definition cl_delete :: "('i \<Rightarrow> 'v \<Rightarrow> int) \<Rightarrow> 'v \<Rightarrow> 'i clist \<Rightarrow> int \<times> 'i clist" where
  "cl_delete vcmp v l =
     (case drop_match (\<lambda>x. vcmp x v = 0) (entries l) of
        None \<Rightarrow> (-1, l)
      | Some xs \<Rightarrow> (0, l\<lparr>entries := xs\<rparr>))"

definition cl_delete_first :: "int \<Rightarrow> 'i clist \<Rightarrow> 'i clist" where
  "cl_delete_first k l = l\<lparr>entries := drop (nat k) (entries l)\<rparr>"

definition cl_full :: "'i clist \<Rightarrow> bool" where
  "cl_full l \<longleftrightarrow> limit l \<le> int (length (entries l))"

definition cl_gaps :: "'i clist \<Rightarrow> int" where
  "cl_gaps l = limit l - int (length (entries l))"

section \<open>The pointer code refines the bounded list\<close>

definition clist_of :: "('i, 'v) linked_list \<Rightarrow> 'i list \<Rightarrow> 'i clist" where
  "clist_of l xs = \<lparr>entries = xs, limit = max_elems l, stamp = list_info l\<rparr>"

lemma clist_of_simps [simp]:
  "entries (clist_of l xs) = xs" "limit (clist_of l xs) = max_elems l"
  "stamp (clist_of l xs) = list_info l"
  by (simp_all add: clist_of_def)

lemma clist_of_n_elems [simp]: "clist_of (l\<lparr>n_elems := n\<rparr>) xs = clist_of l xs"
  by (simp add: clist_of_def)

lemma malloc_truncate [simp]:
  "malloc (mem.truncate h) = (fst (malloc h), mem.truncate (snd (malloc h)))"
  by (simp add: malloc_def mem.truncate_def)

lemma truncate_brk_avail:
  "brk h' = brk h \<Longrightarrow> avail h' = avail h \<Longrightarrow> mem.truncate h' = mem.truncate h"
  by (simp add: mem.truncate_def)

lemma find_not_None: "List.find P xs \<noteq> None \<longleftrightarrow> (\<exists>x \<in> set xs. P x)"
  by (induction xs) auto

lemma list_add_item_refines:
  assumes rep: "represents l h ps xs" and cmp: "item_comp l = Some cmp"
  obtains r l' h' ps' xs' where "list_add_item l (Some x) h = Some (r, l', h')"
    "represents l' h' ps' xs'" "max_elems l' = max_elems l"
    "cl_add cmp x (clist_of l xs) (mem.truncate h) = (r, clist_of l' xs', mem.truncate h')"
  using rep cmp
proof (cases rule: list_add_item_cases [where x = x])
  case full
  then show ?thesis using rep by (intro that) (auto simp: cl_add_def)
next
  case (exists y)
  then have "List.find (\<lambda>y. cmp y x = 0) xs \<noteq> None" by (auto simp: find_None_iff_set)
  with exists show ?thesis using rep by (intro that) (auto simp: cl_add_def)
next
  case oom
  then have none: "List.find (\<lambda>y. cmp y x = 0) xs = None" by (simp add: find_None_iff_set)
  have "represents l (h\<lparr>brk := Suc (brk h)\<rparr>) ps xs"
    using rep by (auto simp: represents_def ring_def)
  with oom none show ?thesis
    by (intro that [of "-1" l "h\<lparr>brk := Suc (brk h)\<rparr>"]) (auto simp: cl_add_def malloc_def mem.truncate_def)
next
  case (added h')
  then have none: "List.find (\<lambda>y. cmp y x = 0) xs = None" by (simp add: find_None_iff_set)
  with added show ?thesis
    by (intro that [OF added(4) added(5)]) (auto simp: cl_add_def malloc_def mem.truncate_def clist_of_def)
qed

lemma drop_match_split:
  "drop_match P xs = (case List.find P xs of None \<Rightarrow> None
     | Some x \<Rightarrow> Some (takeWhile (\<lambda>y. \<not> P y) xs @ tl (dropWhile (\<lambda>y. \<not> P y) xs)))"
  by (induction xs) (auto split: option.splits)

lemma find_zip_split:
  assumes "length ps = length xs" "List.find (\<lambda>(p, x). P x) (zip ps xs) = Some (p, x)"
  shows "\<exists>as bs ys zs. ps = as @ p # bs \<and> xs = ys @ x # zs \<and> length as = length ys \<and>
    drop_match P xs = Some (ys @ zs)"
  using assms
proof (induction ps xs rule: list_induct2)
  case (Cons q ps y xs)
  show ?case
  proof (cases "P y")
    case True
    with Cons.prems have "p = q" "x = y" by auto
    with True show ?thesis
      by (intro exI [of _ "[]"] exI [of _ ps] exI [of _ "[]"] exI [of _ xs]) simp
  next
    case False
    with Cons obtain as bs ys zs where "ps = as @ p # bs" "xs = ys @ x # zs" "length as = length ys"
      "drop_match P xs = Some (ys @ zs)" by auto
    with False show ?thesis
      by (intro exI [of _ "q # as"] exI [of _ bs] exI [of _ "y # ys"] exI [of _ zs]) simp
  qed
qed simp

text \<open>The idiom of every \<open>*_del_*\<close> function: find the node, return -1 if there is none,
  else delete it.\<close>

definition list_delete_value ::
  "('i, 'v) linked_list \<Rightarrow> 'v \<Rightarrow> 'i heap \<Rightarrow> (int \<times> ('i, 'v) linked_list \<times> 'i heap) option" where
  "list_delete_value l v h = do {
     node \<leftarrow> list_find_node l v h;
     case node of None \<Rightarrow> Some (-1, l, h)
     | Some p \<Rightarrow> do { (l, h) \<leftarrow> list_delete_node l p h; Some (0, l, h) }
   }"

lemma list_delete_value_refines:
  assumes rep: "represents l h ps xs" and cmp: "item_value_comp l = Some vcmp"
  obtains r l' h' ps' xs' where "list_delete_value l v h = Some (r, l', h')"
    "represents l' h' ps' xs'" "cl_delete vcmp v (clist_of l xs) = (r, clist_of l' xs')"
proof -
  have len: "length ps = length xs"
    using rep by (auto simp: represents_def dest: ring_length)
  let ?f = "List.find (\<lambda>(p, x). vcmp x v = 0) (zip ps xs)"
  note node = list_find_node_represents [OF rep cmp, of v]
  show ?thesis
  proof (cases ?f)
    case None
    then have "drop_match (\<lambda>x. vcmp x v = 0) xs = None"
      using find_zip_snd [OF len, of "\<lambda>x. vcmp x v = 0"] by (simp add: drop_match_split)
    with None node rep show ?thesis
      by (intro that [of "-1" l h]) (auto simp: list_delete_value_def cl_delete_def)
  next
    case (Some px)
    then obtain p x where f: "?f = Some (p, x)" by (cases px) auto
    obtain as bs ys zs where *: "ps = as @ p # bs" "xs = ys @ x # zs" "length as = length ys"
      "drop_match (\<lambda>x. vcmp x v = 0) xs = Some (ys @ zs)"
      using find_zip_split [OF len f] by blast
    obtain h' where "list_delete_node l p h = Some (l\<lparr>n_elems := n_elems l - 1\<rparr>, h')"
      "represents (l\<lparr>n_elems := n_elems l - 1\<rparr>) h' (as @ bs) (ys @ zs)"
      by (rule list_delete_node_represents [of l h as p bs ys x zs]) (use rep * in auto)
    with node f * show ?thesis
      by (intro that [of 0 "l\<lparr>n_elems := n_elems l - 1\<rparr>" h'])
        (auto simp: list_delete_value_def cl_delete_def clist_of_def)
  qed
qed

section \<open>The contract of the containers\<close>

definition keyed_wf :: "('i \<Rightarrow> 'k) \<Rightarrow> 'i clist \<Rightarrow> bool" where
  "keyed_wf key l \<longleftrightarrow> distinct (map key (entries l)) \<and> int (length (entries l)) \<le> max 0 (limit l)"

lemma keyed_wf_stamp [simp]: "keyed_wf key (l\<lparr>stamp := t\<rparr>) = keyed_wf key l"
  by (simp add: keyed_wf_def)

lemma keyed_wf_new: "cl_new t n m = (Some l, m') \<Longrightarrow> keyed_wf key l \<and> entries l = [] \<and> limit l = n \<and> stamp l = t"
  by (auto simp: cl_new_def malloc_def keyed_wf_def split: prod.splits option.splits if_splits)

lemma cl_new_plenty:
  "plenty m \<Longrightarrow> \<exists>m'. cl_new t n m = (Some \<lparr>entries = [], limit = n, stamp = t\<rparr>, m') \<and> plenty m'"
  by (simp add: cl_new_def)

lemma distinct_drop_match:
  "drop_match P xs = Some ys \<Longrightarrow> distinct (map f xs) \<Longrightarrow> distinct (map f ys) \<and> set ys \<subseteq> set xs"
  by (induction xs arbitrary: ys) (fastforce split: if_splits)+

lemma length_drop_match: "drop_match P xs = Some ys \<Longrightarrow> length xs = Suc (length ys)"
  by (induction xs arbitrary: ys) (auto split: if_splits)

lemma keyed_wf_delete_first: "keyed_wf key l \<Longrightarrow> keyed_wf key (cl_delete_first k l)"
  by (auto simp: keyed_wf_def cl_delete_first_def drop_map [symmetric])

locale keyed_list =
  fixes key :: "'i \<Rightarrow> 'k"
    and vkey :: "'v \<Rightarrow> 'k"
    and cmp :: "'i \<Rightarrow> 'i \<Rightarrow> int"
    and vcmp :: "'i \<Rightarrow> 'v \<Rightarrow> int"
  assumes cmp_zero: "cmp x y = 0 \<longleftrightarrow> key x = key y"
    and vcmp_zero: "vcmp x v = 0 \<longleftrightarrow> key x = vkey v"
begin

lemma add_result:
  "cl_add cmp x l m = (r, l', m') \<Longrightarrow>
   r = 0 \<and> l' = l\<lparr>entries := entries l @ [x]\<rparr> \<and> int (length (entries l)) < limit l
     \<and> key x \<notin> key ` set (entries l)
   \<or> r = -1 \<and> l' = l"
  by (auto simp: cl_add_def cmp_zero find_not_None find_None_iff_set malloc_def split: if_splits)

lemma add_ret: "cl_add cmp x l m = (r, l', m') \<Longrightarrow> r \<noteq> -1 \<Longrightarrow> cl_add cmp x l m = (0, l', m')"
  by (auto dest: add_result)

lemma add_wf: "cl_add cmp x l m = (r, l', m') \<Longrightarrow> keyed_wf key l \<Longrightarrow> keyed_wf key l'"
  by (drule add_result) (auto simp: keyed_wf_def)

lemma add_succeeds:
  assumes "plenty m" "int (length (entries l)) < limit l" "key x \<notin> key ` set (entries l)"
  shows "cl_add cmp x l m = (0, l\<lparr>entries := entries l @ [x]\<rparr>, m\<lparr>brk := Suc (brk m)\<rparr>)"
proof -
  from assms(3) have "List.find (\<lambda>y. cmp y x = 0) (entries l) = None"
    by (auto simp: find_None_iff_set cmp_zero image_iff)
  with assms(1,2) show ?thesis by (simp add: cl_add_def)
qed

lemma find_Some: "cl_find vcmp v l = Some x \<Longrightarrow> x \<in> set (entries l) \<and> key x = vkey v"
  by (auto simp: cl_find_def vcmp_zero dest: find_Some_set)

lemma find_None: "cl_find vcmp v l = None \<longleftrightarrow> vkey v \<notin> key ` set (entries l)"
  by (simp add: cl_find_def vcmp_zero find_None_iff_set image_iff) metis

lemma find_append:
  "cl_find vcmp v (l\<lparr>entries := entries l @ [x]\<rparr>) =
   (case cl_find vcmp v l of None \<Rightarrow> if key x = vkey v then Some x else None | Some y \<Rightarrow> Some y)"
proof -
  have "List.find P (xs @ [x]) = (case List.find P xs of None \<Rightarrow> if P x then Some x else None | Some y \<Rightarrow> Some y)"
    for P :: "'i \<Rightarrow> bool" and xs by (induction xs) auto
  then show ?thesis by (simp add: cl_find_def vcmp_zero)
qed

text \<open>What a lookup returns after an insertion.\<close>

lemma find_after_add:
  assumes "cl_add cmp x l m = (0, l', m')"
  shows "cl_find vcmp v l' = (if vkey v = key x then Some x else cl_find vcmp v l)"
proof -
  from add_result [OF assms] have l': "l' = l\<lparr>entries := entries l @ [x]\<rparr>"
    and fresh: "key x \<notin> key ` set (entries l)" by auto
  show ?thesis
  proof (cases "vkey v = key x")
    case True
    with fresh have "cl_find vcmp v l = None" by (simp add: find_None)
    with True show ?thesis by (simp add: l' find_append)
  next
    case False
    then show ?thesis by (auto simp: l' find_append split: option.splits)
  qed
qed

lemma delete_result:
  assumes "cl_delete vcmp v l = (r, l')"
  shows "r = 0 \<and> vkey v \<in> key ` set (entries l) \<and> length (entries l) = Suc (length (entries l')) \<and> limit l' = limit l
    \<or> r = -1 \<and> l' = l \<and> vkey v \<notin> key ` set (entries l)"
proof (cases "drop_match (\<lambda>x. vcmp x v = 0) (entries l)")
  case None
  then have "cl_find vcmp v l = None" by (auto simp: drop_match_split cl_find_def split: option.splits)
  with None assms show ?thesis by (auto simp: cl_delete_def find_None)
next
  case (Some ys)
  then have "cl_find vcmp v l \<noteq> None" by (auto simp: drop_match_split cl_find_def split: option.splits)
  with Some assms show ?thesis by (auto simp: cl_delete_def find_None dest: length_drop_match)
qed

lemma delete_wf: "cl_delete vcmp v l = (r, l') \<Longrightarrow> keyed_wf key l \<Longrightarrow> keyed_wf key l'"
  by (auto simp: cl_delete_def keyed_wf_def dest: distinct_drop_match length_drop_match split: option.splits)

lemma drop_match_keys:
  "drop_match (\<lambda>x. vcmp x v = 0) xs = Some ys \<Longrightarrow> distinct (map key xs) \<Longrightarrow>
   ys = filter (\<lambda>x. key x \<noteq> vkey v) xs"
proof (induction xs arbitrary: ys)
  case (Cons a xs)
  show ?case
  proof (cases "key a = vkey v")
    case True
    then have "filter (\<lambda>x. key x \<noteq> vkey v) xs = xs"
      using Cons.prems(2) by (auto simp: filter_id_conv image_iff)
    with True Cons.prems show ?thesis by (auto simp: vcmp_zero)
  next
    case False
    with Cons show ?thesis by (auto simp: vcmp_zero)
  qed
qed simp

lemma delete_entries:
  assumes "keyed_wf key l" "vkey v \<in> key ` set (entries l)"
  shows "cl_delete vcmp v l = (0, l\<lparr>entries := filter (\<lambda>x. key x \<noteq> vkey v) (entries l)\<rparr>)"
proof -
  have "cl_find vcmp v l \<noteq> None" using assms(2) by (simp add: find_None)
  then obtain ys where ys: "drop_match (\<lambda>x. vcmp x v = 0) (entries l) = Some ys"
    by (auto simp: drop_match_split cl_find_def)
  moreover have "ys = filter (\<lambda>x. key x \<noteq> vkey v) (entries l)"
    using drop_match_keys [OF ys] assms(1) by (simp add: keyed_wf_def)
  ultimately show ?thesis by (simp add: cl_delete_def)
qed

text \<open>What a lookup returns after a deletion.\<close>

lemma find_after_delete:
  assumes "keyed_wf key l" "cl_delete vcmp v l = (0, l')"
  shows "cl_find vcmp w l' = (if vkey w = vkey v then None else cl_find vcmp w l)"
proof -
  from delete_result [OF assms(2)] have "vkey v \<in> key ` set (entries l)" by auto
  from delete_entries [OF assms(1) this] assms(2)
  have l': "l' = l\<lparr>entries := filter (\<lambda>x. key x \<noteq> vkey v) (entries l)\<rparr>" by simp
  have "List.find (\<lambda>x. key x = k) (filter (\<lambda>x. key x \<noteq> vkey v) xs) =
    (if k = vkey v then None else List.find (\<lambda>x. key x = k) xs)" for k xs
    by (induction xs) auto
  then show ?thesis by (simp add: l' cl_find_def vcmp_zero)
qed

end

end
