(* ===== verification/List_Traces.thy ===== *)
theory List_Traces
  imports Keyed_List "HOL-Library.Multiset"
begin

text \<open>
  Whole runs of \<open>list.c\<close>: a list created by \<open>list_new\<close>, any sequence of calls, and
  \<open>list_free\<close> at the end.  The pointer code and the bounded list of \<open>Keyed_List\<close> are run
  side by side; the simulation relation carries the ring, the allocator and the set of nodes
  that are still allocated.
\<close>

section \<open>What an operation leaves alone\<close>

lemma set_next_frame:
  "set_next p v h = Some h' \<Longrightarrow> brk h' = brk h \<and> avail h' = avail h \<and> dom (cells h') = dom (cells h)
     \<and> released h' = released h \<and> info_released h' = info_released h"
  by (auto simp: set_next_def split: option.splits if_splits)

lemma set_prev_frame:
  "set_prev p v h = Some h' \<Longrightarrow> brk h' = brk h \<and> avail h' = avail h \<and> dom (cells h') = dom (cells h)
     \<and> released h' = released h \<and> info_released h' = info_released h"
  by (auto simp: set_prev_def split: option.splits if_splits)

lemmas store_frame = set_next_frame set_prev_frame

lemma node_delete_frame:
  assumes "node_delete p h = Some h'"
  shows "brk h' = brk h \<and> avail h' = avail h \<and> dom (cells h') = dom (cells h) - {p}
     \<and> info_released h' = info_released h"
proof -
  from assms obtain b a h1 a2 b2 h2 i where s: "set_next b a h = Some h1" "set_prev a2 b2 h1 = Some h2"
    and h': "h' = free_node p (release_item i h2)"
    by (auto simp: node_delete_def bind_eq_Some_conv)
  have "dom (cells h') = dom (cells h2) - {p}" "brk h' = brk h2" "avail h' = avail h2"
    "info_released h' = info_released h2"
    by (auto simp: h' free_node_def release_item_def split: option.splits)
  with set_next_frame [OF s(1)] set_prev_frame [OF s(2)] show ?thesis by simp
qed

lemma node_add_frame:
  assumes "node_add l p h = Some h'"
  shows "dom (cells h') = dom (cells h)"
proof -
  from assms obtain h1 b h2 b2 h3 where s: "set_next p (ghost_item l) h = Some h1" "set_prev p b h1 = Some h2"
    "set_next b2 p h2 = Some h3" "set_prev (ghost_item l) p h3 = Some h'"
    by (auto simp: node_add_def bind_eq_Some_conv)
  show ?thesis
    using store_frame(1) [OF s(1)] store_frame(2) [OF s(2)] store_frame(1) [OF s(3)] store_frame(2) [OF s(4)]
    by simp
qed

lemma list_delete_node_frame:
  "list_delete_node l p h = Some (l', h') \<Longrightarrow>
   mem.truncate h' = mem.truncate h \<and> dom (cells h') = dom (cells h) - {p} \<and> info_released h' = info_released h
     \<and> l' = l\<lparr>n_elems := n_elems l - 1\<rparr>"
  by (auto simp: list_delete_node_def bind_eq_Some_conv mem.truncate_def dest!: node_delete_frame)

lemma delete_first_loop_frame:
  "delete_first_loop k l h = Some (l', h') \<Longrightarrow>
   mem.truncate h' = mem.truncate h \<and> dom (cells h') \<subseteq> dom (cells h) \<and> info_released h' = info_released h
     \<and> (\<exists>n. l' = l\<lparr>n_elems := n\<rparr>)"
proof (induction k arbitrary: l h)
  case 0
  then show ?case by (auto intro: exI [of _ "n_elems l"])
next
  case (Suc k)
  obtain a where a: "nx h (ghost_item l) = Some a" using Suc.prems by (auto simp: bind_eq_Some_conv)
  show ?case
  proof (cases "a = ghost_item l")
    case True
    with a Suc.prems show ?thesis by (auto intro: exI [of _ "n_elems l"])
  next
    case False
    then obtain h1 where h1: "node_delete a h = Some h1"
      "delete_first_loop k (l\<lparr>n_elems := n_elems l - 1\<rparr>) h1 = Some (l', h')"
      using a Suc.prems by (auto simp: bind_eq_Some_conv)
    from Suc.IH [OF h1(2)] node_delete_frame [OF h1(1)] show ?thesis
      by (auto simp: mem.truncate_def)
  qed
qed

lemma delete_last_loop_frame:
  "delete_last_loop k l h = Some (l', h') \<Longrightarrow>
   mem.truncate h' = mem.truncate h \<and> dom (cells h') \<subseteq> dom (cells h) \<and> info_released h' = info_released h
     \<and> (\<exists>n. l' = l\<lparr>n_elems := n\<rparr>)"
proof (induction k arbitrary: l h)
  case 0
  then show ?case by (auto intro: exI [of _ "n_elems l"])
next
  case (Suc k)
  obtain a where a: "pv h (ghost_item l) = Some a" using Suc.prems by (auto simp: bind_eq_Some_conv)
  show ?case
  proof (cases "a = ghost_item l")
    case True
    with a Suc.prems show ?thesis by (auto intro: exI [of _ "n_elems l"])
  next
    case False
    then obtain h1 where h1: "node_delete a h = Some h1"
      "delete_last_loop k (l\<lparr>n_elems := n_elems l - 1\<rparr>) h1 = Some (l', h')"
      using a Suc.prems by (auto simp: bind_eq_Some_conv)
    from Suc.IH [OF h1(2)] node_delete_frame [OF h1(1)] show ?thesis
      by (auto simp: mem.truncate_def)
  qed
qed

text \<open>On a heap with no other node than the list's, that remains so.\<close>

definition owned :: "('i, 'v) linked_list \<Rightarrow> 'i heap \<Rightarrow> nat list \<Rightarrow> bool" where
  "owned l h ps \<longleftrightarrow> dom (cells h) \<subseteq> insert (ghost_item l) (set ps)"

lemma represents_cases_first:
  assumes "represents l h ps xs"
  obtains (empty) "ps = []" "xs = []" "nx h (ghost_item l) = Some (ghost_item l)" "pv h (ghost_item l) = Some (ghost_item l)"
  | (first) p qs x ys where "ps = p # qs" "xs = x # ys" "nx h (ghost_item l) = Some p" "p \<noteq> ghost_item l"
      "p \<notin> set qs"
proof -
  have r: "ring h (ghost_item l) ps xs" using assms by (simp add: represents_def)
  show ?thesis
  proof (cases ps)
    case Nil
    then show ?thesis
      using empty ring_length [OF r] ring_next_ghost [OF r] ring_prev_ghost [OF r] by simp
  next
    case (Cons p qs)
    then obtain x ys where "xs = x # ys" using ring_length [OF r] by (cases xs) auto
    with Cons show ?thesis using first ring_next_ghost [OF r] r by (simp add: ring_def)
  qed
qed

lemma represents_cases_last:
  assumes "represents l h ps xs"
  obtains (empty) "ps = []" "xs = []" "pv h (ghost_item l) = Some (ghost_item l)"
  | (last) p qs x ys where "ps = qs @ [p]" "xs = ys @ [x]" "pv h (ghost_item l) = Some p" "p \<noteq> ghost_item l"
      "p \<notin> set qs" "length qs = length ys"
proof -
  have r: "ring h (ghost_item l) ps xs" using assms by (simp add: represents_def)
  show ?thesis
  proof (cases ps rule: rev_cases)
    case Nil
    then show ?thesis using empty ring_length [OF r] ring_prev_ghost [OF r] by simp
  next
    case (snoc qs p)
    then obtain x ys where "xs = ys @ [x]" using ring_length [OF r] by (cases xs rule: rev_cases) auto
    with snoc show ?thesis using last ring_prev_ghost [OF r] ring_length [OF r] r by (simp add: ring_def)
  qed
qed

lemma delete_first_loop_owned:
  assumes "represents l h ps xs" "owned l h ps" "delete_first_loop k l h = Some (l', h')"
  shows "owned l' h' (drop k ps)"
  using assms
proof (induction k arbitrary: l h ps xs)
  case (Suc k)
  from Suc.prems(1) show ?case
  proof (cases rule: represents_cases_first)
    case empty
    with Suc.prems show ?thesis by simp
  next
    case (first p qs x ys)
    have "represents l h ([] @ p # qs) ([] @ x # ys)" using Suc.prems(1) first by simp
    then obtain h1 where h1: "list_delete_node l p h = Some (l\<lparr>n_elems := n_elems l - 1\<rparr>, h1)"
      "represents (l\<lparr>n_elems := n_elems l - 1\<rparr>) h1 qs ys"
      using list_delete_node_represents [of l h "[]" p qs "[]" x ys] by auto
    then have nd: "node_delete p h = Some h1" by (auto simp: list_delete_node_def bind_eq_Some_conv)
    have "owned (l\<lparr>n_elems := n_elems l - 1\<rparr>) h1 qs"
      using node_delete_frame [OF nd] Suc.prems(2) first by (auto simp: owned_def)
    moreover have "delete_first_loop k (l\<lparr>n_elems := n_elems l - 1\<rparr>) h1 = Some (l', h')"
      using Suc.prems(3) first nd by simp
    ultimately show ?thesis using Suc.IH h1(2) first by simp
  qed
qed simp

lemma delete_last_loop_owned:
  assumes "represents l h ps xs" "owned l h ps" "delete_last_loop k l h = Some (l', h')"
  shows "owned l' h' (take (length ps - k) ps)"
  using assms
proof (induction k arbitrary: l h ps xs)
  case (Suc k)
  from Suc.prems(1) show ?case
  proof (cases rule: represents_cases_last)
    case empty
    with Suc.prems show ?thesis by simp
  next
    case (last p qs x ys)
    have "represents l h (qs @ p # []) (ys @ x # [])" using Suc.prems(1) last by simp
    then obtain h1 where h1: "list_delete_node l p h = Some (l\<lparr>n_elems := n_elems l - 1\<rparr>, h1)"
      "represents (l\<lparr>n_elems := n_elems l - 1\<rparr>) h1 qs ys"
      using list_delete_node_represents [of l h qs p "[]" ys x "[]"] last by auto
    then have nd: "node_delete p h = Some h1" by (auto simp: list_delete_node_def bind_eq_Some_conv)
    have "owned (l\<lparr>n_elems := n_elems l - 1\<rparr>) h1 qs"
      using node_delete_frame [OF nd] Suc.prems(2) last by (auto simp: owned_def)
    moreover have "delete_last_loop k (l\<lparr>n_elems := n_elems l - 1\<rparr>) h1 = Some (l', h')"
      using Suc.prems(3) last nd by simp
    ultimately have "owned l' h' (take (length qs - k) qs)" using Suc.IH h1(2) by blast
    then show ?thesis using last(1) by simp
  qed
qed simp

lemma list_add_item_elim:
  assumes "list_add_item l i h = Some (r, l', h')"
  obtains (failed) k where "r = -1" "l' = l" "h' = h\<lparr>brk := k\<rparr>"
  | (added) x where "r = 0" "l' = l\<lparr>n_elems := n_elems l + 1\<rparr>"
      "node_add l (brk h) (h\<lparr>brk := Suc (brk h),
         cells := (cells h)(brk h \<mapsto> \<lparr>item = Some x, next = 0, prev = 0\<rparr>)\<rparr>) = Some h'"
proof -
  have same: "h = h\<lparr>brk := brk h\<rparr>" by simp
  show ?thesis
  proof (cases i)
    case None
    then show ?thesis using failed [of "brk h"] assms by (simp add: list_add_item_def)
  next
    case i: (Some x)
    show ?thesis
    proof (cases "item_comp l")
      case None
      then show ?thesis using failed [of "brk h"] assms i by (simp add: list_add_item_def)
    next
      case (Some cmp)
      show ?thesis
      proof (cases "max_elems l \<le> n_elems l")
        case True
        then show ?thesis using failed [of "brk h"] assms i Some by (simp add: list_add_item_def)
      next
        case False
        then obtain f where f: "find_node l (\<lambda>y. cmp y x) h = Some f"
          using assms i Some by (auto simp: list_add_item_def bind_eq_Some_conv)
        then show ?thesis
          using assms i Some False failed [of "brk h"] failed [of "Suc (brk h)"] added [of x]
          by (cases "f = None"; cases "avail h (brk h)")
            (auto simp: list_add_item_def malloc_def bind_eq_Some_conv)
      qed
    qed
  qed
qed

lemma list_add_item_owned:
  assumes "owned l h ps" "list_add_item l i h = Some (r, l', h')"
  shows "owned l' h' (if r = 0 then ps @ [brk h] else ps)"
  using assms(2)
proof (cases rule: list_add_item_elim)
  case (failed k)
  then show ?thesis using assms(1) by (simp add: owned_def)
next
  case (added x)
  then show ?thesis using node_add_frame [OF added(3)] assms(1) by (auto simp: owned_def)
qed

section \<open>Runs of calls\<close>

datatype ('i, 'v) list_op =
  Add "'i option" | Find 'v | Del 'v | Del_first int | Del_last int | Walk

datatype 'i reply = Code int | Found "'i option" | Items "'i list" | Done

fun list_call ::
  "('i, 'v) list_op \<Rightarrow> ('i, 'v) linked_list \<Rightarrow> 'i heap \<Rightarrow> ('i reply \<times> ('i, 'v) linked_list \<times> 'i heap) option" where
  "list_call (Add i) l h = do { (r, l, h) \<leftarrow> list_add_item l i h; Some (Code r, l, h) }"
| "list_call (Find v) l h = do { r \<leftarrow> list_find_item l v h; Some (Found r, l, h) }"
| "list_call (Del v) l h = do { (r, l, h) \<leftarrow> list_delete_value l v h; Some (Code r, l, h) }"
| "list_call (Del_first k) l h = do { (l, h) \<leftarrow> list_delete_first l k h; Some (Done, l, h) }"
| "list_call (Del_last k) l h = do { (l, h) \<leftarrow> list_delete_last l k h; Some (Done, l, h) }"
| "list_call Walk l h = do {
     iter \<leftarrow> list_iterator l h;
     xs \<leftarrow> walk l iter h;
     Some (Items xs, l, h)
   }"

fun list_calls ::
  "('i, 'v) list_op list \<Rightarrow> ('i, 'v) linked_list \<Rightarrow> 'i heap \<Rightarrow>
   ('i reply list \<times> ('i, 'v) linked_list \<times> 'i heap) option" where
  "list_calls [] l h = Some ([], l, h)"
| "list_calls (c # cs) l h = do {
     (r, l, h) \<leftarrow> list_call c l h;
     (rs, l, h) \<leftarrow> list_calls cs l h;
     Some (r # rs, l, h)
   }"

text \<open>\<open>list_new\<close>, the client's two comparison functions, the calls, \<open>list_free\<close>; no reply
  when the list could not be created.\<close>

definition list_program ::
  "('i \<Rightarrow> 'i \<Rightarrow> int) \<Rightarrow> ('i \<Rightarrow> 'v \<Rightarrow> int) \<Rightarrow> ('i \<Rightarrow> 'i \<Rightarrow> int) option \<times> ('i \<Rightarrow> 'v \<Rightarrow> int) option \<Rightarrow>
   cint \<Rightarrow> int \<Rightarrow> ('i, 'v) list_op list \<Rightarrow> 'i heap \<Rightarrow> ('i reply list option \<times> 'i heap) option" where
  "list_program cmp vcmp junk info n ops h =
     (case list_new junk info n True True h of
        (None, h) \<Rightarrow> Some (None, h)
      | (Some l, h) \<Rightarrow> do {
          (rs, l, h) \<leftarrow> list_calls ops (l\<lparr>item_comp := Some cmp, item_value_comp := Some vcmp\<rparr>) h;
          h \<leftarrow> list_free l h;
          Some (Some rs, h)
        })"

definition empty_heap :: "(nat \<Rightarrow> bool) \<Rightarrow> 'i heap" where
  "empty_heap av = \<lparr>avail = av, brk = 0, cells = Map.empty, released = [], info_released = 0\<rparr>"

text \<open>The same on bounded lists; the third component collects the items handed to
  \<open>item_free\<close>.\<close>

type_synonym 'i spec_state = "'i clist \<times> mem \<times> 'i list"

fun spec_call ::
  "('i \<Rightarrow> 'i \<Rightarrow> int) \<Rightarrow> ('i \<Rightarrow> 'v \<Rightarrow> int) \<Rightarrow> ('i, 'v) list_op \<Rightarrow> 'i spec_state \<Rightarrow> 'i reply \<times> 'i spec_state" where
  "spec_call cmp vcmp (Add None) s = (Code (-1), s)"
| "spec_call cmp vcmp (Add (Some x)) (c, m, rel) =
     (case cl_add cmp x c m of (r, c, m) \<Rightarrow> (Code r, c, m, rel))"
| "spec_call cmp vcmp (Find v) (c, m, rel) = (Found (cl_find vcmp v c), c, m, rel)"
| "spec_call cmp vcmp (Del v) (c, m, rel) =
     (case cl_delete vcmp v c of (r, c') \<Rightarrow>
        (Code r, c', m, rel @ (case cl_find vcmp v c of None \<Rightarrow> [] | Some x \<Rightarrow> [x])))"
| "spec_call cmp vcmp (Del_first k) (c, m, rel) =
     (Done, cl_delete_first k c, m, rel @ take (nat k) (entries c))"
| "spec_call cmp vcmp (Del_last k) (c, m, rel) =
     (Done, c\<lparr>entries := take (length (entries c) - nat k) (entries c)\<rparr>, m,
      rel @ rev (drop (length (entries c) - nat k) (entries c)))"
| "spec_call cmp vcmp Walk (c, m, rel) = (Items (entries c), c, m, rel)"

fun spec_calls ::
  "('i \<Rightarrow> 'i \<Rightarrow> int) \<Rightarrow> ('i \<Rightarrow> 'v \<Rightarrow> int) \<Rightarrow> ('i, 'v) list_op list \<Rightarrow> 'i spec_state \<Rightarrow>
   'i reply list \<times> 'i spec_state" where
  "spec_calls cmp vcmp [] s = ([], s)"
| "spec_calls cmp vcmp (c # cs) s =
     (case spec_call cmp vcmp c s of (r, s) \<Rightarrow>
        (case spec_calls cmp vcmp cs s of (rs, s) \<Rightarrow> (r # rs, s)))"

definition spec_program ::
  "('i \<Rightarrow> 'i \<Rightarrow> int) \<Rightarrow> ('i \<Rightarrow> 'v \<Rightarrow> int) \<Rightarrow> cint \<Rightarrow> int \<Rightarrow> ('i, 'v) list_op list \<Rightarrow> (nat \<Rightarrow> bool) \<Rightarrow>
   'i reply list option \<times> 'i list" where
  "spec_program cmp vcmp info n ops av =
     (case cl_new info n \<lparr>avail = av, brk = 0\<rparr> of
        (None, m) \<Rightarrow> (None, [])
      | (Some c, m) \<Rightarrow>
          (case spec_calls cmp vcmp ops (c, m, []) of (rs, c, m, rel) \<Rightarrow> (Some rs, rel @ entries c)))"

definition sim :: "('i \<Rightarrow> 'i \<Rightarrow> int) \<Rightarrow> ('i \<Rightarrow> 'v \<Rightarrow> int) \<Rightarrow> ('i, 'v) linked_list \<Rightarrow> 'i heap \<Rightarrow> 'i spec_state \<Rightarrow> bool" where
  "sim cmp vcmp l h s \<longleftrightarrow>
     (\<exists>ps xs. represents l h ps xs \<and> owned l h ps \<and> s = (clist_of l xs, mem.truncate h, released h)) \<and>
     item_comp l = Some cmp \<and> item_value_comp l = Some vcmp \<and> item_free l \<and> info_free l"

lemma sim_add:
  assumes "sim cmp vcmp l h s"
  shows "\<exists>l' h'. list_call (Add i) l h = Some (fst (spec_call cmp vcmp (Add i) s), l', h') \<and>
    sim cmp vcmp l' h' (snd (spec_call cmp vcmp (Add i) s))"
proof (cases i)
  case None
  with assms show ?thesis by (auto simp: list_add_item_def)
next
  case (Some x)
  from assms obtain ps xs where rep: "represents l h ps xs" "owned l h ps" "item_comp l = Some cmp"
    and s: "s = (clist_of l xs, mem.truncate h, released h)"
    and l: "item_value_comp l = Some vcmp" "item_free l" "info_free l"
    by (auto simp: sim_def)
  from rep(1,3) show ?thesis
  proof (cases rule: list_add_item_cases [where x = x])
    case full
    then show ?thesis using assms s Some rep by (auto simp: cl_add_def)
  next
    case (exists y)
    then have "List.find (\<lambda>y. cmp y x = 0) xs \<noteq> None" by (auto simp: find_None_iff_set)
    with exists show ?thesis using assms s Some by (auto simp: cl_add_def)
  next
    case oom
    then have none: "List.find (\<lambda>y. cmp y x = 0) xs = None" by (simp add: find_None_iff_set)
    have "represents l (h\<lparr>brk := Suc (brk h)\<rparr>) ps xs" using rep by (auto simp: represents_def ring_def)
    moreover have "owned l (h\<lparr>brk := Suc (brk h)\<rparr>) ps" using rep by (simp add: owned_def)
    ultimately show ?thesis using oom none s Some rep l
      by (auto simp: cl_add_def malloc_def mem.truncate_def sim_def)
  next
    case (added h')
    then have none: "List.find (\<lambda>y. cmp y x = 0) xs = None" by (simp add: find_None_iff_set)
    have "owned (l\<lparr>n_elems := n_elems l + 1\<rparr>) h' (ps @ [brk h])"
      using list_add_item_owned [OF rep(2) added(4)] by simp
    with added none s Some rep l show ?thesis
      by (auto simp: cl_add_def malloc_def mem.truncate_def sim_def clist_of_def)
  qed
qed

lemma sim_del:
  assumes "sim cmp vcmp l h s"
  shows "\<exists>l' h'. list_call (Del v) l h = Some (fst (spec_call cmp vcmp (Del v) s), l', h') \<and>
    sim cmp vcmp l' h' (snd (spec_call cmp vcmp (Del v) s))"
proof -
  from assms obtain ps xs where rep: "represents l h ps xs" "owned l h ps"
    and s: "s = (clist_of l xs, mem.truncate h, released h)"
    and l: "item_comp l = Some cmp" "item_value_comp l = Some vcmp" "item_free l" "info_free l"
    by (auto simp: sim_def)
  have len: "length ps = length xs" using rep by (auto simp: represents_def dest: ring_length)
  let ?f = "List.find (\<lambda>(p, x). vcmp x v = 0) (zip ps xs)"
  note node = list_find_node_represents [OF rep(1) l(2), of v]
  have find: "List.find (\<lambda>x. vcmp x v = 0) xs = map_option snd ?f"
    using find_zip_snd [OF len, of "\<lambda>x. vcmp x v = 0"] by simp
  show ?thesis
  proof (cases ?f)
    case None
    then have "drop_match (\<lambda>x. vcmp x v = 0) xs = None" by (simp add: drop_match_split find)
    then show ?thesis using None node assms s find
      by (auto simp: list_delete_value_def cl_delete_def cl_find_def)
  next
    case (Some px)
    then obtain p x where f: "?f = Some (p, x)" by (cases px) auto
    obtain as bs ys zs where *: "ps = as @ p # bs" "xs = ys @ x # zs" "length as = length ys"
      "drop_match (\<lambda>x. vcmp x v = 0) xs = Some (ys @ zs)"
      using find_zip_split [OF len f] by blast
    obtain h' where h': "list_delete_node l p h = Some (l\<lparr>n_elems := n_elems l - 1\<rparr>, h')"
      "represents (l\<lparr>n_elems := n_elems l - 1\<rparr>) h' (as @ bs) (ys @ zs)" "released h' = released h @ [x]"
      by (rule list_delete_node_represents [of l h as p bs ys x zs]) (use rep * in auto)
    have fr: "mem.truncate h' = mem.truncate h" "dom (cells h') = dom (cells h) - {p}"
      using list_delete_node_frame [OF h'(1)] by auto
    have "owned (l\<lparr>n_elems := n_elems l - 1\<rparr>) h' (as @ bs)"
      using fr(2) rep(2) *(1) by (auto simp: owned_def)
    with h' fr node f * find s l show ?thesis
      by (auto simp: list_delete_value_def cl_delete_def cl_find_def sim_def clist_of_def)
  qed
qed

lemma sim_del_first:
  assumes "sim cmp vcmp l h s"
  shows "\<exists>l' h'. list_call (Del_first k) l h = Some (fst (spec_call cmp vcmp (Del_first k) s), l', h') \<and>
    sim cmp vcmp l' h' (snd (spec_call cmp vcmp (Del_first k) s))"
proof -
  from assms obtain ps xs where rep: "represents l h ps xs" "owned l h ps"
    and s: "s = (clist_of l xs, mem.truncate h, released h)"
    and l: "item_comp l = Some cmp" "item_value_comp l = Some vcmp" "item_free l" "info_free l"
    by (auto simp: sim_def)
  obtain l' h' where d: "list_delete_first l k h = Some (l', h')"
    "represents l' h' (drop (nat k) ps) (drop (nat k) xs)" "released h' = released h @ take (nat k) xs"
    using list_delete_first_represents [OF rep(1), of k] by blast
  then have loop: "delete_first_loop (nat k) l h = Some (l', h')" by (simp add: list_delete_first_def)
  have "owned l' h' (drop (nat k) ps)" by (rule delete_first_loop_owned [OF rep loop])
  with delete_first_loop_frame [OF loop] d s l show ?thesis
    by (auto simp: sim_def cl_delete_first_def clist_of_def)
qed

lemma sim_del_last:
  assumes "sim cmp vcmp l h s"
  shows "\<exists>l' h'. list_call (Del_last k) l h = Some (fst (spec_call cmp vcmp (Del_last k) s), l', h') \<and>
    sim cmp vcmp l' h' (snd (spec_call cmp vcmp (Del_last k) s))"
proof -
  from assms obtain ps xs where rep: "represents l h ps xs" "owned l h ps"
    and s: "s = (clist_of l xs, mem.truncate h, released h)"
    and l: "item_comp l = Some cmp" "item_value_comp l = Some vcmp" "item_free l" "info_free l"
    by (auto simp: sim_def)
  obtain l' h' where d: "list_delete_last l k h = Some (l', h')"
    "represents l' h' (take (length ps - nat k) ps) (take (length xs - nat k) xs)"
    "released h' = released h @ rev (drop (length xs - nat k) xs)"
    using list_delete_last_represents [OF rep(1), of k] by blast
  then have loop: "delete_last_loop (nat k) l h = Some (l', h')" by (simp add: list_delete_last_def)
  have "owned l' h' (take (length ps - nat k) ps)" by (rule delete_last_loop_owned [OF rep loop])
  with delete_last_loop_frame [OF loop] d s l show ?thesis
    by (auto simp: sim_def clist_of_def)
qed

lemma sim_call:
  assumes "sim cmp vcmp l h s"
  shows "\<exists>l' h'. list_call c l h = Some (fst (spec_call cmp vcmp c s), l', h') \<and>
    sim cmp vcmp l' h' (snd (spec_call cmp vcmp c s))"
proof (cases c)
  case (Find v)
  from assms obtain ps xs where "represents l h ps xs" "s = (clist_of l xs, mem.truncate h, released h)"
    "item_value_comp l = Some vcmp" by (auto simp: sim_def)
  with assms Find show ?thesis by (auto simp: list_find_item_represents cl_find_def)
next
  case Walk
  from assms obtain ps xs where "represents l h ps xs" "s = (clist_of l xs, mem.truncate h, released h)"
    by (auto simp: sim_def)
  with assms Walk walk_represents [of l h ps xs] show ?thesis by (auto simp: bind_eq_Some_conv)
next
  case (Add i) show ?thesis unfolding Add by (rule sim_add [OF assms])
next
  case (Del v) show ?thesis unfolding Del by (rule sim_del [OF assms])
next
  case (Del_first k) show ?thesis unfolding Del_first by (rule sim_del_first [OF assms])
next
  case (Del_last k) show ?thesis unfolding Del_last by (rule sim_del_last [OF assms])
qed

lemma sim_calls:
  "sim cmp vcmp l h s \<Longrightarrow>
   \<exists>l' h'. list_calls cs l h = Some (fst (spec_calls cmp vcmp cs s), l', h') \<and>
     sim cmp vcmp l' h' (snd (spec_calls cmp vcmp cs s))"
proof (induction cs arbitrary: l h s)
  case (Cons c cs)
  obtain l1 h1 where c: "list_call c l h = Some (fst (spec_call cmp vcmp c s), l1, h1)"
    "sim cmp vcmp l1 h1 (snd (spec_call cmp vcmp c s))" using sim_call [OF Cons.prems] by blast
  from Cons.IH [OF c(2)] c(1) show ?case by (auto split: prod.splits)
qed simp

lemma list_free_owned:
  assumes "represents l h ps xs" "owned l h ps" "item_free l" "info_free l"
  obtains h' where "list_free l h = Some h'" "released h' = released h @ xs" "cells h' = Map.empty"
    "info_released h' = Suc (info_released h)"
proof -
  have r: "ring h (ghost_item l) ps xs" using assms(1) by (simp add: represents_def)
  then obtain h1 where h1: "free_loop (ghost_item l) h = Some h1" "released h1 = released h @ xs"
    "\<forall>p \<in> set ps. nx h1 p = None" "info_released h1 = info_released h"
    "\<And>q. nx h q = None \<Longrightarrow> nx h1 q = None"
    by (rule free_loop_ring) blast
  have "cells (free_node (ghost_item l) h1) p = None" for p
  proof (cases "p = ghost_item l \<or> p \<in> set ps")
    case True
    then show ?thesis using h1(3) by (auto simp: free_node_def nx_def)
  next
    case False
    then have "nx h p = None" using assms(2) by (auto simp: owned_def nx_def)
    then show ?thesis using h1(5) [of p] False by (simp add: free_node_def nx_def)
  qed
  then show ?thesis
    using h1 assms by (intro that [of "free_node (ghost_item l) h1\<lparr>info_released := Suc (info_released h1)\<rparr>"])
      (auto simp: list_free_def fun_eq_iff)
qed

lemma list_program_runs:
  obtains h' where "list_program cmp vcmp junk info n ops (empty_heap av) =
      Some (fst (spec_program cmp vcmp info n ops av), h')"
    "released h' = snd (spec_program cmp vcmp info n ops av)" "cells h' = Map.empty"
proof (cases "av 0 \<and> av 1")
  case False
  then show ?thesis
    by (cases "av 0")
      (auto simp: list_program_def list_new_def malloc_def empty_heap_def spec_program_def cl_new_def
        intro!: that)
next
  case True
  then obtain l h where new: "list_new junk info n True True (empty_heap av) = (Some l, h)"
    by (simp add: list_new_def malloc_def empty_heap_def)
  let ?l = "l\<lparr>item_comp := Some cmp, item_value_comp := Some vcmp\<rparr>"
  let ?s = "(\<lparr>entries = [], limit = n, stamp = info\<rparr>, mem.truncate h, [])"
  have "represents l h [] []" by (rule list_new_represents(1) [OF new])
  then have rep: "represents ?l h [] []" by (simp add: represents_def)
  have l: "max_elems l = n" "list_info l = info" "item_free l" "info_free l" "released h = []"
    "owned ?l h []" "mem.truncate h = \<lparr>avail = av, brk = 2\<rparr>"
    using new True by (auto simp: list_new_def malloc_def empty_heap_def owned_def mem.truncate_def
        split: option.splits if_splits)
  then have "sim cmp vcmp ?l h ?s" using rep by (auto simp: sim_def clist_of_def)
  from sim_calls [OF this, of ops] obtain l1 h1
    where run: "list_calls ops ?l h = Some (fst (spec_calls cmp vcmp ops ?s), l1, h1)"
    and sim1: "sim cmp vcmp l1 h1 (snd (spec_calls cmp vcmp ops ?s))" by blast
  from sim1 obtain ps xs where *: "represents l1 h1 ps xs" "owned l1 h1 ps" "item_free l1" "info_free l1"
    and s1: "snd (spec_calls cmp vcmp ops ?s) = (clist_of l1 xs, mem.truncate h1, released h1)"
    by (auto simp: sim_def)
  from * obtain h' where h': "list_free l1 h1 = Some h'" "released h' = released h1 @ xs" "cells h' = Map.empty"
    by (rule list_free_owned)
  have spec: "spec_program cmp vcmp info n ops av = (Some (fst (spec_calls cmp vcmp ops ?s)), released h1 @ xs)"
    using True s1 l(7)
    by (auto simp: spec_program_def cl_new_def malloc_def numeral_2_eq_2 split: prod.splits)
  show ?thesis
    using new run h' by (intro that [of h']) (auto simp: list_program_def spec)
qed

text \<open>The items that the calls accepted, in order.\<close>

fun accepted :: "('i, 'v) list_op list \<Rightarrow> 'i reply list \<Rightarrow> 'i list" where
  "accepted (Add (Some x) # cs) (Code r # rs) = (if r = 0 then x # accepted cs rs else accepted cs rs)"
| "accepted (_ # cs) (_ # rs) = accepted cs rs"
| "accepted _ _ = []"

lemma cl_delete_mset:
  "cl_delete vcmp v c = (r, c') \<Longrightarrow>
   mset (entries c) = mset (entries c') + mset (case cl_find vcmp v c of None \<Rightarrow> [] | Some x \<Rightarrow> [x])"
proof -
  have "mset xs = mset ys + mset (case List.find P xs of None \<Rightarrow> [] | Some x \<Rightarrow> [x])"
    if "drop_match P xs = Some ys" for P and xs ys :: "'a list"
    using that by (induction xs arbitrary: ys) (auto split: if_splits option.splits)
  moreover have "List.find P xs = None" if "drop_match P xs = None" for P and xs :: "'a list"
    using that by (induction xs) (auto split: if_splits)
  ultimately show "cl_delete vcmp v c = (r, c') \<Longrightarrow> ?thesis"
    by (auto simp: cl_delete_def cl_find_def split: option.splits)
qed

lemma spec_call_mset:
  "spec_call cmp vcmp c (cl, m, rel) = (r, cl', m', rel') \<Longrightarrow>
   mset rel' + mset (entries cl') = mset rel + mset (entries cl) + mset (accepted [c] [r])"
proof (cases c)
  case (Add i)
  then show "spec_call cmp vcmp c (cl, m, rel) = (r, cl', m', rel') \<Longrightarrow> ?thesis"
    by (cases i) (auto simp: cl_add_def malloc_def split: if_splits)
next
  case (Del v)
  then show "spec_call cmp vcmp c (cl, m, rel) = (r, cl', m', rel') \<Longrightarrow> ?thesis"
    using cl_delete_mset [of vcmp v cl] by (auto split: prod.splits option.splits)
next
  case (Del_first k)
  have "mset (take (nat k) (entries cl)) + mset (drop (nat k) (entries cl)) = mset (entries cl)"
    by (metis append_take_drop_id mset_append)
  with Del_first show "spec_call cmp vcmp c (cl, m, rel) = (r, cl', m', rel') \<Longrightarrow> ?thesis"
    by (auto simp: cl_delete_first_def)
next
  case (Del_last k)
  let ?n = "length (entries cl) - nat k"
  have "mset (take ?n (entries cl)) + mset (drop ?n (entries cl)) = mset (entries cl)"
    by (metis append_take_drop_id mset_append)
  with Del_last show "spec_call cmp vcmp c (cl, m, rel) = (r, cl', m', rel') \<Longrightarrow> ?thesis"
    by (auto simp: add.commute add.left_commute)
qed auto

lemma accepted_Cons: "accepted (c # cs) (r # rs) = accepted [c] [r] @ accepted cs rs"
  by (cases c; cases r; (cases "\<exists>x. c = Add (Some x)")?) (auto split: option.splits)

lemma spec_calls_mset:
  "spec_calls cmp vcmp cs (cl, m, rel) = (rs, cl', m', rel') \<Longrightarrow>
   mset rel' + mset (entries cl') = mset rel + mset (entries cl) + mset (accepted cs rs)"
proof (induction cs arbitrary: cl m rel rs)
  case (Cons c cs)
  obtain r cl1 m1 rel1 where c: "spec_call cmp vcmp c (cl, m, rel) = (r, cl1, m1, rel1)"
    by (metis prod_cases4)
  with Cons.prems obtain rs1 where cs: "spec_calls cmp vcmp cs (cl1, m1, rel1) = (rs1, cl', m', rel')"
    and "rs = r # rs1" by (auto split: prod.splits)
  with Cons.IH [OF cs] spec_call_mset [OF c] show ?case
    by (simp add: accepted_Cons [of c cs r rs1])
qed simp

lemma spec_program_mset:
  "fst (spec_program cmp vcmp info n ops av) = Some rs \<Longrightarrow>
   mset (snd (spec_program cmp vcmp info n ops av)) = mset (accepted ops rs)"
  by (auto simp: spec_program_def cl_new_def malloc_def split: option.splits prod.splits if_splits
      dest!: spec_calls_mset)

section \<open>Properties\<close>

text \<open>C1. Any program over one list, whatever the comparison functions, the limit, the calls
  and the allocations that fail, runs on the pointer structure without an invalid access and
  without looping, gives the replies of the bounded list, hands exactly the items the
  specification drops to \<open>item_free\<close>, in order, and leaves no node allocated.\<close>

theorem list_program_refines:
  "\<exists>h'. list_program cmp vcmp junk info n ops (empty_heap av) =
       Some (fst (spec_program cmp vcmp info n ops av), h') \<and>
     released h' = snd (spec_program cmp vcmp info n ops av) \<and> cells h' = Map.empty"
  by (rule list_program_runs [of cmp vcmp junk info n ops av]) blast

text \<open>C2. Every item that \<open>list_add_item\<close> accepted is handed to \<open>item_free\<close> exactly once,
  by a deletion or by \<open>list_free\<close>; an item it refused is never freed by the list.\<close>

theorem list_items_freed_once:
  assumes "list_program cmp vcmp junk info n ops (empty_heap av) = Some (Some rs, h)"
  shows "mset (released h) = mset (accepted ops rs)"
proof -
  obtain h' where run: "list_program cmp vcmp junk info n ops (empty_heap av) =
      Some (fst (spec_program cmp vcmp info n ops av), h')"
    and rel: "released h' = snd (spec_program cmp vcmp info n ops av)"
    by (rule list_program_runs)
  from run assms have "fst (spec_program cmp vcmp info n ops av) = Some rs" "h = h'" by simp_all
  with rel show ?thesis using spec_program_mset by metis
qed

lemma list_items_freed_once_witness:
  "\<exists>h. list_program (-) (-) (None, None) 0 2 [Add (Some 5), Add (Some 7), Add (Some (9 :: int)), Del (5 :: int)]
      (empty_heap (\<lambda>_. True)) = Some (Some [Code 0, Code 0, Code (-1), Code 0], h) \<and>
    mset (released h) = {#5, 7#}"
proof -
  let ?ops = "[Add (Some 5), Add (Some 7), Add (Some (9 :: int)), Del (5 :: int)]"
  have spec: "fst (spec_program (-) (-) 0 2 ?ops (\<lambda>_. True)) = Some [Code 0, Code 0, Code (-1), Code 0]"
    by (simp add: spec_program_def cl_new_def malloc_def cl_add_def cl_delete_def)
  obtain h where run: "list_program (-) (-) (None, None) 0 2 ?ops (empty_heap (\<lambda>_. True)) =
      Some (Some [Code 0, Code 0, Code (-1), Code 0], h)"
    by (rule list_program_runs [of "(-)" "(-)" "(None, None)" 0 2 ?ops "\<lambda>_. True"]) (simp only: spec)
  have "mset (released h) = mset (accepted ?ops [Code 0, Code 0, Code (-1), Code 0])"
    by (rule list_items_freed_once [OF run])
  then have "mset (released h) = {#5, 7#}" by simp
  with run show ?thesis by blast
qed

end
