(* ===== verification/Friend_Requests.thy ===== *)
theory Friend_Requests
  imports Keyed_List
begin

text \<open>
  \<open>client/friend_requests.c\<close>: the friend requests the user has received and not yet
  answered, keyed by the name of the sender.
\<close>

record request_info =
  req_name :: string
  req_time :: cint

type_synonym friend_requests = "request_info clist"

definition request_name_comp :: "request_info \<Rightarrow> string \<Rightarrow> int" where
  "request_name_comp r name = strcmp (req_name r) name"

definition request_comp :: "request_info \<Rightarrow> request_info \<Rightarrow> int" where
  "request_comp r1 r2 = strcmp (req_name r1) (req_name r2)"

interpretation requests: keyed_list req_name "\<lambda>v. v" request_comp request_name_comp
  by unfold_locales (simp_all add: request_comp_def request_name_comp_def)

definition req_new :: "int \<Rightarrow> 'z mem_scheme \<Rightarrow> friend_requests option \<times> 'z mem_scheme" where
  "req_new n m =
     (case malloc m of (None, m) \<Rightarrow> (None, m)
      | (Some _, m) \<Rightarrow> cl_new 0 n m)"

definition req_add_request :: "friend_requests \<Rightarrow> string \<Rightarrow> cint \<Rightarrow> 'z mem_scheme \<Rightarrow> int \<times> friend_requests \<times> 'z mem_scheme" where
  "req_add_request requests name timestamp m =
     (case malloc m of (None, m) \<Rightarrow> (-1, requests, m)
      | (Some _, m) \<Rightarrow>
     (case malloc m of (None, m) \<Rightarrow> (-1, requests, m)
      | (Some _, m) \<Rightarrow>
        (case cl_add request_comp \<lparr>req_name = name, req_time = timestamp\<rparr> requests m of
           (r, requests, m) \<Rightarrow> if r = -1 then (-1, requests, m) else (0, requests, m))))"

definition req_del_request :: "friend_requests \<Rightarrow> string \<Rightarrow> int \<times> friend_requests" where
  "req_del_request requests name = cl_delete request_name_comp name requests"

definition req_find_request :: "friend_requests \<Rightarrow> string \<Rightarrow> request_info option" where
  "req_find_request requests name = cl_find request_name_comp name requests"

definition req_list_timestamp :: "friend_requests \<Rightarrow> cint" where
  "req_list_timestamp requests = stamp requests"

definition req_list_set_timestamp :: "friend_requests \<Rightarrow> cint \<Rightarrow> friend_requests" where
  "req_list_set_timestamp requests t = requests\<lparr>stamp := t\<rparr>"

abbreviation requests_wf :: "friend_requests \<Rightarrow> bool" where
  "requests_wf \<equiv> keyed_wf req_name"

lemma req_new_wf: "req_new n m = (Some rs, m') \<Longrightarrow> requests_wf rs \<and> entries rs = [] \<and> limit rs = n \<and> stamp rs = 0"
  by (auto simp: req_new_def malloc_def split: if_splits dest!: keyed_wf_new)

lemma req_add_request_cases:
  assumes "req_add_request rs name t m = (r, rs', m')"
  obtains (failed) "r = -1" "rs' = rs"
  | (added) m0 where "r = 0"
      "cl_add request_comp \<lparr>req_name = name, req_time = t\<rparr> rs m0 = (0, rs', m')"
  using assms
  by (auto simp: req_add_request_def malloc_def split: prod.splits if_splits
      dest: requests.add_result requests.add_ret)

lemma req_add_request_wf: "req_add_request rs name t m = (r, rs', m') \<Longrightarrow> requests_wf rs \<Longrightarrow> requests_wf rs'"
  by (elim req_add_request_cases) (auto dest: requests.add_wf)

lemma req_find_after_add:
  assumes "req_add_request rs name t m = (0, rs', m')"
  shows "req_find_request rs' n =
    (if n = name then Some \<lparr>req_name = name, req_time = t\<rparr> else req_find_request rs n)"
  using assms
  by (elim req_add_request_cases) (simp_all add: req_find_request_def requests.find_after_add)

lemma req_del_request_wf: "req_del_request rs name = (r, rs') \<Longrightarrow> requests_wf rs \<Longrightarrow> requests_wf rs'"
  unfolding req_del_request_def by (rule requests.delete_wf)

lemma req_find_after_del:
  "requests_wf rs \<Longrightarrow> req_del_request rs name = (0, rs') \<Longrightarrow>
   req_find_request rs' n = (if n = name then None else req_find_request rs n)"
  unfolding req_del_request_def req_find_request_def by (rule requests.find_after_delete)

end
