(* ===== verification/Friends.thy ===== *)
theory Friends
  imports Keyed_List
begin

text \<open>
  \<open>client/friends.c\<close>: the client's friend list, keyed by the friend's name.  The list
  functions of \<open>list.c\<close> are used through their specification in \<open>Keyed_List\<close>.
\<close>

record friend_info =
  fri_name :: string
  fri_information :: string

type_synonym friends = "friend_info clist"

definition friend_name_comp :: "friend_info \<Rightarrow> string \<Rightarrow> int" where
  "friend_name_comp f name = strcmp (fri_name f) name"

definition friend_comp :: "friend_info \<Rightarrow> friend_info \<Rightarrow> int" where
  "friend_comp f1 f2 = strcmp (fri_name f1) (fri_name f2)"

interpretation friends: keyed_list fri_name "\<lambda>v. v" friend_comp friend_name_comp
  by unfold_locales (simp_all add: friend_comp_def friend_name_comp_def)

definition fri_new :: "int \<Rightarrow> 'z mem_scheme \<Rightarrow> friends option \<times> 'z mem_scheme" where
  "fri_new n m =
     (case malloc m of (None, m) \<Rightarrow> (None, m)
      | (Some _, m) \<Rightarrow> cl_new 0 n m)"

definition fri_add_friend :: "friends \<Rightarrow> string \<Rightarrow> string \<Rightarrow> 'z mem_scheme \<Rightarrow> int \<times> friends \<times> 'z mem_scheme" where
  "fri_add_friend friends name information m =
     (case malloc m of (None, m) \<Rightarrow> (-1, friends, m)
      | (Some _, m) \<Rightarrow>
     (case malloc m of (None, m) \<Rightarrow> (-1, friends, m)
      | (Some _, m) \<Rightarrow>
     (case malloc m of (None, m) \<Rightarrow> (-1, friends, m)
      | (Some _, m) \<Rightarrow>
        (case cl_add friend_comp \<lparr>fri_name = name, fri_information = information\<rparr> friends m of
           (r, friends, m) \<Rightarrow> if r \<noteq> 0 then (-1, friends, m) else (0, friends, m)))))"

definition fri_del_friend :: "friends \<Rightarrow> string \<Rightarrow> int \<times> friends" where
  "fri_del_friend friends name = cl_delete friend_name_comp name friends"

definition fri_find_friend :: "friends \<Rightarrow> string \<Rightarrow> friend_info option" where
  "fri_find_friend friends name = cl_find friend_name_comp name friends"

definition fri_get_timestamp :: "friends \<Rightarrow> cint" where
  "fri_get_timestamp friends = stamp friends"

definition fri_set_timestamp :: "friends \<Rightarrow> cint \<Rightarrow> friends" where
  "fri_set_timestamp friends t = friends\<lparr>stamp := t\<rparr>"

abbreviation friends_wf :: "friends \<Rightarrow> bool" where
  "friends_wf \<equiv> keyed_wf fri_name"

lemma fri_new_wf: "fri_new n m = (Some fs, m') \<Longrightarrow> friends_wf fs \<and> entries fs = [] \<and> limit fs = n \<and> stamp fs = 0"
  by (auto simp: fri_new_def malloc_def split: if_splits dest!: keyed_wf_new)

text \<open>One step of \<open>fri_add_friend\<close>: either it fails and leaves the list alone, or it is
  the insertion of the new friend.\<close>

lemma fri_add_friend_cases:
  assumes "fri_add_friend fs name info m = (r, fs', m')"
  obtains (failed) "r = -1" "fs' = fs"
  | (added) m0 where "r = 0"
      "cl_add friend_comp \<lparr>fri_name = name, fri_information = info\<rparr> fs m0 = (0, fs', m')"
  using assms
  by (auto simp: fri_add_friend_def malloc_def split: prod.splits if_splits
      dest: friends.add_result)

lemma fri_add_friend_wf: "fri_add_friend fs name info m = (r, fs', m') \<Longrightarrow> friends_wf fs \<Longrightarrow> friends_wf fs'"
  by (elim fri_add_friend_cases) (auto dest: friends.add_wf)

lemma fri_add_friend_plenty:
  assumes "plenty m" "int (length (entries fs)) < limit fs" "name \<notin> fri_name ` set (entries fs)"
  shows "\<exists>m'. fri_add_friend fs name info m =
    (0, fs\<lparr>entries := entries fs @ [\<lparr>fri_name = name, fri_information = info\<rparr>]\<rparr>, m') \<and> plenty m'"
  using assms by (simp add: fri_add_friend_def friends.add_succeeds)

lemma fri_find_after_add:
  assumes "fri_add_friend fs name info m = (0, fs', m')"
  shows "fri_find_friend fs' n =
    (if n = name then Some \<lparr>fri_name = name, fri_information = info\<rparr> else fri_find_friend fs n)"
  using assms
  by (elim fri_add_friend_cases) (simp_all add: fri_find_friend_def friends.find_after_add)

lemma fri_del_friend_wf: "fri_del_friend fs name = (r, fs') \<Longrightarrow> friends_wf fs \<Longrightarrow> friends_wf fs'"
  unfolding fri_del_friend_def by (rule friends.delete_wf)

lemma fri_find_after_del:
  "friends_wf fs \<Longrightarrow> fri_del_friend fs name = (0, fs') \<Longrightarrow>
   fri_find_friend fs' n = (if n = name then None else fri_find_friend fs n)"
  unfolding fri_del_friend_def fri_find_friend_def by (rule friends.find_after_delete)

end
