(* ===== verification/Chat_Members.thy ===== *)
theory Chat_Members
  imports Friends
begin

text \<open>
  \<open>client/chat_members.c\<close>: the members of one chat, keyed by name.  A member points to
  the friend it is, or to \<open>NULL\<close> when it is not a friend of the user; friend structures
  are never written after their creation, so the pointer is modelled by what it points to.
\<close>

record member_info =
  member_name :: string
  member_friend_info :: "friend_info option"

type_synonym chat_members = "member_info clist"

definition member_name_comp :: "member_info \<Rightarrow> string \<Rightarrow> int" where
  "member_name_comp c name = strcmp (member_name c) name"

definition member_comp :: "member_info \<Rightarrow> member_info \<Rightarrow> int" where
  "member_comp c1 c2 = strcmp (member_name c1) (member_name c2)"

interpretation members: keyed_list member_name "\<lambda>v. v" member_comp member_name_comp
  by unfold_locales (simp_all add: member_comp_def member_name_comp_def)

definition member_is_friend :: "member_info \<Rightarrow> bool" where
  "member_is_friend c \<longleftrightarrow> member_friend_info c \<noteq> None"

definition members_new :: "int \<Rightarrow> 'z mem_scheme \<Rightarrow> chat_members option \<times> 'z mem_scheme" where
  "members_new n m =
     (case malloc m of (None, m) \<Rightarrow> (None, m)
      | (Some _, m) \<Rightarrow> cl_new 0 n m)"

definition members_add_member ::
  "chat_members \<Rightarrow> string \<Rightarrow> friend_info option \<Rightarrow> 'z mem_scheme \<Rightarrow> int \<times> chat_members \<times> 'z mem_scheme" where
  "members_add_member members name info m =
     (case malloc m of (None, m) \<Rightarrow> (-1, members, m)
      | (Some _, m) \<Rightarrow>
     (case malloc m of (None, m) \<Rightarrow> (-1, members, m)
      | (Some _, m) \<Rightarrow>
        (case cl_add member_comp \<lparr>member_name = name, member_friend_info = info\<rparr> members m of
           (r, members, m) \<Rightarrow> if r \<noteq> 0 then (-1, members, m) else (0, members, m))))"

definition members_del_member :: "chat_members \<Rightarrow> string \<Rightarrow> int \<times> chat_members" where
  "members_del_member members name = cl_delete member_name_comp name members"

definition member_find_member :: "chat_members \<Rightarrow> string \<Rightarrow> member_info option" where
  "member_find_member members name = cl_find member_name_comp name members"

definition member_get_timestamp :: "chat_members \<Rightarrow> cint" where
  "member_get_timestamp members = stamp members"

definition member_set_timestamp :: "chat_members \<Rightarrow> cint \<Rightarrow> chat_members" where
  "member_set_timestamp members t = members\<lparr>stamp := t\<rparr>"

abbreviation members_wf :: "chat_members \<Rightarrow> bool" where
  "members_wf \<equiv> keyed_wf member_name"

lemma members_new_wf:
  "members_new n m = (Some cs, m') \<Longrightarrow> members_wf cs \<and> entries cs = [] \<and> limit cs = n \<and> stamp cs = 0"
  by (auto simp: members_new_def malloc_def split: if_splits dest!: keyed_wf_new)

lemma members_add_member_cases:
  assumes "members_add_member cs name info m = (r, cs', m')"
  obtains (failed) "r = -1" "cs' = cs"
  | (added) m0 where "r = 0"
      "cl_add member_comp \<lparr>member_name = name, member_friend_info = info\<rparr> cs m0 = (0, cs', m')"
  using assms
  by (auto simp: members_add_member_def malloc_def split: prod.splits if_splits
      dest: members.add_result)

lemma members_add_member_wf:
  "members_add_member cs name info m = (r, cs', m') \<Longrightarrow> members_wf cs \<Longrightarrow> members_wf cs' \<and> limit cs' = limit cs"
  by (elim members_add_member_cases) (auto dest: members.add_wf members.add_result)

lemma members_find_after_add:
  assumes "members_add_member cs name info m = (0, cs', m')"
  shows "member_find_member cs' n =
    (if n = name then Some \<lparr>member_name = name, member_friend_info = info\<rparr> else member_find_member cs n)"
  using assms
  by (elim members_add_member_cases) (simp_all add: member_find_member_def members.find_after_add)

lemma members_del_member_wf:
  "members_del_member cs name = (r, cs') \<Longrightarrow> members_wf cs \<Longrightarrow> members_wf cs'"
  unfolding members_del_member_def by (rule members.delete_wf)

lemma members_find_after_del:
  "members_wf cs \<Longrightarrow> members_del_member cs name = (0, cs') \<Longrightarrow>
   member_find_member cs' n = (if n = name then None else member_find_member cs n)"
  unfolding members_del_member_def member_find_member_def by (rule members.find_after_delete)

end
