(* ===== verification/Messages.thy ===== *)
theory Messages
  imports Keyed_List
begin

text \<open>
  \<open>client/messages.c\<close>: the messages of one chat, keyed by their timestamp and bounded:
  the oldest are dropped to make room.  \<open>mes_del_last_messages\<close> has an empty body, so it
  deletes nothing.
\<close>

record message_info =
  mes_sender :: "string option" \<comment> \<open>\<open>NULL\<close> for the user's own messages\<close>
  mes_text :: string
  has_attach :: bool
  mes_attach_path :: "string option"
  mes_message_timestamp :: cint

type_synonym messages = "message_info clist"

definition message_timestamp_comp :: "message_info \<Rightarrow> cint \<Rightarrow> int" where
  "message_timestamp_comp x t = cint_diff (mes_message_timestamp x) t"

definition message_comp :: "message_info \<Rightarrow> message_info \<Rightarrow> int" where
  "message_comp x1 x2 = cint_diff (mes_message_timestamp x1) (mes_message_timestamp x2)"

interpretation messages: keyed_list mes_message_timestamp "\<lambda>t. t" message_comp message_timestamp_comp
  by unfold_locales (simp_all add: message_comp_def message_timestamp_comp_def)

definition mes_new :: "int \<Rightarrow> 'z mem_scheme \<Rightarrow> messages option \<times> 'z mem_scheme" where
  "mes_new n m =
     (case malloc m of (None, m) \<Rightarrow> (None, m)
      | (Some _, m) \<Rightarrow> cl_new 0 n m)"

text \<open>\<open>malloc\<close> of the copy of a string that may be \<open>NULL\<close>, as for sender and attachment.\<close>

definition dup_option :: "string option \<Rightarrow> 'z mem_scheme \<Rightarrow> bool \<times> 'z mem_scheme" where
  "dup_option s m =
     (case s of None \<Rightarrow> (True, m)
      | Some _ \<Rightarrow> (case malloc m of (p, m) \<Rightarrow> (p \<noteq> None, m)))"

definition mes_add_message ::
  "messages \<Rightarrow> string option \<Rightarrow> string option \<Rightarrow> cint \<Rightarrow> string option \<Rightarrow> 'z mem_scheme \<Rightarrow> int \<times> messages \<times> 'z mem_scheme" where
  "mes_add_message messages sender txt send_timestamp attach_path m =
     (case txt of None \<Rightarrow> (-1, messages, m)
      | Some txt \<Rightarrow>
     (case malloc m of (None, m) \<Rightarrow> (-1, messages, m)
      | (Some _, m) \<Rightarrow>
     (case dup_option sender m of (False, m) \<Rightarrow> (-1, messages, m)
      | (True, m) \<Rightarrow>
     (case malloc m of (None, m) \<Rightarrow> (-1, messages, m)
      | (Some _, m) \<Rightarrow>
     (case dup_option attach_path m of (False, m) \<Rightarrow> (-1, messages, m)
      | (True, m) \<Rightarrow>
        (case cl_add message_comp
            \<lparr>mes_sender = sender, mes_text = txt, has_attach = (attach_path \<noteq> None),
             mes_attach_path = attach_path, mes_message_timestamp = send_timestamp\<rparr> messages m of
           (r, messages, m) \<Rightarrow> if r \<noteq> 0 then (-1, messages, m) else (0, messages, m)))))))"

definition mes_del_first_messages :: "messages \<Rightarrow> int \<Rightarrow> messages" where
  "mes_del_first_messages messages n = cl_delete_first n messages"

definition mes_del_last_messages :: "messages \<Rightarrow> int \<Rightarrow> messages" where
  "mes_del_last_messages messages n = messages"

definition mes_find_message :: "messages \<Rightarrow> cint \<Rightarrow> message_info option" where
  "mes_find_message messages send_timestamp = cl_find message_timestamp_comp send_timestamp messages"

definition mes_get_timestamp :: "messages \<Rightarrow> cint" where
  "mes_get_timestamp messages = stamp messages"

definition mes_set_timestamp :: "messages \<Rightarrow> cint \<Rightarrow> messages" where
  "mes_set_timestamp messages t = messages\<lparr>stamp := t\<rparr>"

definition mes_list_full :: "messages \<Rightarrow> bool" where
  "mes_list_full messages = cl_full messages"

definition mes_list_gaps :: "messages \<Rightarrow> int" where
  "mes_list_gaps messages = cl_gaps messages"

definition mes_max_elems :: "messages \<Rightarrow> int" where
  "mes_max_elems messages = limit messages"

abbreviation messages_wf :: "messages \<Rightarrow> bool" where
  "messages_wf \<equiv> keyed_wf mes_message_timestamp"

text \<open>The message a successful call stores.\<close>

definition new_message :: "string option \<Rightarrow> string \<Rightarrow> cint \<Rightarrow> string option \<Rightarrow> message_info" where
  "new_message sender txt t att =
     \<lparr>mes_sender = sender, mes_text = txt, has_attach = (att \<noteq> None),
      mes_attach_path = att, mes_message_timestamp = t\<rparr>"

lemma new_message_timestamp [simp]: "mes_message_timestamp (new_message s x t a) = t"
  by (simp add: new_message_def)

lemma mes_new_wf: "mes_new n m = (Some ms, m') \<Longrightarrow> messages_wf ms \<and> entries ms = [] \<and> limit ms = n \<and> stamp ms = 0"
  by (auto simp: mes_new_def malloc_def split: if_splits dest!: keyed_wf_new)

lemma mes_add_message_cases:
  assumes "mes_add_message ms s x t a m = (r, ms', m')"
  obtains (failed) "r = -1" "ms' = ms"
  | (added) y m0 where "r = 0" "x = Some y" "cl_add message_comp (new_message s y t a) ms m0 = (0, ms', m')"
  using assms
  by (auto simp: mes_add_message_def malloc_def new_message_def
      split: prod.splits if_splits option.splits bool.splits dest: messages.add_result)

lemma dup_option_plenty: "plenty m \<Longrightarrow> \<exists>m'. dup_option s m = (True, m') \<and> plenty m'"
  by (auto simp: dup_option_def split: option.splits)

lemma mes_add_message_plenty:
  assumes "plenty m" "int (length (entries ms)) < limit ms" "t \<notin> mes_message_timestamp ` set (entries ms)"
  shows "\<exists>m'. mes_add_message ms s (Some y) t a m =
    (0, ms\<lparr>entries := entries ms @ [new_message s y t a]\<rparr>, m') \<and> plenty m'"
proof -
  let ?m1 = "m\<lparr>brk := Suc (brk m)\<rparr>"
  obtain m2 where m2: "dup_option s ?m1 = (True, m2)" "plenty m2"
    using dup_option_plenty [of ?m1 s] assms(1) by auto
  obtain m3 where m3: "dup_option a (m2\<lparr>brk := Suc (brk m2)\<rparr>) = (True, m3)" "plenty m3"
    using dup_option_plenty [of "m2\<lparr>brk := Suc (brk m2)\<rparr>" a] m2(2) by auto
  show ?thesis
    using assms m2 m3 messages.add_succeeds [of m3 ms "new_message s y t a"]
    by (simp add: mes_add_message_def new_message_def)
qed

lemma mes_add_message_wf:
  "mes_add_message ms s x t a m = (r, ms', m') \<Longrightarrow> messages_wf ms \<Longrightarrow> messages_wf ms' \<and> limit ms' = limit ms"
  by (elim mes_add_message_cases) (auto dest: messages.add_wf messages.add_result)

lemma mes_del_first_wf: "messages_wf ms \<Longrightarrow> messages_wf (mes_del_first_messages ms n)"
  by (simp add: mes_del_first_messages_def keyed_wf_delete_first)

lemma mes_find_after_add:
  assumes "mes_add_message ms s (Some y) t a m = (0, ms', m')"
  shows "mes_find_message ms' u = (if u = t then Some (new_message s y t a) else mes_find_message ms u)"
  using assms
  by (elim mes_add_message_cases) (auto simp: mes_find_message_def messages.find_after_add)

end
