(* ===== verification/Chats.thy ===== *)
theory Chats
  imports Chat_Members Messages
begin

text \<open>
  \<open>client/chats.c\<close> and the accessors of \<open>client/chats.h\<close>: the chats the user takes part
  in, keyed by chat id; each has its members, its last messages and its counters.
  A function of the code that mutates a \<open>chat_info\<close> through a pointer returns here the
  updated structure.
\<close>

record chat_info =
  cha_id :: cint
  cha_description :: string
  cha_read_timestamp :: cint
  cha_all_read_timestamp :: cint
  cha_unread :: cint
  cha_pending :: cint
  cha_admin :: "string option"
  cha_members :: chat_members
  cha_messages :: messages

type_synonym chats = "chat_info clist"

definition chat_id_comp :: "chat_info \<Rightarrow> cint \<Rightarrow> int" where
  "chat_id_comp c i = cint_diff (cha_id c) i"

definition chat_comp :: "chat_info \<Rightarrow> chat_info \<Rightarrow> int" where
  "chat_comp c1 c2 = cint_diff (cha_id c1) (cha_id c2)"

interpretation chats: keyed_list cha_id "\<lambda>i. i" chat_comp chat_id_comp
  by unfold_locales (simp_all add: chat_comp_def chat_id_comp_def)

section \<open>Operations\<close>

definition cha_new :: "int \<Rightarrow> 'z mem_scheme \<Rightarrow> chats option \<times> 'z mem_scheme" where
  "cha_new n m =
     (case malloc m of (None, m) \<Rightarrow> (None, m)
      | (Some _, m) \<Rightarrow> cl_new 0 n m)"

text \<open>The loop that adds the members; \<^const>\<open>False\<close> when one could not be added.\<close>

fun add_members_loop ::
  "(string \<times> friend_info option) list \<Rightarrow> chat_members \<Rightarrow> 'z mem_scheme \<Rightarrow> bool \<times> chat_members \<times> 'z mem_scheme" where
  "add_members_loop [] cs m = (True, cs, m)"
| "add_members_loop ((name, info) # rest) cs m =
     (case members_add_member cs name info m of (r, cs, m) \<Rightarrow>
        if r \<noteq> 0 then (False, cs, m) else add_members_loop rest cs m)"

definition cha_add_chat ::
  "chats \<Rightarrow> cint \<Rightarrow> string \<Rightarrow> string \<Rightarrow> (string \<times> friend_info option) list \<Rightarrow> int \<Rightarrow> int \<Rightarrow> cint \<Rightarrow> cint \<Rightarrow> 'z mem_scheme \<Rightarrow>
   int \<times> chats \<times> 'z mem_scheme" where
  "cha_add_chat chats chat_id description admin members max_members max_messages
      read_timestamp all_read_timestamp m =
     (case malloc m of (None, m) \<Rightarrow> (-1, chats, m)
      | (Some _, m) \<Rightarrow>
     (case malloc m of (None, m) \<Rightarrow> (-1, chats, m)
      | (Some _, m) \<Rightarrow>
     (case malloc m of (None, m) \<Rightarrow> (-1, chats, m)
      | (Some _, m) \<Rightarrow>
     (case members_new max_members m of (None, m) \<Rightarrow> (-1, chats, m)
      | (Some cs, m) \<Rightarrow>
     (case mes_new max_messages m of (None, m) \<Rightarrow> (-1, chats, m)
      | (Some ms, m) \<Rightarrow>
     (case add_members_loop members cs m of (False, cs, m) \<Rightarrow> (-1, chats, m)
      | (True, cs, m) \<Rightarrow>
        (case cl_add chat_comp
            \<lparr>cha_id = chat_id, cha_description = description, cha_read_timestamp = read_timestamp,
             cha_all_read_timestamp = all_read_timestamp, cha_unread = 0, cha_pending = 0,
             cha_admin = Some admin, cha_members = cs, cha_messages = ms\<rparr> chats m of
           (r, chats, m) \<Rightarrow> if r \<noteq> 0 then (-1, chats, m) else (0, chats, m))))))))"

definition cha_add_message ::
  "chat_info \<Rightarrow> string option \<Rightarrow> string option \<Rightarrow> cint \<Rightarrow> string option \<Rightarrow> 'z mem_scheme \<Rightarrow> int \<times> chat_info \<times> 'z mem_scheme" where
  "cha_add_message chat sender txt send_timestamp attach_path m =
     (let ms = (if mes_list_full (cha_messages chat)
                then mes_del_first_messages (cha_messages chat) 1 else cha_messages chat)
      in case mes_add_message ms sender txt send_timestamp attach_path m of (r, ms, m) \<Rightarrow>
           let chat = chat\<lparr>cha_messages := ms\<rparr> in
           if r \<noteq> 0 then (-1, chat, m)
           else if sint (cha_read_timestamp chat) < sint send_timestamp
             then (0, chat\<lparr>cha_unread := cha_unread chat + 1\<rparr>, m)
             else (0, chat, m))"

type_synonym raw_message = "string option \<times> string option \<times> cint \<times> string option"

text \<open>The loop of \<open>cha_add_messages\<close> from index \<open>i\<close> on; on a failure it calls
  \<open>mes_del_last_messages\<close> and returns -1.\<close>

fun add_messages_loop :: "int \<Rightarrow> raw_message list \<Rightarrow> chat_info \<Rightarrow> 'z mem_scheme \<Rightarrow> int \<times> chat_info \<times> 'z mem_scheme" where
  "add_messages_loop i [] chat m = (0, chat, m)"
| "add_messages_loop i ((sender, txt, t, attach_path) # rest) chat m =
     (case mes_add_message (cha_messages chat) sender txt t attach_path m of (r, ms, m) \<Rightarrow>
        if r \<noteq> 0 then (-1, chat\<lparr>cha_messages := mes_del_last_messages ms i\<rparr>, m)
        else
          let chat = chat\<lparr>cha_messages := ms\<rparr>;
              chat = (if sint (cha_read_timestamp chat) < sint t
                      then chat\<lparr>cha_unread := cha_unread chat + 1\<rparr> else chat)
          in add_messages_loop (i + 1) rest chat m)"

definition cha_add_messages :: "chat_info \<Rightarrow> raw_message list \<Rightarrow> 'z mem_scheme \<Rightarrow> int \<times> chat_info \<times> 'z mem_scheme" where
  "cha_add_messages chat msgs m =
     (let n_messages = int (length msgs);
          i = (if mes_max_elems (cha_messages chat) < n_messages
               then n_messages - mes_max_elems (cha_messages chat) else 0);
          gaps_needed = n_messages - i - mes_list_gaps (cha_messages chat);
          chat = (if 0 < gaps_needed
                  then chat\<lparr>cha_messages := mes_del_first_messages (cha_messages chat) gaps_needed\<rparr>
                  else chat)
      in add_messages_loop i (drop (nat i) msgs) chat m)"

definition cha_add_member :: "chat_info \<Rightarrow> friend_info option \<Rightarrow> string \<Rightarrow> 'z mem_scheme \<Rightarrow> int \<times> chat_info \<times> 'z mem_scheme" where
  "cha_add_member chat member name m =
     (case members_add_member (cha_members chat) name member m of (r, cs, m) \<Rightarrow>
        if r = -1 then (-1, chat\<lparr>cha_members := cs\<rparr>, m) else (0, chat\<lparr>cha_members := cs\<rparr>, m))"

definition cha_del_member :: "chat_info \<Rightarrow> string \<Rightarrow> int \<times> chat_info" where
  "cha_del_member chat name =
     (case members_del_member (cha_members chat) name of (r, cs) \<Rightarrow>
        if r \<noteq> 0 then (-1, chat\<lparr>cha_members := cs\<rparr>) else (0, chat\<lparr>cha_members := cs\<rparr>))"

definition cha_change_admin :: "chat_info \<Rightarrow> string \<Rightarrow> 'z mem_scheme \<Rightarrow> int \<times> chat_info \<times> 'z mem_scheme" where
  "cha_change_admin chat name m =
     (if member_find_member (cha_members chat) name = None then (-1, chat, m)
      else case malloc m of (None, m) \<Rightarrow> (-1, chat, m)
      | (Some _, m) \<Rightarrow> (0, chat\<lparr>cha_admin := Some name\<rparr>, m))"

definition cha_del_chat :: "chats \<Rightarrow> cint \<Rightarrow> int \<times> chats" where
  "cha_del_chat chats chat_id = cl_delete chat_id_comp chat_id chats"

definition cha_find_chat :: "chats \<Rightarrow> cint \<Rightarrow> chat_info option" where
  "cha_find_chat chats chat_id = cl_find chat_id_comp chat_id chats"

definition cha_admin_myself :: "chat_info \<Rightarrow> bool" where
  "cha_admin_myself chat \<longleftrightarrow> cha_admin chat = None"

definition cha_clear_unread :: "chat_info \<Rightarrow> chat_info" where
  "cha_clear_unread chat =
     chat\<lparr>cha_unread := 0, cha_read_timestamp := mes_get_timestamp (cha_messages chat)\<rparr>"

definition cha_set_all_read_timestamp :: "chat_info \<Rightarrow> cint \<Rightarrow> chat_info" where
  "cha_set_all_read_timestamp chat t = chat\<lparr>cha_all_read_timestamp := t\<rparr>"

definition cha_set_pending :: "chat_info \<Rightarrow> cint \<Rightarrow> chat_info" where
  "cha_set_pending chat num_pending = chat\<lparr>cha_pending := num_pending\<rparr>"

definition cha_update_pending :: "chat_info \<Rightarrow> cint \<Rightarrow> chat_info" where
  "cha_update_pending chat num_pending = chat\<lparr>cha_pending := cha_pending chat + num_pending\<rparr>"

definition cha_set_unread :: "chat_info \<Rightarrow> cint \<Rightarrow> chat_info" where
  "cha_set_unread chat num_unread = chat\<lparr>cha_unread := num_unread\<rparr>"

definition cha_update_unread :: "chat_info \<Rightarrow> cint \<Rightarrow> chat_info" where
  "cha_update_unread chat num_unread = chat\<lparr>cha_unread := cha_unread chat + num_unread\<rparr>"

definition cha_set_members_timestamp :: "chat_info \<Rightarrow> cint \<Rightarrow> chat_info" where
  "cha_set_members_timestamp chat t = chat\<lparr>cha_members := member_set_timestamp (cha_members chat) t\<rparr>"

definition cha_set_messages_timestamp :: "chat_info \<Rightarrow> cint \<Rightarrow> chat_info" where
  "cha_set_messages_timestamp chat t = chat\<lparr>cha_messages := mes_set_timestamp (cha_messages chat) t\<rparr>"

definition cha_get_timestamp :: "chats \<Rightarrow> cint" where
  "cha_get_timestamp chats = stamp chats"

definition cha_set_timestamp :: "chats \<Rightarrow> cint \<Rightarrow> chats" where
  "cha_set_timestamp chats t = chats\<lparr>stamp := t\<rparr>"

section \<open>Well-formed chats\<close>

definition chat_wf :: "chat_info \<Rightarrow> bool" where
  "chat_wf c \<longleftrightarrow> members_wf (cha_members c) \<and> messages_wf (cha_messages c)"

definition chats_wf :: "chats \<Rightarrow> bool" where
  "chats_wf l \<longleftrightarrow> keyed_wf cha_id l \<and> (\<forall>c \<in> set (entries l). chat_wf c)"

lemma cha_new_wf: "cha_new n m = (Some cs, m') \<Longrightarrow> chats_wf cs \<and> entries cs = [] \<and> limit cs = n"
  by (auto simp: cha_new_def malloc_def chats_wf_def split: if_splits dest!: keyed_wf_new)

lemma add_members_loop_wf:
  "add_members_loop mbs cs m = (b, cs', m') \<Longrightarrow> members_wf cs \<Longrightarrow> members_wf cs' \<and> limit cs' = limit cs"
proof (induction mbs arbitrary: cs m)
  case (Cons x rest)
  obtain name info where x: "x = (name, info)" by (cases x)
  obtain r cs1 m1 where a: "members_add_member cs name info m = (r, cs1, m1)"
    by (metis prod_cases3)
  have wf: "members_wf cs1 \<and> limit cs1 = limit cs"
    using members_add_member_wf [OF a Cons.prems(2)] .
  show ?case
  proof (cases "r = 0")
    case True
    then show ?thesis using Cons.IH [of cs1 m1] Cons.prems(1) wf by (simp add: x a)
  next
    case False
    then show ?thesis using Cons.prems(1) wf by (simp add: x a)
  qed
qed simp

lemma members_add_member_entries:
  "members_add_member cs name info m = (0, cs1, m1) \<Longrightarrow>
   entries cs1 = entries cs @ [\<lparr>member_name = name, member_friend_info = info\<rparr>]"
  by (elim members_add_member_cases) (auto dest: members.add_result)

lemma add_members_loop_entries:
  "add_members_loop mbs cs m = (True, cs', m') \<Longrightarrow>
   entries cs' = entries cs @ map (\<lambda>(n, i). \<lparr>member_name = n, member_friend_info = i\<rparr>) mbs"
proof (induction mbs arbitrary: cs m)
  case (Cons x rest)
  obtain name info where x: "x = (name, info)" by (cases x)
  obtain r cs1 m1 where a: "members_add_member cs name info m = (r, cs1, m1)"
    by (metis prod_cases3)
  have r: "r = 0" using Cons.prems by (simp add: x a split: if_splits)
  then show ?case
    using Cons.IH [of cs1 m1] Cons.prems members_add_member_entries [of cs name info m cs1 m1]
    by (simp add: x a)
qed simp

text \<open>\<open>cha_add_chat\<close> either fails and leaves the list as it is, or appends one well-formed
  chat with the given members and no message.\<close>

lemma cha_add_chat_cases:
  assumes "cha_add_chat l i d a mbs mm mx rt art m = (r, l', m')"
  obtains (failed) "r = -1" "l' = l"
  | (added) c m0 where "r = 0" "cl_add chat_comp c l m0 = (0, l', m')" "chat_wf c" "cha_id c = i"
      "cha_description c = d" "cha_admin c = Some a" "cha_read_timestamp c = rt"
      "cha_all_read_timestamp c = art" "cha_unread c = 0" "cha_pending c = 0"
      "entries (cha_members c) = map (\<lambda>(n, i). \<lparr>member_name = n, member_friend_info = i\<rparr>) mbs"
      "entries (cha_messages c) = []" "limit (cha_messages c) = mx"
proof (cases "r = 0")
  case False
  with assms show ?thesis
    by (intro failed) (auto simp: cha_add_chat_def malloc_def split: prod.splits option.splits
        if_splits bool.splits dest: chats.add_result)
next
  case True
  from assms True obtain cs0 ms cs m1 m2 m3 m4 where
    new: "members_new mm m1 = (Some cs0, m2)" "mes_new mx m2 = (Some ms, m3)"
    and loop: "add_members_loop mbs cs0 m3 = (True, cs, m4)"
    and add: "cl_add chat_comp
        \<lparr>cha_id = i, cha_description = d, cha_read_timestamp = rt, cha_all_read_timestamp = art,
         cha_unread = 0, cha_pending = 0, cha_admin = Some a, cha_members = cs, cha_messages = ms\<rparr>
        l m4 = (0, l', m')"
    by (auto simp: cha_add_chat_def malloc_def split: prod.splits option.splits if_splits bool.splits)
  from True add show ?thesis
    by (rule added)
      (use members_new_wf [OF new(1)] mes_new_wf [OF new(2)] add_members_loop_wf [OF loop]
        add_members_loop_entries [OF loop] in \<open>auto simp: chat_wf_def\<close>)
qed

lemma cha_add_chat_wf:
  "cha_add_chat l i d a mbs mm mx rt art m = (r, l', m') \<Longrightarrow> chats_wf l \<Longrightarrow> chats_wf l'"
proof (elim cha_add_chat_cases)
  fix c m0
  assume wf: "chats_wf l" "chat_wf c" and add: "cl_add chat_comp c l m0 = (0, l', m')"
  then show "chats_wf l'"
    using chats.add_wf [OF add] chats.add_result [OF add] by (auto simp: chats_wf_def)
qed simp

lemma cha_add_message_wf:
  "cha_add_message c s x t a m = (r, c', m') \<Longrightarrow> chat_wf c \<Longrightarrow> chat_wf c'"
  by (auto simp: cha_add_message_def chat_wf_def Let_def mes_del_first_wf
      split: prod.splits if_splits dest!: mes_add_message_wf)

lemma add_messages_loop_wf:
  "add_messages_loop i msgs c m = (r, c', m') \<Longrightarrow> chat_wf c \<Longrightarrow> chat_wf c'"
proof (induction msgs arbitrary: i c m)
  case (Cons a msgs)
  obtain s x t p where a: "a = (s, x, t, p)" by (metis prod_cases4)
  obtain r1 ms1 m1 where add: "mes_add_message (cha_messages c) s x t p m = (r1, ms1, m1)"
    by (metis prod_cases3)
  have "messages_wf ms1" using mes_add_message_wf [OF add] Cons.prems(2) by (simp add: chat_wf_def)
  with Cons.prems add a Cons.IH show ?case
    by (auto simp: chat_wf_def mes_del_last_messages_def Let_def split: if_splits)
qed simp

lemma cha_add_messages_wf:
  "cha_add_messages c msgs m = (r, c', m') \<Longrightarrow> chat_wf c \<Longrightarrow> chat_wf c'"
  unfolding cha_add_messages_def Let_def
  by (erule add_messages_loop_wf) (simp add: chat_wf_def mes_del_first_wf)

lemma cha_add_member_wf: "cha_add_member c f n m = (r, c', m') \<Longrightarrow> chat_wf c \<Longrightarrow> chat_wf c'"
  by (auto simp: cha_add_member_def chat_wf_def split: prod.splits if_splits dest!: members_add_member_wf)

lemma cha_del_member_wf: "cha_del_member c n = (r, c') \<Longrightarrow> chat_wf c \<Longrightarrow> chat_wf c'"
  by (auto simp: cha_del_member_def chat_wf_def split: prod.splits if_splits dest!: members_del_member_wf)

lemma cha_change_admin_wf: "cha_change_admin c n m = (r, c', m') \<Longrightarrow> chat_wf c \<Longrightarrow> chat_wf c'"
  by (auto simp: cha_change_admin_def chat_wf_def malloc_def split: if_splits)

lemma cha_del_chat_wf: "cha_del_chat l i = (r, l') \<Longrightarrow> chats_wf l \<Longrightarrow> chats_wf l'"
proof -
  assume d: "cha_del_chat l i = (r, l')" and wf: "chats_wf l"
  have "keyed_wf cha_id l'" using chats.delete_wf d wf unfolding cha_del_chat_def chats_wf_def by blast
  moreover have "set (entries l') \<subseteq> set (entries l)"
  proof (cases "drop_match (\<lambda>x. chat_id_comp x i = 0) (entries l)")
    case None
    then show ?thesis using d by (simp add: cha_del_chat_def cl_delete_def)
  next
    case (Some ys)
    then have "set ys \<subseteq> set (entries l)"
      using distinct_drop_match [OF Some, of cha_id] wf by (simp add: chats_wf_def keyed_wf_def)
    then show ?thesis using d Some by (auto simp: cha_del_chat_def cl_delete_def)
  qed
  ultimately show ?thesis using wf by (auto simp: chats_wf_def)
qed

section \<open>Adding messages\<close>

text \<open>The last \<open>n\<close> elements of a list: what a bounded message list retains.\<close>

definition last_n :: "nat \<Rightarrow> 'a list \<Rightarrow> 'a list" where
  "last_n n xs = drop (length xs - n) xs"

fun message_of :: "raw_message \<Rightarrow> message_info" where
  "message_of (s, x, t, a) = new_message s (the x) t a"

definition raw_time :: "raw_message \<Rightarrow> cint" where
  "raw_time x = fst (snd (snd x))"

definition has_text :: "raw_message \<Rightarrow> bool" where
  "has_text x \<longleftrightarrow> fst (snd x) \<noteq> None"

definition newer :: "cint \<Rightarrow> raw_message list \<Rightarrow> raw_message list" where
  "newer rt msgs = filter (\<lambda>x. sint rt < sint (raw_time x)) msgs"

lemma add_messages_loop_all:
  assumes "plenty m" "\<forall>x \<in> set msgs. has_text x" "distinct (map raw_time msgs)"
    and "\<forall>x \<in> set msgs. raw_time x \<notin> mes_message_timestamp ` set (entries (cha_messages c))"
    and "int (length (entries (cha_messages c)) + length msgs) \<le> limit (cha_messages c)"
  shows "\<exists>m'. add_messages_loop i msgs c m =
     (0, c\<lparr>cha_messages := (cha_messages c)\<lparr>entries := entries (cha_messages c) @ map message_of msgs\<rparr>,
           cha_unread := cha_unread c + of_nat (length (newer (cha_read_timestamp c) msgs))\<rparr>, m')"
  using assms
proof (induction msgs arbitrary: i c m)
  case Nil
  then show ?case by (simp add: newer_def)
next
  case (Cons a msgs)
  obtain s y t p where a: "a = (s, Some y, t, p)"
    using Cons.prems(2) by (cases a) (auto simp: has_text_def)
  obtain m1 where add: "mes_add_message (cha_messages c) s (Some y) t p m =
      (0, (cha_messages c)\<lparr>entries := entries (cha_messages c) @ [new_message s y t p]\<rparr>, m1)" and "plenty m1"
    using mes_add_message_plenty [of m "cha_messages c" t s y p] Cons.prems a by (auto simp: raw_time_def)
  let ?c1 = "c\<lparr>cha_messages := (cha_messages c)\<lparr>entries := entries (cha_messages c) @ [new_message s y t p]\<rparr>,
    cha_unread := cha_unread c + of_nat (length (newer (cha_read_timestamp c) [a]))\<rparr>"
  have "\<exists>m'. add_messages_loop (i + 1) msgs ?c1 m1 =
     (0, ?c1\<lparr>cha_messages := (cha_messages ?c1)\<lparr>entries := entries (cha_messages ?c1) @ map message_of msgs\<rparr>,
           cha_unread := cha_unread ?c1 + of_nat (length (newer (cha_read_timestamp ?c1) msgs))\<rparr>, m')"
  proof (rule Cons.IH)
    show "\<forall>x \<in> set msgs. raw_time x \<notin> mes_message_timestamp ` set (entries (cha_messages ?c1))"
      using Cons.prems(3,4) a by (force simp: raw_time_def)
  qed (use Cons.prems \<open>plenty m1\<close> in auto)
  with a add show ?case
    by (auto simp: newer_def raw_time_def Let_def algebra_simps)
qed

lemma distinct_map_drop: "distinct (map f xs) \<Longrightarrow> distinct (map f (drop n xs))"
  by (simp add: drop_map [symmetric])

text \<open>What \<open>cha_add_messages\<close> leaves in the chat: the last \<open>limit\<close> of the old and the
  new messages.\<close>

lemma cha_add_messages_spec:
  assumes wf: "chat_wf c" and "plenty m" "0 \<le> limit (cha_messages c)"
    and "\<forall>x \<in> set msgs. has_text x" "distinct (map raw_time msgs)"
    and "\<forall>x \<in> set msgs. raw_time x \<notin> mes_message_timestamp ` set (entries (cha_messages c))"
  shows "\<exists>m'. cha_add_messages c msgs m =
     (0, c\<lparr>cha_messages := (cha_messages c)\<lparr>entries :=
             last_n (nat (limit (cha_messages c))) (entries (cha_messages c) @ map message_of msgs)\<rparr>,
           cha_unread := cha_unread c +
             of_nat (length (newer (cha_read_timestamp c) (last_n (nat (limit (cha_messages c))) msgs)))\<rparr>, m')"
proof -
  define L where "L = limit (cha_messages c)"
  define old where "old = entries (cha_messages c)"
  define k where "k = length msgs - nat L"
  define kept where "kept = drop k msgs"
  define g where "g = length old + length kept - nat L"
  have bound: "int (length old) \<le> L"
    using wf assms(3) by (simp add: chat_wf_def keyed_wf_def L_def old_def)
  have klen: "length kept \<le> nat L" by (simp add: kept_def k_def)
  let ?c1 = "c\<lparr>cha_messages := (cha_messages c)\<lparr>entries := drop g old\<rparr>\<rparr>"
  have i: "(if L < int (length msgs) then int (length msgs) - L else 0) = int k"
    using assms(3) by (auto simp: k_def L_def)
  have gaps: "int (length msgs) - int k - (L - int (length old)) = int (length old) + int (length kept) - L"
    using assms(3) by (auto simp: kept_def k_def L_def)
  have drop0: "g = 0" if "int (length old) + int (length kept) - L \<le> 0"
    using that assms(3) by (simp add: g_def L_def)
  have dropg: "nat (int (length old) + int (length kept) - L) = g"
    using assms(3) by (simp add: g_def L_def nat_diff_distrib)
  have same: "?c1 = c" if "g = 0" using that by (simp add: old_def)
  have run: "cha_add_messages c msgs m = add_messages_loop (int k) kept ?c1 m"
  proof -
    have "cha_add_messages c msgs m = add_messages_loop (int k) kept
      (if 0 < int (length old) + int (length kept) - L
       then c\<lparr>cha_messages := mes_del_first_messages (cha_messages c) (int (length old) + int (length kept) - L)\<rparr>
       else c) m"
      by (simp only: cha_add_messages_def Let_def mes_max_elems_def mes_list_gaps_def cl_gaps_def
          L_def [symmetric] old_def [symmetric] i gaps kept_def nat_int)
    also have "\<dots> = add_messages_loop (int k) kept ?c1 m"
    proof (cases "0 < int (length old) + int (length kept) - L")
      case True
      then show ?thesis
        by (simp add: mes_del_first_messages_def cl_delete_first_def dropg old_def [symmetric])
    next
      case False
      then have "?c1 = c" using drop0 same by (simp only: not_less)
      then show ?thesis by (simp only: False if_False)
    qed
    finally show ?thesis .
  qed
  have "\<exists>m'. add_messages_loop (int k) kept ?c1 m =
     (0, ?c1\<lparr>cha_messages := (cha_messages ?c1)\<lparr>entries := entries (cha_messages ?c1) @ map message_of kept\<rparr>,
           cha_unread := cha_unread ?c1 + of_nat (length (newer (cha_read_timestamp ?c1) kept))\<rparr>, m')"
  proof (rule add_messages_loop_all)
    show "\<forall>x \<in> set kept. raw_time x \<notin> mes_message_timestamp ` set (entries (cha_messages ?c1))"
      using assms(6) by (auto simp: kept_def old_def dest: in_set_dropD)
    show "int (length (entries (cha_messages ?c1)) + length kept) \<le> limit (cha_messages ?c1)"
      using klen assms(3) bound by (simp add: g_def L_def)
  qed (use assms in \<open>auto simp: kept_def distinct_map_drop dest: in_set_dropD\<close>)
  moreover have "last_n (nat L) (old @ map message_of msgs) = drop g old @ map message_of kept"
    by (cases "nat L \<le> length msgs") (simp_all add: last_n_def g_def kept_def k_def drop_map)
  moreover have "last_n (nat L) msgs = kept" by (simp add: last_n_def kept_def k_def)
  ultimately show ?thesis by (simp add: run L_def old_def)
qed

end
