(* ===== verification/Client_Data.thy ===== *)
theory Client_Data
  imports Friend_Requests Chats
begin

text \<open>
  The client's data as a whole: its friends, the pending friend requests and its chats (the
  fields of \<open>psd_ims_client\<close> that hold lists), with a step for every operation of the five
  containers that changes them.  A step on one chat goes through the pointer that
  \<open>cha_find_chat\<close> returns.
\<close>

record client_data =
  cl_friends :: friends
  cl_requests :: friend_requests
  cl_chats :: chats

section \<open>Writing through the pointer to a chat\<close>

definition put_chat :: "cint \<Rightarrow> chat_info \<Rightarrow> chats \<Rightarrow> chats" where
  "put_chat i c l = l\<lparr>entries := map (\<lambda>x. if cha_id x = i then c else x) (entries l)\<rparr>"

lemma put_chat_wf:
  assumes "chats_wf l" "chat_wf c" "cha_id c = i"
  shows "chats_wf (put_chat i c l)"
proof -
  have "map cha_id (map (\<lambda>x. if cha_id x = i then c else x) (entries l)) = map cha_id (entries l)"
    using assms(3) by simp
  then show ?thesis using assms by (auto simp: chats_wf_def keyed_wf_def put_chat_def simp del: map_map)
qed

lemma find_put_chat:
  assumes "cha_find_chat l i = Some c0" "cha_id c = i"
  shows "cha_find_chat (put_chat i c l) j = (if j = i then Some c else cha_find_chat l j)"
proof -
  have other: "List.find (\<lambda>x. cha_id x = j) (map (\<lambda>x. if cha_id x = i then c else x) xs) =
    List.find (\<lambda>x. cha_id x = j) xs" if "j \<noteq> i" for xs
    using that assms(2) by (induction xs) auto
  have same: "List.find (\<lambda>x. cha_id x = i) (map (\<lambda>x. if cha_id x = i then c else x) xs) = Some c"
    if "List.find (\<lambda>x. cha_id x = i) xs \<noteq> None" for xs
    using that assms(2) by (induction xs) auto
  show ?thesis
    using assms other same
    by (cases "j = i") (simp_all add: cha_find_chat_def cl_find_def put_chat_def chat_id_comp_def)
qed

section \<open>Steps\<close>

inductive chat_step :: "chat_info \<Rightarrow> chat_info \<Rightarrow> bool" where
  message: "cha_add_message c s x t a (m :: mem) = (r, c', m') \<Longrightarrow> chat_step c c'"
| messages: "cha_add_messages c msgs (m :: mem) = (r, c', m') \<Longrightarrow> chat_step c c'"
| member_in: "cha_add_member c f n (m :: mem) = (r, c', m') \<Longrightarrow> chat_step c c'"
| member_out: "cha_del_member c n = (r, c') \<Longrightarrow> chat_step c c'"
| admin: "cha_change_admin c n (m :: mem) = (r, c', m') \<Longrightarrow> chat_step c c'"
| read: "chat_step c (cha_clear_unread c)"
| all_read: "chat_step c (cha_set_all_read_timestamp c t)"
| pending: "chat_step c (cha_set_pending c n)"
| more_pending: "chat_step c (cha_update_pending c n)"
| unread: "chat_step c (cha_set_unread c n)"
| more_unread: "chat_step c (cha_update_unread c n)"
| members_time: "chat_step c (cha_set_members_timestamp c t)"
| messages_time: "chat_step c (cha_set_messages_timestamp c t)"

lemmas chat_field_defs = cha_clear_unread_def cha_set_all_read_timestamp_def cha_set_pending_def
  cha_update_pending_def cha_set_unread_def cha_update_unread_def cha_set_members_timestamp_def
  cha_set_messages_timestamp_def member_set_timestamp_def mes_set_timestamp_def

inductive client_step :: "client_data \<Rightarrow> client_data \<Rightarrow> bool" where
  friend_in: "fri_add_friend (cl_friends d) n i (m :: mem) = (r, fs, m') \<Longrightarrow> client_step d (d\<lparr>cl_friends := fs\<rparr>)"
| friend_out: "fri_del_friend (cl_friends d) n = (r, fs) \<Longrightarrow> client_step d (d\<lparr>cl_friends := fs\<rparr>)"
| friends_time: "client_step d (d\<lparr>cl_friends := fri_set_timestamp (cl_friends d) t\<rparr>)"
| request_in: "req_add_request (cl_requests d) n t (m :: mem) = (r, rs, m') \<Longrightarrow> client_step d (d\<lparr>cl_requests := rs\<rparr>)"
| request_out: "req_del_request (cl_requests d) n = (r, rs) \<Longrightarrow> client_step d (d\<lparr>cl_requests := rs\<rparr>)"
| requests_time: "client_step d (d\<lparr>cl_requests := req_list_set_timestamp (cl_requests d) t\<rparr>)"
| chats_time: "client_step d (d\<lparr>cl_chats := cha_set_timestamp (cl_chats d) t\<rparr>)"
| chat_in: "cha_add_chat (cl_chats d) i t a mbs mm mx rt art (m :: mem) = (r, cs, m') \<Longrightarrow> client_step d (d\<lparr>cl_chats := cs\<rparr>)"
| chat_out: "cha_del_chat (cl_chats d) i = (r, cs) \<Longrightarrow> client_step d (d\<lparr>cl_chats := cs\<rparr>)"
| chat: "cha_find_chat (cl_chats d) i = Some c \<Longrightarrow> chat_step c c' \<Longrightarrow>
    client_step d (d\<lparr>cl_chats := put_chat i c' (cl_chats d)\<rparr>)"

inductive_cases chat_stepE: "chat_step c c'"
inductive_cases client_stepE: "client_step d d'"

definition client_wf :: "client_data \<Rightarrow> bool" where
  "client_wf d \<longleftrightarrow> friends_wf (cl_friends d) \<and> requests_wf (cl_requests d) \<and> chats_wf (cl_chats d)"

definition client_new :: "int \<Rightarrow> int \<Rightarrow> int \<Rightarrow> client_data" where
  "client_new nf nr nc = \<lparr>cl_friends = \<lparr>entries = [], limit = nf, stamp = 0\<rparr>,
     cl_requests = \<lparr>entries = [], limit = nr, stamp = 0\<rparr>, cl_chats = \<lparr>entries = [], limit = nc, stamp = 0\<rparr>\<rparr>"

lemma add_messages_loop_id: "add_messages_loop i msgs c m = (r, c', m') \<Longrightarrow> cha_id c' = cha_id c"
proof (induction msgs arbitrary: i c m)
  case (Cons a msgs)
  obtain s x t p where a: "a = (s, x, t, p)" by (metis prod_cases4)
  obtain r1 ms1 m1 where add: "mes_add_message (cha_messages c) s x t p m = (r1, ms1, m1)"
    by (metis prod_cases3)
  from Cons.prems show ?case
    by (auto simp: a add Let_def split: if_splits dest!: Cons.IH)
qed simp

lemma chat_step_id: "chat_step c c' \<Longrightarrow> cha_id c' = cha_id c"
proof (erule chat_stepE)
  fix msgs m r m' assume "cha_add_messages c msgs m = (r, c', m')"
  then show ?thesis unfolding cha_add_messages_def Let_def
    by (auto dest!: add_messages_loop_id split: if_splits)
qed (auto simp: cha_add_message_def cha_add_member_def cha_del_member_def cha_change_admin_def
    chat_field_defs Let_def malloc_def split: prod.splits if_splits)

lemma chat_step_wf: "chat_step c c' \<Longrightarrow> chat_wf c \<Longrightarrow> chat_wf c'"
  by (erule chat_stepE)
    (auto dest: cha_add_message_wf cha_add_messages_wf cha_add_member_wf cha_del_member_wf cha_change_admin_wf
      simp: chat_field_defs chat_wf_def)

lemma find_chat_set: "cha_find_chat l i = Some c \<Longrightarrow> c \<in> set (entries l) \<and> cha_id c = i"
  unfolding cha_find_chat_def by (drule chats.find_Some) simp

lemma client_step_wf:
  assumes "client_step d d'" "client_wf d"
  shows "client_wf d'"
  using assms
proof cases
  case (chat i c c')
  have "chat_wf c" "cha_id c = i"
    using find_chat_set [OF chat(2)] assms(2) by (auto simp: client_wf_def chats_wf_def)
  then have "chats_wf (put_chat i c' (cl_chats d))"
    using assms(2) chat_step_id [OF chat(3)] chat_step_wf [OF chat(3)]
    by (intro put_chat_wf) (auto simp: client_wf_def)
  with chat assms(2) show ?thesis by (simp add: client_wf_def)
qed (use assms(2) in \<open>auto simp: client_wf_def fri_set_timestamp_def req_list_set_timestamp_def
    cha_set_timestamp_def chats_wf_def
    dest: fri_add_friend_wf fri_del_friend_wf req_add_request_wf req_del_request_wf cha_add_chat_wf cha_del_chat_wf\<close>)

lemma client_new_wf: "client_wf (client_new nf nr nc)"
  by (simp add: client_wf_def client_new_def chats_wf_def keyed_wf_def)

lemma client_steps_wf: "client_step\<^sup>*\<^sup>* d d' \<Longrightarrow> client_wf d \<Longrightarrow> client_wf d'"
  by (induction rule: rtranclp_induct) (auto dest: client_step_wf)

section \<open>A batch of messages that fails half way\<close>

lemma add_messages_loop_append:
  "add_messages_loop i (as @ bs) c m =
     (case add_messages_loop i as c m of (r, c1, m1) \<Rightarrow>
        if r = 0 then add_messages_loop (i + int (length as)) bs c1 m1 else (r, c1, m1))"
proof (induction as arbitrary: i c m)
  case (Cons a as)
  obtain s x t p where a: "a = (s, x, t, p)" by (metis prod_cases4)
  obtain r1 ms1 m1 where add: "mes_add_message (cha_messages c) s x t p m = (r1, ms1, m1)"
    by (metis prod_cases3)
  have len: "i + int (length (a # as)) = i + 1 + int (length as)" by simp
  show ?case unfolding len append_Cons by (simp add: a add Let_def Cons.IH)
qed simp

lemma cha_add_messages_room:
  assumes "int (length (entries (cha_messages c)) + length msgs) \<le> limit (cha_messages c)"
  shows "cha_add_messages c msgs m = add_messages_loop 0 msgs c m"
  using assms
  by (auto simp: cha_add_messages_def Let_def mes_max_elems_def mes_list_gaps_def cl_gaps_def)

section \<open>Properties\<close>

text \<open>Whatever sequence of operations the client performs on its lists, and whichever
  allocations fail, no two friends or requests share a name, no two chats an id, no two
  members of a chat a name, no two messages of a chat a timestamp, and no list grows beyond
  its limit.\<close>

theorem client_data_invariant:
  assumes "client_step\<^sup>*\<^sup>* (client_new nf nr nc) d"
  shows "client_wf d"
  using client_steps_wf [OF assms client_new_wf] .

lemma client_data_invariant_witness:
  "\<exists>d. cl_friends d = \<lparr>entries = [\<lparr>fri_name = ''ana'', fri_information = ''hi''\<rparr>], limit = 5, stamp = 0\<rparr> \<and> client_wf d"
proof -
  let ?m = "\<lparr>avail = \<lambda>_. True, brk = 0\<rparr>"
  let ?d = "client_new 5 5 5"
  have "fri_add_friend (cl_friends ?d) ''ana'' ''hi'' ?m =
      (0, \<lparr>entries = [\<lparr>fri_name = ''ana'', fri_information = ''hi''\<rparr>], limit = 5, stamp = 0\<rparr>, \<lparr>avail = \<lambda>_. True, brk = 4\<rparr>)"
    by (simp add: fri_add_friend_def malloc_def cl_add_def client_new_def)
  then have "client_step ?d (?d\<lparr>cl_friends := \<lparr>entries = [\<lparr>fri_name = ''ana'', fri_information = ''hi''\<rparr>], limit = 5, stamp = 0\<rparr>\<rparr>)"
    by (rule client_step.friend_in)
  from client_data_invariant [OF r_into_rtranclp, OF this] show ?thesis by (intro exI conjI) simp_all
qed

text \<open>C40. \<open>cha_add_messages\<close> on a batch of new messages, with memory available: the chat
  retains the most recent \<open>max_elems\<close> of its old messages followed by the batch, in order,
  and the unread counter grows by the number of the retained new messages that are newer than
  the read mark.\<close>

theorem cha_add_messages_keeps_latest:
  assumes "chat_wf c" "plenty m" "0 \<le> limit (cha_messages c)"
    and "\<forall>x \<in> set msgs. has_text x" "distinct (map raw_time msgs)"
    and "\<forall>x \<in> set msgs. raw_time x \<notin> mes_message_timestamp ` set (entries (cha_messages c))"
  shows "\<exists>m'. cha_add_messages c msgs m =
     (0, c\<lparr>cha_messages := (cha_messages c)\<lparr>entries :=
             last_n (nat (limit (cha_messages c))) (entries (cha_messages c) @ map message_of msgs)\<rparr>,
           cha_unread := cha_unread c +
             of_nat (length (newer (cha_read_timestamp c) (last_n (nat (limit (cha_messages c))) msgs)))\<rparr>, m')"
  using assms by (rule cha_add_messages_spec)

definition example_chat :: "message_info list \<Rightarrow> chat_info" where
  "example_chat ms = \<lparr>cha_id = 7, cha_description = ''d'', cha_read_timestamp = 2, cha_all_read_timestamp = 0,
     cha_unread = 0, cha_pending = 0, cha_admin = None, cha_members = \<lparr>entries = [], limit = 5, stamp = 0\<rparr>,
     cha_messages = \<lparr>entries = ms, limit = 2, stamp = 0\<rparr>\<rparr>"

lemma cha_add_messages_keeps_latest_witness:
  "\<exists>m'. cha_add_messages (example_chat [new_message None ''a'' 1 None])
      [(None, Some ''b'', 2, None), (None, Some ''c'', 3, None)] \<lparr>avail = \<lambda>_. True, brk = 0\<rparr> =
    (0, example_chat [new_message None ''b'' 2 None, new_message None ''c'' 3 None]\<lparr>cha_unread := 1\<rparr>, m')"
  using cha_add_messages_keeps_latest [of "example_chat [new_message None ''a'' 1 None]"
      "\<lparr>avail = \<lambda>_. True, brk = 0\<rparr>" "[(None, Some ''b'', 2, None), (None, Some ''c'', 3, None)]"]
  by (simp add: example_chat_def chat_wf_def keyed_wf_def plenty_def has_text_def raw_time_def last_n_def newer_def)

text \<open>When a message of the batch cannot be added (here: it has no text), the messages
  before it stay in the chat and remain counted as unread, although the call returns -1: the
  roll-back through \<open>mes_del_last_messages\<close> has no effect.\<close>

theorem cha_add_messages_no_rollback:
  assumes "plenty m" "\<forall>x \<in> set good. has_text x" "\<not> has_text bad" "distinct (map raw_time good)"
    and "\<forall>x \<in> set good. raw_time x \<notin> mes_message_timestamp ` set (entries (cha_messages c))"
    and "int (length (entries (cha_messages c)) + length (good @ bad # rest)) \<le> limit (cha_messages c)"
  shows "\<exists>m'. cha_add_messages c (good @ bad # rest) m =
     (-1, c\<lparr>cha_messages := (cha_messages c)\<lparr>entries := entries (cha_messages c) @ map message_of good\<rparr>,
            cha_unread := cha_unread c + of_nat (length (newer (cha_read_timestamp c) good))\<rparr>, m')"
proof -
  obtain s t p where bad: "bad = (s, None, t, p)" using assms(3) by (cases bad) (auto simp: has_text_def)
  obtain m1 where "add_messages_loop 0 good c m =
     (0, c\<lparr>cha_messages := (cha_messages c)\<lparr>entries := entries (cha_messages c) @ map message_of good\<rparr>,
           cha_unread := cha_unread c + of_nat (length (newer (cha_read_timestamp c) good))\<rparr>, m1)"
    using add_messages_loop_all [of m good c 0] assms by auto
  then show ?thesis
    using assms(6)
    by (simp add: cha_add_messages_room add_messages_loop_append bad mes_add_message_def mes_del_last_messages_def)
qed

lemma cha_add_messages_no_rollback_witness:
  "\<exists>m'. cha_add_messages (example_chat []) [(None, Some ''b'', 3, None), (None, None, 4, None)] \<lparr>avail = \<lambda>_. True, brk = 0\<rparr> =
    (-1, example_chat [new_message None ''b'' 3 None]\<lparr>cha_unread := 1\<rparr>, m')"
  using cha_add_messages_no_rollback [of "\<lparr>avail = \<lambda>_. True, brk = 0\<rparr>" "[(None, Some ''b'', 3, None)]"
      "(None, None, 4, None)" "example_chat []" "[]"]
  by (simp add: example_chat_def plenty_def has_text_def raw_time_def newer_def)

text \<open>A successful \<open>cha_add_chat\<close> makes exactly one new chat findable, with the given
  members in order, no message and no unread count, and changes no other chat; after
  \<open>cha_del_chat\<close> it is not found and the others are.\<close>

theorem cha_find_after_add_and_del:
  assumes "chats_wf l" "cha_add_chat l i d a mbs mm mx rt art m = (0, l', m')"
  shows "\<exists>c. (\<forall>j. cha_find_chat l' j = (if j = i then Some c else cha_find_chat l j)) \<and>
      map member_name (entries (cha_members c)) = map fst mbs \<and> entries (cha_messages c) = [] \<and>
      cha_description c = d \<and> cha_admin c = Some a \<and> cha_unread c = 0 \<and> chat_wf c \<and>
      (\<exists>l''. cha_del_chat l' i = (0, l'') \<and> (\<forall>j. cha_find_chat l'' j = (if j = i then None else cha_find_chat l j)))"
  using assms(2)
proof (cases rule: cha_add_chat_cases)
  case (added c m0)
  have wf': "keyed_wf cha_id l'"
    using chats.add_wf [OF added(2)] assms(1) by (simp add: chats_wf_def)
  have find: "cha_find_chat l' j = (if j = i then Some c else cha_find_chat l j)" for j
    using chats.find_after_add [OF added(2)] added(4) by (simp add: cha_find_chat_def)
  have "i \<in> cha_id ` set (entries l')"
    using find [of i] by (auto dest!: find_chat_set)
  then obtain l'' where del: "cl_delete chat_id_comp i l' = (0, l'')"
    using chats.delete_entries [OF wf'] by blast
  have "cha_find_chat l'' j = (if j = i then None else cha_find_chat l j)" for j
    using chats.find_after_delete [OF wf' del] find by (simp add: cha_find_chat_def)
  moreover have "map member_name (entries (cha_members c)) = map fst mbs"
    by (simp add: added case_prod_beta o_def)
  ultimately show ?thesis
    using find del added by (intro exI [of _ c]) (auto simp: cha_del_chat_def)
qed simp

lemma cha_find_after_add_and_del_witness:
  "\<exists>l (m :: mem) c. cha_add_chat \<lparr>entries = [], limit = 5, stamp = 0\<rparr> 3 ''d'' ''ana'' [(''bob'', None)] 5 5 0 0
      \<lparr>avail = \<lambda>_. True, brk = 0\<rparr> = (0, l, m) \<and> cha_find_chat l 3 = Some c \<and> map member_name (entries (cha_members c)) = [''bob'']"
proof -
  obtain l and m :: mem where run: "cha_add_chat \<lparr>entries = [], limit = 5, stamp = 0\<rparr> 3 ''d'' ''ana'' [(''bob'', None)] 5 5 0 0
      \<lparr>avail = \<lambda>_. True, brk = 0\<rparr> = (0, l, m)"
    by (simp add: cha_add_chat_def malloc_def members_new_def mes_new_def cl_new_def members_add_member_def cl_add_def)
  from cha_find_after_add_and_del [OF _ run] obtain c where
    "cha_find_chat l 3 = Some c" "map member_name (entries (cha_members c)) = [''bob'']"
    by (auto simp: chats_wf_def keyed_wf_def)
  with run show ?thesis by (intro exI conjI)
qed

end
