(* ===== verification/Sql.thy ===== *)
theory Sql
  imports IMS_Prelude
begin

text \<open>
  The SQL statements that \<open>server/persistence.c\<close> builds, as text.  A constructor of
  \<open>stmt\<close> stands for the statement of one function; \<open>sql_head\<close> is the initial content of
  the buffer \<open>consulta\<close>, \<open>sql_text\<close> the text after all the \<open>strcat\<close>s.  The program does
  not escape its arguments; \<open>sql_clean\<close> says that no string argument can end the quoted
  value it is put into.  For clean statements the text can be read back (\<open>decode\<close>), so it
  determines the statement.
\<close>

section \<open>Statements and their text\<close>

abbreviation quo :: string where
  "quo \<equiv> [CHR 0x27]"

datatype (plugins only: code size) stmt =
    Ins_user string string string \<comment> \<open>\<open>add_user\<close>\<close>
  | Upd_user_invalid string \<comment> \<open>\<open>del_user\<close>\<close>
  | Sel_user_valid string \<comment> \<open>\<open>user_exist\<close>\<close>
  | Sel_user_entry string \<comment> \<open>\<open>user_entry_exist\<close>\<close>
  | Sel_user_pass string \<comment> \<open>\<open>get_user_pass\<close>\<close>
  | Sel_user_id string \<comment> \<open>\<open>get_user_id\<close>\<close>
  | Sel_user_name cint \<comment> \<open>\<open>get_user_name\<close>\<close>
  | Sel_user_info cint \<comment> \<open>\<open>get_user_info\<close>\<close>
  | Sel_chat_admin cint \<comment> \<open>\<open>get_id_admin_chat\<close>\<close>
  | Sel_chat_description cint \<comment> \<open>\<open>get_chat_info\<close>\<close>
  | Sel_member cint cint \<comment> \<open>\<open>exist_user_in_chat\<close>\<close>
  | Sel_member_entry cint cint \<comment> \<open>\<open>exist_user_entry_in_chat\<close>\<close>
  | Sel_chat_valid cint \<comment> \<open>\<open>chat_exist\<close>\<close>
  | Sel_friends cint cint \<comment> \<open>\<open>get_list_friends\<close>\<close>
  | Sel_members cint cint \<comment> \<open>\<open>get_member_list_chats\<close>\<close>
  | Sel_messages cint cint cint \<comment> \<open>\<open>get_list_messages\<close>\<close>
  | Upd_leave_all cint cint \<comment> \<open>\<open>del_user_all_chats\<close>\<close>
  | Sel_chats cint cint \<comment> \<open>\<open>get_list_chats\<close>\<close>
  | Sel_message_time cint cint \<comment> \<open>\<open>exist_timestamp_in_messages\<close>\<close>
  | Ins_message cint cint "string option" string cint \<comment> \<open>\<open>send_messages\<close>\<close>
  | Del_request cint cint \<comment> \<open>\<open>decline_friend_request\<close>\<close>
  | Ins_friend cint cint cint \<comment> \<open>\<open>accept_friend_request\<close>\<close>
  | Ins_request cint cint cint \<comment> \<open>\<open>send_request\<close>\<close>
  | Sel_request cint cint \<comment> \<open>\<open>exist_request\<close>\<close>
  | Sel_friendship cint cint \<comment> \<open>\<open>exist_friendly\<close>\<close>
  | Del_friend cint cint \<comment> \<open>\<open>del_friends\<close>\<close>
  | Ins_member cint cint cint cint \<comment> \<open>\<open>add_user_chat\<close>\<close>
  | Ins_chat cint string cint \<comment> \<open>\<open>add_chat\<close>\<close>
  | Upd_chat_invalid cint \<comment> \<open>\<open>del_chat\<close>\<close>
  | Upd_rejoin cint cint cint \<comment> \<open>\<open>recover_user_chat\<close>\<close>
  | Upd_leave cint cint cint \<comment> \<open>\<open>del_user_chat\<close>\<close>
  | Upd_admin cint cint cint \<comment> \<open>\<open>change_admin\<close>\<close>
  | Sel_admin cint cint \<comment> \<open>\<open>is_admin\<close>\<close>
  | Sel_still_users cint \<comment> \<open>\<open>still_users_in_chat\<close>\<close>
  | Sel_first_users cint \<comment> \<open>\<open>get_first_users_in_chat\<close>\<close>
  | Sel_chat_all cint cint \<comment> \<open>\<open>get_all_chat_info\<close>\<close>
  | Sel_file cint cint cint \<comment> \<open>\<open>get_file\<close>\<close>
  | Sel_can_attach cint cint cint \<comment> \<open>\<open>message_can_attach\<close>\<close>
  | Sel_have_attach cint cint cint \<comment> \<open>\<open>message_have_attach\<close>\<close>
  | Upd_read cint cint cint \<comment> \<open>\<open>update_sync\<close>\<close>
  | Upd_all_read cint cint \<comment> \<open>\<open>update_sync\<close>\<close>
  | Sel_notif_messages cint cint \<comment> \<open>\<open>get_notif_chats_with_messages\<close>\<close>
  | Sel_notif_read cint \<comment> \<open>\<open>get_notif_chats_read_times\<close>\<close>
  | Sel_notif_requests cint cint \<comment> \<open>\<open>get_notif_friend_requests\<close>\<close>
  | Sel_notif_members cint cint \<comment> \<open>\<open>get_notif_chat_members\<close>\<close>
  | Sel_notif_removed cint cint \<comment> \<open>\<open>get_notif_chat_rem_members\<close>\<close>
  | Sel_notif_admins cint cint \<comment> \<open>\<open>get_notif_chat_admins\<close>\<close>

text \<open>The value of the column \<open>FILE_\<close> in the text of \<open>send_messages\<close>, up to the quote that
  opens the message's text.\<close>

definition file_value :: "string option \<Rightarrow> string" where
  "file_value f =
     (case f of None \<Rightarrow> '', NULL ,'' @ quo
      | Some name \<Rightarrow> '','' @ quo @ name @ quo @ '','' @ quo)"

primrec sql_head :: "stmt \<Rightarrow> string" where
  "sql_head (Ins_user name pass info) = ''INSERT INTO users(NAME,PASS,INFORMATION, VALID) VALUES('' @ quo"
| "sql_head (Upd_user_invalid name) = ''UPDATE users SET VALID = 0 where NAME = '' @ quo"
| "sql_head (Sel_user_valid name) = ''SELECT * FROM users where ((NAME = '' @ quo"
| "sql_head (Sel_user_entry name) = ''SELECT * FROM users where ((NAME = '' @ quo"
| "sql_head (Sel_user_pass name) = ''SELECT PASS FROM users where ((NAME = '' @ quo"
| "sql_head (Sel_user_id name) = ''SELECT ID FROM users where ((NAME = '' @ quo"
| "sql_head (Sel_user_name user) = ''SELECT NAME FROM users where ID = '' @ quo"
| "sql_head (Sel_user_info user) = ''SELECT INFORMATION FROM users where ID = '' @ quo"
| "sql_head (Sel_chat_admin chat) = ''SELECT ID_ADMIN FROM chats where ID = '' @ quo"
| "sql_head (Sel_chat_description chat) = ''SELECT DESCRIPTION FROM chats where ID = '' @ quo"
| "sql_head (Sel_member user chat) = ''SELECT * FROM users_chats where ((ID_USERS = ''"
| "sql_head (Sel_member_entry user chat) = ''SELECT * FROM users_chats where ((ID_USERS = ''"
| "sql_head (Sel_chat_valid chat) = ''SELECT * FROM chats where ((ID = '' @ quo"
| "sql_head (Sel_friends user t) = ''select DISTINCT users.NAME, users.INFORMATION from users INNER JOIN friends on ( (friends.ID1 = users.ID ) OR (friends.ID2 = users.ID )) where ( ((friends.ID1 = ''"
| "sql_head (Sel_members chat t) = ''select NAME from users INNER JOIN users_chats on (users_chats.ID_USERS = users.ID) where ((users_chats.ID_CHAT = ''"
| "sql_head (Sel_messages chat user t) = ''SELECT DISTINCT users.NAME, messages.TEXT, messages.CREATION_TIME, messages.FILE_ FROM messages LEFT JOIN users_chats on ( messages.ID_CHAT = users_chats.ID_CHAT) LEFT JOIN users on (messages.ID_SENDER = users.ID) where (messages.CREATION_TIME > users_chats.CREATION_TIME AND messages.ID_CHAT = ''"
| "sql_head (Upd_leave_all user t) = ''UPDATE users_chats set REM_TIME = ''"
| "sql_head (Sel_chats user t) = ''select chats.ID, chats.DESCRIPTION, users.NAME, users_chats.READ_MSG_TIME, chats.CREATION_TIME, chats.READ_TIME from chats INNER JOIN users_chats on (users_chats.ID_CHAT = chats.ID) INNER JOIN users on (users.ID = chats.ID_ADMIN ) where ((users_chats.ID_USERS = ''"
| "sql_head (Sel_message_time chat t) = ''SELECT CREATION_TIME from messages where ((ID_CHAT = ''"
| "sql_head (Ins_message user chat file txt t) = ''INSERT INTO messages(ID_SENDER, ID_CHAT, FILE_, TEXT, CREATION_TIME) VALUES(''"
| "sql_head (Del_request user1 user2) = ''DELETE FROM friends_request where (ID1 =''"
| "sql_head (Ins_friend user1 user2 t) = ''INSERT INTO friends(ID1, ID2, CREATION_TIME) VALUES(''"
| "sql_head (Ins_request user1 user2 t) = ''INSERT INTO friends_request(ID1,ID2_request,CREATION_TIME) VALUES(''"
| "sql_head (Sel_request user1 user2) = ''SELECT * FROM friends_request where (ID1 = ''"
| "sql_head (Sel_friendship user1 user2) = ''SELECT * FROM friends where ((ID1 = ''"
| "sql_head (Del_friend user1 user2) = ''DELETE FROM friends where (ID1 =''"
| "sql_head (Ins_member user chat t read) = ''INSERT INTO users_chats(ID_USERS,ID_CHAT,CREATION_TIME, READ_MSG_TIME, REM_TIME) VALUES(''"
| "sql_head (Ins_chat user desc t) = ''INSERT INTO chats(ID_ADMIN,DESCRIPTION,CREATION_TIME, ADMIN_TIME, VALID, READ_TIME) VALUES(''"
| "sql_head (Upd_chat_invalid chat) = ''UPDATE chats set VALID = 0 where ID = ''"
| "sql_head (Upd_rejoin user chat t) = ''UPDATE users_chats set REM_TIME = 0, CREATION_TIME = ''"
| "sql_head (Upd_leave user chat t) = ''UPDATE users_chats set REM_TIME = ''"
| "sql_head (Upd_admin user chat t) = ''UPDATE chats SET ID_ADMIN=''"
| "sql_head (Sel_admin user chat) = ''SELECT * FROM chats where(ID_ADMIN=''"
| "sql_head (Sel_still_users chat) = ''SELECT * FROM users_chats where ((ID_CHAT=''"
| "sql_head (Sel_first_users chat) = ''SELECT * FROM users_chats where ((ID_CHAT=''"
| "sql_head (Sel_chat_all chat t) = ''SELECT users.NAME, chats.DESCRIPTION, chats.READ_TIME FROM chats INNER JOIN users on (users.ID = chats.ID_ADMIN) where ((chats.ID = ''"
| "sql_head (Sel_file user chat t) = ''SELECT FILE_ FROM messages WHERE (''"
| "sql_head (Sel_can_attach user chat t) = ''SELECT FILE_ FROM messages WHERE (''"
| "sql_head (Sel_have_attach user chat t) = ''SELECT messages.FILE_ FROM users_chats LEFT JOIN messages on (users_chats.ID_CHAT = messages.ID_CHAT and messages.CREATION_TIME >= users_chats.CREATION_TIME) WHERE (''"
| "sql_head (Upd_read user chat t) = ''UPDATE users_chats set READ_MSG_TIME = ''"
| "sql_head (Upd_all_read chat t) = ''UPDATE chats set READ_TIME = ''"
| "sql_head (Sel_notif_messages user t) = ''select DISTINCT users_chats.ID_CHAT from users_chats INNER JOIN messages on (users_chats.ID_CHAT = messages.ID_CHAT) where (users_chats.REM_TIME = 0) and (messages.CREATION_TIME > users_chats.CREATION_TIME) and (users_chats.ID_USERS = ''"
| "sql_head (Sel_notif_read user) = ''select chats.ID, chats.READ_TIME from users_chats LEFT JOIN chats on (users_chats.ID_CHAT = chats.ID) where (users_chats.ID_USERS = ''"
| "sql_head (Sel_notif_requests user t) = ''select users.NAME, friends_request.CREATION_TIME from users INNER JOIN friends_request on (users.ID = friends_request.ID1) where (friends_request.ID2_request = '' @ quo"
| "sql_head (Sel_notif_members user t) = ''select users.NAME, member.ID_CHAT, member.CREATION_TIME from users_chats as member  INNER JOIN users_chats as user on (member.ID_CHAT = user.ID_CHAT) INNER JOIN users on (member.ID_USERS = users.ID)where (user.ID_USERS =  ''"
| "sql_head (Sel_notif_removed user t) = ''select users.NAME, member.ID_CHAT, member.CREATION_TIME from users_chats as member  INNER JOIN users_chats as user on (member.ID_CHAT = user.ID_CHAT) INNER JOIN users on (member.ID_USERS = users.ID)where (user.ID_USERS =  ''"
| "sql_head (Sel_notif_admins user t) = ''select users.NAME, chat_admin.ID, chat_admin.ADMIN_TIME from chats as chat_admin  INNER JOIN users_chats as user on (chat_admin.ID = user.ID_CHAT) INNER JOIN users on (chat_admin.ID_ADMIN = users.ID)where (user.ID_USERS =  ''"

text \<open>What the \<open>strcat\<close>s append.\<close>

primrec sql_tail :: "stmt \<Rightarrow> string" where
  "sql_tail (Ins_user name pass info) =
     name @ quo @ '','' @ quo @ pass @ quo @ '','' @ quo @ info @ quo @ '',1);''"
| "sql_tail (Upd_user_invalid name) =
     name @ quo @ '';''"
| "sql_tail (Sel_user_valid name) =
     name @ quo @ '') and (VALID = 1));''"
| "sql_tail (Sel_user_entry name) =
     name @ quo @ ''));''"
| "sql_tail (Sel_user_pass name) =
     name @ quo @ '') and (VALID = 1));''"
| "sql_tail (Sel_user_id name) =
     name @ quo @ '') and (VALID = 1));''"
| "sql_tail (Sel_user_name user) =
     str_d user @ quo @ '';''"
| "sql_tail (Sel_user_info user) =
     str_d user @ quo @ '';''"
| "sql_tail (Sel_chat_admin chat) =
     str_d chat @ quo @ '';''"
| "sql_tail (Sel_chat_description chat) =
     str_d chat @ quo @ '';''"
| "sql_tail (Sel_member user chat) =
     str_d user @ '') AND (ID_CHAT = '' @ str_d chat @ '') AND (REM_TIME = 0));''"
| "sql_tail (Sel_member_entry user chat) =
     str_d user @ '') AND (ID_CHAT = '' @ str_d chat @ ''));''"
| "sql_tail (Sel_chat_valid chat) =
     str_d chat @ quo @ '') and (VALID = 1));''"
| "sql_tail (Sel_friends user t) =
     str_d user @ '') or (friends.ID2 = '' @ str_d user @ '')) and (users.ID != '' @ str_d user @ '') and (friends.CREATION_TIME >= '' @ str_d t @ '') and (users.VALID = 1));''"
| "sql_tail (Sel_members chat t) =
     str_d chat @ '') and (users_chats.CREATION_TIME >= '' @ str_d t @ '') and (users_chats.REM_TIME = 0));''"
| "sql_tail (Sel_messages chat user t) =
     str_d chat @ '' AND messages.CREATION_TIME >= '' @ str_d t @ '' AND users_chats.ID_USERS = '' @ str_d user @ '');''"
| "sql_tail (Upd_leave_all user t) =
     str_d t @ '' where (ID_USERS = '' @ str_d user @ '');''"
| "sql_tail (Sel_chats user t) =
     str_d user @ '') and (chats.CREATION_TIME >= '' @ str_d t @ '') and (users_chats.REM_TIME = 0));''"
| "sql_tail (Sel_message_time chat t) =
     str_d chat @ '') and (CREATION_TIME = '' @ str_d t @ ''));''"
| "sql_tail (Ins_message user chat file txt t) =
     str_d user @ '','' @ str_d chat @ file_value file @ txt @ quo @ '','' @ str_d t @ '');''"
| "sql_tail (Del_request user1 user2) =
     str_d user1 @ '' AND ID2_request = '' @ str_d user2 @ '');''"
| "sql_tail (Ins_friend user1 user2 t) =
     str_d user1 @ '','' @ str_d user2 @ '','' @ str_d t @ '');''"
| "sql_tail (Ins_request user1 user2 t) =
     str_d user1 @ '','' @ str_d user2 @ '','' @ str_d t @ '');''"
| "sql_tail (Sel_request user1 user2) =
     str_d user1 @ '' AND ID2_request = '' @ str_d user2 @ '');''"
| "sql_tail (Sel_friendship user1 user2) =
     str_d user1 @ '' AND ID2 = '' @ str_d user2 @ '') OR ( ID1 = '' @ str_d user2 @ '' AND ID2 = '' @ str_d user1 @ ''));''"
| "sql_tail (Del_friend user1 user2) =
     str_d user1 @ '' AND ID2 = '' @ str_d user2 @ '');''"
| "sql_tail (Ins_member user chat t read) =
     str_d user @ '','' @ str_d chat @ '','' @ str_d t @ '','' @ str_d read @ '', 0);''"
| "sql_tail (Ins_chat user desc t) =
     str_d user @ '','' @ quo @ desc @ quo @ '','' @ str_d t @ '','' @ str_d t @ '', 1, 0);''"
| "sql_tail (Upd_chat_invalid chat) =
     str_d chat @ '';''"
| "sql_tail (Upd_rejoin user chat t) =
     str_d t @ '' where ((ID_USERS = '' @ str_d user @ '') AND (ID_CHAT ='' @ str_d chat @ ''));''"
| "sql_tail (Upd_leave user chat t) =
     str_d t @ '' where (ID_USERS = '' @ str_d user @ '' AND ID_CHAT ='' @ str_d chat @ '');''"
| "sql_tail (Upd_admin user chat t) =
     str_d user @ '', ADMIN_TIME = '' @ str_d t @ '' where ID = '' @ str_d chat @ '';''"
| "sql_tail (Sel_admin user chat) =
     str_d user @ '' AND ID ='' @ str_d chat @ '');''"
| "sql_tail (Sel_still_users chat) =
     str_d chat @ '') and ( REM_TIME = 0));''"
| "sql_tail (Sel_first_users chat) =
     str_d chat @ '') and (REM_TIME = 0));''"
| "sql_tail (Sel_chat_all chat t) =
     str_d chat @ '' ) and (CREATION_TIME >= '' @ str_d t @ ''));''"
| "sql_tail (Sel_file user chat t) =
     '' ID_SENDER ='' @ quo @ str_d user @ '' and ID_CHAT = '' @ quo @ str_d chat @ '' and  CREATION_TIME = '' @ str_d t @ '');''"
| "sql_tail (Sel_can_attach user chat t) =
     '' ID_SENDER = '' @ str_d user @ '' and ID_CHAT = '' @ str_d chat @ '' and CREATION_TIME = '' @ str_d t @ '');''"
| "sql_tail (Sel_have_attach user chat t) =
     '' users_chats.ID_USERS = '' @ str_d user @ '' and messages.ID_CHAT = '' @ str_d chat @ '' and messages.CREATION_TIME = '' @ str_d t @ '');''"
| "sql_tail (Upd_read user chat t) =
     str_d t @ '' where ((ID_USERS = '' @ str_d user @ '') AND (ID_CHAT ='' @ str_d chat @ '') AND (READ_MSG_TIME < '' @ str_d t @ ''));''"
| "sql_tail (Upd_all_read chat t) =
     str_d t @ '' where ID = '' @ str_d chat @ '' and ID NOT IN (select ID_CHAT from users_chats where READ_MSG_TIME < '' @ str_d t @ '' AND REM_TIME = 0);''"
| "sql_tail (Sel_notif_messages user t) =
     str_d user @ '') and (messages.CREATION_TIME >= '' @ str_d t @ '');''"
| "sql_tail (Sel_notif_read user) =
     str_d user @ '');''"
| "sql_tail (Sel_notif_requests user t) =
     str_d user @ quo @ '') AND (CREATION_TIME >= '' @ str_d t @ '');''"
| "sql_tail (Sel_notif_members user t) =
     str_d user @ '') and (member.CREATION_TIME >= '' @ str_d t @ '') and (member.REM_TIME = 0);''"
| "sql_tail (Sel_notif_removed user t) =
     str_d user @ '') and (member.REM_TIME >= '' @ str_d t @ '');''"
| "sql_tail (Sel_notif_admins user t) =
     str_d user @ '') and (chat_admin.ADMIN_TIME >= '' @ str_d t @ '');''"

definition sql_text :: "stmt \<Rightarrow> string" where
  "sql_text st = sql_head st @ sql_tail st"

section \<open>Arguments that stay inside their quotes\<close>

definition clean_char :: "char \<Rightarrow> bool" where
  "clean_char c \<longleftrightarrow> c \<noteq> CHR 0x27 \<and> c \<noteq> CHR 0x5C \<and> c \<noteq> CHR 0x00 \<and> (of_char c :: nat) < 128"

definition clean :: "string \<Rightarrow> bool" where
  "clean s \<longleftrightarrow> list_all clean_char s"

primrec sql_strings :: "stmt \<Rightarrow> string list" where
  "sql_strings (Ins_user name pass info) = [name, pass, info]"
| "sql_strings (Upd_user_invalid name) = [name]"
| "sql_strings (Sel_user_valid name) = [name]"
| "sql_strings (Sel_user_entry name) = [name]"
| "sql_strings (Sel_user_pass name) = [name]"
| "sql_strings (Sel_user_id name) = [name]"
| "sql_strings (Sel_user_name user) = []"
| "sql_strings (Sel_user_info user) = []"
| "sql_strings (Sel_chat_admin chat) = []"
| "sql_strings (Sel_chat_description chat) = []"
| "sql_strings (Sel_member user chat) = []"
| "sql_strings (Sel_member_entry user chat) = []"
| "sql_strings (Sel_chat_valid chat) = []"
| "sql_strings (Sel_friends user t) = []"
| "sql_strings (Sel_members chat t) = []"
| "sql_strings (Sel_messages chat user t) = []"
| "sql_strings (Upd_leave_all user t) = []"
| "sql_strings (Sel_chats user t) = []"
| "sql_strings (Sel_message_time chat t) = []"
| "sql_strings (Ins_message user chat file txt t) = [txt] @ (case file of None \<Rightarrow> [] | Some name \<Rightarrow> [name])"
| "sql_strings (Del_request user1 user2) = []"
| "sql_strings (Ins_friend user1 user2 t) = []"
| "sql_strings (Ins_request user1 user2 t) = []"
| "sql_strings (Sel_request user1 user2) = []"
| "sql_strings (Sel_friendship user1 user2) = []"
| "sql_strings (Del_friend user1 user2) = []"
| "sql_strings (Ins_member user chat t read) = []"
| "sql_strings (Ins_chat user desc t) = [desc]"
| "sql_strings (Upd_chat_invalid chat) = []"
| "sql_strings (Upd_rejoin user chat t) = []"
| "sql_strings (Upd_leave user chat t) = []"
| "sql_strings (Upd_admin user chat t) = []"
| "sql_strings (Sel_admin user chat) = []"
| "sql_strings (Sel_still_users chat) = []"
| "sql_strings (Sel_first_users chat) = []"
| "sql_strings (Sel_chat_all chat t) = []"
| "sql_strings (Sel_file user chat t) = []"
| "sql_strings (Sel_can_attach user chat t) = []"
| "sql_strings (Sel_have_attach user chat t) = []"
| "sql_strings (Upd_read user chat t) = []"
| "sql_strings (Upd_all_read chat t) = []"
| "sql_strings (Sel_notif_messages user t) = []"
| "sql_strings (Sel_notif_read user) = []"
| "sql_strings (Sel_notif_requests user t) = []"
| "sql_strings (Sel_notif_members user t) = []"
| "sql_strings (Sel_notif_removed user t) = []"
| "sql_strings (Sel_notif_admins user t) = []"

definition sql_clean :: "stmt \<Rightarrow> bool" where
  "sql_clean st \<longleftrightarrow> list_all clean (sql_strings st)"

end
