(* ===== verification/Sql_Decode.thy ===== *)
theory Sql_Decode
  imports Sql
begin

text \<open>
  Reading the statements back from their text: the shape of the text, with the numbers and
  quoted values cut out, tells the statement, the values are its arguments.  This works for
  every clean statement, so for those the text determines the statement; it is what the MySQL
  server can rely on when it gets the text.
\<close>

section \<open>Reading a statement back\<close>

text \<open>One pass over the text separates its shape, in which a number is written \<open>#\<close> and a
  quoted value \<open>$\<close>, from the numbers and quoted values.\<close>

definition is_num :: "char \<Rightarrow> bool" where
  "is_num c \<longleftrightarrow> is_digit c \<or> c = CHR ''-''"

datatype lexer = Plain | Quoted string | Number string

fun scan :: "lexer \<Rightarrow> string \<Rightarrow> string \<times> string list" where
  "scan Plain [] = ([], [])"
| "scan (Quoted a) [] = ([], [a])"
| "scan (Number a) [] = ([], [a])"
| "scan Plain (c # cs) =
     (if c = CHR 0x27 then scan (Quoted []) cs
      else if is_num c then (case scan (Number [c]) cs of (s, ts) \<Rightarrow> (CHR ''#'' # s, ts))
      else (case scan Plain cs of (s, ts) \<Rightarrow> (c # s, ts)))"
| "scan (Quoted a) (c # cs) =
     (if c = CHR 0x27 then (case scan Plain cs of (s, ts) \<Rightarrow> (CHR ''$'' # s, a # ts))
      else scan (Quoted (a @ [c])) cs)"
| "scan (Number a) (c # cs) =
     (if is_num c then scan (Number (a @ [c])) cs
      else if c = CHR 0x27 then (case scan (Quoted []) cs of (s, ts) \<Rightarrow> (s, a # ts))
      else (case scan Plain cs of (s, ts) \<Rightarrow> (c # s, a # ts)))"

text \<open>The shape of every statement and how its arguments are found among the values.  The text
  of \<open>get_file\<close> has no entry: its quotes do not balance, it is not SQL.\<close>


definition insert_shapes :: "(string \<times> (string list \<Rightarrow> stmt)) list" where
  "insert_shapes = [
     (''INSERT INTO users(NAME,PASS,INFORMATION, VALID) VALUES($,$,$,#);'',
        \<lambda>a. Ins_user (a ! 0) (a ! 1) (a ! 2)),
     (''INSERT INTO messages(ID_SENDER, ID_CHAT, FILE_, TEXT, CREATION_TIME) VALUES(#,#, NULL ,$,#);'',
        \<lambda>a. Ins_message (atoi (a ! 0)) (atoi (a ! 1)) None (a ! 2) (atoi (a ! 3))),
     (''INSERT INTO messages(ID_SENDER, ID_CHAT, FILE_, TEXT, CREATION_TIME) VALUES(#,#,$,$,#);'',
        \<lambda>a. Ins_message (atoi (a ! 0)) (atoi (a ! 1)) (Some (a ! 2)) (a ! 3) (atoi (a ! 4))),
     (''INSERT INTO friends(ID#, ID#, CREATION_TIME) VALUES(#,#,#);'',
        \<lambda>a. Ins_friend (atoi (a ! 2)) (atoi (a ! 3)) (atoi (a ! 4))),
     (''INSERT INTO friends_request(ID#,ID#_request,CREATION_TIME) VALUES(#,#,#);'',
        \<lambda>a. Ins_request (atoi (a ! 2)) (atoi (a ! 3)) (atoi (a ! 4))),
     (''INSERT INTO users_chats(ID_USERS,ID_CHAT,CREATION_TIME, READ_MSG_TIME, REM_TIME) VALUES(#,#,#,#, #);'',
        \<lambda>a. Ins_member (atoi (a ! 0)) (atoi (a ! 1)) (atoi (a ! 2)) (atoi (a ! 3))),
     (''INSERT INTO chats(ID_ADMIN,DESCRIPTION,CREATION_TIME, ADMIN_TIME, VALID, READ_TIME) VALUES(#,$,#,#, #, #);'',
        \<lambda>a. Ins_chat (atoi (a ! 0)) (a ! 1) (atoi (a ! 2)))]"

definition update_shapes :: "(string \<times> (string list \<Rightarrow> stmt)) list" where
  "update_shapes = [
     (''UPDATE users SET VALID = # where NAME = $;'',
        \<lambda>a. Upd_user_invalid (a ! 1)),
     (''UPDATE users_chats set REM_TIME = # where (ID_USERS = #);'',
        \<lambda>a. Upd_leave_all (atoi (a ! 1)) (atoi (a ! 0))),
     (''UPDATE chats set VALID = # where ID = #;'',
        \<lambda>a. Upd_chat_invalid (atoi (a ! 1))),
     (''UPDATE users_chats set REM_TIME = #, CREATION_TIME = # where ((ID_USERS = #) AND (ID_CHAT =#));'',
        \<lambda>a. Upd_rejoin (atoi (a ! 2)) (atoi (a ! 3)) (atoi (a ! 1))),
     (''UPDATE users_chats set REM_TIME = # where (ID_USERS = # AND ID_CHAT =#);'',
        \<lambda>a. Upd_leave (atoi (a ! 1)) (atoi (a ! 2)) (atoi (a ! 0))),
     (''UPDATE chats SET ID_ADMIN=#, ADMIN_TIME = # where ID = #;'',
        \<lambda>a. Upd_admin (atoi (a ! 0)) (atoi (a ! 2)) (atoi (a ! 1))),
     (''UPDATE users_chats set READ_MSG_TIME = # where ((ID_USERS = #) AND (ID_CHAT =#) AND (READ_MSG_TIME < #));'',
        \<lambda>a. Upd_read (atoi (a ! 1)) (atoi (a ! 2)) (atoi (a ! 0))),
     (''UPDATE chats set READ_TIME = # where ID = # and ID NOT IN (select ID_CHAT from users_chats where READ_MSG_TIME < # AND REM_TIME = #);'',
        \<lambda>a. Upd_all_read (atoi (a ! 1)) (atoi (a ! 0)))]"

definition rows_shapes :: "(string \<times> (string list \<Rightarrow> stmt)) list" where
  "rows_shapes = [
     (''SELECT * FROM users where ((NAME = $) and (VALID = #));'',
        \<lambda>a. Sel_user_valid (a ! 0)),
     (''SELECT * FROM users where ((NAME = $));'',
        \<lambda>a. Sel_user_entry (a ! 0)),
     (''SELECT * FROM users_chats where ((ID_USERS = #) AND (ID_CHAT = #) AND (REM_TIME = #));'',
        \<lambda>a. Sel_member (atoi (a ! 0)) (atoi (a ! 1))),
     (''SELECT * FROM users_chats where ((ID_USERS = #) AND (ID_CHAT = #));'',
        \<lambda>a. Sel_member_entry (atoi (a ! 0)) (atoi (a ! 1))),
     (''SELECT * FROM chats where ((ID = $) and (VALID = #));'',
        \<lambda>a. Sel_chat_valid (atoi (a ! 0))),
     (''SELECT * FROM friends_request where (ID# = # AND ID#_request = #);'',
        \<lambda>a. Sel_request (atoi (a ! 1)) (atoi (a ! 3))),
     (''SELECT * FROM friends where ((ID# = # AND ID# = #) OR ( ID# = # AND ID# = #));'',
        \<lambda>a. Sel_friendship (atoi (a ! 1)) (atoi (a ! 3))),
     (''SELECT * FROM chats where(ID_ADMIN=# AND ID =#);'',
        \<lambda>a. Sel_admin (atoi (a ! 0)) (atoi (a ! 1))),
     (''SELECT * FROM users_chats where ((ID_CHAT=#) and ( REM_TIME = #));'',
        \<lambda>a. Sel_still_users (atoi (a ! 0))),
     (''SELECT * FROM users_chats where ((ID_CHAT=#) and (REM_TIME = #));'',
        \<lambda>a. Sel_first_users (atoi (a ! 0)))]"

definition columns_shapes :: "(string \<times> (string list \<Rightarrow> stmt)) list" where
  "columns_shapes = [
     (''SELECT PASS FROM users where ((NAME = $) and (VALID = #));'',
        \<lambda>a. Sel_user_pass (a ! 0)),
     (''SELECT ID FROM users where ((NAME = $) and (VALID = #));'',
        \<lambda>a. Sel_user_id (a ! 0)),
     (''SELECT NAME FROM users where ID = $;'',
        \<lambda>a. Sel_user_name (atoi (a ! 0))),
     (''SELECT INFORMATION FROM users where ID = $;'',
        \<lambda>a. Sel_user_info (atoi (a ! 0))),
     (''SELECT ID_ADMIN FROM chats where ID = $;'',
        \<lambda>a. Sel_chat_admin (atoi (a ! 0))),
     (''SELECT DESCRIPTION FROM chats where ID = $;'',
        \<lambda>a. Sel_chat_description (atoi (a ! 0))),
     (''SELECT DISTINCT users.NAME, messages.TEXT, messages.CREATION_TIME, messages.FILE_ FROM messages LEFT JOIN users_chats on ( messages.ID_CHAT = users_chats.ID_CHAT) LEFT JOIN users on (messages.ID_SENDER = users.ID) where (messages.CREATION_TIME > users_chats.CREATION_TIME AND messages.ID_CHAT = # AND messages.CREATION_TIME >= # AND users_chats.ID_USERS = #);'',
        \<lambda>a. Sel_messages (atoi (a ! 0)) (atoi (a ! 2)) (atoi (a ! 1))),
     (''SELECT CREATION_TIME from messages where ((ID_CHAT = #) and (CREATION_TIME = #));'',
        \<lambda>a. Sel_message_time (atoi (a ! 0)) (atoi (a ! 1))),
     (''SELECT users.NAME, chats.DESCRIPTION, chats.READ_TIME FROM chats INNER JOIN users on (users.ID = chats.ID_ADMIN) where ((chats.ID = # ) and (CREATION_TIME >= #));'',
        \<lambda>a. Sel_chat_all (atoi (a ! 0)) (atoi (a ! 1))),
     (''SELECT FILE_ FROM messages WHERE ( ID_SENDER = # and ID_CHAT = # and CREATION_TIME = #);'',
        \<lambda>a. Sel_can_attach (atoi (a ! 0)) (atoi (a ! 1)) (atoi (a ! 2))),
     (''SELECT messages.FILE_ FROM users_chats LEFT JOIN messages on (users_chats.ID_CHAT = messages.ID_CHAT and messages.CREATION_TIME >= users_chats.CREATION_TIME) WHERE ( users_chats.ID_USERS = # and messages.ID_CHAT = # and messages.CREATION_TIME = #);'',
        \<lambda>a. Sel_have_attach (atoi (a ! 0)) (atoi (a ! 1)) (atoi (a ! 2)))]"

definition joins_shapes :: "(string \<times> (string list \<Rightarrow> stmt)) list" where
  "joins_shapes = [
     (''select DISTINCT users.NAME, users.INFORMATION from users INNER JOIN friends on ( (friends.ID# = users.ID ) OR (friends.ID# = users.ID )) where ( ((friends.ID# = #) or (friends.ID# = #)) and (users.ID != #) and (friends.CREATION_TIME >= #) and (users.VALID = #));'',
        \<lambda>a. Sel_friends (atoi (a ! 3)) (atoi (a ! 7))),
     (''select NAME from users INNER JOIN users_chats on (users_chats.ID_USERS = users.ID) where ((users_chats.ID_CHAT = #) and (users_chats.CREATION_TIME >= #) and (users_chats.REM_TIME = #));'',
        \<lambda>a. Sel_members (atoi (a ! 0)) (atoi (a ! 1))),
     (''select chats.ID, chats.DESCRIPTION, users.NAME, users_chats.READ_MSG_TIME, chats.CREATION_TIME, chats.READ_TIME from chats INNER JOIN users_chats on (users_chats.ID_CHAT = chats.ID) INNER JOIN users on (users.ID = chats.ID_ADMIN ) where ((users_chats.ID_USERS = #) and (chats.CREATION_TIME >= #) and (users_chats.REM_TIME = #));'',
        \<lambda>a. Sel_chats (atoi (a ! 0)) (atoi (a ! 1))),
     (''select DISTINCT users_chats.ID_CHAT from users_chats INNER JOIN messages on (users_chats.ID_CHAT = messages.ID_CHAT) where (users_chats.REM_TIME = #) and (messages.CREATION_TIME > users_chats.CREATION_TIME) and (users_chats.ID_USERS = #) and (messages.CREATION_TIME >= #);'',
        \<lambda>a. Sel_notif_messages (atoi (a ! 1)) (atoi (a ! 2))),
     (''select chats.ID, chats.READ_TIME from users_chats LEFT JOIN chats on (users_chats.ID_CHAT = chats.ID) where (users_chats.ID_USERS = #);'',
        \<lambda>a. Sel_notif_read (atoi (a ! 0))),
     (''select users.NAME, friends_request.CREATION_TIME from users INNER JOIN friends_request on (users.ID = friends_request.ID#) where (friends_request.ID#_request = $) AND (CREATION_TIME >= #);'',
        \<lambda>a. Sel_notif_requests (atoi (a ! 2)) (atoi (a ! 3))),
     (''select users.NAME, member.ID_CHAT, member.CREATION_TIME from users_chats as member  INNER JOIN users_chats as user on (member.ID_CHAT = user.ID_CHAT) INNER JOIN users on (member.ID_USERS = users.ID)where (user.ID_USERS =  #) and (member.CREATION_TIME >= #) and (member.REM_TIME = #);'',
        \<lambda>a. Sel_notif_members (atoi (a ! 0)) (atoi (a ! 1))),
     (''select users.NAME, member.ID_CHAT, member.CREATION_TIME from users_chats as member  INNER JOIN users_chats as user on (member.ID_CHAT = user.ID_CHAT) INNER JOIN users on (member.ID_USERS = users.ID)where (user.ID_USERS =  #) and (member.REM_TIME >= #);'',
        \<lambda>a. Sel_notif_removed (atoi (a ! 0)) (atoi (a ! 1))),
     (''select users.NAME, chat_admin.ID, chat_admin.ADMIN_TIME from chats as chat_admin  INNER JOIN users_chats as user on (chat_admin.ID = user.ID_CHAT) INNER JOIN users on (chat_admin.ID_ADMIN = users.ID)where (user.ID_USERS =  #) and (chat_admin.ADMIN_TIME >= #);'',
        \<lambda>a. Sel_notif_admins (atoi (a ! 0)) (atoi (a ! 1)))]"

definition delete_shapes :: "(string \<times> (string list \<Rightarrow> stmt)) list" where
  "delete_shapes = [
     (''DELETE FROM friends_request where (ID# =# AND ID#_request = #);'',
        \<lambda>a. Del_request (atoi (a ! 1)) (atoi (a ! 3))),
     (''DELETE FROM friends where (ID# =# AND ID# = #);'',
        \<lambda>a. Del_friend (atoi (a ! 1)) (atoi (a ! 3)))]"

definition shapes :: "string \<Rightarrow> (string \<times> (string list \<Rightarrow> stmt)) list" where
  "shapes s =
     (if take 1 s = ''I'' then insert_shapes
      else if take 1 s = ''U'' then update_shapes
      else if take 1 s = ''D'' then delete_shapes
      else if take 8 s = ''SELECT *'' then rows_shapes
      else if take 1 s = ''S'' then columns_shapes
      else joins_shapes)"


definition decode :: "string \<Rightarrow> stmt option" where
  "decode text = (case scan Plain text of (s, a) \<Rightarrow> map_option (\<lambda>f. f a) (map_of (shapes s) s))"

lemma scan_number: "list_all is_num ds \<Longrightarrow> scan (Number a) (ds @ r) = scan (Number (a @ ds)) r"
  by (induction ds arbitrary: a) auto

lemma scan_quoted: "clean s \<Longrightarrow> scan (Quoted a) (s @ r) = scan (Quoted (a @ s)) r"
  by (induction s arbitrary: a) (auto simp: clean_def clean_char_def)

lemma num_str_d: "list_all is_num (str_d x)"
  by (auto simp: str_d_def print_int_def is_num_def list_all_iff dest: digits_all_digits)

lemma is_num_clean: "is_num c \<Longrightarrow> clean_char c"
  by (auto simp: is_num_def is_digit_def clean_char_def)

lemma clean_str_d [simp]: "clean (str_d x)"
  using num_str_d [of x] by (auto simp: clean_def list_all_iff is_num_clean)

lemma scan_str_d:
  "scan Plain (str_d x @ r) = (case scan (Number (str_d x)) r of (s, ts) \<Rightarrow> (CHR ''#'' # s, ts))"
proof -
  obtain c cs where s: "str_d x = c # cs" using length_str_d_pos [of x] by (cases "str_d x") auto
  have "is_num c" "list_all is_num cs" using num_str_d [of x] by (simp_all add: s)
  moreover have "c \<noteq> CHR 0x27" using is_num_clean [OF \<open>is_num c\<close>] by (simp add: clean_char_def)
  ultimately show ?thesis using scan_number [of cs "[c]" r] by (simp add: s)
qed

lemma is_num_eval:
  "is_num c \<longleftrightarrow> (48 \<le> (of_char c :: nat) \<and> (of_char c :: nat) \<le> 57) \<or> c = CHR ''-''"
  by (simp add: is_num_def is_digit_def)

lemma is_num_chars:
  "\<not> is_num (CHR '' '')"
  "\<not> is_num (CHR ''!'')"
  "\<not> is_num (CHR 0x27)"
  "\<not> is_num (CHR ''('')"
  "\<not> is_num (CHR '')'')"
  "\<not> is_num (CHR ''*'')"
  "\<not> is_num (CHR '','')"
  "\<not> is_num (CHR ''.'')"
  "is_num (CHR ''0'')"
  "is_num (CHR ''1'')"
  "is_num (CHR ''2'')"
  "\<not> is_num (CHR '';'')"
  "\<not> is_num (CHR ''<'')"
  "\<not> is_num (CHR ''='')"
  "\<not> is_num (CHR ''>'')"
  "\<not> is_num (CHR ''A'')"
  "\<not> is_num (CHR ''C'')"
  "\<not> is_num (CHR ''D'')"
  "\<not> is_num (CHR ''E'')"
  "\<not> is_num (CHR ''F'')"
  "\<not> is_num (CHR ''G'')"
  "\<not> is_num (CHR ''H'')"
  "\<not> is_num (CHR ''I'')"
  "\<not> is_num (CHR ''J'')"
  "\<not> is_num (CHR ''L'')"
  "\<not> is_num (CHR ''M'')"
  "\<not> is_num (CHR ''N'')"
  "\<not> is_num (CHR ''O'')"
  "\<not> is_num (CHR ''P'')"
  "\<not> is_num (CHR ''R'')"
  "\<not> is_num (CHR ''S'')"
  "\<not> is_num (CHR ''T'')"
  "\<not> is_num (CHR ''U'')"
  "\<not> is_num (CHR ''V'')"
  "\<not> is_num (CHR ''W'')"
  "\<not> is_num (CHR ''X'')"
  "\<not> is_num (CHR ''_'')"
  "\<not> is_num (CHR ''a'')"
  "\<not> is_num (CHR ''b'')"
  "\<not> is_num (CHR ''c'')"
  "\<not> is_num (CHR ''d'')"
  "\<not> is_num (CHR ''e'')"
  "\<not> is_num (CHR ''f'')"
  "\<not> is_num (CHR ''g'')"
  "\<not> is_num (CHR ''h'')"
  "\<not> is_num (CHR ''i'')"
  "\<not> is_num (CHR ''l'')"
  "\<not> is_num (CHR ''m'')"
  "\<not> is_num (CHR ''n'')"
  "\<not> is_num (CHR ''o'')"
  "\<not> is_num (CHR ''q'')"
  "\<not> is_num (CHR ''r'')"
  "\<not> is_num (CHR ''s'')"
  "\<not> is_num (CHR ''t'')"
  "\<not> is_num (CHR ''u'')"
  "\<not> is_num (CHR ''w'')"
  by (simp_all add: is_num_eval)

lemmas scan_eval = sql_text_def scan_str_d scan_quoted is_num_chars

lemma scan_Ins_user: "clean name \<Longrightarrow> clean pass \<Longrightarrow> clean info \<Longrightarrow> scan Plain (sql_text (Ins_user name pass info)) =
   (''INSERT INTO users(NAME,PASS,INFORMATION, VALID) VALUES($,$,$,#);'', [name, pass, info, ''1''])"
  by (simp add: scan_eval)

lemma scan_Upd_user_invalid: "clean name \<Longrightarrow> scan Plain (sql_text (Upd_user_invalid name)) =
   (''UPDATE users SET VALID = # where NAME = $;'', [''0'', name])"
  by (simp add: scan_eval)

lemma scan_Sel_user_valid: "clean name \<Longrightarrow> scan Plain (sql_text (Sel_user_valid name)) =
   (''SELECT * FROM users where ((NAME = $) and (VALID = #));'', [name, ''1''])"
  by (simp add: scan_eval)

lemma scan_Sel_user_entry: "clean name \<Longrightarrow> scan Plain (sql_text (Sel_user_entry name)) =
   (''SELECT * FROM users where ((NAME = $));'', [name])"
  by (simp add: scan_eval)

lemma scan_Sel_user_pass: "clean name \<Longrightarrow> scan Plain (sql_text (Sel_user_pass name)) =
   (''SELECT PASS FROM users where ((NAME = $) and (VALID = #));'', [name, ''1''])"
  by (simp add: scan_eval)

lemma scan_Sel_user_id: "clean name \<Longrightarrow> scan Plain (sql_text (Sel_user_id name)) =
   (''SELECT ID FROM users where ((NAME = $) and (VALID = #));'', [name, ''1''])"
  by (simp add: scan_eval)

lemma scan_Sel_user_name: "scan Plain (sql_text (Sel_user_name user)) =
   (''SELECT NAME FROM users where ID = $;'', [str_d user])"
  by (simp add: scan_eval)

lemma scan_Sel_user_info: "scan Plain (sql_text (Sel_user_info user)) =
   (''SELECT INFORMATION FROM users where ID = $;'', [str_d user])"
  by (simp add: scan_eval)

lemma scan_Sel_chat_admin: "scan Plain (sql_text (Sel_chat_admin chat)) =
   (''SELECT ID_ADMIN FROM chats where ID = $;'', [str_d chat])"
  by (simp add: scan_eval)

lemma scan_Sel_chat_description: "scan Plain (sql_text (Sel_chat_description chat)) =
   (''SELECT DESCRIPTION FROM chats where ID = $;'', [str_d chat])"
  by (simp add: scan_eval)

lemma scan_Sel_member: "scan Plain (sql_text (Sel_member user chat)) =
   (''SELECT * FROM users_chats where ((ID_USERS = #) AND (ID_CHAT = #) AND (REM_TIME = #));'', [str_d user, str_d chat, ''0''])"
  by (simp add: scan_eval)

lemma scan_Sel_member_entry: "scan Plain (sql_text (Sel_member_entry user chat)) =
   (''SELECT * FROM users_chats where ((ID_USERS = #) AND (ID_CHAT = #));'', [str_d user, str_d chat])"
  by (simp add: scan_eval)

lemma scan_Sel_chat_valid: "scan Plain (sql_text (Sel_chat_valid chat)) =
   (''SELECT * FROM chats where ((ID = $) and (VALID = #));'', [str_d chat, ''1''])"
  by (simp add: scan_eval)

lemma scan_Sel_friends: "scan Plain (sql_text (Sel_friends user t)) =
   (''select DISTINCT users.NAME, users.INFORMATION from users INNER JOIN friends on ( (friends.ID# = users.ID ) OR (friends.ID# = users.ID )) where ( ((friends.ID# = #) or (friends.ID# = #)) and (users.ID != #) and (friends.CREATION_TIME >= #) and (users.VALID = #));'', [''1'', ''2'', ''1'', str_d user, ''2'', str_d user, str_d user, str_d t, ''1''])"
  by (simp add: scan_eval)

lemma scan_Sel_members: "scan Plain (sql_text (Sel_members chat t)) =
   (''select NAME from users INNER JOIN users_chats on (users_chats.ID_USERS = users.ID) where ((users_chats.ID_CHAT = #) and (users_chats.CREATION_TIME >= #) and (users_chats.REM_TIME = #));'', [str_d chat, str_d t, ''0''])"
  by (simp add: scan_eval)

lemma scan_Sel_messages: "scan Plain (sql_text (Sel_messages chat user t)) =
   (''SELECT DISTINCT users.NAME, messages.TEXT, messages.CREATION_TIME, messages.FILE_ FROM messages LEFT JOIN users_chats on ( messages.ID_CHAT = users_chats.ID_CHAT) LEFT JOIN users on (messages.ID_SENDER = users.ID) where (messages.CREATION_TIME > users_chats.CREATION_TIME AND messages.ID_CHAT = # AND messages.CREATION_TIME >= # AND users_chats.ID_USERS = #);'', [str_d chat, str_d t, str_d user])"
  by (simp add: scan_eval)

lemma scan_Upd_leave_all: "scan Plain (sql_text (Upd_leave_all user t)) =
   (''UPDATE users_chats set REM_TIME = # where (ID_USERS = #);'', [str_d t, str_d user])"
  by (simp add: scan_eval)

lemma scan_Sel_chats: "scan Plain (sql_text (Sel_chats user t)) =
   (''select chats.ID, chats.DESCRIPTION, users.NAME, users_chats.READ_MSG_TIME, chats.CREATION_TIME, chats.READ_TIME from chats INNER JOIN users_chats on (users_chats.ID_CHAT = chats.ID) INNER JOIN users on (users.ID = chats.ID_ADMIN ) where ((users_chats.ID_USERS = #) and (chats.CREATION_TIME >= #) and (users_chats.REM_TIME = #));'', [str_d user, str_d t, ''0''])"
  by (simp add: scan_eval)

lemma scan_Sel_message_time: "scan Plain (sql_text (Sel_message_time chat t)) =
   (''SELECT CREATION_TIME from messages where ((ID_CHAT = #) and (CREATION_TIME = #));'', [str_d chat, str_d t])"
  by (simp add: scan_eval)

lemma scan_Ins_message: "clean txt \<Longrightarrow> scan Plain (sql_text (Ins_message user chat None txt t)) =
   (''INSERT INTO messages(ID_SENDER, ID_CHAT, FILE_, TEXT, CREATION_TIME) VALUES(#,#, NULL ,$,#);'', [str_d user, str_d chat, txt, str_d t])"
  by (simp add: scan_eval file_value_def)

lemma scan_Ins_message_file: "clean file \<Longrightarrow> clean txt \<Longrightarrow> scan Plain (sql_text (Ins_message user chat (Some file) txt t)) =
   (''INSERT INTO messages(ID_SENDER, ID_CHAT, FILE_, TEXT, CREATION_TIME) VALUES(#,#,$,$,#);'', [str_d user, str_d chat, file, txt, str_d t])"
  by (simp add: scan_eval file_value_def)

lemma scan_Del_request: "scan Plain (sql_text (Del_request user1 user2)) =
   (''DELETE FROM friends_request where (ID# =# AND ID#_request = #);'', [''1'', str_d user1, ''2'', str_d user2])"
  by (simp add: scan_eval)

lemma scan_Ins_friend: "scan Plain (sql_text (Ins_friend user1 user2 t)) =
   (''INSERT INTO friends(ID#, ID#, CREATION_TIME) VALUES(#,#,#);'', [''1'', ''2'', str_d user1, str_d user2, str_d t])"
  by (simp add: scan_eval)

lemma scan_Ins_request: "scan Plain (sql_text (Ins_request user1 user2 t)) =
   (''INSERT INTO friends_request(ID#,ID#_request,CREATION_TIME) VALUES(#,#,#);'', [''1'', ''2'', str_d user1, str_d user2, str_d t])"
  by (simp add: scan_eval)

lemma scan_Sel_request: "scan Plain (sql_text (Sel_request user1 user2)) =
   (''SELECT * FROM friends_request where (ID# = # AND ID#_request = #);'', [''1'', str_d user1, ''2'', str_d user2])"
  by (simp add: scan_eval)

lemma scan_Sel_friendship: "scan Plain (sql_text (Sel_friendship user1 user2)) =
   (''SELECT * FROM friends where ((ID# = # AND ID# = #) OR ( ID# = # AND ID# = #));'', [''1'', str_d user1, ''2'', str_d user2, ''1'', str_d user2, ''2'', str_d user1])"
  by (simp add: scan_eval)

lemma scan_Del_friend: "scan Plain (sql_text (Del_friend user1 user2)) =
   (''DELETE FROM friends where (ID# =# AND ID# = #);'', [''1'', str_d user1, ''2'', str_d user2])"
  by (simp add: scan_eval)

lemma scan_Ins_member: "scan Plain (sql_text (Ins_member user chat t read)) =
   (''INSERT INTO users_chats(ID_USERS,ID_CHAT,CREATION_TIME, READ_MSG_TIME, REM_TIME) VALUES(#,#,#,#, #);'', [str_d user, str_d chat, str_d t, str_d read, ''0''])"
  by (simp add: scan_eval)

lemma scan_Ins_chat: "clean desc \<Longrightarrow> scan Plain (sql_text (Ins_chat user desc t)) =
   (''INSERT INTO chats(ID_ADMIN,DESCRIPTION,CREATION_TIME, ADMIN_TIME, VALID, READ_TIME) VALUES(#,$,#,#, #, #);'', [str_d user, desc, str_d t, str_d t, ''1'', ''0''])"
  by (simp add: scan_eval)

lemma scan_Upd_chat_invalid: "scan Plain (sql_text (Upd_chat_invalid chat)) =
   (''UPDATE chats set VALID = # where ID = #;'', [''0'', str_d chat])"
  by (simp add: scan_eval)

lemma scan_Upd_rejoin: "scan Plain (sql_text (Upd_rejoin user chat t)) =
   (''UPDATE users_chats set REM_TIME = #, CREATION_TIME = # where ((ID_USERS = #) AND (ID_CHAT =#));'', [''0'', str_d t, str_d user, str_d chat])"
  by (simp add: scan_eval)

lemma scan_Upd_leave: "scan Plain (sql_text (Upd_leave user chat t)) =
   (''UPDATE users_chats set REM_TIME = # where (ID_USERS = # AND ID_CHAT =#);'', [str_d t, str_d user, str_d chat])"
  by (simp add: scan_eval)

lemma scan_Upd_admin: "scan Plain (sql_text (Upd_admin user chat t)) =
   (''UPDATE chats SET ID_ADMIN=#, ADMIN_TIME = # where ID = #;'', [str_d user, str_d t, str_d chat])"
  by (simp add: scan_eval)

lemma scan_Sel_admin: "scan Plain (sql_text (Sel_admin user chat)) =
   (''SELECT * FROM chats where(ID_ADMIN=# AND ID =#);'', [str_d user, str_d chat])"
  by (simp add: scan_eval)

lemma scan_Sel_still_users: "scan Plain (sql_text (Sel_still_users chat)) =
   (''SELECT * FROM users_chats where ((ID_CHAT=#) and ( REM_TIME = #));'', [str_d chat, ''0''])"
  by (simp add: scan_eval)

lemma scan_Sel_first_users: "scan Plain (sql_text (Sel_first_users chat)) =
   (''SELECT * FROM users_chats where ((ID_CHAT=#) and (REM_TIME = #));'', [str_d chat, ''0''])"
  by (simp add: scan_eval)

lemma scan_Sel_chat_all: "scan Plain (sql_text (Sel_chat_all chat t)) =
   (''SELECT users.NAME, chats.DESCRIPTION, chats.READ_TIME FROM chats INNER JOIN users on (users.ID = chats.ID_ADMIN) where ((chats.ID = # ) and (CREATION_TIME >= #));'', [str_d chat, str_d t])"
  by (simp add: scan_eval)

lemma scan_Sel_can_attach: "scan Plain (sql_text (Sel_can_attach user chat t)) =
   (''SELECT FILE_ FROM messages WHERE ( ID_SENDER = # and ID_CHAT = # and CREATION_TIME = #);'', [str_d user, str_d chat, str_d t])"
  by (simp add: scan_eval)

lemma scan_Sel_have_attach: "scan Plain (sql_text (Sel_have_attach user chat t)) =
   (''SELECT messages.FILE_ FROM users_chats LEFT JOIN messages on (users_chats.ID_CHAT = messages.ID_CHAT and messages.CREATION_TIME >= users_chats.CREATION_TIME) WHERE ( users_chats.ID_USERS = # and messages.ID_CHAT = # and messages.CREATION_TIME = #);'', [str_d user, str_d chat, str_d t])"
  by (simp add: scan_eval)

lemma scan_Upd_read: "scan Plain (sql_text (Upd_read user chat t)) =
   (''UPDATE users_chats set READ_MSG_TIME = # where ((ID_USERS = #) AND (ID_CHAT =#) AND (READ_MSG_TIME < #));'', [str_d t, str_d user, str_d chat, str_d t])"
  by (simp add: scan_eval)

lemma scan_Upd_all_read: "scan Plain (sql_text (Upd_all_read chat t)) =
   (''UPDATE chats set READ_TIME = # where ID = # and ID NOT IN (select ID_CHAT from users_chats where READ_MSG_TIME < # AND REM_TIME = #);'', [str_d t, str_d chat, str_d t, ''0''])"
  by (simp add: scan_eval)

lemma scan_Sel_notif_messages: "scan Plain (sql_text (Sel_notif_messages user t)) =
   (''select DISTINCT users_chats.ID_CHAT from users_chats INNER JOIN messages on (users_chats.ID_CHAT = messages.ID_CHAT) where (users_chats.REM_TIME = #) and (messages.CREATION_TIME > users_chats.CREATION_TIME) and (users_chats.ID_USERS = #) and (messages.CREATION_TIME >= #);'', [''0'', str_d user, str_d t])"
  by (simp add: scan_eval)

lemma scan_Sel_notif_read: "scan Plain (sql_text (Sel_notif_read user)) =
   (''select chats.ID, chats.READ_TIME from users_chats LEFT JOIN chats on (users_chats.ID_CHAT = chats.ID) where (users_chats.ID_USERS = #);'', [str_d user])"
  by (simp add: scan_eval)

lemma scan_Sel_notif_requests: "scan Plain (sql_text (Sel_notif_requests user t)) =
   (''select users.NAME, friends_request.CREATION_TIME from users INNER JOIN friends_request on (users.ID = friends_request.ID#) where (friends_request.ID#_request = $) AND (CREATION_TIME >= #);'', [''1'', ''2'', str_d user, str_d t])"
  by (simp add: scan_eval)

lemma scan_Sel_notif_members: "scan Plain (sql_text (Sel_notif_members user t)) =
   (''select users.NAME, member.ID_CHAT, member.CREATION_TIME from users_chats as member  INNER JOIN users_chats as user on (member.ID_CHAT = user.ID_CHAT) INNER JOIN users on (member.ID_USERS = users.ID)where (user.ID_USERS =  #) and (member.CREATION_TIME >= #) and (member.REM_TIME = #);'', [str_d user, str_d t, ''0''])"
  by (simp add: scan_eval)

lemma scan_Sel_notif_removed: "scan Plain (sql_text (Sel_notif_removed user t)) =
   (''select users.NAME, member.ID_CHAT, member.CREATION_TIME from users_chats as member  INNER JOIN users_chats as user on (member.ID_CHAT = user.ID_CHAT) INNER JOIN users on (member.ID_USERS = users.ID)where (user.ID_USERS =  #) and (member.REM_TIME >= #);'', [str_d user, str_d t])"
  by (simp add: scan_eval)

lemma scan_Sel_notif_admins: "scan Plain (sql_text (Sel_notif_admins user t)) =
   (''select users.NAME, chat_admin.ID, chat_admin.ADMIN_TIME from chats as chat_admin  INNER JOIN users_chats as user on (chat_admin.ID = user.ID_CHAT) INNER JOIN users on (chat_admin.ID_ADMIN = users.ID)where (user.ID_USERS =  #) and (chat_admin.ADMIN_TIME >= #);'', [str_d user, str_d t])"
  by (simp add: scan_eval)


lemma decode_Ins_user: "clean name \<Longrightarrow> clean pass \<Longrightarrow> clean info \<Longrightarrow> decode (sql_text (Ins_user name pass info)) = Some (Ins_user name pass info)"
  by (simp add: decode_def scan_Ins_user shapes_def insert_shapes_def)

lemma decode_Upd_user_invalid: "clean name \<Longrightarrow> decode (sql_text (Upd_user_invalid name)) = Some (Upd_user_invalid name)"
  by (simp add: decode_def scan_Upd_user_invalid shapes_def update_shapes_def)

lemma decode_Sel_user_valid: "clean name \<Longrightarrow> decode (sql_text (Sel_user_valid name)) = Some (Sel_user_valid name)"
  by (simp add: decode_def scan_Sel_user_valid shapes_def rows_shapes_def)

lemma decode_Sel_user_entry: "clean name \<Longrightarrow> decode (sql_text (Sel_user_entry name)) = Some (Sel_user_entry name)"
  by (simp add: decode_def scan_Sel_user_entry shapes_def rows_shapes_def)

lemma decode_Sel_user_pass: "clean name \<Longrightarrow> decode (sql_text (Sel_user_pass name)) = Some (Sel_user_pass name)"
  by (simp add: decode_def scan_Sel_user_pass shapes_def columns_shapes_def)

lemma decode_Sel_user_id: "clean name \<Longrightarrow> decode (sql_text (Sel_user_id name)) = Some (Sel_user_id name)"
  by (simp add: decode_def scan_Sel_user_id shapes_def columns_shapes_def)

lemma decode_Sel_user_name: "decode (sql_text (Sel_user_name user)) = Some (Sel_user_name user)"
  by (simp add: decode_def scan_Sel_user_name shapes_def columns_shapes_def)

lemma decode_Sel_user_info: "decode (sql_text (Sel_user_info user)) = Some (Sel_user_info user)"
  by (simp add: decode_def scan_Sel_user_info shapes_def columns_shapes_def)

lemma decode_Sel_chat_admin: "decode (sql_text (Sel_chat_admin chat)) = Some (Sel_chat_admin chat)"
  by (simp add: decode_def scan_Sel_chat_admin shapes_def columns_shapes_def)

lemma decode_Sel_chat_description: "decode (sql_text (Sel_chat_description chat)) = Some (Sel_chat_description chat)"
  by (simp add: decode_def scan_Sel_chat_description shapes_def columns_shapes_def)

lemma decode_Sel_member: "decode (sql_text (Sel_member user chat)) = Some (Sel_member user chat)"
  by (simp add: decode_def scan_Sel_member shapes_def rows_shapes_def)

lemma decode_Sel_member_entry: "decode (sql_text (Sel_member_entry user chat)) = Some (Sel_member_entry user chat)"
  by (simp add: decode_def scan_Sel_member_entry shapes_def rows_shapes_def)

lemma decode_Sel_chat_valid: "decode (sql_text (Sel_chat_valid chat)) = Some (Sel_chat_valid chat)"
  by (simp add: decode_def scan_Sel_chat_valid shapes_def rows_shapes_def)

lemma decode_Sel_friends: "decode (sql_text (Sel_friends user t)) = Some (Sel_friends user t)"
  by (simp add: decode_def scan_Sel_friends shapes_def joins_shapes_def)

lemma decode_Sel_members: "decode (sql_text (Sel_members chat t)) = Some (Sel_members chat t)"
  by (simp add: decode_def scan_Sel_members shapes_def joins_shapes_def)

lemma decode_Sel_messages: "decode (sql_text (Sel_messages chat user t)) = Some (Sel_messages chat user t)"
  by (simp add: decode_def scan_Sel_messages shapes_def columns_shapes_def)

lemma decode_Upd_leave_all: "decode (sql_text (Upd_leave_all user t)) = Some (Upd_leave_all user t)"
  by (simp add: decode_def scan_Upd_leave_all shapes_def update_shapes_def)

lemma decode_Sel_chats: "decode (sql_text (Sel_chats user t)) = Some (Sel_chats user t)"
  by (simp add: decode_def scan_Sel_chats shapes_def joins_shapes_def)

lemma decode_Sel_message_time: "decode (sql_text (Sel_message_time chat t)) = Some (Sel_message_time chat t)"
  by (simp add: decode_def scan_Sel_message_time shapes_def columns_shapes_def)

lemma decode_Ins_message: "clean txt \<Longrightarrow> decode (sql_text (Ins_message user chat None txt t)) = Some (Ins_message user chat None txt t)"
  by (simp add: decode_def scan_Ins_message shapes_def insert_shapes_def)

lemma decode_Ins_message_file: "clean file \<Longrightarrow> clean txt \<Longrightarrow> decode (sql_text (Ins_message user chat (Some file) txt t)) = Some (Ins_message user chat (Some file) txt t)"
  by (simp add: decode_def scan_Ins_message_file shapes_def insert_shapes_def)

lemma decode_Del_request: "decode (sql_text (Del_request user1 user2)) = Some (Del_request user1 user2)"
  by (simp add: decode_def scan_Del_request shapes_def delete_shapes_def)

lemma decode_Ins_friend: "decode (sql_text (Ins_friend user1 user2 t)) = Some (Ins_friend user1 user2 t)"
  by (simp add: decode_def scan_Ins_friend shapes_def insert_shapes_def)

lemma decode_Ins_request: "decode (sql_text (Ins_request user1 user2 t)) = Some (Ins_request user1 user2 t)"
  by (simp add: decode_def scan_Ins_request shapes_def insert_shapes_def)

lemma decode_Sel_request: "decode (sql_text (Sel_request user1 user2)) = Some (Sel_request user1 user2)"
  by (simp add: decode_def scan_Sel_request shapes_def rows_shapes_def)

lemma decode_Sel_friendship: "decode (sql_text (Sel_friendship user1 user2)) = Some (Sel_friendship user1 user2)"
  by (simp add: decode_def scan_Sel_friendship shapes_def rows_shapes_def)

lemma decode_Del_friend: "decode (sql_text (Del_friend user1 user2)) = Some (Del_friend user1 user2)"
  by (simp add: decode_def scan_Del_friend shapes_def delete_shapes_def)

lemma decode_Ins_member: "decode (sql_text (Ins_member user chat t read)) = Some (Ins_member user chat t read)"
  by (simp add: decode_def scan_Ins_member shapes_def insert_shapes_def)

lemma decode_Ins_chat: "clean desc \<Longrightarrow> decode (sql_text (Ins_chat user desc t)) = Some (Ins_chat user desc t)"
  by (simp add: decode_def scan_Ins_chat shapes_def insert_shapes_def)

lemma decode_Upd_chat_invalid: "decode (sql_text (Upd_chat_invalid chat)) = Some (Upd_chat_invalid chat)"
  by (simp add: decode_def scan_Upd_chat_invalid shapes_def update_shapes_def)

lemma decode_Upd_rejoin: "decode (sql_text (Upd_rejoin user chat t)) = Some (Upd_rejoin user chat t)"
  by (simp add: decode_def scan_Upd_rejoin shapes_def update_shapes_def)

lemma decode_Upd_leave: "decode (sql_text (Upd_leave user chat t)) = Some (Upd_leave user chat t)"
  by (simp add: decode_def scan_Upd_leave shapes_def update_shapes_def)

lemma decode_Upd_admin: "decode (sql_text (Upd_admin user chat t)) = Some (Upd_admin user chat t)"
  by (simp add: decode_def scan_Upd_admin shapes_def update_shapes_def)

lemma decode_Sel_admin: "decode (sql_text (Sel_admin user chat)) = Some (Sel_admin user chat)"
  by (simp add: decode_def scan_Sel_admin shapes_def rows_shapes_def)

lemma decode_Sel_still_users: "decode (sql_text (Sel_still_users chat)) = Some (Sel_still_users chat)"
  by (simp add: decode_def scan_Sel_still_users shapes_def rows_shapes_def)

lemma decode_Sel_first_users: "decode (sql_text (Sel_first_users chat)) = Some (Sel_first_users chat)"
  by (simp add: decode_def scan_Sel_first_users shapes_def rows_shapes_def)

lemma decode_Sel_chat_all: "decode (sql_text (Sel_chat_all chat t)) = Some (Sel_chat_all chat t)"
  by (simp add: decode_def scan_Sel_chat_all shapes_def columns_shapes_def)

lemma decode_Sel_can_attach: "decode (sql_text (Sel_can_attach user chat t)) = Some (Sel_can_attach user chat t)"
  by (simp add: decode_def scan_Sel_can_attach shapes_def columns_shapes_def)

lemma decode_Sel_have_attach: "decode (sql_text (Sel_have_attach user chat t)) = Some (Sel_have_attach user chat t)"
  by (simp add: decode_def scan_Sel_have_attach shapes_def columns_shapes_def)

lemma decode_Upd_read: "decode (sql_text (Upd_read user chat t)) = Some (Upd_read user chat t)"
  by (simp add: decode_def scan_Upd_read shapes_def update_shapes_def)

lemma decode_Upd_all_read: "decode (sql_text (Upd_all_read chat t)) = Some (Upd_all_read chat t)"
  by (simp add: decode_def scan_Upd_all_read shapes_def update_shapes_def)

lemma decode_Sel_notif_messages: "decode (sql_text (Sel_notif_messages user t)) = Some (Sel_notif_messages user t)"
  by (simp add: decode_def scan_Sel_notif_messages shapes_def joins_shapes_def)

lemma decode_Sel_notif_read: "decode (sql_text (Sel_notif_read user)) = Some (Sel_notif_read user)"
  by (simp add: decode_def scan_Sel_notif_read shapes_def joins_shapes_def)

lemma decode_Sel_notif_requests: "decode (sql_text (Sel_notif_requests user t)) = Some (Sel_notif_requests user t)"
  by (simp add: decode_def scan_Sel_notif_requests shapes_def joins_shapes_def)

lemma decode_Sel_notif_members: "decode (sql_text (Sel_notif_members user t)) = Some (Sel_notif_members user t)"
  by (simp add: decode_def scan_Sel_notif_members shapes_def joins_shapes_def)

lemma decode_Sel_notif_removed: "decode (sql_text (Sel_notif_removed user t)) = Some (Sel_notif_removed user t)"
  by (simp add: decode_def scan_Sel_notif_removed shapes_def joins_shapes_def)

lemma decode_Sel_notif_admins: "decode (sql_text (Sel_notif_admins user t)) = Some (Sel_notif_admins user t)"
  by (simp add: decode_def scan_Sel_notif_admins shapes_def joins_shapes_def)

lemma sql_clean_iff: "sql_clean st \<longleftrightarrow> (\<forall>s \<in> set (sql_strings st). clean s)"
  by (simp add: sql_clean_def list_all_iff)

lemmas decode_simps = decode_Ins_user decode_Upd_user_invalid decode_Sel_user_valid decode_Sel_user_entry
  decode_Sel_user_pass decode_Sel_user_id decode_Sel_user_name decode_Sel_user_info
  decode_Sel_chat_admin decode_Sel_chat_description decode_Sel_member decode_Sel_member_entry
  decode_Sel_chat_valid decode_Sel_friends decode_Sel_members decode_Sel_messages
  decode_Upd_leave_all decode_Sel_chats decode_Sel_message_time decode_Ins_message
  decode_Ins_message_file decode_Del_request decode_Ins_friend decode_Ins_request
  decode_Sel_request decode_Sel_friendship decode_Del_friend decode_Ins_member decode_Ins_chat
  decode_Upd_chat_invalid decode_Upd_rejoin decode_Upd_leave decode_Upd_admin decode_Sel_admin
  decode_Sel_still_users decode_Sel_first_users decode_Sel_chat_all decode_Sel_can_attach
  decode_Sel_have_attach decode_Upd_read decode_Upd_all_read decode_Sel_notif_messages
  decode_Sel_notif_read decode_Sel_notif_requests decode_Sel_notif_members
  decode_Sel_notif_removed decode_Sel_notif_admins

lemma decode_sql_text_eq:
  assumes "sql_clean st" "\<And>user chat t. st \<noteq> Sel_file user chat t"
  shows "decode (sql_text st) = Some st"
proof (cases st)
  case (Ins_message u c f x t)
  then show ?thesis using assms(1) by (cases f) (simp_all add: sql_clean_iff decode_simps)
next
  case (Sel_file u c t)
  then show ?thesis using assms(2) by blast
qed (use assms(1) in \<open>simp_all add: sql_clean_iff decode_simps\<close>)

text \<open>The text of \<open>get_file\<close> is not one of the shapes.\<close>

lemma decode_Sel_file: "decode (sql_text (Sel_file user chat t)) = None"
  by (simp add: decode_def scan_eval shapes_def columns_shapes_def)

end
