(* ===== verification/Database.thy ===== *)
theory Database
  imports Sql_Decode "HOL-Library.Multiset"
begin

text \<open>
  The database of \<open>script/sql/db-psd.sql\<close> and the meaning of the program's SQL statements
  on it.  A table is the list of its rows; an \<open>INT\<close> is a 32-bit word read with \<^const>\<open>sint\<close>;
  only the columns that the program can set to \<open>NULL\<close> are options.  \<open>exec\<close> gives the result
  rows and the next database, or \<^const>\<open>None\<close> when the statement violates a constraint of the
  schema (\<open>UNIQUE\<close>, \<open>FOREIGN KEY\<close>, the length of a \<open>VARCHAR\<close> in strict mode).

  MySQL itself is not part of the program: a server is an arbitrary function from the text of
  a query and a database to a result.  \<open>sql_server\<close> states what the program relies on: a clean
  statement is executed as \<open>exec\<close> says, in no particular row order and with some new
  \<open>AUTO_INCREMENT\<close> value.  Nothing is assumed of any other text.
\<close>

section \<open>Tables\<close>

record user_row =
  u_id :: cint
  u_valid :: "cint option"
  u_name :: string
  u_pass :: string
  u_info :: string

record chat_row =
  c_id :: cint
  c_admin :: cint
  c_admin_time :: cint
  c_read_time :: cint
  c_valid :: cint
  c_description :: string
  c_time :: cint

record friend_row =
  f_id1 :: cint
  f_id2 :: cint
  f_time :: cint

record member_row =
  m_user :: cint
  m_chat :: cint
  m_time :: cint
  m_read_time :: cint
  m_rem_time :: cint

record message_row =
  s_sender :: cint
  s_chat :: cint
  s_file :: "string option"
  s_text :: string
  s_time :: cint

record request_row =
  r_id1 :: cint
  r_id2 :: cint
  r_time :: cint

record db =
  t_users :: "user_row list"
  t_chats :: "chat_row list"
  t_friends :: "friend_row list"
  t_members :: "member_row list"
  t_messages :: "message_row list"
  t_requests :: "request_row list"

text \<open>The settings of the server: the sort key of a string under the collation of the
  columns, and whether the SQL mode is strict (then over-long values are refused unless they only lose
  spaces, else they are cut).\<close>

record dialect =
  weight :: "string \<Rightarrow> string"
  strict :: bool

definition varchar :: "dialect \<Rightarrow> nat \<Rightarrow> string \<Rightarrow> string option" where
  "varchar d n s =
     (if length s \<le> n then Some s
      else if strict d \<and> \<not> list_all (\<lambda>c. c = CHR 0x20) (drop n s) then None
      else Some (take n s))"

section \<open>Result rows\<close>

type_synonym row = "string option list" \<comment> \<open>\<open>MYSQL_ROW\<close>: \<^const>\<open>None\<close> is SQL's \<open>NULL\<close>\<close>

abbreviation cell :: "cint \<Rightarrow> string option" where
  "cell x \<equiv> Some (str_d x)"

definition user_cells :: "user_row \<Rightarrow> row" where
  "user_cells u = [cell (u_id u), map_option str_d (u_valid u), Some (u_name u), Some (u_pass u), Some (u_info u)]"

definition chat_cells :: "chat_row \<Rightarrow> row" where
  "chat_cells c = [cell (c_id c), cell (c_admin c), cell (c_admin_time c), cell (c_read_time c),
     cell (c_valid c), Some (c_description c), cell (c_time c)]"

definition member_cells :: "member_row \<Rightarrow> row" where
  "member_cells m = [cell (m_user m), cell (m_chat m), cell (m_time m), cell (m_read_time m), cell (m_rem_time m)]"

definition friend_cells :: "friend_row \<Rightarrow> row" where
  "friend_cells f = [cell (f_id1 f), cell (f_id2 f), cell (f_time f)]"

definition request_cells :: "request_row \<Rightarrow> row" where
  "request_cells r = [cell (r_id1 r), cell (r_id2 r), cell (r_time r)]"

text \<open>\<open>SELECT DISTINCT\<close>: of several rows with the same key, the first.\<close>

primrec distinct_acc :: "('a \<Rightarrow> 'k) \<Rightarrow> 'k list \<Rightarrow> 'a list \<Rightarrow> 'a list" where
  "distinct_acc k seen [] = []"
| "distinct_acc k seen (x # xs) =
     (if k x \<in> set seen then distinct_acc k seen xs else x # distinct_acc k (k x # seen) xs)"

abbreviation distinct_by :: "('a \<Rightarrow> 'k) \<Rightarrow> 'a list \<Rightarrow> 'a list" where
  "distinct_by k \<equiv> distinct_acc k []"

text \<open>The right-hand side of a \<open>LEFT JOIN\<close>: the matching rows, or one row of \<open>NULL\<close>s.\<close>

definition left_join :: "'a list \<Rightarrow> 'a option list" where
  "left_join xs = (if xs = [] then [None] else map Some xs)"

definition named :: "dialect \<Rightarrow> string \<Rightarrow> db \<Rightarrow> user_row list" where
  "named d name D = filter (\<lambda>u. weight d (u_name u) = weight d name) (t_users D)"

definition valid_user :: "user_row \<Rightarrow> bool" where
  "valid_user u \<longleftrightarrow> u_valid u = Some 1"

definition user_ids :: "db \<Rightarrow> cint set" where
  "user_ids D = u_id ` set (t_users D)"

definition chat_ids :: "db \<Rightarrow> cint set" where
  "chat_ids D = c_id ` set (t_chats D)"

section \<open>The meaning of the statements\<close>

text \<open>\<open>k\<close> is the value an \<open>AUTO_INCREMENT\<close> column takes.\<close>

primrec exec :: "dialect \<Rightarrow> cint \<Rightarrow> stmt \<Rightarrow> db \<Rightarrow> (row list \<times> db) option" where
  "exec d k (Ins_user name pass info) D =
     (case (varchar d 25 name, varchar d 25 pass, varchar d 100 info) of
        (Some n, Some p, Some i) \<Rightarrow>
          if weight d n \<in> (weight d \<circ> u_name) ` set (t_users D) then None
          else Some ([], D\<lparr>t_users := t_users D @
            [\<lparr>u_id = k, u_valid = Some 1, u_name = n, u_pass = p, u_info = i\<rparr>]\<rparr>)
      | _ \<Rightarrow> None)"
| "exec d k (Upd_user_invalid name) D =
     Some ([], D\<lparr>t_users := map (\<lambda>u. if weight d (u_name u) = weight d name
       then u\<lparr>u_valid := Some 0\<rparr> else u) (t_users D)\<rparr>)"
| "exec d k (Sel_user_valid name) D = Some (map user_cells (filter valid_user (named d name D)), D)"
| "exec d k (Sel_user_entry name) D = Some (map user_cells (named d name D), D)"
| "exec d k (Sel_user_pass name) D =
     Some (map (\<lambda>u. [Some (u_pass u)]) (filter valid_user (named d name D)), D)"
| "exec d k (Sel_user_id name) D =
     Some (map (\<lambda>u. [cell (u_id u)]) (filter valid_user (named d name D)), D)"
| "exec d k (Sel_user_name user) D =
     Some (map (\<lambda>u. [Some (u_name u)]) (filter (\<lambda>u. u_id u = user) (t_users D)), D)"
| "exec d k (Sel_user_info user) D =
     Some (map (\<lambda>u. [Some (u_info u)]) (filter (\<lambda>u. u_id u = user) (t_users D)), D)"
| "exec d k (Sel_chat_admin chat) D =
     Some (map (\<lambda>c. [cell (c_admin c)]) (filter (\<lambda>c. c_id c = chat) (t_chats D)), D)"
| "exec d k (Sel_chat_description chat) D =
     Some (map (\<lambda>c. [Some (c_description c)]) (filter (\<lambda>c. c_id c = chat) (t_chats D)), D)"
| "exec d k (Sel_member user chat) D =
     Some (map member_cells (filter (\<lambda>m. m_user m = user \<and> m_chat m = chat \<and> m_rem_time m = 0) (t_members D)), D)"
| "exec d k (Sel_member_entry user chat) D =
     Some (map member_cells (filter (\<lambda>m. m_user m = user \<and> m_chat m = chat) (t_members D)), D)"
| "exec d k (Sel_chat_valid chat) D =
     Some (map chat_cells (filter (\<lambda>c. c_id c = chat \<and> c_valid c = 1) (t_chats D)), D)"
| "exec d k (Sel_friends user t) D =
     Some (map (\<lambda>u. [Some (u_name u), Some (u_info u)])
       (distinct_by (\<lambda>u. (weight d (u_name u), weight d (u_info u)))
         [u. u \<leftarrow> t_users D, f \<leftarrow> t_friends D,
           (f_id1 f = u_id u \<or> f_id2 f = u_id u) \<and> (f_id1 f = user \<or> f_id2 f = user) \<and>
           u_id u \<noteq> user \<and> sint t \<le> sint (f_time f) \<and> valid_user u]), D)"
| "exec d k (Sel_members chat t) D =
     Some ([[Some (u_name u)]. u \<leftarrow> t_users D, m \<leftarrow> t_members D,
       m_user m = u_id u \<and> m_chat m = chat \<and> sint t \<le> sint (m_time m) \<and> m_rem_time m = 0], D)"
| "exec d k (Sel_messages chat user t) D =
     Some (map (\<lambda>(n, x). [n, Some (s_text x), cell (s_time x), s_file x])
       (distinct_by (\<lambda>(n, x). (map_option (weight d) n, weight d (s_text x), s_time x, map_option (weight d) (s_file x)))
         [(map_option u_name o_u, x). x \<leftarrow> t_messages D,
           m \<leftarrow> filter (\<lambda>m. m_chat m = s_chat x) (t_members D),
           o_u \<leftarrow> left_join (filter (\<lambda>u. u_id u = s_sender x) (t_users D)),
           sint (m_time m) < sint (s_time x) \<and> s_chat x = chat \<and> sint t \<le> sint (s_time x) \<and> m_user m = user]), D)"
| "exec d k (Upd_leave_all user t) D =
     Some ([], D\<lparr>t_members := map (\<lambda>m. if m_user m = user then m\<lparr>m_rem_time := t\<rparr> else m) (t_members D)\<rparr>)"
| "exec d k (Sel_chats user t) D =
     Some ([[cell (c_id c), Some (c_description c), Some (u_name u), cell (m_read_time m), cell (c_time c), cell (c_read_time c)].
       c \<leftarrow> t_chats D, m \<leftarrow> t_members D, u \<leftarrow> t_users D,
       m_chat m = c_id c \<and> u_id u = c_admin c \<and> m_user m = user \<and> sint t \<le> sint (c_time c) \<and> m_rem_time m = 0], D)"
| "exec d k (Sel_message_time chat t) D =
     Some (map (\<lambda>x. [cell (s_time x)]) (filter (\<lambda>x. s_chat x = chat \<and> s_time x = t) (t_messages D)), D)"
| "exec d k (Ins_message user chat file txt t) D =
     (case (case file of None \<Rightarrow> Some None | Some f \<Rightarrow> map_option Some (varchar d 50 f), varchar d 500 txt) of
        (Some f, Some x) \<Rightarrow>
          if user \<in> user_ids D \<and> chat \<in> chat_ids D
          then Some ([], D\<lparr>t_messages := t_messages D @
            [\<lparr>s_sender = user, s_chat = chat, s_file = f, s_text = x, s_time = t\<rparr>]\<rparr>)
          else None
      | _ \<Rightarrow> None)"
| "exec d k (Del_request user1 user2) D =
     Some ([], D\<lparr>t_requests := filter (\<lambda>r. \<not> (r_id1 r = user1 \<and> r_id2 r = user2)) (t_requests D)\<rparr>)"
| "exec d k (Ins_friend user1 user2 t) D =
     (if user1 \<in> user_ids D \<and> user2 \<in> user_ids D
      then Some ([], D\<lparr>t_friends := t_friends D @ [\<lparr>f_id1 = user1, f_id2 = user2, f_time = t\<rparr>]\<rparr>) else None)"
| "exec d k (Ins_request user1 user2 t) D =
     (if user1 \<in> user_ids D \<and> user2 \<in> user_ids D
      then Some ([], D\<lparr>t_requests := t_requests D @ [\<lparr>r_id1 = user1, r_id2 = user2, r_time = t\<rparr>]\<rparr>) else None)"
| "exec d k (Sel_request user1 user2) D =
     Some (map request_cells (filter (\<lambda>r. r_id1 r = user1 \<and> r_id2 r = user2) (t_requests D)), D)"
| "exec d k (Sel_friendship user1 user2) D =
     Some (map friend_cells (filter (\<lambda>f. (f_id1 f = user1 \<and> f_id2 f = user2) \<or> (f_id1 f = user2 \<and> f_id2 f = user1))
       (t_friends D)), D)"
| "exec d k (Del_friend user1 user2) D =
     Some ([], D\<lparr>t_friends := filter (\<lambda>f. \<not> (f_id1 f = user1 \<and> f_id2 f = user2)) (t_friends D)\<rparr>)"
| "exec d k (Ins_member user chat t read) D =
     (if user \<in> user_ids D \<and> chat \<in> chat_ids D
      then Some ([], D\<lparr>t_members := t_members D @
        [\<lparr>m_user = user, m_chat = chat, m_time = t, m_read_time = read, m_rem_time = 0\<rparr>]\<rparr>) else None)"
| "exec d k (Ins_chat user desc t) D =
     (case varchar d 100 desc of None \<Rightarrow> None
      | Some x \<Rightarrow>
        if user \<in> user_ids D
        then Some ([], D\<lparr>t_chats := t_chats D @
          [\<lparr>c_id = k, c_admin = user, c_admin_time = t, c_read_time = 0, c_valid = 1, c_description = x, c_time = t\<rparr>]\<rparr>)
        else None)"
| "exec d k (Upd_chat_invalid chat) D =
     Some ([], D\<lparr>t_chats := map (\<lambda>c. if c_id c = chat then c\<lparr>c_valid := 0\<rparr> else c) (t_chats D)\<rparr>)"
| "exec d k (Upd_rejoin user chat t) D =
     Some ([], D\<lparr>t_members := map (\<lambda>m. if m_user m = user \<and> m_chat m = chat
       then m\<lparr>m_rem_time := 0, m_time := t\<rparr> else m) (t_members D)\<rparr>)"
| "exec d k (Upd_leave user chat t) D =
     Some ([], D\<lparr>t_members := map (\<lambda>m. if m_user m = user \<and> m_chat m = chat
       then m\<lparr>m_rem_time := t\<rparr> else m) (t_members D)\<rparr>)"
| "exec d k (Upd_admin user chat t) D =
     (if chat \<in> chat_ids D \<and> user \<notin> user_ids D then None
      else Some ([], D\<lparr>t_chats := map (\<lambda>c. if c_id c = chat
        then c\<lparr>c_admin := user, c_admin_time := t\<rparr> else c) (t_chats D)\<rparr>))"
| "exec d k (Sel_admin user chat) D =
     Some (map chat_cells (filter (\<lambda>c. c_admin c = user \<and> c_id c = chat) (t_chats D)), D)"
| "exec d k (Sel_still_users chat) D =
     Some (map member_cells (filter (\<lambda>m. m_chat m = chat \<and> m_rem_time m = 0) (t_members D)), D)"
| "exec d k (Sel_first_users chat) D =
     Some (map member_cells (filter (\<lambda>m. m_chat m = chat \<and> m_rem_time m = 0) (t_members D)), D)"
| "exec d k (Sel_chat_all chat t) D =
     Some ([[Some (u_name u), Some (c_description c), cell (c_read_time c)].
       c \<leftarrow> t_chats D, u \<leftarrow> t_users D, u_id u = c_admin c \<and> c_id c = chat \<and> sint t \<le> sint (c_time c)], D)"
| "exec d k (Sel_file user chat t) D = None" \<comment> \<open>a syntax error\<close>
| "exec d k (Sel_can_attach user chat t) D =
     Some (map (\<lambda>x. [s_file x]) (filter (\<lambda>x. s_sender x = user \<and> s_chat x = chat \<and> s_time x = t) (t_messages D)), D)"
| "exec d k (Sel_have_attach user chat t) D =
     Some ([[s_file x]. m \<leftarrow> t_members D, x \<leftarrow> t_messages D,
       m_chat m = s_chat x \<and> sint (m_time m) \<le> sint (s_time x) \<and>
       m_user m = user \<and> s_chat x = chat \<and> s_time x = t], D)"
| "exec d k (Upd_read user chat t) D =
     Some ([], D\<lparr>t_members := map (\<lambda>m. if m_user m = user \<and> m_chat m = chat \<and> sint (m_read_time m) < sint t
       then m\<lparr>m_read_time := t\<rparr> else m) (t_members D)\<rparr>)"
| "exec d k (Upd_all_read chat t) D =
     Some ([], D\<lparr>t_chats := map (\<lambda>c. if c_id c = chat \<and>
         \<not> (\<exists>m \<in> set (t_members D). m_chat m = c_id c \<and> sint (m_read_time m) < sint t \<and> m_rem_time m = 0)
       then c\<lparr>c_read_time := t\<rparr> else c) (t_chats D)\<rparr>)"
| "exec d k (Sel_notif_messages user t) D =
     Some (map (\<lambda>i. [cell i]) (distinct_by (\<lambda>i. i)
       [m_chat m. m \<leftarrow> t_members D, x \<leftarrow> t_messages D,
         m_chat m = s_chat x \<and> m_rem_time m = 0 \<and> sint (m_time m) < sint (s_time x) \<and>
         m_user m = user \<and> sint t \<le> sint (s_time x)]), D)"
| "exec d k (Sel_notif_read user) D =
     Some ([[map_option (str_d \<circ> c_id) o_c, map_option (str_d \<circ> c_read_time) o_c].
       m \<leftarrow> filter (\<lambda>m. m_user m = user) (t_members D),
       o_c \<leftarrow> left_join (filter (\<lambda>c. c_id c = m_chat m) (t_chats D))], D)"
| "exec d k (Sel_notif_requests user t) D =
     Some ([[Some (u_name u), cell (r_time r)]. u \<leftarrow> t_users D, r \<leftarrow> t_requests D,
       u_id u = r_id1 r \<and> r_id2 r = user \<and> sint t \<le> sint (r_time r)], D)"
| "exec d k (Sel_notif_members user t) D =
     Some ([[Some (u_name u), cell (m_chat m), cell (m_time m)].
       m \<leftarrow> t_members D, own \<leftarrow> t_members D, u \<leftarrow> t_users D,
       m_chat m = m_chat own \<and> m_user m = u_id u \<and> m_user own = user \<and>
       sint t \<le> sint (m_time m) \<and> m_rem_time m = 0], D)"
| "exec d k (Sel_notif_removed user t) D =
     Some ([[Some (u_name u), cell (m_chat m), cell (m_time m)].
       m \<leftarrow> t_members D, own \<leftarrow> t_members D, u \<leftarrow> t_users D,
       m_chat m = m_chat own \<and> m_user m = u_id u \<and> m_user own = user \<and>
       sint t \<le> sint (m_rem_time m)], D)"
| "exec d k (Sel_notif_admins user t) D =
     Some ([[Some (u_name u), cell (c_id c), cell (c_admin_time c)].
       c \<leftarrow> t_chats D, own \<leftarrow> t_members D, u \<leftarrow> t_users D,
       c_id c = m_chat own \<and> c_admin c = u_id u \<and> m_user own = user \<and>
       sint t \<le> sint (c_admin_time c)], D)"

section \<open>The server\<close>

text \<open>An \<open>AUTO_INCREMENT\<close> column takes a value above all those in the table.\<close>

definition fresh_id :: "cint \<Rightarrow> cint set \<Rightarrow> bool" where
  "fresh_id k ids \<longleftrightarrow> 0 < sint k \<and> (\<forall>i \<in> ids. sint i < sint k)"

definition fresh_for :: "stmt \<Rightarrow> cint \<Rightarrow> db \<Rightarrow> bool" where
  "fresh_for st k D =
     (case st of Ins_user _ _ _ \<Rightarrow> fresh_id k (user_ids D)
      | Ins_chat _ _ _ \<Rightarrow> fresh_id k (chat_ids D)
      | _ \<Rightarrow> True)"

type_synonym engine = "string \<Rightarrow> db \<Rightarrow> (row list \<times> db \<times> cint) option"

definition sql_server :: "dialect \<Rightarrow> engine \<Rightarrow> bool" where
  "sql_server d eng \<longleftrightarrow>
     (\<forall>st D. sql_clean st \<longrightarrow>
        (case eng (sql_text st) D of
           None \<Rightarrow> \<forall>k. fresh_for st k D \<longrightarrow> exec d k st D = None
         | Some (rows, D', k) \<Rightarrow>
             fresh_for st k D \<and> (\<exists>rows0. exec d k st D = Some (rows0, D') \<and> mset rows = mset rows0)))"

text \<open>A query that may be answered: some new id is left, or none is needed.\<close>

definition id_left :: "stmt \<Rightarrow> db \<Rightarrow> bool" where
  "id_left st D \<longleftrightarrow> (\<exists>k. fresh_for st k D)"

text \<open>A concrete server, which reads the statement back from its text.\<close>

definition next_id :: "cint set \<Rightarrow> cint" where
  "next_id ids = (if ids = {} then 1 else word_of_int (max 0 (Max (sint ` ids)) + 1))"

definition choose_id :: "stmt \<Rightarrow> db \<Rightarrow> cint" where
  "choose_id st D =
     (case st of Ins_user _ _ _ \<Rightarrow> next_id (user_ids D)
      | Ins_chat _ _ _ \<Rightarrow> next_id (chat_ids D)
      | _ \<Rightarrow> 0)"

definition exhausted :: "cint set \<Rightarrow> bool" where
  "exhausted ids \<longleftrightarrow> 2 ^ 31 - 1 \<in> sint ` ids"

definition no_id :: "stmt \<Rightarrow> db \<Rightarrow> bool" where
  "no_id st D =
     (case st of Ins_user _ _ _ \<Rightarrow> exhausted (user_ids D)
      | Ins_chat _ _ _ \<Rightarrow> exhausted (chat_ids D)
      | _ \<Rightarrow> False)"

definition reference_engine :: "dialect \<Rightarrow> engine" where
  "reference_engine d text D =
     (case decode text of None \<Rightarrow> None
      | Some st \<Rightarrow>
          if no_id st D then None
          else map_option (\<lambda>(rows, D'). (rows, D', choose_id st D)) (exec d (choose_id st D) st D))"

lemma next_id_fresh:
  assumes "finite ids" "\<not> exhausted ids"
  shows "fresh_id (next_id ids) ids"
proof (cases "ids = {}")
  case True
  then show ?thesis by (simp add: fresh_id_def next_id_def)
next
  case False
  define M where "M = Max (sint ` ids)"
  have fin: "finite (sint ` ids)" and ne: "sint ` ids \<noteq> {}" using assms(1) False by auto
  have Min: "M \<in> sint ` ids" unfolding M_def by (rule Max_in [OF fin ne])
  then have "M \<noteq> 2 ^ 31 - 1" using assms(2) by (auto simp: exhausted_def)
  moreover from Min have "M < 2 ^ 31" using sint_cint_upper by auto
  ultimately have small: "max 0 M + 1 < 2 ^ 31" by auto
  have "sint (word_of_int (max 0 M + 1) :: cint) = max 0 M + 1"
    by (subst sint_sbintrunc', rule signed_take_bit_int_eq_self) (use small in auto)
  moreover have "\<forall>i \<in> ids. sint i \<le> M" unfolding M_def using fin by auto
  moreover have "next_id ids = word_of_int (max 0 M + 1)" using False by (simp only: next_id_def M_def if_False)
  ultimately show ?thesis by (fastforce simp only: fresh_id_def)
qed

lemma exhausted_not_fresh: "exhausted ids \<Longrightarrow> \<not> fresh_id k ids"
  using sint_cint_upper [of k] by (force simp: exhausted_def fresh_id_def)

lemma finite_ids [simp]: "finite (user_ids D)" "finite (chat_ids D)"
  by (simp_all add: user_ids_def chat_ids_def)

lemma choose_id_fresh: "\<not> no_id st D \<Longrightarrow> fresh_for st (choose_id st D) D"
  by (cases st) (simp_all add: no_id_def fresh_for_def choose_id_def next_id_fresh)

lemma no_id_fresh: "no_id st D \<Longrightarrow> \<not> fresh_for st k D"
  by (cases st) (simp_all add: no_id_def fresh_for_def exhausted_not_fresh)

lemma exec_fresh_indep: "exec d k st D = None \<Longrightarrow> exec d k' st D = None"
  by (cases st) (auto split: option.splits if_splits)

lemma reference_engine_ok: "sql_server d (reference_engine d)"
  unfolding sql_server_def
proof (intro allI impI)
  fix st D assume clean: "sql_clean st"
  show "case reference_engine d (sql_text st) D of
      None \<Rightarrow> \<forall>k. fresh_for st k D \<longrightarrow> exec d k st D = None
    | Some (rows, D', k) \<Rightarrow> fresh_for st k D \<and> (\<exists>rows0. exec d k st D = Some (rows0, D') \<and> mset rows = mset rows0)"
  proof (cases "\<exists>u c t. st = Sel_file u c t")
    case True
    then show ?thesis by (auto simp: reference_engine_def decode_Sel_file)
  next
    case False
    then have "decode (sql_text st) = Some st" using clean by (intro decode_sql_text_eq) auto
    then show ?thesis
      by (auto simp: reference_engine_def no_id_fresh choose_id_fresh
          split: option.splits dest: exec_fresh_indep)
  qed
qed

text \<open>The statements that only read.\<close>

definition sql_select :: "stmt \<Rightarrow> bool" where
  "sql_select st \<longleftrightarrow> take 1 (sql_head st) \<in> {''S'', ''s''} \<and>
     (case st of Sel_file _ _ _ \<Rightarrow> False | _ \<Rightarrow> True)"

section \<open>Invariants of the database\<close>

text \<open>The constraints of the schema.\<close>

definition db_ok :: "dialect \<Rightarrow> db \<Rightarrow> bool" where
  "db_ok d D \<longleftrightarrow>
     distinct (map u_id (t_users D)) \<and>
     distinct (map (weight d \<circ> u_name) (t_users D)) \<and>
     distinct (map c_id (t_chats D)) \<and>
     (\<forall>i \<in> user_ids D \<union> chat_ids D. 0 < sint i) \<and>
     (\<forall>u \<in> set (t_users D). length (u_name u) \<le> 25 \<and> length (u_pass u) \<le> 25 \<and> length (u_info u) \<le> 100) \<and>
     (\<forall>c \<in> set (t_chats D). c_admin c \<in> user_ids D \<and> length (c_description c) \<le> 100) \<and>
     (\<forall>f \<in> set (t_friends D). f_id1 f \<in> user_ids D \<and> f_id2 f \<in> user_ids D) \<and>
     (\<forall>m \<in> set (t_members D). m_user m \<in> user_ids D \<and> m_chat m \<in> chat_ids D) \<and>
     (\<forall>x \<in> set (t_messages D). s_sender x \<in> user_ids D \<and> s_chat x \<in> chat_ids D \<and> length (s_text x) \<le> 500) \<and>
     (\<forall>r \<in> set (t_requests D). r_id1 r \<in> user_ids D \<and> r_id2 r \<in> user_ids D)"

lemma varchar_length: "varchar d n s = Some t \<Longrightarrow> length t \<le> n"
  by (auto simp: varchar_def split: if_splits)

lemma fresh_id_notin: "fresh_id k ids \<Longrightarrow> k \<notin> ids"
  by (auto simp: fresh_id_def)

lemma exec_select_db:
  assumes "exec d k st D = Some (rows, D')" "sql_select st"
  shows "D' = D"
  using assms by (cases st) (auto simp: sql_select_def split: option.splits if_splits)

lemma ids_simps [simp]:
  "user_ids (D\<lparr>t_members := ms\<rparr>) = user_ids D" "chat_ids (D\<lparr>t_members := ms\<rparr>) = chat_ids D"
  "user_ids (D\<lparr>t_messages := xs\<rparr>) = user_ids D" "chat_ids (D\<lparr>t_messages := xs\<rparr>) = chat_ids D"
  "user_ids (D\<lparr>t_friends := fs\<rparr>) = user_ids D" "chat_ids (D\<lparr>t_friends := fs\<rparr>) = chat_ids D"
  "user_ids (D\<lparr>t_requests := rs\<rparr>) = user_ids D" "chat_ids (D\<lparr>t_requests := rs\<rparr>) = chat_ids D"
  "user_ids (D\<lparr>t_chats := cs\<rparr>) = user_ids D" "chat_ids (D\<lparr>t_users := us\<rparr>) = chat_ids D"
  "user_ids (D\<lparr>t_users := us\<rparr>) = u_id ` set us" "chat_ids (D\<lparr>t_chats := cs\<rparr>) = c_id ` set cs"
  by (simp_all add: user_ids_def chat_ids_def)

lemma db_ok_set_members:
  "db_ok d D \<Longrightarrow> (\<And>m. m \<in> set ms \<Longrightarrow> m_user m \<in> user_ids D \<and> m_chat m \<in> chat_ids D) \<Longrightarrow>
   db_ok d (D\<lparr>t_members := ms\<rparr>)"
  by (simp add: db_ok_def)

lemma db_ok_set_messages:
  "db_ok d D \<Longrightarrow> (\<And>x. x \<in> set xs \<Longrightarrow> s_sender x \<in> user_ids D \<and> s_chat x \<in> chat_ids D \<and> length (s_text x) \<le> 500) \<Longrightarrow>
   db_ok d (D\<lparr>t_messages := xs\<rparr>)"
  by (simp add: db_ok_def)

lemma db_ok_set_friends:
  "db_ok d D \<Longrightarrow> (\<And>f. f \<in> set fs \<Longrightarrow> f_id1 f \<in> user_ids D \<and> f_id2 f \<in> user_ids D) \<Longrightarrow>
   db_ok d (D\<lparr>t_friends := fs\<rparr>)"
  by (simp add: db_ok_def)

lemma db_ok_set_requests:
  "db_ok d D \<Longrightarrow> (\<And>r. r \<in> set rs \<Longrightarrow> r_id1 r \<in> user_ids D \<and> r_id2 r \<in> user_ids D) \<Longrightarrow>
   db_ok d (D\<lparr>t_requests := rs\<rparr>)"
  by (simp add: db_ok_def)

lemma db_ok_set_chats:
  assumes "db_ok d D" "chat_ids D \<subseteq> c_id ` set cs" "distinct (map c_id cs)"
    and "\<And>c. c \<in> set cs \<Longrightarrow> c_admin c \<in> user_ids D \<and> length (c_description c) \<le> 100 \<and> 0 < sint (c_id c)"
  shows "db_ok d (D\<lparr>t_chats := cs\<rparr>)"
  using assms unfolding db_ok_def by (auto simp: subset_iff)

lemma db_ok_map_chats:
  assumes "db_ok d D" "\<And>c. c_id (g c) = c_id c" "\<And>c. c_description (g c) = c_description c"
    and "\<And>c. c \<in> set (t_chats D) \<Longrightarrow> P c \<Longrightarrow> c_admin (g c) \<in> user_ids D"
  shows "db_ok d (D\<lparr>t_chats := map (\<lambda>c. if P c then g c else c) (t_chats D)\<rparr>)"
proof (rule db_ok_set_chats [OF assms(1)])
  have eq: "map c_id (map (\<lambda>c. if P c then g c else c) (t_chats D)) = map c_id (t_chats D)"
    using assms(2) by simp
  show "chat_ids D \<subseteq> c_id ` set (map (\<lambda>c. if P c then g c else c) (t_chats D))"
    unfolding chat_ids_def set_map [symmetric] eq by (rule subset_refl)
  show "distinct (map c_id (map (\<lambda>c. if P c then g c else c) (t_chats D)))"
    unfolding eq using assms(1) by (simp add: db_ok_def)
next
  have "c_admin c \<in> user_ids D \<and> length (c_description c) \<le> 100 \<and> 0 < sint (c_id c)"
    if "c \<in> set (t_chats D)" for c
    using that assms(1) by (simp add: db_ok_def chat_ids_def)
  then show "c_admin c \<in> user_ids D \<and> length (c_description c) \<le> 100 \<and> 0 < sint (c_id c)"
    if "c \<in> set (map (\<lambda>c. if P c then g c else c) (t_chats D))" for c
    using that assms(2-4) by (auto split: if_splits)
qed

lemma db_ok_set_users:
  assumes "db_ok d D" "user_ids D \<subseteq> u_id ` set us" "distinct (map u_id us)"
    and "distinct (map (weight d \<circ> u_name) us)"
    and "\<And>u. u \<in> set us \<Longrightarrow> length (u_name u) \<le> 25 \<and> length (u_pass u) \<le> 25 \<and> length (u_info u) \<le> 100 \<and>
      0 < sint (u_id u)"
  shows "db_ok d (D\<lparr>t_users := us\<rparr>)"
proof -
  let ?ids = "u_id ` set us"
  have sub: "i \<in> user_ids D \<Longrightarrow> i \<in> ?ids" for i using assms(2) by blast
  have "\<forall>i \<in> chat_ids D. 0 < sint i" "distinct (map c_id (t_chats D))"
    "\<forall>c \<in> set (t_chats D). c_admin c \<in> ?ids \<and> length (c_description c) \<le> 100"
    "\<forall>f \<in> set (t_friends D). f_id1 f \<in> ?ids \<and> f_id2 f \<in> ?ids"
    "\<forall>m \<in> set (t_members D). m_user m \<in> ?ids \<and> m_chat m \<in> chat_ids D"
    "\<forall>x \<in> set (t_messages D). s_sender x \<in> ?ids \<and> s_chat x \<in> chat_ids D \<and> length (s_text x) \<le> 500"
    "\<forall>r \<in> set (t_requests D). r_id1 r \<in> ?ids \<and> r_id2 r \<in> ?ids"
    using assms(1) unfolding db_ok_def by (simp_all add: sub)
  moreover have "\<forall>i \<in> ?ids. 0 < sint i" using assms(5) by simp
  ultimately show ?thesis
    using assms(3-5) unfolding db_ok_def ids_simps by (simp add: ball_Un)
qed

lemma exec_db_ok:
  assumes "db_ok d D" "fresh_for st k D" "exec d k st D = Some (rows, D')"
  shows "db_ok d D'"
proof (cases "sql_select st")
  case True
  with assms show ?thesis using exec_select_db by blast
next
  case False
  have admins: "c_admin c \<in> user_ids D" if "c \<in> set (t_chats D)" for c
    using that assms(1) by (simp add: db_ok_def)
  have refs: "f \<in> set (t_friends D) \<Longrightarrow> f_id1 f \<in> user_ids D \<and> f_id2 f \<in> user_ids D"
    "m \<in> set (t_members D) \<Longrightarrow> m_user m \<in> user_ids D \<and> m_chat m \<in> chat_ids D"
    "x \<in> set (t_messages D) \<Longrightarrow> s_sender x \<in> user_ids D \<and> s_chat x \<in> chat_ids D \<and> length (s_text x) \<le> 500"
    "r \<in> set (t_requests D) \<Longrightarrow> r_id1 r \<in> user_ids D \<and> r_id2 r \<in> user_ids D" for f m x r
    using assms(1) by (simp_all add: db_ok_def)
  note sets = db_ok_set_members [OF assms(1)] db_ok_set_messages [OF assms(1)]
    db_ok_set_friends [OF assms(1)] db_ok_set_requests [OF assms(1)]
  show ?thesis
  proof (cases st)
    case (Ins_user name pass info)
    then obtain n p i where v: "varchar d 25 name = Some n" "varchar d 25 pass = Some p" "varchar d 100 info = Some i"
      "weight d n \<notin> (weight d \<circ> u_name) ` set (t_users D)"
      "D' = D\<lparr>t_users := t_users D @ [\<lparr>u_id = k, u_valid = Some 1, u_name = n, u_pass = p, u_info = i\<rparr>]\<rparr>"
      using assms(3) by (auto split: option.splits if_splits)
    have "k \<notin> user_ids D" "0 < sint k"
      using assms(2) Ins_user by (simp_all add: fresh_for_def fresh_id_notin, simp add: fresh_id_def)
    then show ?thesis
      unfolding v(5) using v assms(1)
      by (intro db_ok_set_users) (auto simp: user_ids_def db_ok_def dest: varchar_length)
  next
    case (Upd_user_invalid name)
    define g :: "user_row \<Rightarrow> user_row" where "g = (\<lambda>u. if weight d (u_name u) = weight d name then u\<lparr>u_valid := Some 0\<rparr> else u)"
    have g: "u_id (g u) = u_id u" "u_name (g u) = u_name u" "u_pass (g u) = u_pass u" "u_info (g u) = u_info u" for u
      by (simp_all add: g_def)
    have "D' = D\<lparr>t_users := map g (t_users D)\<rparr>" using Upd_user_invalid assms(3) by (simp add: g_def)
    moreover have "db_ok d (D\<lparr>t_users := map g (t_users D)\<rparr>)"
    proof (rule db_ok_set_users [OF assms(1)])
      have eq: "map u_id (map g (t_users D)) = map u_id (t_users D)"
        "map (weight d \<circ> u_name) (map g (t_users D)) = map (weight d \<circ> u_name) (t_users D)"
        by (simp_all add: g)
      show "user_ids D \<subseteq> u_id ` set (map g (t_users D))"
        unfolding user_ids_def set_map [symmetric] eq by (rule subset_refl)
      show "distinct (map u_id (map g (t_users D)))" "distinct (map (weight d \<circ> u_name) (map g (t_users D)))"
        unfolding eq using assms(1) by (simp_all add: db_ok_def)
    next
      fix u assume "u \<in> set (map g (t_users D))"
      then obtain v where "v \<in> set (t_users D)" "u = g v" by auto
      then show "length (u_name u) \<le> 25 \<and> length (u_pass u) \<le> 25 \<and> length (u_info u) \<le> 100 \<and> 0 < sint (u_id u)"
        using assms(1) by (simp add: g db_ok_def user_ids_def)
    qed
    ultimately show ?thesis by simp
  next
    case (Upd_leave_all user t)
    then show ?thesis using assms(3) refs by (auto intro!: sets)
  next
    case (Ins_message user chat path y t)
    then obtain f x where v: "varchar d 500 y = Some x" "user \<in> user_ids D" "chat \<in> chat_ids D"
      "D' = D\<lparr>t_messages := t_messages D @
        [\<lparr>s_sender = user, s_chat = chat, s_file = f, s_text = x, s_time = t\<rparr>]\<rparr>"
      using assms(3) by (auto split: option.splits if_splits)
    then show ?thesis
      using refs(3) varchar_length [OF v(1)] by (auto intro!: sets)
  next
    case (Del_request user1 user2)
    then show ?thesis using assms(3) refs by (auto intro!: sets)
  next
    case (Ins_friend user1 user2 t)
    then show ?thesis using assms(3) refs by (auto intro!: sets split: if_splits)
  next
    case (Ins_request user1 user2 t)
    then show ?thesis using assms(3) refs by (auto intro!: sets split: if_splits)
  next
    case (Del_friend user1 user2)
    then show ?thesis using assms(3) refs by (auto intro!: sets)
  next
    case (Ins_member user chat t read)
    then show ?thesis using assms(3) refs by (auto intro!: sets split: if_splits)
  next
    case (Ins_chat user desc t)
    then obtain x where v: "varchar d 100 desc = Some x" "user \<in> user_ids D"
      "D' = D\<lparr>t_chats := t_chats D @ [\<lparr>c_id = k, c_admin = user, c_admin_time = t, c_read_time = 0,
        c_valid = 1, c_description = x, c_time = t\<rparr>]\<rparr>"
      using assms(3) by (auto split: option.splits if_splits)
    have "k \<notin> chat_ids D" "0 < sint k"
      using assms(2) Ins_chat by (simp_all add: fresh_for_def fresh_id_notin, simp add: fresh_id_def)
    then show ?thesis
      unfolding v(3) using v assms(1)
      by (intro db_ok_set_chats) (auto simp: chat_ids_def db_ok_def dest: varchar_length)
  next
    case (Upd_chat_invalid chat)
    then show ?thesis using assms admins by (auto intro!: db_ok_map_chats)
  next
    case (Upd_rejoin user chat t)
    then show ?thesis using assms(3) refs by (auto intro!: sets)
  next
    case (Upd_leave user chat t)
    then show ?thesis using assms(3) refs by (auto intro!: sets)
  next
    case (Upd_admin user chat t)
    then show ?thesis using assms
      by (auto intro!: db_ok_map_chats split: if_splits simp: chat_ids_def)
  next
    case (Upd_read user chat t)
    then show ?thesis using assms(3) refs by (auto intro!: sets)
  next
    case (Upd_all_read chat t)
    then show ?thesis using assms admins by (auto intro!: db_ok_map_chats)
  qed (use False assms(3) in \<open>simp_all add: sql_select_def\<close>)
qed

end
