(* ===== verification/World.thy ===== *)
theory World
  imports Database
begin

text \<open>
  What the server program acts on: the database behind the MySQL client library, the open
  connections, the clock, the attachment files and the allocator.  Everything that the program
  cannot control is in the record \<open>env\<close>, as oracles indexed by the number of the call: which
  connection attempts are refused, which queries fail for other reasons than the query, which
  file operations fail, what \<open>time\<close> returns.

  A program that would crash (an access through \<open>NULL\<close>) or never return has the result
  \<^const>\<open>None\<close>.  A write beyond the end of a character array, or a use of a freed handle, sets the
  flag \<open>corrupted\<close> and the run goes on with the intended values: what the damage would change
  is outside the model, the flag says that it may happen.
\<close>

declare sql_head.simps [simp del] sql_tail.simps [simp del]

section \<open>The environment and the state\<close>

record env =
  engine :: engine
  outage :: "nat \<Rightarrow> bool"
  refuse :: "nat \<Rightarrow> bool"
  mysql_is_thread_safe :: bool
  clock :: "nat \<Rightarrow> cint"
  io_fails :: "nat \<Rightarrow> bool"
  stack_junk :: string \<comment> \<open>the string an uninitialised array happens to hold\<close>

record world = mem +
  env :: env
  db :: db
  queries :: nat
  connects :: nat
  connections :: "nat set"
  ticks :: nat
  io_ops :: nat
  files_dir :: bool
  files :: "string \<Rightarrow> string option"
  corrupted :: bool

section \<open>The C library\<close>

text \<open>\<open>sprintf(buf, "%d", n)\<close> into an array of \<open>cap\<close> bytes.\<close>

definition sprintf_d :: "nat \<Rightarrow> cint \<Rightarrow> world \<Rightarrow> string \<times> world" where
  "sprintf_d cap n w = (str_d n, w\<lparr>corrupted := corrupted w \<or> cap \<le> strlen (str_d n)\<rparr>)"

text \<open>An array of \<open>cap\<close> bytes takes the string \<open>s\<close> (by \<open>strcat\<close>, \<open>strcpy\<close> or \<open>sprintf\<close>).\<close>

definition fill :: "nat \<Rightarrow> string \<Rightarrow> world \<Rightarrow> world" where
  "fill cap s w = w\<lparr>corrupted := corrupted w \<or> cap \<le> strlen s\<rparr>"

definition now :: "world \<Rightarrow> cint \<times> world" where
  "now w = (clock (env w) (ticks w), w\<lparr>ticks := Suc (ticks w)\<rparr>)"

text \<open>\<open>soap_malloc\<close>, whose result the program never checks, followed by \<open>strcpy\<close> of a column:
  a crash when the column is \<open>NULL\<close> or there is no memory.\<close>

definition soap_strdup :: "string option \<Rightarrow> world \<Rightarrow> (string \<times> world) option" where
  "soap_strdup s w =
     (case s of None \<Rightarrow> None
      | Some s \<Rightarrow> (case malloc w of (None, w) \<Rightarrow> None | (Some _, w) \<Rightarrow> Some (s, w)))"

text \<open>An array for \<open>n\<close> elements; its elements are accessed only if there are any.\<close>

definition soap_array :: "nat \<Rightarrow> world \<Rightarrow> world option" where
  "soap_array n w = (case malloc w of (None, w) \<Rightarrow> if n = 0 then Some w else None | (Some _, w) \<Rightarrow> Some w)"

section \<open>The MySQL client library\<close>

text \<open>\<open>mysql_query\<close> with the stored result and the last insert id; \<^const>\<open>None\<close> is an error
  code.\<close>

definition mysql_query :: "string \<Rightarrow> world \<Rightarrow> (row list \<times> cint) option \<times> world" where
  "mysql_query text w =
     (let n = queries w; w = w\<lparr>queries := Suc n\<rparr> in
      if outage (env w) n then (None, w)
      else case engine (env w) text (db w) of
        None \<Rightarrow> (None, w)
      | Some (rows, D, k) \<Rightarrow> (Some (rows, k), w\<lparr>db := D\<rparr>))"

text \<open>A statement is put together in an array of \<open>cap\<close> bytes and sent.\<close>

definition run_sql :: "nat \<Rightarrow> stmt \<Rightarrow> world \<Rightarrow> (row list \<times> cint) option \<times> world" where
  "run_sql cap st w = mysql_query (sql_text st) (fill cap (sql_text st) w)"

definition mysql_real_connect :: "world \<Rightarrow> nat option \<times> world" where
  "mysql_real_connect w =
     (let n = connects w; w = w\<lparr>connects := Suc n\<rparr> in
      if refuse (env w) n then (None, w)
      else (Some n, w\<lparr>connections := insert n (connections w)\<rparr>))"

definition mysql_close :: "nat \<Rightarrow> world \<Rightarrow> world" where
  "mysql_close h w = w\<lparr>connections := connections w - {h}\<rparr>"

text \<open>\<open>row[i]\<close>.\<close>

definition column :: "row \<Rightarrow> nat \<Rightarrow> string option" where
  "column r i = (if i < length r then r ! i else None)"

section \<open>Files\<close>

definition io :: "world \<Rightarrow> bool \<times> world" where
  "io w = (\<not> io_fails (env w) (io_ops w), w\<lparr>io_ops := Suc (io_ops w)\<rparr>)"

text \<open>\<open>fopen(path, "r")\<close>: the content, or \<open>NULL\<close>.\<close>

definition fopen_read :: "string \<Rightarrow> world \<Rightarrow> string option \<times> world" where
  "fopen_read path w = (case io w of (ok, w) \<Rightarrow> (if ok then files w path else None, w))"

text \<open>\<open>fopen(path, "w")\<close> creates an empty file in an existing directory.\<close>

definition fopen_write :: "string \<Rightarrow> world \<Rightarrow> bool \<times> world" where
  "fopen_write path w =
     (case io w of (ok, w) \<Rightarrow>
        if ok \<and> files_dir w then (True, w\<lparr>files := (files w)(path \<mapsto> [])\<rparr>) else (False, w))"

text \<open>\<open>fwrite(bytes, size, 1, fd)\<close> returns the number of objects written, which is 0 when the
  size is 0.\<close>

definition fwrite :: "string \<Rightarrow> string \<Rightarrow> world \<Rightarrow> nat \<times> world" where
  "fwrite path bytes w =
     (case io w of (ok, w) \<Rightarrow>
        if ok \<and> bytes \<noteq> [] then (1, w\<lparr>files := (files w)(path \<mapsto> bytes)\<rparr>) else (0, w))"

section \<open>Worlds that differ in their bookkeeping only\<close>

text \<open>\<open>kept w w'\<close>: files, connections and the environment are as they were; \<open>idle w w'\<close>: and
  so is the database.\<close>

definition kept :: "world \<Rightarrow> world \<Rightarrow> bool" where
  "kept w w' \<longleftrightarrow> env w' = env w \<and> files w' = files w \<and> files_dir w' = files_dir w \<and>
     connections w' = connections w \<and> connects w' = connects w"

definition idle :: "world \<Rightarrow> world \<Rightarrow> bool" where
  "idle w w' \<longleftrightarrow> kept w w' \<and> db w' = db w"

lemma kept_refl [simp]: "kept w w"
  by (simp add: kept_def)

lemma kept_trans [trans]: "kept w w1 \<Longrightarrow> kept w1 w2 \<Longrightarrow> kept w w2"
  by (simp add: kept_def)

lemma idle_refl [simp]: "idle w w"
  by (simp add: idle_def)

lemma idle_trans [trans]: "idle w w1 \<Longrightarrow> idle w1 w2 \<Longrightarrow> idle w w2"
  by (auto simp: idle_def intro: kept_trans)

lemma kept_db [simp]: "kept w (w'\<lparr>db := D\<rparr>) \<longleftrightarrow> kept w w'"
  by (simp add: kept_def)

lemma kept_corrupted [simp]: "kept w (w'\<lparr>corrupted := b\<rparr>) \<longleftrightarrow> kept w w'"
  "idle w (w'\<lparr>corrupted := b\<rparr>) \<longleftrightarrow> idle w w'"
  by (simp_all add: kept_def idle_def)

text \<open>The world after the query \<open>st\<close>, if that leaves the database as it is.\<close>

definition asked :: "nat \<Rightarrow> stmt \<Rightarrow> world \<Rightarrow> world" where
  "asked cap st w = w\<lparr>queries := Suc (queries w), corrupted := corrupted w \<or> cap \<le> strlen (sql_text st)\<rparr>"

lemma asked_simps [simp]:
  "env (asked cap st w) = env w" "db (asked cap st w) = db w" "queries (asked cap st w) = Suc (queries w)"
  "connections (asked cap st w) = connections w" "connects (asked cap st w) = connects w"
  "ticks (asked cap st w) = ticks w" "io_ops (asked cap st w) = io_ops w" "files (asked cap st w) = files w"
  "files_dir (asked cap st w) = files_dir w" "avail (asked cap st w) = avail w" "brk (asked cap st w) = brk w"
  "corrupted (asked cap st w) \<longleftrightarrow> corrupted w \<or> cap \<le> strlen (sql_text st)"
  by (simp_all add: asked_def)

lemma idle_asked [simp]: "idle w (asked cap st w') \<longleftrightarrow> idle w w'" "kept w (asked cap st w') \<longleftrightarrow> kept w w'"
  by (simp_all add: idle_def kept_def)

text \<open>The world with a server that understands clean statements.\<close>

definition served :: "dialect \<Rightarrow> world \<Rightarrow> bool" where
  "served d w \<longleftrightarrow> sql_server d (engine (env w))"

text \<open>The rows of a statement that only reads.\<close>

definition select :: "dialect \<Rightarrow> stmt \<Rightarrow> db \<Rightarrow> row list" where
  "select d st D = (case exec d 0 st D of None \<Rightarrow> [] | Some (rows, _) \<Rightarrow> rows)"

lemma sprintf_d_20 [simp]: "sprintf_d 20 n w = (str_d n, w)"
  using length_str_d_le [of n] by (simp add: sprintf_d_def)

lemma exec_select: "sql_select st \<Longrightarrow> exec d k st D = Some (select d st D, D)"
  by (cases st) (simp_all add: sql_select_def select_def sql_head.simps)

lemma select_fresh: "sql_select st \<Longrightarrow> fresh_for st k D"
  by (cases st) (simp_all add: fresh_for_def sql_select_def sql_head.simps)

lemma served_result:
  assumes "served d w" "sql_clean st"
  shows "case engine (env w) (sql_text st) D of
      None \<Rightarrow> \<forall>k. fresh_for st k D \<longrightarrow> exec d k st D = None
    | Some (rows, D', k) \<Rightarrow> fresh_for st k D \<and> (\<exists>rows0. exec d k st D = Some (rows0, D') \<and> mset rows = mset rows0)"
  using assms unfolding served_def sql_server_def by blast

lemma run_sql_eq:
  "run_sql cap st w =
     (if outage (env w) (queries w) then (None, asked cap st w)
      else case engine (env w) (sql_text st) (db w) of
        None \<Rightarrow> (None, asked cap st w)
      | Some (rows, D, k) \<Rightarrow> (Some (rows, k), (asked cap st w)\<lparr>db := D\<rparr>))"
  by (auto simp: run_sql_def mysql_query_def fill_def asked_def Let_def split: option.splits)

lemma run_sql_select:
  assumes "served d w" "sql_clean st" "sql_select st"
  obtains rows k where "run_sql cap st w =
      (if outage (env w) (queries w) then None else Some (rows, k), asked cap st w)"
    "mset rows = mset (select d st (db w))"
proof (cases "engine (env w) (sql_text st) (db w)")
  case None
  with served_result [OF assms(1,2), of "db w"] have False
    by (simp add: exec_select [OF assms(3)] select_fresh [OF assms(3)])
  then show ?thesis ..
next
  case (Some r)
  obtain rows D k where r: "r = (rows, D, k)" by (cases r)
  from served_result [OF assms(1,2), of "db w"] Some r
  have "D = db w" "mset rows = mset (select d st (db w))"
    by (simp_all add: exec_select [OF assms(3)])
  moreover have "(asked cap st w)\<lparr>db := db w\<rparr> = asked cap st w" by (simp add: asked_def)
  ultimately show ?thesis using Some r by (intro that [of rows k]) (simp_all add: run_sql_eq)
qed

lemma run_sql_update:
  assumes "served d w" "sql_clean st"
  obtains (failed) "run_sql cap st w = (None, asked cap st w)"
      "outage (env w) (queries w) \<or> (\<forall>k. fresh_for st k (db w) \<longrightarrow> exec d k st (db w) = None)"
  | (success) rows k D rows0 where "run_sql cap st w = (Some (rows, k), (asked cap st w)\<lparr>db := D\<rparr>)"
      "\<not> outage (env w) (queries w)"
      "fresh_for st k (db w)" "exec d k st (db w) = Some (rows0, D)" "mset rows = mset rows0"
proof (cases "outage (env w) (queries w)")
  case True
  then show ?thesis by (intro failed) (simp_all add: run_sql_eq)
next
  case out: False
  show ?thesis
  proof (cases "engine (env w) (sql_text st) (db w)")
    case None
    with served_result [OF assms, of "db w"] out show ?thesis
      by (intro failed) (simp_all add: run_sql_eq)
  next
    case (Some r)
    obtain rows D k where r: "r = (rows, D, k)" by (cases r)
    with served_result [OF assms, of "db w"] Some obtain rows0 where "fresh_for st k (db w)"
      "exec d k st (db w) = Some (rows0, D)" "mset rows = mset rows0" by auto
    with Some r out show ?thesis by (intro success [of rows k D rows0]) (simp_all add: run_sql_eq)
  qed
qed

text \<open>The two outcomes of a query that only reads.\<close>

lemma select_cases:
  assumes "served d w" "sql_clean st" "sql_select st"
  obtains (failed) "outage (env w) (queries w)" "run_sql cap st w = (None, asked cap st w)"
  | (answered) rows k where "\<not> outage (env w) (queries w)"
      "run_sql cap st w = (Some (rows, k), asked cap st w)" "mset rows = mset (select d st (db w))"
proof -
  obtain rows k where *: "run_sql cap st w =
      (if outage (env w) (queries w) then None else Some (rows, k), asked cap st w)"
    "mset rows = mset (select d st (db w))"
    using run_sql_select [OF assms] by blast
  show ?thesis
    by (cases "outage (env w) (queries w)") (use * failed answered in auto)
qed

end
