(* ===== verification/Persistence.thy ===== *)
theory Persistence
  imports World
begin

text \<open>
  \<open>server/persistence.c\<close>, part one: the connection, the users and the friendships.  A
  function takes the \<open>persistence\<close> structure, its arguments and the world, and returns its
  C result with the world it leaves; -1 is its error code.  Each function checks the handle,
  prints its integers into local arrays, checks the length of the statement (not always of the
  whole statement) and sends it.
\<close>

section \<open>Structures\<close>

record persistence =
  mysql :: "nat option"
  thread_safe :: bool
  location :: string
  bd_name :: string
  user_name :: string
  user_pass :: string

definition MAX_QUERY_CHARS :: nat where
  "MAX_QUERY_CHARS = 500"

section \<open>The connection\<close>

text \<open>The copies of the names are allocated without a check: \<open>strcpy\<close> to \<open>NULL\<close> crashes.
  \<open>mysql_init\<close> allocates the handle.\<close>

definition alloc_copy :: "string \<Rightarrow> world \<Rightarrow> (string \<times> world) option" where
  "alloc_copy s w = (case malloc w of (None, w) \<Rightarrow> None | (Some _, w) \<Rightarrow> Some (s, w))"

definition init_persistence :: "string \<Rightarrow> string \<Rightarrow> world \<Rightarrow> (persistence option \<times> world) option" where
  "init_persistence user pass w =
     (case malloc w of (None, w) \<Rightarrow> Some (None, w)
      | (Some _, w) \<Rightarrow>
     (case malloc w of (None, w) \<Rightarrow> Some (None, w)
      | (Some _, w) \<Rightarrow>
     (case mysql_real_connect w of (None, w) \<Rightarrow> Some (None, w)
      | (Some h, w) \<Rightarrow> do {
          (loc, w) \<leftarrow> alloc_copy ''localhost'' w;
          (bd, w) \<leftarrow> alloc_copy ''PSD'' w;
          (u, w) \<leftarrow> alloc_copy user w;
          (p, w) \<leftarrow> alloc_copy pass w;
          Some (Some \<lparr>mysql = Some h, thread_safe = mysql_is_thread_safe (env w), location = loc, bd_name = bd,
            user_name = u, user_pass = p\<rparr>, w)
        })))"

definition clone_persistence :: "persistence \<Rightarrow> world \<Rightarrow> (persistence option \<times> world) option" where
  "clone_persistence p w = init_persistence (user_name p) (user_pass p) w"

definition close_handle :: "persistence \<Rightarrow> world \<Rightarrow> world" where
  "close_handle p w = (case mysql p of None \<Rightarrow> w | Some h \<Rightarrow> mysql_close h w)"

text \<open>\<open>mysql_close\<close> frees a handle that \<open>mysql_init\<close> allocated, so \<open>mysql_real_connect\<close> then
  works on freed memory.\<close>

definition reconnect_persistence :: "persistence \<Rightarrow> world \<Rightarrow> cint \<times> persistence \<times> world" where
  "reconnect_persistence p w =
     (case mysql_real_connect ((close_handle p w)\<lparr>corrupted := True\<rparr>) of
        (None, w) \<Rightarrow> (-1, p, w)
      | (Some h, w) \<Rightarrow> (0, p\<lparr>mysql := Some h\<rparr>, w))"

definition free_persistence :: "persistence \<Rightarrow> world \<Rightarrow> world" where
  "free_persistence p w = close_handle p w"

section \<open>Users\<close>

definition add_user :: "persistence \<Rightarrow> string \<Rightarrow> string \<Rightarrow> string \<Rightarrow> world \<Rightarrow> cint \<times> world" where
  "add_user p name pass information w =
     (if mysql p = None then (-1, w)
      else if MAX_QUERY_CHARS \<le> strlen name + strlen pass + strlen information + 58 then (-1, w)
      else case run_sql MAX_QUERY_CHARS (Ins_user name pass information) w of
        (None, w) \<Rightarrow> (-1, w)
      | (Some _, w) \<Rightarrow> (0, w))"

definition del_user :: "persistence \<Rightarrow> string \<Rightarrow> world \<Rightarrow> cint \<times> world" where
  "del_user p name w =
     (if mysql p = None then (-1, w)
      else if MAX_QUERY_CHARS \<le> strlen name + 34 then (-1, w)
      else case run_sql MAX_QUERY_CHARS (Upd_user_invalid name) w of
        (None, w) \<Rightarrow> (-1, w)
      | (Some _, w) \<Rightarrow> (0, w))"

definition user_exist :: "persistence \<Rightarrow> string \<Rightarrow> world \<Rightarrow> cint \<times> world" where
  "user_exist p name w =
     (if mysql p = None then (-1, w)
      else if MAX_QUERY_CHARS \<le> strlen name + 36 then (-1, w)
      else case run_sql MAX_QUERY_CHARS (Sel_user_valid name) w of
        (None, w) \<Rightarrow> (-1, w)
      | (Some (rows, _), w) \<Rightarrow> if 1 \<le> length rows then (1, w) else (0, w))"

definition user_entry_exist :: "persistence \<Rightarrow> string \<Rightarrow> world \<Rightarrow> cint \<times> world" where
  "user_entry_exist p name w =
     (if mysql p = None then (-1, w)
      else if MAX_QUERY_CHARS \<le> strlen name + 36 then (-1, w)
      else case run_sql MAX_QUERY_CHARS (Sel_user_entry name) w of
        (None, w) \<Rightarrow> (-1, w)
      | (Some (rows, _), w) \<Rightarrow> if 1 \<le> length rows then (1, w) else (0, w))"

text \<open>\<open>get_user_pass\<close> also returns the content of \<open>buff\<close>, which it sets only when it
  succeeds; likewise for the other functions with a \<open>buff\<close>.\<close>

definition get_user_pass ::
  "persistence \<Rightarrow> string \<Rightarrow> string \<Rightarrow> nat \<Rightarrow> world \<Rightarrow> (cint \<times> string \<times> world) option" where
  "get_user_pass p name buff max_chars w =
     (let st = Sel_user_pass name in
      if mysql p = None then Some (-1, buff, w)
      else if MAX_QUERY_CHARS \<le> strlen name + strlen (sql_head st) + 2 then Some (-1, buff, w)
      else case run_sql MAX_QUERY_CHARS st w of
        (None, w) \<Rightarrow> Some (-1, buff, w)
      | (Some (rows, _), w) \<Rightarrow>
          if length rows < 1 then Some (-1, buff, w)
          else do {
            pass \<leftarrow> column (hd rows) 0;
            if max_chars \<le> strlen pass then Some (-1, buff, w)
            else Some (0, pass, w)
          })"

definition get_user_id :: "persistence \<Rightarrow> string \<Rightarrow> world \<Rightarrow> (cint \<times> world) option" where
  "get_user_id p name w =
     (let st = Sel_user_id name in
      if mysql p = None then Some (-1, w)
      else if MAX_QUERY_CHARS \<le> strlen name + strlen (sql_head st) + 2 then Some (-1, w)
      else case run_sql MAX_QUERY_CHARS st w of
        (None, w) \<Rightarrow> Some (-1, w)
      | (Some (rows, _), w) \<Rightarrow>
          if length rows < 1 then Some (-1, w)
          else do { i \<leftarrow> column (hd rows) 0; Some (atoi i, w) })"

text \<open>\<open>get_user_name\<close> and \<open>get_user_info\<close> note that the value is too long for the buffer,
  and copy it all the same.\<close>

definition get_user_name ::
  "persistence \<Rightarrow> cint \<Rightarrow> string \<Rightarrow> nat \<Rightarrow> world \<Rightarrow> (cint \<times> string \<times> world) option" where
  "get_user_name p user_id buff max_chars w =
     (let (str_id, w) = sprintf_d 20 user_id w; st = Sel_user_name user_id in
      if mysql p = None then Some (-1, buff, w)
      else if MAX_QUERY_CHARS \<le> strlen str_id + strlen (sql_head st) + 2 then Some (-1, buff, w)
      else case run_sql MAX_QUERY_CHARS st w of
        (None, w) \<Rightarrow> Some (-1, buff, w)
      | (Some (rows, _), w) \<Rightarrow>
          if length rows < 1 then Some (-1, buff, w)
          else do { name \<leftarrow> column (hd rows) 0; Some (0, name, fill max_chars name w) })"

definition get_user_info ::
  "persistence \<Rightarrow> cint \<Rightarrow> string \<Rightarrow> nat \<Rightarrow> world \<Rightarrow> (cint \<times> string \<times> world) option" where
  "get_user_info p user_id buff max_chars w =
     (let (str_id, w) = sprintf_d 20 user_id w; st = Sel_user_info user_id in
      if mysql p = None then Some (-1, buff, w)
      else if MAX_QUERY_CHARS \<le> strlen str_id + strlen (sql_head st) + 2 then Some (-1, buff, w)
      else case run_sql MAX_QUERY_CHARS st w of
        (None, w) \<Rightarrow> Some (-1, buff, w)
      | (Some (rows, _), w) \<Rightarrow>
          if length rows < 1 then Some (-1, buff, w)
          else do { info \<leftarrow> column (hd rows) 0; Some (0, info, fill max_chars info w) })"

section \<open>Friendships and friend requests\<close>

definition decline_friend_request :: "persistence \<Rightarrow> cint \<Rightarrow> cint \<Rightarrow> world \<Rightarrow> cint \<times> world" where
  "decline_friend_request p user_id1 user_id2 w =
     (if mysql p = None then (-1, w)
      else
        let (str_id1, w) = sprintf_d 10 user_id1 w; (str_id2, w) = sprintf_d 10 user_id2 w;
            st = Del_request user_id1 user_id2 in
        if 170 \<le> strlen str_id1 + strlen str_id2 + strlen (sql_head st) then (-1, w)
        else case run_sql 200 st w of
          (None, w) \<Rightarrow> (-1, w)
        | (Some _, w) \<Rightarrow> (0, w))"

definition accept_friend_request :: "persistence \<Rightarrow> cint \<Rightarrow> cint \<Rightarrow> cint \<Rightarrow> world \<Rightarrow> cint \<times> world" where
  "accept_friend_request p user_id1 user_id2 timestamp w =
     (if mysql p = None then (-1, w)
      else
        let (str_id1, w) = sprintf_d 10 user_id1 w; (str_id2, w) = sprintf_d 10 user_id2 w;
            (str_time, w) = sprintf_d 10 timestamp w; st = Ins_friend user_id1 user_id2 timestamp in
        if 190 \<le> strlen str_id1 + strlen str_id2 + strlen (sql_head st) then (-1, w)
        else case run_sql 200 st w of
          (None, w) \<Rightarrow> (-1, w)
        | (Some _, w) \<Rightarrow>
            (case decline_friend_request p user_id1 user_id2 w of (_, w) \<Rightarrow> (0, w)))"

definition send_request :: "persistence \<Rightarrow> cint \<Rightarrow> cint \<Rightarrow> cint \<Rightarrow> world \<Rightarrow> cint \<times> world" where
  "send_request p user_id1 user_id2 timestamp w =
     (if mysql p = None then (-1, w)
      else
        let (str_id1, w) = sprintf_d 10 user_id1 w; (str_id2, w) = sprintf_d 10 user_id2 w;
            (str_time, w) = sprintf_d 10 timestamp w; st = Ins_request user_id1 user_id2 timestamp in
        if 190 \<le> strlen str_id1 + strlen str_id2 + strlen str_time + strlen (sql_head st) then (-1, w)
        else case run_sql 200 st w of
          (None, w) \<Rightarrow> (-1, w)
        | (Some _, w) \<Rightarrow> (0, w))"

definition exist_request :: "persistence \<Rightarrow> cint \<Rightarrow> cint \<Rightarrow> world \<Rightarrow> cint \<times> world" where
  "exist_request p user_id1 user_id2 w =
     (let (str_id1, w) = sprintf_d 20 user_id1 w; (str_id2, w) = sprintf_d 20 user_id2 w;
          st = Sel_request user_id1 user_id2 in
      if mysql p = None then (-1, w)
      else if 150 \<le> strlen (sql_head st) + strlen str_id1 + strlen str_id2 then (-1, w)
      else case run_sql 200 st w of
        (None, w) \<Rightarrow> (-1, w)
      | (Some (rows, _), w) \<Rightarrow> (if 0 < length rows then 1 else 0, w))"

definition exist_friendly :: "persistence \<Rightarrow> cint \<Rightarrow> cint \<Rightarrow> world \<Rightarrow> cint \<times> world" where
  "exist_friendly p user_id1 user_id2 w =
     (let (str_id1, w) = sprintf_d 20 user_id1 w; (str_id2, w) = sprintf_d 20 user_id2 w;
          st = Sel_friendship user_id1 user_id2 in
      if mysql p = None then (-1, w)
      else if 150 \<le> strlen (sql_head st) + strlen str_id1 * 2 + strlen str_id2 * 2 then (-1, w)
      else case run_sql 200 st w of
        (None, w) \<Rightarrow> (-1, w)
      | (Some (rows, _), w) \<Rightarrow> (if 0 < length rows then 1 else 0, w))"

definition del_friends :: "persistence \<Rightarrow> cint \<Rightarrow> cint \<Rightarrow> world \<Rightarrow> cint \<times> world" where
  "del_friends p user_id1 user_id2 w =
     (let (str_id1, w) = sprintf_d 10 user_id1 w; (str_id2, w) = sprintf_d 10 user_id2 w;
          st = Del_friend user_id1 user_id2 in
      if mysql p = None then (-1, w)
      else if 180 \<le> strlen str_id1 + strlen str_id2 + strlen (sql_head st) then (-1, w)
      else case run_sql 200 st w of
        (None, w) \<Rightarrow> (-1, w)
      | (Some _, w) \<Rightarrow> (0, w))"

section \<open>What the functions compute\<close>

text \<open>Facts about a handle that is set and a server that understands clean statements.  A
  result is -1 when the query fails.\<close>

definition find_user :: "dialect \<Rightarrow> string \<Rightarrow> db \<Rightarrow> user_row option" where
  "find_user d name D = List.find (\<lambda>u. weight d (u_name u) = weight d name \<and> valid_user u) (t_users D)"

definition find_id :: "cint \<Rightarrow> db \<Rightarrow> user_row option" where
  "find_id i D = List.find (\<lambda>u. u_id u = i) (t_users D)"

definition sound :: "dialect \<Rightarrow> world \<Rightarrow> bool" where
  "sound d w \<longleftrightarrow> served d w \<and> db_ok d (db w)"

definition short :: "string \<Rightarrow> bool" where
  "short s \<longleftrightarrow> clean s \<and> strlen s \<le> 400"

lemma sound_served [simp]: "sound d w \<Longrightarrow> served d w"
  by (simp add: sound_def)

lemma sound_asked [simp]: "sound d (asked cap st w) \<longleftrightarrow> sound d w"
  by (simp add: sound_def served_def)

lemma sound_idle: "idle w w' \<Longrightarrow> sound d w' \<longleftrightarrow> sound d w"
  by (simp add: idle_def kept_def sound_def served_def)

lemma short_clean [simp]: "short s \<Longrightarrow> clean s"
  by (simp add: short_def)

lemma filter_unique:
  assumes "distinct (map f xs)"
  shows "filter (\<lambda>x. f x = k \<and> P x) xs = (case List.find (\<lambda>x. f x = k \<and> P x) xs of None \<Rightarrow> [] | Some x \<Rightarrow> [x])"
  using assms
proof (induction xs)
  case (Cons a xs)
  show ?case
  proof (cases "f a = k \<and> P a")
    case True
    then have "filter (\<lambda>x. f x = k \<and> P x) xs = []"
      using Cons.prems by (auto simp: filter_empty_conv image_iff)
    with True show ?thesis by simp
  next
    case False
    then show ?thesis using Cons by auto
  qed
qed simp

lemma valid_named:
  assumes "db_ok d D"
  shows "filter valid_user (named d name D) = (case find_user d name D of None \<Rightarrow> [] | Some u \<Rightarrow> [u])"
  using assms filter_unique [of "weight d \<circ> u_name" "t_users D" "weight d name" valid_user]
  by (simp add: named_def find_user_def db_ok_def)

lemma with_id:
  assumes "db_ok d D"
  shows "filter (\<lambda>u. u_id u = i) (t_users D) = (case find_id i D of None \<Rightarrow> [] | Some u \<Rightarrow> [u])"
  using assms filter_unique [of u_id "t_users D" i "\<lambda>_. True"]
  by (simp add: find_id_def db_ok_def)

lemma find_user_Some:
  "find_user d name D = Some u \<Longrightarrow> u \<in> set (t_users D) \<and> weight d (u_name u) = weight d name \<and> valid_user u"
  unfolding find_user_def by (drule find_Some_set) simp

lemma find_user_id:
  assumes "db_ok d D" "find_user d name D = Some u"
  shows "u_id u \<in> user_ids D" "0 < sint (u_id u)" "u_id u \<noteq> -1"
proof -
  show "u_id u \<in> user_ids D" using find_user_Some [OF assms(2)] by (simp add: user_ids_def)
  with assms(1) show pos: "0 < sint (u_id u)" by (simp add: db_ok_def)
  then show "u_id u \<noteq> -1" by auto
qed

lemma mset_singleton: "mset xs = {#x#} \<Longrightarrow> xs = [x]"
  by (metis mset_single_iff)

lemma mset_one: "mset xs = mset [x] \<Longrightarrow> xs = [x]"
  by (simp add: mset_singleton)

lemma mset_none: "mset xs = mset [] \<Longrightarrow> xs = []"
  by simp

lemma length_mset: "mset xs = mset ys \<Longrightarrow> length xs = length ys"
  by (rule mset_eq_length)

lemma column_simps [simp]: "column (x # xs) 0 = x" "column (x # xs) (Suc i) = column xs i"
  by (simp_all add: column_def)

lemma clean_ints [simp]: "sql_clean st \<longleftrightarrow> True" if "sql_strings st = []"
  using that by (simp add: sql_clean_def)

lemma short_guard: "short s \<Longrightarrow> k < 100 \<Longrightarrow> \<not> MAX_QUERY_CHARS \<le> strlen s + k"
  by (simp add: short_def MAX_QUERY_CHARS_def)

lemma get_user_id_eq:
  assumes "sound d w" "mysql p = Some h" "short name"
  shows "get_user_id p name w =
    Some (if outage (env w) (queries w) then -1
          else case find_user d name (db w) of None \<Rightarrow> -1 | Some u \<Rightarrow> u_id u,
      asked MAX_QUERY_CHARS (Sel_user_id name) w)"
proof -
  let ?st = "Sel_user_id name"
  have st: "served d w" "sql_clean ?st" "sql_select ?st"
    using assms by (simp_all add: sql_clean_def sql_select_def sql_head.simps)
  have sel: "select d ?st (db w) = (case find_user d name (db w) of None \<Rightarrow> [] | Some u \<Rightarrow> [[cell (u_id u)]])"
    using assms(1) by (simp add: select_def valid_named sound_def split: option.splits)
  have guard: "\<not> MAX_QUERY_CHARS \<le> strlen name + strlen (sql_head ?st) + 2"
    using short_guard [OF assms(3), of "strlen (sql_head ?st) + 2"] by (simp add: sql_head.simps)
  from st show ?thesis
  proof (cases rule: select_cases [where cap = MAX_QUERY_CHARS])
    case failed
    then show ?thesis using guard assms(2) by (simp add: get_user_id_def)
  next
    case (answered rows k)
    show ?thesis
    proof (cases "find_user d name (db w)")
      case None
      with answered(3) sel have "rows = []" by simp
      with None answered guard assms(2) show ?thesis by (simp add: get_user_id_def)
    next
      case (Some u)
      with answered(3) sel have "rows = [[cell (u_id u)]]" by (intro mset_one) simp
      with Some answered guard assms(2) show ?thesis by (simp add: get_user_id_def)
    qed
  qed
qed

lemmas stmt_simps = sql_clean_def sql_select_def sql_head.simps

lemma rows_empty: "mset rows = mset xs \<Longrightarrow> rows = [] \<longleftrightarrow> xs = []"
  by (metis mset_zero_iff)

lemma get_user_pass_eq:
  assumes "sound d w" "mysql p = Some h" "short name"
  shows "get_user_pass p name buff n w =
    Some (case (if outage (env w) (queries w) then None else find_user d name (db w)) of
            None \<Rightarrow> (-1, buff, asked MAX_QUERY_CHARS (Sel_user_pass name) w)
          | Some u \<Rightarrow> if n \<le> strlen (u_pass u)
              then (-1, buff, asked MAX_QUERY_CHARS (Sel_user_pass name) w)
              else (0, u_pass u, asked MAX_QUERY_CHARS (Sel_user_pass name) w))"
proof -
  let ?st = "Sel_user_pass name"
  have st: "served d w" "sql_clean ?st" "sql_select ?st"
    using assms by (simp_all add: stmt_simps)
  have sel: "select d ?st (db w) = (case find_user d name (db w) of None \<Rightarrow> [] | Some u \<Rightarrow> [[Some (u_pass u)]])"
    using assms(1) by (simp add: select_def valid_named sound_def split: option.splits)
  have guard: "\<not> MAX_QUERY_CHARS \<le> strlen name + strlen (sql_head ?st) + 2"
    using short_guard [OF assms(3), of "strlen (sql_head ?st) + 2"] by (simp add: stmt_simps)
  from st show ?thesis
  proof (cases rule: select_cases [where cap = MAX_QUERY_CHARS])
    case failed
    then show ?thesis using guard assms(2) by (simp add: get_user_pass_def)
  next
    case (answered rows k)
    show ?thesis
    proof (cases "find_user d name (db w)")
      case None
      with answered(3) sel have "rows = []" by simp
      with None answered guard assms(2) show ?thesis by (simp add: get_user_pass_def)
    next
      case (Some u)
      with answered(3) sel have "rows = [[Some (u_pass u)]]" by (intro mset_one) simp
      with Some answered guard assms(2) show ?thesis by (simp add: get_user_pass_def)
    qed
  qed
qed

lemma get_user_info_eq:
  assumes "sound d w" "mysql p = Some h"
  shows "get_user_info p i buff n w =
    Some (case (if outage (env w) (queries w) then None else find_id i (db w)) of
            None \<Rightarrow> (-1, buff, asked MAX_QUERY_CHARS (Sel_user_info i) w)
          | Some u \<Rightarrow> (0, u_info u, fill n (u_info u) (asked MAX_QUERY_CHARS (Sel_user_info i) w)))"
proof -
  let ?st = "Sel_user_info i"
  have st: "served d w" "sql_clean ?st" "sql_select ?st"
    using assms by (simp_all add: stmt_simps)
  have sel: "select d ?st (db w) = (case find_id i (db w) of None \<Rightarrow> [] | Some u \<Rightarrow> [[Some (u_info u)]])"
    using assms(1) with_id [of d "db w" i] by (simp add: select_def sound_def split: option.splits)
  have guard: "\<not> MAX_QUERY_CHARS \<le> strlen (str_d i) + strlen (sql_head ?st) + 2"
    using length_str_d_le [of i] by (simp add: stmt_simps MAX_QUERY_CHARS_def)
  from st show ?thesis
  proof (cases rule: select_cases [where cap = MAX_QUERY_CHARS])
    case failed
    then show ?thesis using guard assms(2) by (simp add: get_user_info_def)
  next
    case (answered rows k)
    show ?thesis
    proof (cases "find_id i (db w)")
      case None
      with answered(3) sel have "rows = []" by simp
      with None answered guard assms(2) show ?thesis by (simp add: get_user_info_def)
    next
      case (Some u)
      with answered(3) sel have "rows = [[Some (u_info u)]]" by (intro mset_one) simp
      with Some answered guard assms(2) show ?thesis by (simp add: get_user_info_def)
    qed
  qed
qed

text \<open>The functions that only count rows.\<close>

lemma user_entry_exist_eq:
  assumes "sound d w" "mysql p = Some h" "short name"
  shows "user_entry_exist p name w =
    (if outage (env w) (queries w) then -1 else if named d name (db w) = [] then 0 else 1,
     asked MAX_QUERY_CHARS (Sel_user_entry name) w)"
proof -
  let ?st = "Sel_user_entry name"
  have st: "served d w" "sql_clean ?st" "sql_select ?st"
    using assms by (simp_all add: stmt_simps)
  have guard: "\<not> MAX_QUERY_CHARS \<le> strlen name + 36" using short_guard [OF assms(3), of 36] by simp
  from st show ?thesis
  proof (cases rule: select_cases [where cap = MAX_QUERY_CHARS])
    case (answered rows k)
    then have "rows = [] \<longleftrightarrow> named d name (db w) = []"
      using rows_empty [OF answered(3)] by (simp add: select_def)
    with answered guard assms(2) show ?thesis by (auto simp: user_entry_exist_def Suc_le_eq)
  qed (use guard assms(2) in \<open>simp add: user_entry_exist_def\<close>)
qed

lemma exist_request_eq:
  assumes "served d w" "mysql p = Some h"
  shows "exist_request p i j w =
    (if outage (env w) (queries w) then -1
     else if \<exists>r \<in> set (t_requests (db w)). r_id1 r = i \<and> r_id2 r = j then 1 else 0,
     asked 200 (Sel_request i j) w)"
proof -
  let ?st = "Sel_request i j"
  have st: "sql_clean ?st" "sql_select ?st" by (simp_all add: stmt_simps)
  have guard: "\<not> 150 \<le> strlen (sql_head ?st) + strlen (str_d i) + strlen (str_d j)"
    using length_str_d_le [of i] length_str_d_le [of j] by (simp add: stmt_simps)
  from assms(1) st show ?thesis
  proof (cases rule: select_cases [where cap = 200])
    case (answered rows k)
    then have "rows = [] \<longleftrightarrow> \<not> (\<exists>r \<in> set (t_requests (db w)). r_id1 r = i \<and> r_id2 r = j)"
      using rows_empty [OF answered(3)] by (auto simp: select_def filter_empty_conv)
    with answered guard assms(2) show ?thesis by (auto simp: exist_request_def)
  qed (use guard assms(2) in \<open>simp add: exist_request_def\<close>)
qed

text \<open>Users who are friends, in either direction.\<close>

definition friends_in :: "db \<Rightarrow> cint \<Rightarrow> cint \<Rightarrow> bool" where
  "friends_in D i j \<longleftrightarrow> (\<exists>f \<in> set (t_friends D). f_id1 f = i \<and> f_id2 f = j \<or> f_id1 f = j \<and> f_id2 f = i)"

lemma exist_friendly_eq:
  assumes "served d w" "mysql p = Some h"
  shows "exist_friendly p i j w =
    (if outage (env w) (queries w) then -1 else if friends_in (db w) i j then 1 else 0,
     asked 200 (Sel_friendship i j) w)"
proof -
  let ?st = "Sel_friendship i j"
  have st: "sql_clean ?st" "sql_select ?st" by (simp_all add: stmt_simps)
  have guard: "\<not> 150 \<le> strlen (sql_head ?st) + strlen (str_d i) * 2 + strlen (str_d j) * 2"
    using length_str_d_le [of i] length_str_d_le [of j] by (simp add: stmt_simps)
  from assms(1) st show ?thesis
  proof (cases rule: select_cases [where cap = 200])
    case (answered rows k)
    then have "rows = [] \<longleftrightarrow> \<not> friends_in (db w) i j"
      using rows_empty [OF answered(3)] by (auto simp: select_def filter_empty_conv friends_in_def)
    with answered guard assms(2) show ?thesis by (auto simp: exist_friendly_def)
  qed (use guard assms(2) in \<open>simp add: exist_friendly_def\<close>)
qed

section \<open>What the updates do\<close>

text \<open>\<open>wrote d st w r w'\<close>: the statement was sent; either it was executed and the result is 0,
  or it had no effect and the result is -1.\<close>

definition calm :: "world \<Rightarrow> world \<Rightarrow> bool" where
  "calm w w' \<longleftrightarrow> kept w w' \<and> ticks w' = ticks w \<and> io_ops w' = io_ops w \<and> avail w' = avail w \<and> brk w' = brk w"

definition wrote :: "dialect \<Rightarrow> stmt \<Rightarrow> world \<Rightarrow> cint \<Rightarrow> world \<Rightarrow> bool" where
  "wrote d st w r w' \<longleftrightarrow> calm w w' \<and> queries w' = Suc (queries w) \<and>
     (r = -1 \<and> db w' = db w \<and>
        (outage (env w) (queries w) \<or> (\<forall>k. fresh_for st k (db w) \<longrightarrow> exec d k st (db w) = None)) \<or>
      r = 0 \<and> \<not> outage (env w) (queries w) \<and>
        (\<exists>k rows. fresh_for st k (db w) \<and> exec d k st (db w) = Some (rows, db w')))"

lemma calm_simps [simp]: "calm w w" "calm w (asked cap st w)" "calm w (w\<lparr>corrupted := b\<rparr>)"
  by (simp_all add: calm_def kept_def)

lemma calm_trans [trans]: "calm w w1 \<Longrightarrow> calm w1 w2 \<Longrightarrow> calm w w2"
  by (auto simp: calm_def intro: kept_trans)

lemma calm_kept: "calm w w' \<Longrightarrow> kept w w'"
  by (simp add: calm_def)

lemma served_kept: "kept w w' \<Longrightarrow> served d w' \<longleftrightarrow> served d w"
  by (simp add: kept_def served_def)

lemma wrote_run:
  assumes "served d w" "sql_clean st" "run_sql cap st (w\<lparr>corrupted := b\<rparr>) = (res, w')"
  shows "wrote d st w (if res = None then -1 else 0) w'"
proof -
  have "served d (w\<lparr>corrupted := b\<rparr>)" using assms(1) by (simp add: served_def)
  then show ?thesis using assms(2)
  proof (cases rule: run_sql_update [where cap = cap])
    case failed
    with assms(3) show ?thesis by (auto simp: wrote_def calm_def kept_def)
  next
    case (success rows k D rows0)
    with assms(3) show ?thesis by (auto simp: wrote_def calm_def kept_def)
  qed
qed

lemma wrote_run':
  "served d w \<Longrightarrow> sql_clean st \<Longrightarrow> run_sql cap st w = (res, w') \<Longrightarrow> wrote d st w (if res = None then -1 else 0) w'"
  using wrote_run [of d w st cap "corrupted w"] by simp

text \<open>The pattern of the functions that send one update.\<close>

lemma wrote_case:
  "served d w \<Longrightarrow> sql_clean st \<Longrightarrow>
   (case (case run_sql cap st (w\<lparr>corrupted := b\<rparr>) of (None, w') \<Rightarrow> (-1, w') | (Some x, w') \<Rightarrow> (0, w'))
    of (r, w') \<Rightarrow> wrote d st w r w')"
  using wrote_run [of d w st cap b] by (auto split: prod.splits option.splits)

lemma wrote_case':
  "served d w \<Longrightarrow> sql_clean st \<Longrightarrow>
   (case (case run_sql cap st w of (None, w') \<Rightarrow> (-1, w') | (Some x, w') \<Rightarrow> (0, w'))
    of (r, w') \<Rightarrow> wrote d st w r w')"
  using wrote_case [of d w st cap "corrupted w"] by simp

lemma add_user_wrote:
  assumes "served d w" "mysql p = Some h" "clean name" "clean pass" "clean info"
    and "strlen name + strlen pass + strlen info + 58 < MAX_QUERY_CHARS"
  shows "case add_user p name pass info w of (r, w') \<Rightarrow> wrote d (Ins_user name pass info) w r w'"
  using wrote_case' [of d w "Ins_user name pass info" MAX_QUERY_CHARS] assms
  by (simp add: add_user_def sql_clean_def)

lemma del_user_wrote:
  assumes "served d w" "mysql p = Some h" "short name"
  shows "case del_user p name w of (r, w') \<Rightarrow> wrote d (Upd_user_invalid name) w r w'"
  using wrote_case' [of d w "Upd_user_invalid name" MAX_QUERY_CHARS] assms short_guard [OF assms(3), of 34]
  by (simp add: del_user_def sql_clean_def)

lemma decline_friend_request_wrote:
  assumes "served d w" "mysql p = Some h"
  shows "case decline_friend_request p i j w of (r, w') \<Rightarrow> wrote d (Del_request i j) w r w'"
proof -
  have guard: "\<not> 170 \<le> strlen (str_d i) + strlen (str_d j) + strlen (sql_head (Del_request i j))"
    using length_str_d_le [of i] length_str_d_le [of j] by (simp add: stmt_simps)
  show ?thesis
    using wrote_case [OF assms(1), of "Del_request i j" 200] guard assms(2)
    by (simp add: decline_friend_request_def sprintf_d_def sql_clean_def)
qed

lemma send_request_wrote:
  assumes "served d w" "mysql p = Some h"
  shows "case send_request p i j t w of (r, w') \<Rightarrow> wrote d (Ins_request i j t) w r w'"
proof -
  have guard: "\<not> 190 \<le> strlen (str_d i) + strlen (str_d j) + strlen (str_d t) + strlen (sql_head (Ins_request i j t))"
    using length_str_d_le [of i] length_str_d_le [of j] length_str_d_le [of t] by (simp add: stmt_simps)
  show ?thesis
    using wrote_case [OF assms(1), of "Ins_request i j t" 200] guard assms(2)
    by (simp add: send_request_def sprintf_d_def sql_clean_def)
qed

lemma del_friends_wrote:
  assumes "served d w" "mysql p = Some h"
  shows "case del_friends p i j w of (r, w') \<Rightarrow> wrote d (Del_friend i j) w r w'"
proof -
  have guard: "\<not> 180 \<le> strlen (str_d i) + strlen (str_d j) + strlen (sql_head (Del_friend i j))"
    using length_str_d_le [of i] length_str_d_le [of j] by (simp add: stmt_simps)
  show ?thesis
    using wrote_case [OF assms(1), of "Del_friend i j" 200] guard assms(2)
    by (simp add: del_friends_def sprintf_d_def sql_clean_def)
qed

text \<open>\<open>accept_friend_request\<close> sends two statements and ignores the result of the second.\<close>

lemma accept_friend_request_wrote:
  assumes "served d w" "mysql p = Some h"
  obtains (failed) w' where "accept_friend_request p i j t w = (-1, w')" "wrote d (Ins_friend i j t) w (-1) w'"
  | (accepted) w1 r w' where "accept_friend_request p i j t w = (0, w')"
      "wrote d (Ins_friend i j t) w 0 w1" "wrote d (Del_request i j) w1 r w'"
proof -
  let ?st = "Ins_friend i j t"
  have guard: "\<not> 190 \<le> strlen (str_d i) + strlen (str_d j) + strlen (sql_head ?st)"
    using length_str_d_le [of i] length_str_d_le [of j] by (simp add: stmt_simps)
  let ?b = "(corrupted w \<or> 10 \<le> strlen (str_d i)) \<or> 10 \<le> strlen (str_d j)"
  let ?b = "?b \<or> 10 \<le> strlen (str_d t)"
  obtain res w1 where run: "run_sql 200 ?st (w\<lparr>corrupted := ?b\<rparr>) = (res, w1)" by fastforce
  have w1: "wrote d ?st w (if res = None then -1 else 0) w1"
    by (rule wrote_run [OF assms(1) _ run]) (simp add: sql_clean_def)
  show ?thesis
  proof (cases res)
    case None
    with run w1 guard assms(2) show ?thesis
      by (intro failed [of w1]) (simp_all add: accept_friend_request_def sprintf_d_def)
  next
    case (Some x)
    have "served d w1" using w1 assms(1) served_kept [of w w1] by (simp add: wrote_def calm_def)
    with decline_friend_request_wrote [OF this assms(2), of i j]
    obtain r w' where "decline_friend_request p i j w1 = (r, w')" "wrote d (Del_request i j) w1 r w'" by auto
    with Some run w1 guard assms(2) show ?thesis
      by (intro accepted [of w' w1 r]) (simp_all add: accept_friend_request_def sprintf_d_def)
  qed
qed

end
