(* ===== verification/Persistence_Chats.thy ===== *)
theory Persistence_Chats
  imports Persistence
begin

text \<open>
  \<open>server/persistence.c\<close>, part two: the chats, their members, messages and attachments.
\<close>

section \<open>Chats\<close>

definition get_id_admin_chat :: "persistence \<Rightarrow> cint \<Rightarrow> world \<Rightarrow> (cint \<times> world) option" where
  "get_id_admin_chat p id_chat w =
     (let (str_id, w) = sprintf_d 20 id_chat w; st = Sel_chat_admin id_chat in
      if mysql p = None then Some (-1, w)
      else if MAX_QUERY_CHARS \<le> strlen str_id + strlen (sql_head st) + 2 then Some (-1, w)
      else case run_sql MAX_QUERY_CHARS st w of
        (None, w) \<Rightarrow> Some (-1, w)
      | (Some (rows, _), w) \<Rightarrow>
          if length rows < 1 then Some (-1, w)
          else do { i \<leftarrow> column (hd rows) 0; Some (atoi i, w) })"

definition get_chat_info :: "persistence \<Rightarrow> cint \<Rightarrow> string \<Rightarrow> nat \<Rightarrow> world \<Rightarrow> (cint \<times> string \<times> world) option" where
  "get_chat_info p chat_id buff max_chars w =
     (let (str_id, w) = sprintf_d 20 chat_id w; st = Sel_chat_description chat_id in
      if mysql p = None then Some (-1, buff, w)
      else if 190 \<le> strlen str_id + strlen (sql_head st) then Some (-1, buff, w)
      else case run_sql 200 st w of
        (None, w) \<Rightarrow> Some (-1, buff, w)
      | (Some (rows, _), w) \<Rightarrow>
          if length rows < 1 then Some (-1, buff, w)
          else do {
            description \<leftarrow> column (hd rows) 0;
            if max_chars \<le> strlen description then Some (-1, buff, w)
            else Some (0, description, w)
          })"

definition exist_user_in_chat :: "persistence \<Rightarrow> cint \<Rightarrow> cint \<Rightarrow> world \<Rightarrow> cint \<times> world" where
  "exist_user_in_chat p user_id chat_id w =
     (let (str_id, w) = sprintf_d 20 user_id w; (str_chat, w) = sprintf_d 20 chat_id w;
          st = Sel_member user_id chat_id in
      if mysql p = None then (-1, w)
      else if 190 \<le> strlen str_id + strlen (sql_head st) then (-1, w)
      else case run_sql 200 st w of
        (None, w) \<Rightarrow> (-1, w)
      | (Some (rows, _), w) \<Rightarrow> (if 0 < length rows then 1 else 0, w))"

definition exist_user_entry_in_chat :: "persistence \<Rightarrow> cint \<Rightarrow> cint \<Rightarrow> world \<Rightarrow> cint \<times> world" where
  "exist_user_entry_in_chat p user_id chat_id w =
     (let (str_id, w) = sprintf_d 20 user_id w; (str_chat, w) = sprintf_d 20 chat_id w;
          st = Sel_member_entry user_id chat_id in
      if mysql p = None then (-1, w)
      else if 190 \<le> strlen str_id + strlen (sql_head st) then (-1, w)
      else case run_sql 200 st w of
        (None, w) \<Rightarrow> (-1, w)
      | (Some (rows, _), w) \<Rightarrow> (if 0 < length rows then 1 else 0, w))"

definition chat_exist :: "persistence \<Rightarrow> cint \<Rightarrow> world \<Rightarrow> cint \<times> world" where
  "chat_exist p chat_id w =
     (let (str_chat, w) = sprintf_d 20 chat_id w; st = Sel_chat_valid chat_id in
      if mysql p = None then (-1, w)
      else if 190 \<le> strlen str_chat + strlen (sql_head st) then (-1, w)
      else case run_sql 200 st w of
        (None, w) \<Rightarrow> (-1, w)
      | (Some (rows, _), w) \<Rightarrow> (if 0 < length rows then 1 else 0, w))"

definition del_user_all_chats :: "persistence \<Rightarrow> cint \<Rightarrow> cint \<Rightarrow> world \<Rightarrow> cint \<times> world" where
  "del_user_all_chats p user_id timestamp w =
     (if mysql p = None then (-1, w)
      else
        let (str_user_id, w) = sprintf_d 10 user_id w; (str_time, w) = sprintf_d 10 timestamp w;
            st = Upd_leave_all user_id timestamp in
        if 180 \<le> strlen str_user_id + strlen (sql_head st) then (-1, w)
        else case run_sql 200 st w of
          (None, w) \<Rightarrow> (-1, w)
        | (Some _, w) \<Rightarrow> (0, w))"

definition add_user_chat :: "persistence \<Rightarrow> cint \<Rightarrow> cint \<Rightarrow> cint \<Rightarrow> cint \<Rightarrow> world \<Rightarrow> cint \<times> world" where
  "add_user_chat p user_id chat_id read_timestamp timestamp w =
     (if mysql p = None then (-1, w)
      else
        let (str_user_id, w) = sprintf_d 10 user_id w; (str_chat_id, w) = sprintf_d 10 chat_id w;
            (str_time, w) = sprintf_d 10 timestamp w; (str_read_time, w) = sprintf_d 10 read_timestamp w;
            st = Ins_member user_id chat_id timestamp read_timestamp in
        if 180 \<le> strlen str_user_id + strlen str_chat_id + strlen str_time + strlen (sql_head st) then (-1, w)
        else case run_sql 200 st w of
          (None, w) \<Rightarrow> (-1, w)
        | (Some _, w) \<Rightarrow> (0, w))"

text \<open>\<open>add_chat\<close> returns the new id through a pointer, which it sets only when it succeeds.  It
  does not take the length of the description into account.\<close>

definition add_chat :: "persistence \<Rightarrow> cint \<Rightarrow> string \<Rightarrow> cint \<Rightarrow> world \<Rightarrow> cint \<times> cint option \<times> world" where
  "add_chat p admin_id description timestamp w =
     (let (str_id, w) = sprintf_d 10 admin_id w; (str_time, w) = sprintf_d 10 timestamp w;
          st = Ins_chat admin_id description timestamp in
      if mysql p = None then (-1, None, w)
      else if 180 \<le> strlen str_id + strlen (sql_head st) then (-1, None, w)
      else case run_sql 200 st w of
        (None, w) \<Rightarrow> (-1, None, w)
      | (Some (_, k), w) \<Rightarrow> (0, Some k, w))"

definition del_chat :: "persistence \<Rightarrow> cint \<Rightarrow> world \<Rightarrow> cint \<times> world" where
  "del_chat p id_chat w =
     (let (str_id, w) = sprintf_d 10 id_chat w; st = Upd_chat_invalid id_chat in
      if mysql p = None then (-1, w)
      else if 180 \<le> strlen str_id + strlen (sql_head st) then (-1, w)
      else case run_sql 200 st w of
        (None, w) \<Rightarrow> (-1, w)
      | (Some _, w) \<Rightarrow> (0, w))"

definition recover_user_chat :: "persistence \<Rightarrow> cint \<Rightarrow> cint \<Rightarrow> cint \<Rightarrow> world \<Rightarrow> cint \<times> world" where
  "recover_user_chat p user_id chat_id timestamp w =
     (if mysql p = None then (-1, w)
      else
        let (str_user_id, w) = sprintf_d 10 user_id w; (str_chat_id, w) = sprintf_d 10 chat_id w;
            (str_time, w) = sprintf_d 10 timestamp w; st = Upd_rejoin user_id chat_id timestamp in
        if 180 \<le> strlen str_user_id + strlen str_chat_id + strlen (sql_head st) then (-1, w)
        else case run_sql 200 st w of
          (None, w) \<Rightarrow> (-1, w)
        | (Some _, w) \<Rightarrow> (0, w))"

definition del_user_chat :: "persistence \<Rightarrow> cint \<Rightarrow> cint \<Rightarrow> cint \<Rightarrow> world \<Rightarrow> cint \<times> world" where
  "del_user_chat p user_id chat_id timestamp w =
     (if mysql p = None then (-1, w)
      else
        let (str_user_id, w) = sprintf_d 10 user_id w; (str_chat_id, w) = sprintf_d 10 chat_id w;
            (str_time, w) = sprintf_d 10 timestamp w; st = Upd_leave user_id chat_id timestamp in
        if 180 \<le> strlen str_user_id + strlen str_chat_id + strlen (sql_head st) then (-1, w)
        else case run_sql 200 st w of
          (None, w) \<Rightarrow> (-1, w)
        | (Some _, w) \<Rightarrow> (0, w))"

definition change_admin :: "persistence \<Rightarrow> cint \<Rightarrow> cint \<Rightarrow> cint \<Rightarrow> world \<Rightarrow> cint \<times> world" where
  "change_admin p user_id chat_id timestamp w =
     (if mysql p = None then (-1, w)
      else
        let (str_user_id, w) = sprintf_d 10 user_id w; (str_chat_id, w) = sprintf_d 10 chat_id w;
            (str_time, w) = sprintf_d 10 timestamp w; st = Upd_admin user_id chat_id timestamp in
        if 180 \<le> strlen str_user_id + strlen str_chat_id + strlen (sql_head st) then (-1, w)
        else case run_sql 200 st w of
          (None, w) \<Rightarrow> (-1, w)
        | (Some _, w) \<Rightarrow> (0, w))"

definition is_admin :: "persistence \<Rightarrow> cint \<Rightarrow> cint \<Rightarrow> world \<Rightarrow> cint \<times> world" where
  "is_admin p user_id chat_id w =
     (if mysql p = None then (-1, w)
      else
        let (str_user_id, w) = sprintf_d 10 user_id w; (str_chat_id, w) = sprintf_d 10 chat_id w;
            st = Sel_admin user_id chat_id in
        if 180 \<le> strlen str_user_id + strlen str_chat_id + strlen (sql_head st) then (-1, w)
        else case run_sql 200 st w of
          (None, w) \<Rightarrow> (-1, w)
        | (Some (rows, _), w) \<Rightarrow> (if 0 < length rows then 1 else 0, w))"

definition still_users_in_chat :: "persistence \<Rightarrow> cint \<Rightarrow> world \<Rightarrow> cint \<times> world" where
  "still_users_in_chat p chat_id w =
     (if mysql p = None then (-1, w)
      else
        let (str_chat_id, w) = sprintf_d 10 chat_id w; st = Sel_still_users chat_id in
        if 190 \<le> strlen str_chat_id + strlen (sql_head st) then (-1, w)
        else case run_sql 200 st w of
          (None, w) \<Rightarrow> (-1, w)
        | (Some (rows, _), w) \<Rightarrow> (if 0 < length rows then 1 else 0, w))"

text \<open>When there is no row, \<open>mysql_fetch_row\<close> returns \<open>NULL\<close> and the access to it crashes.\<close>

definition get_first_users_in_chat :: "persistence \<Rightarrow> cint \<Rightarrow> world \<Rightarrow> (cint \<times> world) option" where
  "get_first_users_in_chat p chat_id w =
     (if mysql p = None then Some (-1, w)
      else
        let (str_chat_id, w) = sprintf_d 10 chat_id w; st = Sel_first_users chat_id in
        if 180 \<le> strlen str_chat_id + strlen (sql_head st) then Some (-1, w)
        else case run_sql 200 st w of
          (None, w) \<Rightarrow> Some (-1, w)
        | (Some (rows, _), w) \<Rightarrow>
            if rows = [] then None
            else do { i \<leftarrow> column (hd rows) 0; Some (atoi i, w) })"

section \<open>Messages and attachments\<close>

text \<open>The number of messages of the chat with this timestamp.  The handle is used unchecked.\<close>

definition exist_timestamp_in_messages :: "persistence \<Rightarrow> cint \<Rightarrow> cint \<Rightarrow> world \<Rightarrow> (cint \<times> world) option" where
  "exist_timestamp_in_messages p chat_id timestamp w =
     (let (str_chat, w) = sprintf_d 20 chat_id w; (str_time, w) = sprintf_d 20 timestamp w in
      if mysql p = None then None
      else case run_sql 200 (Sel_message_time chat_id timestamp) w of
        (None, w) \<Rightarrow> Some (-1, w)
      | (Some (rows, _), w) \<Rightarrow> Some (of_nat (length rows), w))"

text \<open>The length check of \<open>send_messages\<close> leaves the file name out.\<close>

definition send_messages ::
  "persistence \<Rightarrow> cint \<Rightarrow> cint \<Rightarrow> cint \<Rightarrow> string option \<Rightarrow> string \<Rightarrow> world \<Rightarrow> cint \<times> world" where
  "send_messages p chat_id user_id timestamp file_name msg w =
     (let (str_id, w) = sprintf_d 20 user_id w; (str_chat, w) = sprintf_d 20 chat_id w;
          (str_time, w) = sprintf_d 20 timestamp w;
          st = Ins_message user_id chat_id file_name msg timestamp in
      if mysql p = None then (-1, w)
      else if 190 \<le> strlen (sql_head st) + strlen str_id + strlen str_chat + strlen str_time + strlen msg
      then (-1, w)
      else case run_sql 200 st w of
        (None, w) \<Rightarrow> (-1, w)
      | (Some _, w) \<Rightarrow> (0, w))"

definition get_file :: "persistence \<Rightarrow> cint \<Rightarrow> cint \<Rightarrow> string \<Rightarrow> cint \<Rightarrow> world \<Rightarrow> (cint \<times> string \<times> world) option" where
  "get_file p user_id chat_id path timestamp w =
     (if mysql p = None then Some (-1, path, w)
      else
        let (str_id, w) = sprintf_d 10 user_id w; (str_time, w) = sprintf_d 10 timestamp w;
            (str_chat_id, w) = sprintf_d 10 chat_id w; st = Sel_file user_id chat_id timestamp in
        if 150 \<le> strlen str_id + strlen str_chat_id + strlen str_time + strlen (sql_head st)
        then Some (-1, path, w)
        else case run_sql 200 st w of
          (None, w) \<Rightarrow> Some (-1, path, w)
        | (Some (rows, _), w) \<Rightarrow>
            if length rows < 1 then Some (-1, path, w)
            else do { file \<leftarrow> column (hd rows) 0; Some (0, file, w) })"

definition message_can_attach :: "persistence \<Rightarrow> cint \<Rightarrow> cint \<Rightarrow> cint \<Rightarrow> world \<Rightarrow> cint \<times> world" where
  "message_can_attach p user_id chat_id msg_timestamp w =
     (if mysql p = None then (-1, w)
      else
        let (str_id, w) = sprintf_d 10 user_id w; (str_time, w) = sprintf_d 10 msg_timestamp w;
            (str_chat_id, w) = sprintf_d 10 chat_id w; st = Sel_can_attach user_id chat_id msg_timestamp in
        if 150 \<le> strlen str_id + strlen str_chat_id + strlen str_time + strlen (sql_head st) then (-1, w)
        else case run_sql 200 st w of
          (None, w) \<Rightarrow> (-1, w)
        | (Some (rows, _), w) \<Rightarrow> (if length rows = 1 then 1 else 0, w))"

definition message_have_attach :: "persistence \<Rightarrow> cint \<Rightarrow> cint \<Rightarrow> cint \<Rightarrow> world \<Rightarrow> cint \<times> world" where
  "message_have_attach p user_id chat_id msg_timestamp w =
     (if mysql p = None then (-1, w)
      else
        let (str_id, w) = sprintf_d 10 user_id w; (str_time, w) = sprintf_d 10 msg_timestamp w;
            (str_chat_id, w) = sprintf_d 10 chat_id w; st = Sel_have_attach user_id chat_id msg_timestamp in
        if 450 \<le> strlen str_id + strlen str_chat_id + strlen str_time + strlen (sql_head st) then (-1, w)
        else case run_sql 500 st w of
          (None, w) \<Rightarrow> (-1, w)
        | (Some (rows, _), w) \<Rightarrow> (if length rows = 1 then 1 else 0, w))"

text \<open>Both statements of \<open>update_sync\<close> are put together before the first is sent.\<close>

definition update_sync :: "persistence \<Rightarrow> cint \<Rightarrow> cint \<Rightarrow> cint \<Rightarrow> world \<Rightarrow> cint \<times> world" where
  "update_sync p user_id chat_id read_timestamp w =
     (if mysql p = None then (-1, w)
      else
        let (str_timestamp, w) = sprintf_d 10 read_timestamp w; (str_id, w) = sprintf_d 10 user_id w;
            (str_id_chat, w) = sprintf_d 10 chat_id w;
            st = Upd_read user_id chat_id read_timestamp; st2 = Upd_all_read chat_id read_timestamp in
        if 150 \<le> strlen str_id + strlen str_timestamp + strlen str_id_chat + strlen (sql_head st) then (-1, w)
        else if 150 \<le> strlen str_id_chat + strlen str_timestamp * 2 + strlen (sql_head st2) then (-1, w)
        else case run_sql 200 st (fill 200 (sql_text st2) w) of
          (None, w) \<Rightarrow> (-1, w)
        | (Some _, w) \<Rightarrow>
            (case run_sql 200 st2 w of
               (None, w) \<Rightarrow> (-1, w)
             | (Some _, w) \<Rightarrow> (0, w)))"

section \<open>What the functions compute\<close>

text \<open>Printing numbers into arrays of 10 bytes.\<close>

definition narrow :: "cint list \<Rightarrow> world \<Rightarrow> world" where
  "narrow xs w = w\<lparr>corrupted := corrupted w \<or> (\<exists>x \<in> set xs. 10 \<le> strlen (str_d x))\<rparr>"

lemma narrow_simps [simp]:
  "env (narrow xs w) = env w" "db (narrow xs w) = db w" "queries (narrow xs w) = queries w"
  "connections (narrow xs w) = connections w" "ticks (narrow xs w) = ticks w" "files (narrow xs w) = files w"
  "served d (narrow xs w) = served d w" "sound d (narrow xs w) = sound d w" "calm w (narrow xs w)"
  by (simp_all add: narrow_def served_def sound_def)

lemma sprintf_narrow:
  "sprintf_d 10 a w = (str_d a, narrow [a] w)"
  "narrow ys (narrow xs w) = narrow (xs @ ys) w"
  by (simp_all add: sprintf_d_def narrow_def bex_Un disj_assoc)

lemma calm_asked_narrow [simp]: "calm w (asked cap st (narrow xs w))"
  using calm_trans [of w "narrow xs w"] by simp

text \<open>A statement whose rows are only counted.\<close>

lemma count_rows:
  assumes "served d w" "sql_clean st" "sql_select st"
  shows "(case run_sql cap st w of (None, w) \<Rightarrow> (-1, w) | (Some (rows, _), w) \<Rightarrow> (if 0 < length rows then 1 else 0, w)) =
    (if outage (env w) (queries w) then -1 else if select d st (db w) = [] then 0 else 1, asked cap st w)"
  using assms
proof (cases rule: select_cases [where cap = cap])
  case (answered rows k)
  with rows_empty [OF answered(3)] show ?thesis by simp
qed simp

lemma count_one:
  assumes "served d w" "sql_clean st" "sql_select st"
  shows "(case run_sql cap st w of (None, w) \<Rightarrow> (-1, w) | (Some (rows, _), w) \<Rightarrow> (if length rows = 1 then 1 else 0, w)) =
    (if outage (env w) (queries w) then -1 else if length (select d st (db w)) = 1 then 1 else 0, asked cap st w)"
  using assms
proof (cases rule: select_cases [where cap = cap])
  case (answered rows k)
  with length_mset [OF answered(3)] show ?thesis by simp
qed simp

definition member_of :: "db \<Rightarrow> cint \<Rightarrow> cint \<Rightarrow> bool" where
  "member_of D user chat \<longleftrightarrow> (\<exists>m \<in> set (t_members D). m_user m = user \<and> m_chat m = chat \<and> m_rem_time m = 0)"

definition entry_of :: "db \<Rightarrow> cint \<Rightarrow> cint \<Rightarrow> bool" where
  "entry_of D user chat \<longleftrightarrow> (\<exists>m \<in> set (t_members D). m_user m = user \<and> m_chat m = chat)"

definition valid_chat :: "db \<Rightarrow> cint \<Rightarrow> bool" where
  "valid_chat D chat \<longleftrightarrow> (\<exists>c \<in> set (t_chats D). c_id c = chat \<and> c_valid c = 1)"

definition admin_of :: "db \<Rightarrow> cint \<Rightarrow> cint \<Rightarrow> bool" where
  "admin_of D user chat \<longleftrightarrow> (\<exists>c \<in> set (t_chats D). c_admin c = user \<and> c_id c = chat)"

lemma exist_user_in_chat_eq:
  assumes "served d w" "mysql p = Some h"
  shows "exist_user_in_chat p i c w =
    (if outage (env w) (queries w) then -1 else if member_of (db w) i c then 1 else 0, asked 200 (Sel_member i c) w)"
proof -
  have guard: "\<not> 190 \<le> strlen (str_d i) + strlen (sql_head (Sel_member i c))"
    using length_str_d_le [of i] by (simp add: stmt_simps)
  show ?thesis
    using count_rows [OF assms(1), of "Sel_member i c" 200] guard assms(2)
    by (auto simp: exist_user_in_chat_def stmt_simps select_def member_of_def filter_empty_conv)
qed

lemma exist_user_entry_in_chat_eq:
  assumes "served d w" "mysql p = Some h"
  shows "exist_user_entry_in_chat p i c w =
    (if outage (env w) (queries w) then -1 else if entry_of (db w) i c then 1 else 0, asked 200 (Sel_member_entry i c) w)"
proof -
  have guard: "\<not> 190 \<le> strlen (str_d i) + strlen (sql_head (Sel_member_entry i c))"
    using length_str_d_le [of i] by (simp add: stmt_simps)
  show ?thesis
    using count_rows [OF assms(1), of "Sel_member_entry i c" 200] guard assms(2)
    by (auto simp: exist_user_entry_in_chat_def stmt_simps select_def entry_of_def filter_empty_conv)
qed

lemma chat_exist_eq:
  assumes "served d w" "mysql p = Some h"
  shows "chat_exist p c w =
    (if outage (env w) (queries w) then -1 else if valid_chat (db w) c then 1 else 0, asked 200 (Sel_chat_valid c) w)"
proof -
  have guard: "\<not> 190 \<le> strlen (str_d c) + strlen (sql_head (Sel_chat_valid c))"
    using length_str_d_le [of c] by (simp add: stmt_simps)
  show ?thesis
    using count_rows [OF assms(1), of "Sel_chat_valid c" 200] guard assms(2)
    by (auto simp: chat_exist_def stmt_simps select_def valid_chat_def filter_empty_conv)
qed

lemma is_admin_eq:
  assumes "served d w" "mysql p = Some h"
  shows "is_admin p i c w =
    (if outage (env w) (queries w) then -1 else if admin_of (db w) i c then 1 else 0,
     asked 200 (Sel_admin i c) (narrow [i, c] w))"
proof -
  have guard: "\<not> 180 \<le> strlen (str_d i) + strlen (str_d c) + strlen (sql_head (Sel_admin i c))"
    using length_str_d_le [of i] length_str_d_le [of c] by (simp add: stmt_simps)
  have "served d (narrow [i, c] w)" using assms(1) by simp
  then show ?thesis
    using count_rows [of d "narrow [i, c] w" "Sel_admin i c" 200] guard assms(2)
    by (auto simp: is_admin_def sprintf_narrow stmt_simps select_def admin_of_def filter_empty_conv)
qed

definition inhabited :: "db \<Rightarrow> cint \<Rightarrow> bool" where
  "inhabited D chat \<longleftrightarrow> (\<exists>m \<in> set (t_members D). m_chat m = chat \<and> m_rem_time m = 0)"

lemma still_users_in_chat_eq:
  assumes "served d w" "mysql p = Some h"
  shows "still_users_in_chat p c w =
    (if outage (env w) (queries w) then -1 else if inhabited (db w) c then 1 else 0,
     asked 200 (Sel_still_users c) (narrow [c] w))"
proof -
  have guard: "\<not> 190 \<le> strlen (str_d c) + strlen (sql_head (Sel_still_users c))"
    using length_str_d_le [of c] by (simp add: stmt_simps)
  have "served d (narrow [c] w)" using assms(1) by simp
  then show ?thesis
    using count_rows [of d "narrow [c] w" "Sel_still_users c" 200] guard assms(2)
    by (auto simp: still_users_in_chat_def sprintf_narrow stmt_simps select_def inhabited_def filter_empty_conv)
qed

text \<open>The new administrator is some member of the chat: which one depends on the order of the
  rows, which SQL leaves open.\<close>

lemma get_first_users_in_chat_cases:
  assumes "served d w" "mysql p = Some h"
  obtains (failed) "outage (env w) (queries w)"
      "get_first_users_in_chat p c w = Some (-1, asked 200 (Sel_first_users c) (narrow [c] w))"
  | (crash) "\<not> outage (env w) (queries w)" "\<not> inhabited (db w) c" "get_first_users_in_chat p c w = None"
  | (first) i where "\<not> outage (env w) (queries w)" "member_of (db w) i c"
      "get_first_users_in_chat p c w = Some (i, asked 200 (Sel_first_users c) (narrow [c] w))"
proof -
  let ?st = "Sel_first_users c"
  have guard: "\<not> 180 \<le> strlen (str_d c) + strlen (sql_head ?st)"
    using length_str_d_le [of c] by (simp add: stmt_simps)
  have st: "served d (narrow [c] w)" "sql_clean ?st" "sql_select ?st"
    using assms(1) by (simp_all add: stmt_simps)
  from st show ?thesis
  proof (cases rule: select_cases [where cap = 200])
    case failed
    then show ?thesis
      using guard assms(2) that(1) by (simp add: get_first_users_in_chat_def sprintf_narrow)
  next
    case (answered rows k)
    show ?thesis
    proof (cases rows)
      case Nil
      with rows_empty [OF answered(3)] have "\<not> inhabited (db w) c"
        by (auto simp: select_def inhabited_def filter_empty_conv)
      then show ?thesis
        using Nil answered guard assms(2) that(2) by (simp add: get_first_users_in_chat_def sprintf_narrow)
    next
      case (Cons r rs)
      then have "r \<in> set (select d ?st (db w))" using mset_eq_setD [OF answered(3)] by auto
      then obtain m where m: "m \<in> set (t_members (db w))" "m_chat m = c" "m_rem_time m = 0" "r = member_cells m"
        by (auto simp: select_def)
      then have "get_first_users_in_chat p c w = Some (m_user m, asked 200 ?st (narrow [c] w))"
        using Cons answered guard assms(2)
        by (simp add: get_first_users_in_chat_def sprintf_narrow member_cells_def)
      moreover have "member_of (db w) (m_user m) c" using m by (auto simp: member_of_def)
      ultimately show ?thesis using answered(1) that(3) by simp
    qed
  qed
qed

definition messages_at :: "db \<Rightarrow> cint \<Rightarrow> cint \<Rightarrow> message_row list" where
  "messages_at D chat t = filter (\<lambda>x. s_chat x = chat \<and> s_time x = t) (t_messages D)"

lemma exist_timestamp_eq:
  assumes "served d w" "mysql p = Some h"
  shows "exist_timestamp_in_messages p c t w =
    Some (if outage (env w) (queries w) then -1 else of_nat (length (messages_at (db w) c t)),
     asked 200 (Sel_message_time c t) w)"
proof -
  let ?st = "Sel_message_time c t"
  have st: "sql_clean ?st" "sql_select ?st" by (simp_all add: stmt_simps)
  from assms(1) st show ?thesis
  proof (cases rule: select_cases [where cap = 200])
    case (answered rows k)
    have "length rows = length (messages_at (db w) c t)"
      using length_mset [OF answered(3)] by (simp add: select_def messages_at_def)
    with answered assms(2) show ?thesis by (simp add: exist_timestamp_in_messages_def)
  qed (simp add: exist_timestamp_in_messages_def assms(2))
qed

definition own_message :: "db \<Rightarrow> cint \<Rightarrow> cint \<Rightarrow> cint \<Rightarrow> message_row list" where
  "own_message D user chat t = filter (\<lambda>x. s_sender x = user \<and> s_chat x = chat \<and> s_time x = t) (t_messages D)"

lemma message_can_attach_eq:
  assumes "served d w" "mysql p = Some h"
  shows "message_can_attach p i c t w =
    (if outage (env w) (queries w) then -1 else if length (own_message (db w) i c t) = 1 then 1 else 0,
     asked 200 (Sel_can_attach i c t) (narrow [i, t, c] w))"
proof -
  have guard: "\<not> 150 \<le> strlen (str_d i) + strlen (str_d c) + strlen (str_d t) + strlen (sql_head (Sel_can_attach i c t))"
    using length_str_d_le [of i] length_str_d_le [of c] length_str_d_le [of t] by (simp add: stmt_simps)
  have "served d (narrow [i, t, c] w)" using assms(1) by simp
  then show ?thesis
    using count_one [of d "narrow [i, t, c] w" "Sel_can_attach i c t" 200] guard assms(2)
    by (auto simp: message_can_attach_def sprintf_narrow stmt_simps select_def own_message_def)
qed

text \<open>The pairs of a membership of the user and a message of the chat that it covers.\<close>

definition visible :: "db \<Rightarrow> cint \<Rightarrow> cint \<Rightarrow> cint \<Rightarrow> (member_row \<times> message_row) list" where
  "visible D user chat t = [(m, x). m \<leftarrow> t_members D, x \<leftarrow> t_messages D,
     m_chat m = s_chat x \<and> sint (m_time m) \<le> sint (s_time x) \<and> m_user m = user \<and> s_chat x = chat \<and> s_time x = t]"

lemma concat_if_map: "concat (map (\<lambda>x. if P x then [f x] else []) xs) = map f (filter P xs)"
  by (induction xs) auto

lemma message_have_attach_eq:
  assumes "served d w" "mysql p = Some h"
  shows "message_have_attach p i c t w =
    (if outage (env w) (queries w) then -1 else if length (visible (db w) i c t) = 1 then 1 else 0,
     asked 500 (Sel_have_attach i c t) (narrow [i, t, c] w))"
proof -
  have guard: "\<not> 450 \<le> strlen (str_d i) + strlen (str_d c) + strlen (str_d t) + strlen (sql_head (Sel_have_attach i c t))"
    using length_str_d_le [of i] length_str_d_le [of c] length_str_d_le [of t] by (simp add: stmt_simps)
  have srv: "served d (narrow [i, t, c] w)" using assms(1) by simp
  have len: "length (select d (Sel_have_attach i c t) (db w)) = length (visible (db w) i c t)"
    by (simp add: select_def visible_def concat_if_map length_concat o_def)
  show ?thesis
    using count_one [OF srv, of "Sel_have_attach i c t" 500] guard assms(2) len
    by (auto simp: message_have_attach_def sprintf_narrow stmt_simps)
qed

section \<open>What the updates do\<close>

lemma wrote_narrow:
  "served d w \<Longrightarrow> sql_clean st \<Longrightarrow>
   (case (case run_sql cap st (narrow xs w) of (None, w') \<Rightarrow> (-1, w') | (Some x, w') \<Rightarrow> (0, w'))
    of (r, w') \<Rightarrow> wrote d st w r w')"
  unfolding narrow_def by (rule wrote_case)

lemma del_user_all_chats_wrote:
  assumes "served d w" "mysql p = Some h"
  shows "case del_user_all_chats p i t w of (r, w') \<Rightarrow> wrote d (Upd_leave_all i t) w r w'"
proof -
  have guard: "\<not> 180 \<le> strlen (str_d i) + strlen (sql_head (Upd_leave_all i t))"
    using length_str_d_le [of i] by (simp add: stmt_simps)
  show ?thesis
    using wrote_narrow [OF assms(1), of "Upd_leave_all i t" 200 "[i, t]"] guard assms(2)
    by (simp add: del_user_all_chats_def sprintf_narrow stmt_simps)
qed

lemma add_user_chat_wrote:
  assumes "served d w" "mysql p = Some h"
  shows "case add_user_chat p i c rt t w of (r, w') \<Rightarrow> wrote d (Ins_member i c t rt) w r w'"
proof -
  have guard: "\<not> 180 \<le> strlen (str_d i) + strlen (str_d c) + strlen (str_d t) + strlen (sql_head (Ins_member i c t rt))"
    using length_str_d_le [of i] length_str_d_le [of c] length_str_d_le [of t] by (simp add: stmt_simps)
  show ?thesis
    using wrote_narrow [OF assms(1), of "Ins_member i c t rt" 200 "[i, c, t, rt]"] guard assms(2)
    by (simp add: add_user_chat_def sprintf_narrow stmt_simps)
qed

lemma del_chat_wrote:
  assumes "served d w" "mysql p = Some h"
  shows "case del_chat p c w of (r, w') \<Rightarrow> wrote d (Upd_chat_invalid c) w r w'"
proof -
  have guard: "\<not> 180 \<le> strlen (str_d c) + strlen (sql_head (Upd_chat_invalid c))"
    using length_str_d_le [of c] by (simp add: stmt_simps)
  show ?thesis
    using wrote_narrow [OF assms(1), of "Upd_chat_invalid c" 200 "[c]"] guard assms(2)
    by (simp add: del_chat_def sprintf_narrow stmt_simps)
qed

lemma recover_user_chat_wrote:
  assumes "served d w" "mysql p = Some h"
  shows "case recover_user_chat p i c t w of (r, w') \<Rightarrow> wrote d (Upd_rejoin i c t) w r w'"
proof -
  have guard: "\<not> 180 \<le> strlen (str_d i) + strlen (str_d c) + strlen (sql_head (Upd_rejoin i c t))"
    using length_str_d_le [of i] length_str_d_le [of c] by (simp add: stmt_simps)
  show ?thesis
    using wrote_narrow [OF assms(1), of "Upd_rejoin i c t" 200 "[i, c, t]"] guard assms(2)
    by (simp add: recover_user_chat_def sprintf_narrow stmt_simps)
qed

lemma del_user_chat_wrote:
  assumes "served d w" "mysql p = Some h"
  shows "case del_user_chat p i c t w of (r, w') \<Rightarrow> wrote d (Upd_leave i c t) w r w'"
proof -
  have guard: "\<not> 180 \<le> strlen (str_d i) + strlen (str_d c) + strlen (sql_head (Upd_leave i c t))"
    using length_str_d_le [of i] length_str_d_le [of c] by (simp add: stmt_simps)
  show ?thesis
    using wrote_narrow [OF assms(1), of "Upd_leave i c t" 200 "[i, c, t]"] guard assms(2)
    by (simp add: del_user_chat_def sprintf_narrow stmt_simps)
qed

lemma change_admin_wrote:
  assumes "served d w" "mysql p = Some h"
  shows "case change_admin p i c t w of (r, w') \<Rightarrow> wrote d (Upd_admin i c t) w r w'"
proof -
  have guard: "\<not> 180 \<le> strlen (str_d i) + strlen (str_d c) + strlen (sql_head (Upd_admin i c t))"
    using length_str_d_le [of i] length_str_d_le [of c] by (simp add: stmt_simps)
  show ?thesis
    using wrote_narrow [OF assms(1), of "Upd_admin i c t" 200 "[i, c, t]"] guard assms(2)
    by (simp add: change_admin_def sprintf_narrow stmt_simps)
qed

text \<open>A message that passes the length check.\<close>

definition message_fits :: "cint \<Rightarrow> cint \<Rightarrow> cint \<Rightarrow> string \<Rightarrow> bool" where
  "message_fits i c t msg \<longleftrightarrow> 76 + strlen (str_d i) + strlen (str_d c) + strlen (str_d t) + strlen msg < 190"

lemma send_messages_wrote:
  assumes "served d w" "mysql p = Some h" "message_fits i c t msg" "clean msg"
    and "case file of None \<Rightarrow> True | Some f \<Rightarrow> clean f"
  shows "case send_messages p c i t file msg w of (r, w') \<Rightarrow> wrote d (Ins_message i c file msg t) w r w'"
proof -
  let ?st = "Ins_message i c file msg t"
  have guard: "\<not> 190 \<le> strlen (sql_head ?st) + strlen (str_d i) + strlen (str_d c) + strlen (str_d t) + strlen msg"
    using assms(3) by (simp add: stmt_simps message_fits_def)
  have "sql_clean ?st" using assms(4,5) by (simp add: sql_clean_def split: option.splits)
  from wrote_case' [OF assms(1) this, of 200] guard assms(2) show ?thesis
    by (simp add: send_messages_def)
qed

lemma send_messages_too_long:
  "mysql p = Some h \<Longrightarrow> \<not> message_fits i c t msg \<Longrightarrow> send_messages p c i t file msg w = (-1, w)"
  by (simp add: send_messages_def message_fits_def stmt_simps)

lemma add_chat_cases:
  assumes "served d w" "mysql p = Some h" "clean desc"
  obtains (failed) w' where "add_chat p i desc t w = (-1, None, w')" "wrote d (Ins_chat i desc t) w (-1) w'"
  | (added) k w' x where "add_chat p i desc t w = (0, Some k, w')" "wrote d (Ins_chat i desc t) w 0 w'"
      "fresh_id k (chat_ids (db w))" "i \<in> user_ids (db w)" "varchar d 100 desc = Some x"
      "db w' = (db w)\<lparr>t_chats := t_chats (db w) @ [\<lparr>c_id = k, c_admin = i, c_admin_time = t, c_read_time = 0,
         c_valid = 1, c_description = x, c_time = t\<rparr>]\<rparr>"
proof -
  let ?st = "Ins_chat i desc t"
  let ?w = "narrow [i, t] w"
  have guard: "\<not> 180 \<le> strlen (str_d i) + strlen (sql_head ?st)"
    using length_str_d_le [of i] by (simp add: stmt_simps)
  have clean: "sql_clean ?st" using assms(3) by (simp add: stmt_simps)
  have "served d ?w" using assms(1) by simp
  then show ?thesis using clean
  proof (cases rule: run_sql_update [where cap = 200])
    case failed
    then have "wrote d ?st w (-1) (asked 200 ?st ?w)" by (auto simp: wrote_def)
    with failed guard assms(2) show ?thesis
      by (intro that(1)) (auto simp: add_chat_def sprintf_narrow)
  next
    case (success rows k D rows0)
    have "calm w ((asked 200 ?st ?w)\<lparr>db := D\<rparr>)" by (simp add: calm_def kept_def narrow_def)
    then have "wrote d ?st w 0 ((asked 200 ?st ?w)\<lparr>db := D\<rparr>)" using success by (auto simp: wrote_def)
    moreover obtain x where "varchar d 100 desc = Some x" using success(4) by (auto split: option.splits)
    ultimately show ?thesis
      using success guard assms(2)
      by (intro that(2) [of k "(asked 200 ?st ?w)\<lparr>db := D\<rparr>" x])
        (auto simp: add_chat_def sprintf_narrow fresh_for_def split: if_splits)
  qed
qed

text \<open>\<open>update_sync\<close>: nothing, the first statement, or both.\<close>

lemma update_sync_wrote:
  assumes "served d w" "mysql p = Some h"
  obtains (failed) w' where "update_sync p i c t w = (-1, w')" "wrote d (Upd_read i c t) w (-1) w'"
  | (sent) w1 r w' where "update_sync p i c t w = (r, w')"
      "wrote d (Upd_read i c t) w 0 w1" "wrote d (Upd_all_read c t) w1 r w'"
proof -
  let ?st = "Upd_read i c t" and ?st2 = "Upd_all_read c t"
  have guard: "\<not> 150 \<le> strlen (str_d i) + strlen (str_d t) + strlen (str_d c) + strlen (sql_head ?st)"
    "\<not> 150 \<le> strlen (str_d c) + strlen (str_d t) * 2 + strlen (sql_head ?st2)"
    using length_str_d_le [of i] length_str_d_le [of c] length_str_d_le [of t] by (simp_all add: stmt_simps)
  let ?w = "fill 200 (sql_text ?st2) (narrow [t, i, c] w)"
  obtain b where w: "?w = w\<lparr>corrupted := b\<rparr>" by (simp add: fill_def narrow_def)
  obtain res w1 where run: "run_sql 200 ?st ?w = (res, w1)" by fastforce
  have w1: "wrote d ?st w (if res = None then -1 else 0) w1"
    by (rule wrote_run [OF assms(1) _ run [unfolded w]]) (simp add: stmt_simps)
  show ?thesis
  proof (cases res)
    case None
    with run w1 guard assms(2) show ?thesis
      by (intro that(1) [of w1]) (simp_all add: update_sync_def sprintf_narrow)
  next
    case (Some x)
    have srv: "served d w1" using w1 assms(1) served_kept [of w w1] by (simp add: wrote_def calm_def)
    obtain res2 w2 where run2: "run_sql 200 ?st2 w1 = (res2, w2)" by fastforce
    have "wrote d ?st2 w1 (if res2 = None then -1 else 0) w2"
      by (rule wrote_run' [OF srv _ run2]) (simp add: stmt_simps)
    have "update_sync p i c t w = (if res2 = None then -1 else 0, w2)"
      using Some run run2 guard assms(2)
      by (cases res2) (simp_all add: update_sync_def sprintf_narrow)
    then show ?thesis using Some w1 run2 \<open>wrote d ?st2 w1 _ w2\<close> by (intro that(2)) simp_all
  qed
qed

end
