(* ===== verification/Soap_Types.thy ===== *)
theory Soap_Types
  imports IMS_Prelude
begin

text \<open>
  The structures of \<open>rpc/ims.h\<close>, which the client and the server exchange.  An array and its
  \<open>__sizenelems\<close> are one HOL list.  A field that the server may leave uninitialised in memory from
  \<open>soap_malloc\<close>, or a pointer it may leave \<open>NULL\<close>, is an option.
\<close>

section \<open>What the client sends\<close>

record login_info =
  li_name :: "string option"
  li_password :: "string option"

record register_info =
  ri_name :: "string option"
  ri_password :: "string option"
  ri_information :: "string option"

record new_chat =
  n_description :: "string option"
  n_member :: "string option"

record sent_message =
  sm_text :: "string option"
  sm_file_name :: "string option"

section \<open>What the server answers\<close>

record user_info =
  ui_name :: string
  ui_information :: string

record user_list =
  ul_user :: "user_info list"
  ul_last_timestamp :: cint

record message_item =
  mi_user :: string
  mi_text :: string
  mi_file_name :: "string option"
  mi_send_date :: cint

record message_list =
  xl_messages :: "message_item list"
  xl_read_timestamp :: cint
  xl_last_timestamp :: cint

record chat_item =
  ci_chat_id :: cint
  ci_description :: string
  ci_admin :: string
  ci_read_timestamp :: "cint option"
  ci_all_read_timestamp :: cint
  ci_members :: "string list option" \<comment> \<open>its \<open>last_timestamp\<close> is never set\<close>

record chat_list =
  ch_chat_info :: "chat_item list"
  ch_last_timestamp :: cint

record notif_friend =
  nf_name :: string
  nf_send_date :: cint

record notif_chat =
  nc_chat_id :: cint
  nc_timestamp :: "cint option"

record notif_member =
  nm_name :: string
  nm_chat_id :: cint
  nm_timestamp :: cint

record client_data_info =
  cd_chats :: chat_list
  cd_friends :: user_list
  cd_friend_requests :: "notif_friend list"
  cd_timestamp :: cint

record notifications =
  no_friend_request :: "notif_friend list"
  no_new_friends :: user_list
  no_chats_with_messages :: "notif_chat list"
  no_chats_read_times :: "notif_chat list"
  no_chat_members :: "notif_member list"
  no_rem_chat_members :: "notif_member list"
  no_chat_admins :: "notif_member list"
  no_last_timestamp :: cint

end
