(* ===== verification/Persistence_Lists.thy ===== *)
theory Persistence_Lists
  imports Persistence_Chats Soap_Types
begin

text \<open>
  \<open>server/persistence.c\<close>, part three: the functions that return lists to the client, for its
  data and for the notifications.  They fill the structures of \<open>rpc/ims.h\<close>; the array and its
  \<open>__sizenelems\<close> are one HOL list.  A field that a function leaves uninitialised in memory from
  \<open>soap_malloc\<close> is \<^const>\<open>None\<close>.
\<close>

section \<open>Friends, members, messages, chats\<close>

text \<open>The loops over the rows of a result.\<close>

fun fetch_users :: "row list \<Rightarrow> world \<Rightarrow> (user_info list \<times> world) option" where
  "fetch_users [] w = Some ([], w)"
| "fetch_users (row # rows) w = do {
     (name, w) \<leftarrow> soap_strdup (column row 0) w;
     (information, w) \<leftarrow> soap_strdup (column row 1) w;
     (us, w) \<leftarrow> fetch_users rows w;
     Some (\<lparr>ui_name = name, ui_information = information\<rparr> # us, w)
   }"

definition get_list_friends ::
  "persistence \<Rightarrow> cint \<Rightarrow> cint \<Rightarrow> user_list \<Rightarrow> world \<Rightarrow> (cint \<times> user_list \<times> world) option" where
  "get_list_friends p user_id timestamp friends w =
     (let (str_id, w) = sprintf_d 20 user_id w; (str_time, w) = sprintf_d 20 timestamp w;
          st = Sel_friends user_id timestamp in
      if 450 \<le> strlen str_id * 2 + strlen (sql_head st) then Some (-1, friends, w)
      else if mysql p = None then None
      else case run_sql 500 st w of
        (None, w) \<Rightarrow> Some (-1, friends, w)
      | (Some (rows, _), w) \<Rightarrow> do {
          w \<leftarrow> soap_array (length rows) w;
          (us, w) \<leftarrow> fetch_users rows w;
          Some (0, friends\<lparr>ul_user := us\<rparr>, w)
        })"

fun fetch_names :: "row list \<Rightarrow> world \<Rightarrow> (string list \<times> world) option" where
  "fetch_names [] w = Some ([], w)"
| "fetch_names (row # rows) w = do {
     (name, w) \<leftarrow> soap_strdup (column row 0) w;
     (ns, w) \<leftarrow> fetch_names rows w;
     Some (name # ns, w)
   }"

definition get_member_list_chats ::
  "persistence \<Rightarrow> cint \<Rightarrow> cint \<Rightarrow> string list option \<Rightarrow> world \<Rightarrow> (cint \<times> string list option \<times> world) option" where
  "get_member_list_chats p chat_id timestamp members w =
     (let (str_id, w) = sprintf_d 20 chat_id w; (str_time, w) = sprintf_d 20 timestamp w;
          st = Sel_members chat_id timestamp in
      if mysql p = None then Some (-1, members, w)
      else if 450 \<le> strlen str_id + strlen str_time + strlen (sql_text st)
      then Some (-1, members, fill 500 (sql_text st) w)
      else case run_sql 500 st w of
        (None, w) \<Rightarrow> Some (-1, members, w)
      | (Some (rows, _), w) \<Rightarrow> do {
          w \<leftarrow> soap_array (length rows) w;
          (ns, w) \<leftarrow> fetch_names rows w;
          Some (0, Some ns, w)
        })"

definition strdup_opt :: "string option \<Rightarrow> world \<Rightarrow> (string option \<times> world) option" where
  "strdup_opt s w =
     (case s of None \<Rightarrow> Some (None, w)
      | Some s \<Rightarrow> map_option (\<lambda>(s, w). (Some s, w)) (soap_strdup (Some s) w))"

text \<open>The loop also keeps the greatest timestamp.\<close>

fun fetch_messages :: "row list \<Rightarrow> cint \<Rightarrow> world \<Rightarrow> (message_item list \<times> cint \<times> world) option" where
  "fetch_messages [] latest w = Some ([], latest, w)"
| "fetch_messages (row # rows) latest w = do {
     (user, w) \<leftarrow> soap_strdup (column row 0) w;
     (msg, w) \<leftarrow> soap_strdup (column row 1) w;
     (file, w) \<leftarrow> strdup_opt (column row 3) w;
     date \<leftarrow> map_option atoi (column row 2);
     (ms, latest, w) \<leftarrow> fetch_messages rows (if sint latest < sint date then date else latest) w;
     Some (\<lparr>mi_user = user, mi_text = msg, mi_file_name = file, mi_send_date = date\<rparr> # ms, latest, w)
   }"

definition get_list_messages ::
  "persistence \<Rightarrow> cint \<Rightarrow> cint \<Rightarrow> cint \<Rightarrow> message_list \<Rightarrow> world \<Rightarrow> (cint \<times> message_list \<times> world) option" where
  "get_list_messages p chat_id user_id timestamp messages w =
     (let (str_chat_id, w) = sprintf_d 20 chat_id w; (str_id, w) = sprintf_d 20 user_id w;
          (str_time, w) = sprintf_d 20 timestamp w; st = Sel_messages chat_id user_id timestamp in
      if mysql p = None then Some (-1, messages, w)
      else if 450 \<le> strlen str_id + strlen str_time + strlen (sql_head st) then Some (-1, messages, w)
      else case run_sql 500 st w of
        (None, w) \<Rightarrow> Some (-1, messages, w)
      | (Some (rows, _), w) \<Rightarrow> do {
          w \<leftarrow> soap_array (length rows) w;
          (ms, latest, w) \<leftarrow> fetch_messages rows timestamp w;
          Some (0, messages\<lparr>xl_messages := ms, xl_last_timestamp := latest + 1\<rparr>, w)
        })"

fun fetch_chats ::
  "persistence \<Rightarrow> cint \<Rightarrow> row list \<Rightarrow> cint \<Rightarrow> world \<Rightarrow> (chat_item list \<times> cint \<times> world) option" where
  "fetch_chats p timestamp [] latest w = Some ([], latest, w)"
| "fetch_chats p timestamp (row # rows) latest w = do {
     (description, w) \<leftarrow> soap_strdup (column row 1) w;
     (admin, w) \<leftarrow> soap_strdup (column row 2) w;
     chat_id \<leftarrow> map_option atoi (column row 0);
     read_time \<leftarrow> map_option atoi (column row 3);
     time \<leftarrow> map_option atoi (column row 4);
     all_read \<leftarrow> map_option atoi (column row 5);
     (_, members, w) \<leftarrow> get_member_list_chats p chat_id timestamp None w;
     (cs, latest, w) \<leftarrow> fetch_chats p timestamp rows (if sint latest < sint time then time else latest) w;
     Some (\<lparr>ci_chat_id = chat_id, ci_description = description, ci_admin = admin,
        ci_read_timestamp = Some read_time, ci_all_read_timestamp = all_read, ci_members = members\<rparr> # cs, latest, w)
   }"

definition get_list_chats ::
  "persistence \<Rightarrow> cint \<Rightarrow> cint \<Rightarrow> chat_list \<Rightarrow> world \<Rightarrow> (cint \<times> chat_list \<times> world) option" where
  "get_list_chats p user_id timestamp chats w =
     (let (str_id, w) = sprintf_d 20 user_id w; (str_time, w) = sprintf_d 20 timestamp w;
          st = Sel_chats user_id timestamp in
      if mysql p = None then Some (-1, chats, w)
      else if 450 \<le> strlen str_id + strlen (sql_head st) then Some (-1, chats, w)
      else case run_sql 500 st w of
        (None, w) \<Rightarrow> Some (-1, chats, w)
      | (Some (rows, _), w) \<Rightarrow> do {
          w \<leftarrow> soap_array (length rows) w;
          (cs, latest, w) \<leftarrow> fetch_chats p timestamp rows 0 w;
          Some (0, \<lparr>ch_chat_info = cs, ch_last_timestamp = latest\<rparr>, w)
        })"

text \<open>\<open>get_all_chat_info\<close> reads the columns through \<open>row\<close> without having fetched a row: the
  pointer is uninitialised whenever the query returns anything.\<close>

definition get_all_chat_info :: "persistence \<Rightarrow> cint \<Rightarrow> chat_item \<Rightarrow> world \<Rightarrow> (cint \<times> chat_item \<times> world) option" where
  "get_all_chat_info p chat_id chat w =
     (let (str_id, w) = sprintf_d 20 chat_id w; (str_time, w) = sprintf_d 20 0 w;
          st = Sel_chat_all chat_id 0 in
      if mysql p = None then Some (-1, chat, w)
      else if 190 \<le> strlen str_id + strlen (sql_head st) then Some (-1, chat, w)
      else case run_sql 200 st w of
        (None, w) \<Rightarrow> Some (-1, chat, w)
      | (Some (rows, _), w) \<Rightarrow> if length rows < 1 then Some (-1, chat, w) else None)"

section \<open>Notifications\<close>

definition get_notif_chats_with_messages ::
  "persistence \<Rightarrow> cint \<Rightarrow> cint \<Rightarrow> notif_chat list \<Rightarrow> world \<Rightarrow> (cint \<times> notif_chat list \<times> world) option" where
  "get_notif_chats_with_messages p user_id timestamp chat_list w =
     (if mysql p = None then Some (-1, chat_list, w)
      else
        let (str_id, w) = sprintf_d 20 user_id w; (str_time, w) = sprintf_d 20 timestamp w;
            st = Sel_notif_messages user_id timestamp in
        if 450 \<le> strlen str_id + strlen str_time + strlen (sql_head st) then Some (-1, chat_list, w)
        else case run_sql 500 st w of
          (None, w) \<Rightarrow> Some (-1, chat_list, w)
        | (Some (rows, _), w) \<Rightarrow> do {
            w \<leftarrow> soap_array (length rows) w;
            cs \<leftarrow> those (map (\<lambda>row. map_option (\<lambda>i. \<lparr>nc_chat_id = atoi i, nc_timestamp = None\<rparr>) (column row 0)) rows);
            Some (0, cs, w)
          })"

definition notif_read_item :: "row \<Rightarrow> notif_chat option" where
  "notif_read_item row = do {
     i \<leftarrow> column row 0;
     t \<leftarrow> column row 1;
     Some \<lparr>nc_chat_id = atoi i, nc_timestamp = Some (atoi t)\<rparr>
   }"

definition get_notif_chats_read_times ::
  "persistence \<Rightarrow> cint \<Rightarrow> notif_chat list \<Rightarrow> world \<Rightarrow> (cint \<times> notif_chat list \<times> world) option" where
  "get_notif_chats_read_times p user_id chat_list w =
     (if mysql p = None then Some (-1, chat_list, w)
      else
        let (str_id, w) = sprintf_d 20 user_id w; st = Sel_notif_read user_id in
        if 450 \<le> strlen str_id + strlen (sql_head st) then Some (-1, chat_list, w)
        else case run_sql 500 st w of
          (None, w) \<Rightarrow> Some (-1, chat_list, w)
        | (Some (rows, _), w) \<Rightarrow> do {
            w \<leftarrow> soap_array (length rows) w;
            cs \<leftarrow> those (map notif_read_item rows);
            Some (0, cs, w)
          })"

fun fetch_requests :: "row list \<Rightarrow> world \<Rightarrow> (notif_friend list \<times> world) option" where
  "fetch_requests [] w = Some ([], w)"
| "fetch_requests (row # rows) w = do {
     (name, w) \<leftarrow> soap_strdup (column row 0) w;
     date \<leftarrow> map_option atoi (column row 1);
     (rs, w) \<leftarrow> fetch_requests rows w;
     Some (\<lparr>nf_name = name, nf_send_date = date\<rparr> # rs, w)
   }"

definition get_notif_friend_requests ::
  "persistence \<Rightarrow> cint \<Rightarrow> cint \<Rightarrow> notif_friend list \<Rightarrow> world \<Rightarrow> (cint \<times> notif_friend list \<times> world) option" where
  "get_notif_friend_requests p user_id timestamp request_list w =
     (let (str_id, w) = sprintf_d 20 user_id w; (str_time, w) = sprintf_d 20 timestamp w;
          st = Sel_notif_requests user_id timestamp in
      if mysql p = None then Some (-1, request_list, w)
      else if 450 \<le> strlen str_id + strlen str_time + strlen (sql_head st) then Some (-1, request_list, w)
      else case run_sql 500 st w of
        (None, w) \<Rightarrow> Some (-1, request_list, w)
      | (Some (rows, _), w) \<Rightarrow> do {
          w \<leftarrow> soap_array (length rows) w;
          (rs, w) \<leftarrow> fetch_requests rows w;
          Some (0, rs, w)
        })"

fun fetch_members :: "row list \<Rightarrow> world \<Rightarrow> (notif_member list \<times> world) option" where
  "fetch_members [] w = Some ([], w)"
| "fetch_members (row # rows) w = do {
     (name, w) \<leftarrow> soap_strdup (column row 0) w;
     chat_id \<leftarrow> map_option atoi (column row 1);
     time \<leftarrow> map_option atoi (column row 2);
     (ms, w) \<leftarrow> fetch_members rows w;
     Some (\<lparr>nm_name = name, nm_chat_id = chat_id, nm_timestamp = time\<rparr> # ms, w)
   }"

definition get_notif_chat_members ::
  "persistence \<Rightarrow> cint \<Rightarrow> cint \<Rightarrow> notif_member list \<Rightarrow> world \<Rightarrow> (cint \<times> notif_member list \<times> world) option" where
  "get_notif_chat_members p user_id timestamp member_list w =
     (if mysql p = None then Some (-1, member_list, w)
      else
        let (str_id, w) = sprintf_d 20 user_id w; (str_time, w) = sprintf_d 20 timestamp w;
            st = Sel_notif_members user_id timestamp in
        if 450 \<le> strlen str_id + strlen str_time + strlen (sql_head st) then Some (-1, member_list, w)
        else case run_sql 500 st w of
          (None, w) \<Rightarrow> Some (-1, member_list, w)
        | (Some (rows, _), w) \<Rightarrow> do {
            w \<leftarrow> soap_array (length rows) w;
            (ms, w) \<leftarrow> fetch_members rows w;
            Some (0, ms, w)
          })"

definition get_notif_chat_rem_members ::
  "persistence \<Rightarrow> cint \<Rightarrow> cint \<Rightarrow> notif_member list \<Rightarrow> world \<Rightarrow> (cint \<times> notif_member list \<times> world) option" where
  "get_notif_chat_rem_members p user_id timestamp member_list w =
     (if mysql p = None then Some (-1, member_list, w)
      else
        let (str_id, w) = sprintf_d 20 user_id w; (str_time, w) = sprintf_d 20 timestamp w;
            st = Sel_notif_removed user_id timestamp in
        if 450 \<le> strlen str_id + strlen str_time + strlen (sql_head st) then Some (-1, member_list, w)
        else case run_sql 500 st w of
          (None, w) \<Rightarrow> Some (-1, member_list, w)
        | (Some (rows, _), w) \<Rightarrow> do {
            w \<leftarrow> soap_array (length rows) w;
            (ms, w) \<leftarrow> fetch_members rows w;
            Some (0, ms, w)
          })"

definition get_notif_chat_admins ::
  "persistence \<Rightarrow> cint \<Rightarrow> cint \<Rightarrow> notif_member list \<Rightarrow> world \<Rightarrow> (cint \<times> notif_member list \<times> world) option" where
  "get_notif_chat_admins p user_id timestamp member_list w =
     (if mysql p = None then Some (-1, member_list, w)
      else
        let (str_id, w) = sprintf_d 20 user_id w; (str_time, w) = sprintf_d 20 timestamp w;
            st = Sel_notif_admins user_id timestamp in
        if 450 \<le> strlen str_id + strlen str_time + strlen (sql_head st) then Some (-1, member_list, w)
        else case run_sql 500 st w of
          (None, w) \<Rightarrow> Some (-1, member_list, w)
        | (Some (rows, _), w) \<Rightarrow> do {
            w \<leftarrow> soap_array (length rows) w;
            (ms, w) \<leftarrow> fetch_members rows w;
            Some (0, ms, w)
          })"

end
