(* ===== verification/Evolution.thy ===== *)
theory Evolution
  imports Persistence_Lists
begin

text \<open>
  What the functions of \<open>server/persistence.c\<close> may do to the database whatever the environment
  does: every query may fail, every allocation too.  \<open>evolves d S w w'\<close>: the database of \<open>w'\<close>
  comes from that of \<open>w\<close> by executing statements of \<open>S\<close>, all clean.  The rules of the
  collection \<open>ev\<close> give this for every function; they are chained by \<open>erule\<close>.
\<close>

named_theorems ev \<comment> \<open>one rule per function: the call, then how it extends an evolution\<close>

definition db_step :: "dialect \<Rightarrow> stmt set \<Rightarrow> db \<Rightarrow> db \<Rightarrow> bool" where
  "db_step d S D D' \<longleftrightarrow>
     (\<exists>st \<in> S. \<exists>k rows. sql_clean st \<and> fresh_for st k D \<and> exec d k st D = Some (rows, D'))"

definition evolves :: "dialect \<Rightarrow> stmt set \<Rightarrow> world \<Rightarrow> world \<Rightarrow> bool" where
  "evolves d S w w' \<longleftrightarrow> served d w \<and> env w' = env w \<and> (db_step d S)\<^sup>*\<^sup>* (db w) (db w')"

lemma evolves_refl [simp]: "evolves d S w w \<longleftrightarrow> served d w"
  by (simp add: evolves_def)

lemma evolves_served: "evolves d S w w' \<Longrightarrow> served d w'"
  by (simp add: evolves_def served_def)

lemma evolves_trans: "evolves d S w w1 \<Longrightarrow> evolves d S w1 w2 \<Longrightarrow> evolves d S w w2"
  by (auto simp: evolves_def)

lemma evolves_mono: "evolves d S w w' \<Longrightarrow> S \<subseteq> T \<Longrightarrow> evolves d T w w'"
  unfolding evolves_def db_step_def by (auto elim!: rtranclp_mono [THEN predicate2D, rotated])

text \<open>Parts of the world that do not matter here.\<close>

lemma evolves_same [simp]:
  "evolves d S w (w'\<lparr>corrupted := b\<rparr>) \<longleftrightarrow> evolves d S w w'"
  "evolves d S w (w'\<lparr>queries := n\<rparr>) \<longleftrightarrow> evolves d S w w'"
  "evolves d S w (w'\<lparr>brk := n\<rparr>) \<longleftrightarrow> evolves d S w w'"
  "evolves d S w (w'\<lparr>ticks := n\<rparr>) \<longleftrightarrow> evolves d S w w'"
  "evolves d S w (w'\<lparr>connects := n\<rparr>) \<longleftrightarrow> evolves d S w w'"
  "evolves d S w (w'\<lparr>connections := c\<rparr>) \<longleftrightarrow> evolves d S w w'"
  "evolves d S w (w'\<lparr>io_ops := n\<rparr>) \<longleftrightarrow> evolves d S w w'"
  "evolves d S w (w'\<lparr>files := f\<rparr>) \<longleftrightarrow> evolves d S w w'"
  "evolves d S w (w'\<lparr>files_dir := b\<rparr>) \<longleftrightarrow> evolves d S w w'"
  "evolves d S w (fill cap s w') \<longleftrightarrow> evolves d S w w'"
  "evolves d S w (snd (sprintf_d cap i w')) \<longleftrightarrow> evolves d S w w'"
  by (simp_all add: evolves_def fill_def sprintf_d_def)

lemma now_ev [ev]: "now w1 = (t, w') \<Longrightarrow> evolves d S w w1 \<Longrightarrow> evolves d S w w'"
  by (auto simp: now_def)

lemma malloc_ev [ev]: "malloc w1 = (a, w') \<Longrightarrow> evolves d S w w1 \<Longrightarrow> evolves d S w w'"
  by (auto simp: malloc_def)

lemma soap_strdup_ev [ev]: "soap_strdup s w1 = Some (t, w') \<Longrightarrow> evolves d S w w1 \<Longrightarrow> evolves d S w w'"
  by (auto simp: soap_strdup_def malloc_def split: option.splits if_splits)

lemma soap_array_ev [ev]: "soap_array n w1 = Some w' \<Longrightarrow> evolves d S w w1 \<Longrightarrow> evolves d S w w'"
  by (auto simp: soap_array_def malloc_def split: option.splits if_splits)

lemma alloc_copy_ev [ev]: "alloc_copy s w1 = Some (t, w') \<Longrightarrow> evolves d S w w1 \<Longrightarrow> evolves d S w w'"
  by (auto simp: alloc_copy_def malloc_def split: if_splits)

lemma io_ev [ev]: "io w1 = (ok, w') \<Longrightarrow> evolves d S w w1 \<Longrightarrow> evolves d S w w'"
  by (auto simp: io_def)

lemma fopen_read_ev [ev]: "fopen_read s w1 = (r, w') \<Longrightarrow> evolves d S w w1 \<Longrightarrow> evolves d S w w'"
  by (auto simp: fopen_read_def io_def split: if_splits)

lemma fopen_write_ev [ev]: "fopen_write s w1 = (r, w') \<Longrightarrow> evolves d S w w1 \<Longrightarrow> evolves d S w w'"
  by (auto simp: fopen_write_def io_def split: if_splits)

lemma fwrite_ev [ev]: "fwrite s b w1 = (r, w') \<Longrightarrow> evolves d S w w1 \<Longrightarrow> evolves d S w w'"
  by (auto simp: fwrite_def io_def split: if_splits)

lemma mysql_real_connect_ev [ev]: "mysql_real_connect w1 = (r, w') \<Longrightarrow> evolves d S w w1 \<Longrightarrow> evolves d S w w'"
  by (auto simp: mysql_real_connect_def Let_def split: if_splits)

lemma free_persistence_evolves [simp]: "evolves d S w (free_persistence p w') \<longleftrightarrow> evolves d S w w'"
  by (auto simp: free_persistence_def close_handle_def mysql_close_def split: option.splits)

lemma evolves_run:
  assumes "run_sql cap st w1 = (r, w')" "evolves d S w w1" "sql_clean st" "st \<in> S \<or> sql_select st"
  shows "evolves d S w w'"
proof -
  have "served d w1" using assms(2) by (rule evolves_served)
  then show ?thesis using assms(3)
  proof (cases rule: run_sql_update [where cap = cap])
    case failed
    with assms show ?thesis by (auto simp: asked_def)
  next
    case (success rows k D rows0)
    have "(db_step d S)\<^sup>*\<^sup>* (db w1) D"
    proof (cases "st \<in> S")
      case True
      with success assms(3) have "db_step d S (db w1) D" by (auto simp: db_step_def)
      then show ?thesis ..
    next
      case False
      then have "D = db w1" using assms(4) success(4) exec_select_db by blast
      then show ?thesis by simp
    qed
    with success assms(1,2) show ?thesis by (auto simp: evolves_def)
  qed
qed

lemma select_simps [simp]:
  "sql_select (Sel_user_valid name)" "sql_select (Sel_user_entry name)" "sql_select (Sel_user_pass name)"
  "sql_select (Sel_user_id name)" "sql_select (Sel_user_name i)" "sql_select (Sel_user_info i)"
  "sql_select (Sel_chat_admin c)" "sql_select (Sel_chat_description c)" "sql_select (Sel_member i c)"
  "sql_select (Sel_member_entry i c)" "sql_select (Sel_chat_valid c)" "sql_select (Sel_friends i t)"
  "sql_select (Sel_members c t)" "sql_select (Sel_messages c i t)" "sql_select (Sel_chats i t)"
  "sql_select (Sel_message_time c t)" "sql_select (Sel_request i j)" "sql_select (Sel_friendship i j)"
  "sql_select (Sel_admin i c)" "sql_select (Sel_still_users c)" "sql_select (Sel_first_users c)"
  "sql_select (Sel_chat_all c t)" "sql_select (Sel_can_attach i c t)" "sql_select (Sel_have_attach i c t)"
  "sql_select (Sel_notif_messages i t)" "sql_select (Sel_notif_read i)" "sql_select (Sel_notif_requests i t)"
  "sql_select (Sel_notif_members i t)" "sql_select (Sel_notif_removed i t)" "sql_select (Sel_notif_admins i t)"
  by (simp_all add: stmt_simps)

lemma clean_names [simp]:
  "sql_clean (Sel_user_valid name) \<longleftrightarrow> clean name" "sql_clean (Sel_user_entry name) \<longleftrightarrow> clean name"
  "sql_clean (Sel_user_pass name) \<longleftrightarrow> clean name" "sql_clean (Sel_user_id name) \<longleftrightarrow> clean name"
  "sql_clean (Upd_user_invalid name) \<longleftrightarrow> clean name"
  "sql_clean (Ins_user name pass info) \<longleftrightarrow> clean name \<and> clean pass \<and> clean info"
  "sql_clean (Ins_chat i desc t) \<longleftrightarrow> clean desc"
  "sql_clean (Ins_message i c file msg t) \<longleftrightarrow> clean msg \<and> (\<forall>f. file = Some f \<longrightarrow> clean f)"
  by (auto simp: sql_clean_def split: option.splits)

text \<open>How the functions are unfolded: the sizes of the buffers and the length checks play no role.\<close>

lemmas ev_simps = sprintf_d_def Let_def fill_def

lemmas ev_splits = if_splits option.splits prod.splits

section \<open>Users and friends\<close>

lemma add_user_ev [ev]:
  "add_user p name pass info w1 = (r, w') \<Longrightarrow> evolves d S w w1 \<Longrightarrow> clean name \<and> clean pass \<and> clean info \<Longrightarrow>
   Ins_user name pass info \<in> S \<Longrightarrow> evolves d S w w'"
  by (auto simp: add_user_def ev_simps split: ev_splits elim!: evolves_run)

lemma del_user_ev [ev]:
  "del_user p name w1 = (r, w') \<Longrightarrow> evolves d S w w1 \<Longrightarrow> clean name \<Longrightarrow> Upd_user_invalid name \<in> S \<Longrightarrow>
   evolves d S w w'"
  by (auto simp: del_user_def ev_simps split: ev_splits elim!: evolves_run)

lemma user_entry_exist_ev [ev]:
  "user_entry_exist p name w1 = (r, w') \<Longrightarrow> evolves d S w w1 \<Longrightarrow> clean name \<Longrightarrow> evolves d S w w'"
  by (auto simp: user_entry_exist_def ev_simps split: ev_splits elim!: evolves_run)

lemma get_user_pass_ev [ev]:
  "get_user_pass p name buff n w1 = Some (r, s, w') \<Longrightarrow> evolves d S w w1 \<Longrightarrow> clean name \<Longrightarrow> evolves d S w w'"
  by (auto simp: get_user_pass_def ev_simps bind_eq_Some_conv split: ev_splits elim!: evolves_run)

lemma get_user_id_ev [ev]:
  "get_user_id p name w1 = Some (r, w') \<Longrightarrow> evolves d S w w1 \<Longrightarrow> clean name \<Longrightarrow> evolves d S w w'"
  by (auto simp: get_user_id_def ev_simps bind_eq_Some_conv split: ev_splits elim!: evolves_run)

lemma get_user_info_ev [ev]:
  "get_user_info p i buff n w1 = Some (r, s, w') \<Longrightarrow> evolves d S w w1 \<Longrightarrow> evolves d S w w'"
  by (auto simp: get_user_info_def ev_simps bind_eq_Some_conv split: ev_splits elim!: evolves_run)

lemma decline_friend_request_ev [ev]:
  "decline_friend_request p i j w1 = (r, w') \<Longrightarrow> evolves d S w w1 \<Longrightarrow> Del_request i j \<in> S \<Longrightarrow> evolves d S w w'"
  by (auto simp: decline_friend_request_def ev_simps split: ev_splits elim!: evolves_run)

lemma accept_friend_request_ev [ev]:
  assumes "accept_friend_request p i j t w1 = (r, w')" "evolves d S w w1" "Ins_friend i j t \<in> S" "Del_request i j \<in> S"
  shows "evolves d S w w'"
  using assms
  by (auto simp: accept_friend_request_def ev_simps split: ev_splits
      elim!: evolves_run decline_friend_request_ev)

lemma send_request_ev [ev]:
  "send_request p i j t w1 = (r, w') \<Longrightarrow> evolves d S w w1 \<Longrightarrow> Ins_request i j t \<in> S \<Longrightarrow> evolves d S w w'"
  by (auto simp: send_request_def ev_simps split: ev_splits elim!: evolves_run)

lemma exist_request_ev [ev]: "exist_request p i j w1 = (r, w') \<Longrightarrow> evolves d S w w1 \<Longrightarrow> evolves d S w w'"
  by (auto simp: exist_request_def ev_simps split: ev_splits elim!: evolves_run)

lemma exist_friendly_ev [ev]: "exist_friendly p i j w1 = (r, w') \<Longrightarrow> evolves d S w w1 \<Longrightarrow> evolves d S w w'"
  by (auto simp: exist_friendly_def ev_simps split: ev_splits elim!: evolves_run)

section \<open>Chats and messages\<close>

lemma exist_user_in_chat_ev [ev]:
  "exist_user_in_chat p i c w1 = (r, w') \<Longrightarrow> evolves d S w w1 \<Longrightarrow> evolves d S w w'"
  by (auto simp: exist_user_in_chat_def ev_simps split: ev_splits elim!: evolves_run)

lemma exist_user_entry_in_chat_ev [ev]:
  "exist_user_entry_in_chat p i c w1 = (r, w') \<Longrightarrow> evolves d S w w1 \<Longrightarrow> evolves d S w w'"
  by (auto simp: exist_user_entry_in_chat_def ev_simps split: ev_splits elim!: evolves_run)

lemma chat_exist_ev [ev]:
  "chat_exist p c w1 = (r, w') \<Longrightarrow> evolves d S w w1 \<Longrightarrow> evolves d S w w'"
  by (auto simp: chat_exist_def ev_simps split: ev_splits elim!: evolves_run)

lemma del_user_all_chats_ev [ev]:
  "del_user_all_chats p i t w1 = (r, w') \<Longrightarrow> evolves d S w w1 \<Longrightarrow> Upd_leave_all i t \<in> S \<Longrightarrow> evolves d S w w'"
  by (auto simp: del_user_all_chats_def ev_simps split: ev_splits elim!: evolves_run)

lemma add_user_chat_ev [ev]:
  "add_user_chat p i c rt t w1 = (r, w') \<Longrightarrow> evolves d S w w1 \<Longrightarrow> Ins_member i c t rt \<in> S \<Longrightarrow> evolves d S w w'"
  by (auto simp: add_user_chat_def ev_simps split: ev_splits elim!: evolves_run)

lemma del_chat_ev [ev]:
  "del_chat p c w1 = (r, w') \<Longrightarrow> evolves d S w w1 \<Longrightarrow> Upd_chat_invalid c \<in> S \<Longrightarrow> evolves d S w w'"
  by (auto simp: del_chat_def ev_simps split: ev_splits elim!: evolves_run)

lemma recover_user_chat_ev [ev]:
  "recover_user_chat p i c t w1 = (r, w') \<Longrightarrow> evolves d S w w1 \<Longrightarrow> Upd_rejoin i c t \<in> S \<Longrightarrow> evolves d S w w'"
  by (auto simp: recover_user_chat_def ev_simps split: ev_splits elim!: evolves_run)

lemma del_user_chat_ev [ev]:
  "del_user_chat p i c t w1 = (r, w') \<Longrightarrow> evolves d S w w1 \<Longrightarrow> Upd_leave i c t \<in> S \<Longrightarrow> evolves d S w w'"
  by (auto simp: del_user_chat_def ev_simps split: ev_splits elim!: evolves_run)

lemma change_admin_ev [ev]:
  "change_admin p i c t w1 = (r, w') \<Longrightarrow> evolves d S w w1 \<Longrightarrow> Upd_admin i c t \<in> S \<Longrightarrow> evolves d S w w'"
  by (auto simp: change_admin_def ev_simps split: ev_splits elim!: evolves_run)

lemma is_admin_ev [ev]:
  "is_admin p i c w1 = (r, w') \<Longrightarrow> evolves d S w w1 \<Longrightarrow> evolves d S w w'"
  by (auto simp: is_admin_def ev_simps split: ev_splits elim!: evolves_run)

lemma still_users_in_chat_ev [ev]:
  "still_users_in_chat p c w1 = (r, w') \<Longrightarrow> evolves d S w w1 \<Longrightarrow> evolves d S w w'"
  by (auto simp: still_users_in_chat_def ev_simps split: ev_splits elim!: evolves_run)

lemma message_can_attach_ev [ev]:
  "message_can_attach p i c t w1 = (r, w') \<Longrightarrow> evolves d S w w1 \<Longrightarrow> evolves d S w w'"
  by (auto simp: message_can_attach_def ev_simps split: ev_splits elim!: evolves_run)

lemma message_have_attach_ev [ev]:
  "message_have_attach p i c t w1 = (r, w') \<Longrightarrow> evolves d S w w1 \<Longrightarrow> evolves d S w w'"
  by (auto simp: message_have_attach_def ev_simps split: ev_splits elim!: evolves_run)

lemma add_chat_ev [ev]:
  "add_chat p i desc t w1 = (r, k, w') \<Longrightarrow> evolves d S w w1 \<Longrightarrow> clean desc \<Longrightarrow> Ins_chat i desc t \<in> S \<Longrightarrow>
   evolves d S w w'"
  by (auto simp: add_chat_def ev_simps split: ev_splits elim!: evolves_run)

lemma get_first_users_in_chat_ev [ev]:
  "get_first_users_in_chat p c w1 = Some (r, w') \<Longrightarrow> evolves d S w w1 \<Longrightarrow> evolves d S w w'"
  by (auto simp: get_first_users_in_chat_def ev_simps bind_eq_Some_conv split: ev_splits elim!: evolves_run)

lemma exist_timestamp_in_messages_ev [ev]:
  "exist_timestamp_in_messages p c t w1 = Some (r, w') \<Longrightarrow> evolves d S w w1 \<Longrightarrow> evolves d S w w'"
  by (auto simp: exist_timestamp_in_messages_def ev_simps split: ev_splits elim!: evolves_run)

lemma send_messages_ev [ev]:
  "send_messages p c i t file msg w1 = (r, w') \<Longrightarrow> evolves d S w w1 \<Longrightarrow>
   clean msg \<and> (\<forall>f. file = Some f \<longrightarrow> clean f) \<Longrightarrow> Ins_message i c file msg t \<in> S \<Longrightarrow> evolves d S w w'"
  by (auto simp: send_messages_def ev_simps split: ev_splits elim!: evolves_run)

lemma update_sync_ev [ev]:
  "update_sync p i c t w1 = (r, w') \<Longrightarrow> evolves d S w w1 \<Longrightarrow> Upd_read i c t \<in> S \<Longrightarrow> Upd_all_read c t \<in> S \<Longrightarrow>
   evolves d S w w'"
  by (auto simp: update_sync_def ev_simps split: ev_splits elim!: evolves_run)

section \<open>Lists\<close>

lemma fetch_users_ev [ev]:
  "fetch_users rows w1 = Some (us, w') \<Longrightarrow> evolves d S w w1 \<Longrightarrow> evolves d S w w'"
  by (induction rows arbitrary: w1 us) (auto simp: bind_eq_Some_conv dest!: soap_strdup_ev)

lemma fetch_names_ev [ev]:
  "fetch_names rows w1 = Some (us, w') \<Longrightarrow> evolves d S w w1 \<Longrightarrow> evolves d S w w'"
  by (induction rows arbitrary: w1 us) (auto simp: bind_eq_Some_conv dest!: soap_strdup_ev)

lemma fetch_requests_ev [ev]:
  "fetch_requests rows w1 = Some (us, w') \<Longrightarrow> evolves d S w w1 \<Longrightarrow> evolves d S w w'"
  by (induction rows arbitrary: w1 us) (auto simp: bind_eq_Some_conv dest!: soap_strdup_ev)

lemma fetch_members_ev [ev]:
  "fetch_members rows w1 = Some (us, w') \<Longrightarrow> evolves d S w w1 \<Longrightarrow> evolves d S w w'"
  by (induction rows arbitrary: w1 us) (auto simp: bind_eq_Some_conv dest!: soap_strdup_ev)

lemma strdup_opt_ev [ev]: "strdup_opt s w1 = Some (t, w') \<Longrightarrow> evolves d S w w1 \<Longrightarrow> evolves d S w w'"
  by (auto simp: strdup_opt_def dest: soap_strdup_ev split: option.splits)

lemma fetch_messages_ev [ev]:
  "fetch_messages rows latest w1 = Some (us, l, w') \<Longrightarrow> evolves d S w w1 \<Longrightarrow> evolves d S w w'"
  by (induction rows arbitrary: latest w1 us)
    (auto simp: bind_eq_Some_conv dest!: soap_strdup_ev strdup_opt_ev)

lemma get_list_friends_ev [ev]:
  "get_list_friends p i t fs w1 = Some (r, out, w') \<Longrightarrow> evolves d S w w1 \<Longrightarrow> evolves d S w w'"
  by (auto simp: get_list_friends_def ev_simps bind_eq_Some_conv split: ev_splits elim!: evolves_run
      dest!: soap_array_ev fetch_users_ev fetch_names_ev fetch_messages_ev fetch_requests_ev fetch_members_ev)

lemma get_member_list_chats_ev [ev]:
  "get_member_list_chats p c t ms w1 = Some (r, out, w') \<Longrightarrow> evolves d S w w1 \<Longrightarrow> evolves d S w w'"
  by (auto simp: get_member_list_chats_def ev_simps bind_eq_Some_conv split: ev_splits elim!: evolves_run
      dest!: soap_array_ev fetch_users_ev fetch_names_ev fetch_messages_ev fetch_requests_ev fetch_members_ev)

lemma get_list_messages_ev [ev]:
  "get_list_messages p c i t ms w1 = Some (r, out, w') \<Longrightarrow> evolves d S w w1 \<Longrightarrow> evolves d S w w'"
  by (auto simp: get_list_messages_def ev_simps bind_eq_Some_conv split: ev_splits elim!: evolves_run
      dest!: soap_array_ev fetch_users_ev fetch_names_ev fetch_messages_ev fetch_requests_ev fetch_members_ev)

lemma get_all_chat_info_ev [ev]:
  "get_all_chat_info p c ch w1 = Some (r, out, w') \<Longrightarrow> evolves d S w w1 \<Longrightarrow> evolves d S w w'"
  by (auto simp: get_all_chat_info_def ev_simps bind_eq_Some_conv split: ev_splits elim!: evolves_run
      dest!: soap_array_ev fetch_users_ev fetch_names_ev fetch_messages_ev fetch_requests_ev fetch_members_ev)

lemma get_notif_chats_with_messages_ev [ev]:
  "get_notif_chats_with_messages p i t cs w1 = Some (r, out, w') \<Longrightarrow> evolves d S w w1 \<Longrightarrow> evolves d S w w'"
  by (auto simp: get_notif_chats_with_messages_def ev_simps bind_eq_Some_conv split: ev_splits elim!: evolves_run
      dest!: soap_array_ev fetch_users_ev fetch_names_ev fetch_messages_ev fetch_requests_ev fetch_members_ev)

lemma get_notif_chats_read_times_ev [ev]:
  "get_notif_chats_read_times p i cs w1 = Some (r, out, w') \<Longrightarrow> evolves d S w w1 \<Longrightarrow> evolves d S w w'"
  by (auto simp: get_notif_chats_read_times_def ev_simps bind_eq_Some_conv split: ev_splits elim!: evolves_run
      dest!: soap_array_ev fetch_users_ev fetch_names_ev fetch_messages_ev fetch_requests_ev fetch_members_ev)

lemma get_notif_friend_requests_ev [ev]:
  "get_notif_friend_requests p i t rs w1 = Some (r, out, w') \<Longrightarrow> evolves d S w w1 \<Longrightarrow> evolves d S w w'"
  by (auto simp: get_notif_friend_requests_def ev_simps bind_eq_Some_conv split: ev_splits elim!: evolves_run
      dest!: soap_array_ev fetch_users_ev fetch_names_ev fetch_messages_ev fetch_requests_ev fetch_members_ev)

lemma get_notif_chat_members_ev [ev]:
  "get_notif_chat_members p i t ms w1 = Some (r, out, w') \<Longrightarrow> evolves d S w w1 \<Longrightarrow> evolves d S w w'"
  by (auto simp: get_notif_chat_members_def ev_simps bind_eq_Some_conv split: ev_splits elim!: evolves_run
      dest!: soap_array_ev fetch_users_ev fetch_names_ev fetch_messages_ev fetch_requests_ev fetch_members_ev)

lemma get_notif_chat_rem_members_ev [ev]:
  "get_notif_chat_rem_members p i t ms w1 = Some (r, out, w') \<Longrightarrow> evolves d S w w1 \<Longrightarrow> evolves d S w w'"
  by (auto simp: get_notif_chat_rem_members_def ev_simps bind_eq_Some_conv split: ev_splits elim!: evolves_run
      dest!: soap_array_ev fetch_users_ev fetch_names_ev fetch_messages_ev fetch_requests_ev fetch_members_ev)

lemma get_notif_chat_admins_ev [ev]:
  "get_notif_chat_admins p i t ms w1 = Some (r, out, w') \<Longrightarrow> evolves d S w w1 \<Longrightarrow> evolves d S w w'"
  by (auto simp: get_notif_chat_admins_def ev_simps bind_eq_Some_conv split: ev_splits elim!: evolves_run
      dest!: soap_array_ev fetch_users_ev fetch_names_ev fetch_messages_ev fetch_requests_ev fetch_members_ev)

lemma fetch_chats_ev [ev]:
  "fetch_chats p t rows latest w1 = Some (us, l, w') \<Longrightarrow> evolves d S w w1 \<Longrightarrow> evolves d S w w'"
  by (induction rows arbitrary: latest w1 us)
    (auto simp: bind_eq_Some_conv dest!: soap_strdup_ev get_member_list_chats_ev)

lemma get_list_chats_ev [ev]:
  "get_list_chats p i t cs w1 = Some (r, out, w') \<Longrightarrow> evolves d S w w1 \<Longrightarrow> evolves d S w w'"
  by (auto simp: get_list_chats_def ev_simps bind_eq_Some_conv split: ev_splits elim!: evolves_run
      dest!: soap_array_ev fetch_chats_ev)

end
