(* ===== verification/Server_Login.thy ===== *)
theory Server_Login
  imports Evolution
begin

text \<open>
  \<open>server/psd_ims_server.c\<close>, part one: the start of every handler.  A handler clones
  \<open>server.persistence\<close> (a connection of its own), checks its pointers, logs the client in and
  goes on as that user.  A handler returns its SOAP code, what it wrote through its output
  pointers, and the world; \<^const>\<open>None\<close> is a crash or a run that does not end.  A pointer argument
  is an option, \<^const>\<open>None\<close> being \<open>NULL\<close>.
\<close>

section \<open>Results\<close>

datatype soap_result = SOAP_OK | SOAP_USER_ERROR | SOAP_CODE cint

type_synonym 'a handled = "(soap_result \<times> 'a \<times> world) option"

section \<open>The login\<close>

text \<open>\<open>check_login\<close> does not look at the result of \<open>get_user_pass\<close>: when that fails, \<open>pass\<close> is
  whatever the stack holds.\<close>

definition check_login :: "persistence \<Rightarrow> login_info option \<Rightarrow> world \<Rightarrow> (cint \<times> world) option" where
  "check_login p login w =
     (case login of None \<Rightarrow> Some (-1, w)
      | Some l \<Rightarrow>
     (case (li_name l, li_password l) of
        (Some name, Some password) \<Rightarrow> do {
          (user_id, w) \<leftarrow> get_user_id p name w;
          if user_id = -1 then Some (-1, w)
          else do {
            (_, pass, w) \<leftarrow> get_user_pass p name (stack_junk (env w)) 50 w;
            if strcmp password pass \<noteq> 0 then Some (-1, w) else Some (user_id, w)
          }
        }
      | _ \<Rightarrow> Some (-1, w)))"

text \<open>The statements that all handlers with a login begin with; \<open>args\<close> is the check of the
  handler's own pointers.\<close>

definition with_login ::
  "persistence \<Rightarrow> login_info option \<Rightarrow> bool \<Rightarrow> 'a \<Rightarrow>
   (persistence \<Rightarrow> cint \<Rightarrow> world \<Rightarrow> 'a handled) \<Rightarrow> world \<Rightarrow> 'a handled" where
  "with_login srv login args out body w = do {
     (opened, w) \<leftarrow> clone_persistence srv w;
     case opened of None \<Rightarrow> Some (SOAP_USER_ERROR, out, w)
     | Some p \<Rightarrow>
         if \<not> args then Some (SOAP_USER_ERROR, out, w)
         else do {
           (id_user, w) \<leftarrow> check_login p login w;
           if sint id_user < 0 then Some (SOAP_USER_ERROR, out, w)
           else body p id_user w
         }
   }"

section \<open>Who is logged in\<close>

text \<open>The user that a login names, if the password is right.\<close>

definition login_user :: "dialect \<Rightarrow> login_info option \<Rightarrow> db \<Rightarrow> user_row option" where
  "login_user d login D =
     (case login of None \<Rightarrow> None
      | Some l \<Rightarrow>
     (case (li_name l, li_password l) of
        (Some name, Some password) \<Rightarrow>
          (case find_user d name D of
             Some u \<Rightarrow> if u_pass u = password then Some u else None
           | None \<Rightarrow> None)
      | _ \<Rightarrow> None))"

text \<open>A login whose name cannot change the statement it is put into, nor make it too long.\<close>

definition login_fit :: "login_info option \<Rightarrow> bool" where
  "login_fit login \<longleftrightarrow> (\<forall>l name. login = Some l \<longrightarrow> li_name l = Some name \<longrightarrow> short name)"

lemma login_user_found:
  assumes "db_ok d D" "login_user d login D = Some u"
  shows "u \<in> set (t_users D)" "valid_user u" "u_id u \<in> user_ids D" "0 < sint (u_id u)"
proof -
  obtain name where "find_user d name D = Some u"
    using assms(2) by (auto simp: login_user_def split: option.splits if_splits)
  then show "u \<in> set (t_users D)" "valid_user u" "u_id u \<in> user_ids D" "0 < sint (u_id u)"
    using find_user_Some find_user_id [OF assms(1)] by blast+
qed

text \<open>The result of \<open>check_login\<close> in every case: \<open>q\<close> is the number of the first query.\<close>

definition login_result :: "dialect \<Rightarrow> login_info option \<Rightarrow> world \<Rightarrow> cint" where
  "login_result d login w =
     (case login of None \<Rightarrow> -1
      | Some l \<Rightarrow>
     (case (li_name l, li_password l) of
        (Some name, Some password) \<Rightarrow>
          (let q = queries w in
           if outage (env w) q then -1
           else case find_user d name (db w) of None \<Rightarrow> -1
           | Some u \<Rightarrow>
               if password = (if outage (env w) (Suc q) then stack_junk (env w) else u_pass u) then u_id u else -1)
      | _ \<Rightarrow> -1))"

definition login_world :: "dialect \<Rightarrow> login_info option \<Rightarrow> world \<Rightarrow> world" where
  "login_world d login w =
     (case login of None \<Rightarrow> w
      | Some l \<Rightarrow>
     (case (li_name l, li_password l) of
        (Some name, Some password) \<Rightarrow>
          (let w' = asked MAX_QUERY_CHARS (Sel_user_id name) w in
           if outage (env w) (queries w) \<or> find_user d name (db w) = None then w'
           else asked MAX_QUERY_CHARS (Sel_user_pass name) w')
      | _ \<Rightarrow> w))"

lemma pass_fits: "db_ok d D \<Longrightarrow> find_user d name D = Some u \<Longrightarrow> strlen (u_pass u) < 50"
  using find_user_Some [of d name D u] by (auto simp: db_ok_def)

lemma check_login_eq:
  assumes "sound d w" "mysql p = Some h" "login_fit login"
  shows "check_login p login w = Some (login_result d login w, login_world d login w)"
proof (cases login)
  case None
  then show ?thesis by (simp add: check_login_def login_result_def login_world_def)
next
  case (Some l)
  show ?thesis
  proof (cases "li_name l")
    case None
    with Some show ?thesis by (simp add: check_login_def login_result_def login_world_def)
  next
    case name: (Some name)
    show ?thesis
    proof (cases "li_password l")
      case None
      with Some name show ?thesis by (simp add: check_login_def login_result_def login_world_def)
    next
      case pass: (Some password)
      have "short name" using assms(3) Some name by (simp add: login_fit_def)
      have ok: "db_ok d (db w)" using assms(1) by (simp add: sound_def)
      note eqs = get_user_id_eq [OF _ assms(2) \<open>short name\<close>] get_user_pass_eq [OF _ assms(2) \<open>short name\<close>]
      show ?thesis
      proof (cases "find_user d name (db w)")
        case None
        with Some name pass assms(1) show ?thesis
          by (simp add: check_login_def login_result_def login_world_def eqs Let_def)
      next
        case (Some u)
        with find_user_id [OF ok Some] pass_fits [OF ok Some] \<open>login = Some l\<close> name pass assms(1)
        show ?thesis
          by (simp add: check_login_def login_result_def login_world_def eqs Let_def not_le [symmetric])
      qed
    qed
  qed
qed

lemma login_world_simps [simp]:
  "env (login_world d login w) = env w" "db (login_world d login w) = db w"
  "connections (login_world d login w) = connections w" "connects (login_world d login w) = connects w"
  "ticks (login_world d login w) = ticks w" "files (login_world d login w) = files w"
  "files_dir (login_world d login w) = files_dir w" "io_ops (login_world d login w) = io_ops w"
  "avail (login_world d login w) = avail w" "brk (login_world d login w) = brk w"
  by (simp_all add: login_world_def Let_def split: option.splits)

section \<open>When everything works\<close>

text \<open>No query fails for other reasons than the query, no connection is refused, memory does not
  run out.\<close>

definition online :: "dialect \<Rightarrow> world \<Rightarrow> bool" where
  "online d w \<longleftrightarrow> sound d w \<and> (\<forall>n. \<not> outage (env w) n) \<and> (\<forall>n. \<not> refuse (env w) n) \<and> plenty w"

lemma online_sound: "online d w \<Longrightarrow> sound d w"
  by (simp add: online_def)

lemma online_served: "online d w \<Longrightarrow> served d w"
  by (simp add: online_def)

lemma online_outage: "online d w \<Longrightarrow> \<not> outage (env w) n"
  by (simp add: online_def)

lemma online_db: "online d w \<Longrightarrow> db_ok d (db w)"
  by (simp add: online_def sound_def)

lemma online_calm:
  "online d w \<Longrightarrow> calm w w' \<Longrightarrow> db_ok d (db w') \<Longrightarrow> online d w'"
  by (simp add: online_def sound_def calm_def kept_def served_def plenty_def)

lemma online_asked [simp]: "online d (asked cap st w) \<longleftrightarrow> online d w"
  by (simp add: online_def plenty_def)

lemma online_login [simp]: "online d (login_world d login w) \<longleftrightarrow> online d w"
  by (simp add: online_def plenty_def sound_def served_def)

lemma online_narrow [simp]: "online d (narrow xs w) \<longleftrightarrow> online d w"
  by (simp add: online_def plenty_def narrow_def sound_def served_def)

lemma online_ticks [simp]: "online d (w\<lparr>ticks := n\<rparr>) \<longleftrightarrow> online d w"
  by (simp add: online_def plenty_def sound_def served_def)

declare online_sound [simp] online_served [simp]

lemma login_online:
  "online d w \<Longrightarrow> login_result d login w = (case login_user d login (db w) of None \<Rightarrow> -1 | Some u \<Rightarrow> u_id u)"
  by (auto simp: login_result_def login_user_def Let_def online_outage split: option.splits)

text \<open>The world after \<open>clone_persistence\<close> has connected.\<close>

definition connected :: "world \<Rightarrow> world \<Rightarrow> bool" where
  "connected w w' \<longleftrightarrow> env w' = env w \<and> db w' = db w \<and> ticks w' = ticks w \<and> io_ops w' = io_ops w \<and>
     files w' = files w \<and> files_dir w' = files_dir w \<and> queries w' = queries w \<and> avail w' = avail w \<and>
     connections w' = insert (connects w) (connections w) \<and> connects w' = Suc (connects w)"

lemma init_persistence_connected:
  assumes "plenty w" "\<not> refuse (env w) (connects w)"
  obtains p w' where "init_persistence user pass w = Some (Some p, w')" "mysql p = Some (connects w)"
    "connected w w'" "plenty w'"
proof -
  let ?w = "w\<lparr>brk := Suc (Suc (Suc (Suc (Suc (Suc (brk w)))))), connects := Suc (connects w),
    connections := insert (connects w) (connections w)\<rparr>"
  let ?p = "\<lparr>mysql = Some (connects w), thread_safe = mysql_is_thread_safe (env w), location = ''localhost'',
    bd_name = ''PSD'', user_name = user, user_pass = pass\<rparr>"
  have memory: "avail w (brk w)" "avail w (Suc (brk w))" "avail w (Suc (Suc (brk w)))"
    "avail w (Suc (Suc (Suc (brk w))))" "avail w (Suc (Suc (Suc (Suc (brk w)))))"
    "avail w (Suc (Suc (Suc (Suc (Suc (brk w))))))"
    using assms(1) by (simp_all add: plenty_def)
  have "init_persistence user pass w = Some (Some ?p, ?w)"
    by (simp add: init_persistence_def mysql_real_connect_def alloc_copy_def malloc_def memory assms(2) Let_def
        del: malloc_plenty)
  moreover have "connected w ?w" "plenty ?w" using assms(1) by (simp_all add: connected_def plenty_def)
  ultimately show ?thesis by (intro that) auto
qed

lemma init_persistence_online:
  assumes "online d w"
  obtains p w' where "init_persistence user pass w = Some (Some p, w')" "mysql p = Some (connects w)"
    "connected w w'" "online d w'"
proof -
  have "plenty w" "\<not> refuse (env w) (connects w)"
    using assms by (simp_all add: online_def del: online_sound online_served)
  then obtain p w' where "init_persistence user pass w = Some (Some p, w')" "mysql p = Some (connects w)"
    "connected w w'" "plenty w'" by (rule init_persistence_connected)
  moreover from this assms have "online d w'"
    by (simp add: connected_def online_def sound_def served_def del: online_sound online_served)
  ultimately show ?thesis by (intro that) auto
qed

text \<open>A handler that works either refuses the login or runs its body as the user.\<close>

lemma with_login_online:
  assumes "online d w" "login_fit login"
  obtains (refused) w' where "with_login srv login args out body w = Some (SOAP_USER_ERROR, out, w')"
      "\<not> args \<or> login_user d login (db w) = None" "online d w'" "db w' = db w" "files w' = files w"
      "connections w' = insert (connects w) (connections w)"
  | (accepted) p u w' where "args" "login_user d login (db w) = Some u"
      "with_login srv login args out body w = body p (u_id u) w'"
      "mysql p = Some (connects w)" "online d w'" "db w' = db w" "env w' = env w" "ticks w' = ticks w"
      "files w' = files w" "files_dir w' = files_dir w" "io_ops w' = io_ops w"
      "connections w' = insert (connects w) (connections w)" "connects w' = Suc (connects w)"
proof -
  from assms(1) obtain p w1 where init:
    "init_persistence (user_name srv) (user_pass srv) w = Some (Some p, w1)" "mysql p = Some (connects w)"
    "connected w w1" "online d w1"
    by (rule init_persistence_online)
  have login: "check_login p login w1 = Some (login_result d login w1, login_world d login w1)"
    by (rule check_login_eq [OF _ init(2) assms(2)]) (simp add: init)
  have result: "login_result d login w1 = (case login_user d login (db w) of None \<Rightarrow> -1 | Some u \<Rightarrow> u_id u)"
    using login_online [OF init(4)] init(3) by (simp add: connected_def)
  show ?thesis
  proof (cases "args \<and> login_user d login (db w) \<noteq> None")
    case False
    then show ?thesis
      using refused [of "if args then login_world d login w1 else w1"] init login result
      by (auto simp: with_login_def clone_persistence_def connected_def)
  next
    case True
    then obtain u where u: "login_user d login (db w) = Some u" by auto
    have "0 < sint (u_id u)" using login_user_found [OF online_db [OF assms(1)] u] by simp
    then have "with_login srv login args out body w = body p (u_id u) (login_world d login w1)"
      using True init login result u by (simp add: with_login_def clone_persistence_def)
    then show ?thesis
      using True init u by (intro accepted [of u p "login_world d login w1"]) (simp_all add: connected_def)
  qed
qed

text \<open>A handler whose first two queries work, whatever the others do.\<close>

lemma with_login_runs:
  assumes "sound d w" "plenty w" "\<not> refuse (env w) (connects w)" "login_fit login" "login_user d login (db w) = Some u"
    and "\<not> outage (env w) (queries w)" "\<not> outage (env w) (Suc (queries w))" "args"
    and "\<And>p w1. mysql p = Some (connects w) \<Longrightarrow> sound d w1 \<Longrightarrow> db w1 = db w \<Longrightarrow> env w1 = env w \<Longrightarrow>
      queries w1 = queries w + 2 \<Longrightarrow> ticks w1 = ticks w \<Longrightarrow> Q (body p (u_id u) w1)"
  shows "Q (with_login srv login args out body w)"
proof -
  obtain p w1 where init: "init_persistence (user_name srv) (user_pass srv) w = Some (Some p, w1)"
    "mysql p = Some (connects w)" "connected w w1" "plenty w1"
    using init_persistence_connected [OF assms(2,3)] by blast
  have w1: "sound d w1" "db w1 = db w" "env w1 = env w" "queries w1 = queries w" "ticks w1 = ticks w"
    using init(3) assms(1) by (simp_all add: connected_def sound_def served_def)
  obtain l name password where l: "login = Some l" "li_name l = Some name" "li_password l = Some password"
    "find_user d name (db w) = Some u" "u_pass u = password"
    using assms(5) by (auto simp: login_user_def split: option.splits if_splits)
  let ?w2 = "login_world d login w1"
  have "check_login p login w1 = Some (u_id u, ?w2)"
    using check_login_eq [OF w1(1) init(2) assms(4)] l w1 assms(6,7) by (simp add: login_result_def Let_def)
  moreover have "queries ?w2 = queries w + 2" "sound d ?w2"
    using l w1 assms(6) by (simp_all add: login_world_def Let_def)
  moreover have "\<not> sint (u_id u) < 0"
    using login_user_found [of d "db w" login u] assms(1,5) by (auto simp: sound_def)
  ultimately have "with_login srv login args out body w = body p (u_id u) ?w2"
    using init(1) assms(8) by (simp add: with_login_def clone_persistence_def)
  moreover have "Q (body p (u_id u) ?w2)"
    by (rule assms(9)) (use init(2) w1 \<open>queries ?w2 = queries w + 2\<close> \<open>sound d ?w2\<close> in simp_all)
  ultimately show ?thesis by simp
qed

end
