(* ===== verification/Server_Users.thy ===== *)
theory Server_Users
  imports Server_Login
begin

text \<open>
  \<open>server/psd_ims_server.c\<close>, part two: the handlers for accounts, friends and friend requests.
  \<open>ERRCODE\<close> and \<open>timestamp\<close> are the values behind the output pointers of these names.
\<close>

section \<open>Accounts\<close>

definition psdims__user_register ::
  "persistence \<Rightarrow> register_info option \<Rightarrow> cint option \<Rightarrow> world \<Rightarrow> cint option handled" where
  "psdims__user_register srv user_info ERRCODE w =
     (if ERRCODE = None then None
      else let ERRCODE = Some 1 in do {
        (opened, w) \<leftarrow> clone_persistence srv w;
        case opened of None \<Rightarrow> Some (SOAP_USER_ERROR, ERRCODE, w)
        | Some p \<Rightarrow>
        (case user_info of None \<Rightarrow> Some (SOAP_USER_ERROR, ERRCODE, w)
        | Some u \<Rightarrow>
        (case (ri_name u, ri_password u, ri_information u) of
          (Some name, Some password, Some information) \<Rightarrow>
            (case user_entry_exist p name w of (r, w) \<Rightarrow>
              if r \<noteq> 0 then Some (SOAP_USER_ERROR, ERRCODE, w)
              else (case add_user p name password information w of (r, w) \<Rightarrow>
                if r \<noteq> 0 then Some (SOAP_USER_ERROR, ERRCODE, w)
                else Some (SOAP_OK, ERRCODE, free_persistence p w)))
        | _ \<Rightarrow> Some (SOAP_USER_ERROR, ERRCODE, w)))
      })"

definition psdims__user_unregister ::
  "persistence \<Rightarrow> login_info option \<Rightarrow> cint option \<Rightarrow> world \<Rightarrow> cint option handled" where
  "psdims__user_unregister srv login ERRCODE w =
     (if ERRCODE = None then None
      else let ERRCODE = Some 1 in
        with_login srv login (\<exists>l. login = Some l \<and> li_name l \<noteq> None \<and> li_password l \<noteq> None) ERRCODE
          (\<lambda>p user_id w. do {
             name \<leftarrow> Option.bind login li_name;
             (timestamp, w) \<leftarrow> Some (now w);
             (r, w) \<leftarrow> Some (del_user p name w);
             if r \<noteq> 0 then Some (SOAP_USER_ERROR, ERRCODE, w)
             else do {
               (r, w) \<leftarrow> Some (del_user_all_chats p user_id timestamp w);
               if r \<noteq> 0 then Some (SOAP_USER_ERROR, ERRCODE, w)
               else Some (SOAP_OK, ERRCODE, free_persistence p w)
             }
           }) w)"

text \<open>\<open>information\<close> has 200 bytes, with any content when \<open>get_user_info\<close> fails, which nobody
  checks.\<close>

definition psdims__get_user ::
  "persistence \<Rightarrow> login_info option \<Rightarrow> user_info option \<Rightarrow> world \<Rightarrow> user_info option handled" where
  "psdims__get_user srv login user w =
     with_login srv login (user \<noteq> None) user
       (\<lambda>p user_id w. do {
          (name, w) \<leftarrow> soap_strdup (Option.bind login li_name) w;
          w \<leftarrow> soap_array 200 w;
          (_, information, w) \<leftarrow> get_user_info p user_id (stack_junk (env w)) 200 w;
          Some (SOAP_OK, Some \<lparr>ui_name = name, ui_information = information\<rparr>, free_persistence p w)
        }) w"

section \<open>Friends\<close>

definition psdims__get_friends ::
  "persistence \<Rightarrow> login_info option \<Rightarrow> cint \<Rightarrow> user_list option \<Rightarrow> world \<Rightarrow> user_list option handled" where
  "psdims__get_friends srv login timestamp friends w =
     with_login srv login (friends \<noteq> None) friends
       (\<lambda>p i w. do {
          fs \<leftarrow> friends;
          (r, fs, w) \<leftarrow> get_list_friends p i timestamp fs w;
          if r \<noteq> 0 then Some (SOAP_USER_ERROR, Some fs, w)
          else Some (SOAP_OK, Some fs, free_persistence p w)
        }) w"

text \<open>An unknown name is not \<^const>\<open>SOAP_USER_ERROR\<close> here but -1.\<close>

definition psdims__get_friend_info ::
  "persistence \<Rightarrow> login_info option \<Rightarrow> string option \<Rightarrow> user_info option \<Rightarrow> world \<Rightarrow> user_info option handled" where
  "psdims__get_friend_info srv login name friend_info w =
     with_login srv login (name \<noteq> None \<and> friend_info \<noteq> None) friend_info
       (\<lambda>p i w. do {
          n \<leftarrow> name;
          (friend_id, w) \<leftarrow> get_user_id p n w;
          if friend_id = -1 then Some (SOAP_CODE (-1), friend_info, w)
          else do {
            (n, w) \<leftarrow> soap_strdup (Some n) w;
            w \<leftarrow> soap_array 200 w;
            (_, information, w) \<leftarrow> get_user_info p friend_id (stack_junk (env w)) 200 w;
            Some (SOAP_OK, Some \<lparr>ui_name = n, ui_information = information\<rparr>, free_persistence p w)
          }
        }) w"

section \<open>Friend requests\<close>

definition psdims__send_friend_request ::
  "persistence \<Rightarrow> login_info option \<Rightarrow> string option \<Rightarrow> cint option \<Rightarrow> world \<Rightarrow> cint option handled" where
  "psdims__send_friend_request srv login request_name timestamp w =
     with_login srv login (request_name \<noteq> None \<and> timestamp \<noteq> None) timestamp
       (\<lambda>p id_user w. do {
          name \<leftarrow> request_name;
          (id_request_name, w) \<leftarrow> get_user_id p name w;
          if id_request_name = id_user then Some (SOAP_USER_ERROR, timestamp, w)
          else do {
            (t, w) \<leftarrow> Some (now w);
            (r, w) \<leftarrow> Some (exist_friendly p id_user id_request_name w);
            if r \<noteq> 0 then Some (SOAP_USER_ERROR, Some t, w)
            else do {
              (r, w) \<leftarrow> Some (exist_request p id_user id_request_name w);
              if r \<noteq> 0 then Some (SOAP_USER_ERROR, Some t, w)
              else do {
                (r, w) \<leftarrow> Some (send_request p id_user id_request_name t w);
                if r \<noteq> 0 then Some (SOAP_USER_ERROR, Some t, w)
                else Some (SOAP_OK, Some t, free_persistence p w)
              }
            }
          }
        }) w"

text \<open>The result of \<open>get_user_id\<close> is not checked in the next two; the error code -1 of
  \<open>exist_request\<close> passes their tests.\<close>

definition psdims__accept_request ::
  "persistence \<Rightarrow> login_info option \<Rightarrow> string option \<Rightarrow> cint option \<Rightarrow> world \<Rightarrow> cint option handled" where
  "psdims__accept_request srv login request_name timestamp w =
     with_login srv login (request_name \<noteq> None \<and> timestamp \<noteq> None) timestamp
       (\<lambda>p id_user w. do {
          name \<leftarrow> request_name;
          (id_request_name, w) \<leftarrow> get_user_id p name w;
          (t, w) \<leftarrow> Some (now w);
          (r, w) \<leftarrow> Some (exist_request p id_request_name id_user w);
          if r = 0 then Some (SOAP_USER_ERROR, Some t, w)
          else do {
            (r, w) \<leftarrow> Some (accept_friend_request p id_request_name id_user t w);
            if r \<noteq> 0 then Some (SOAP_USER_ERROR, Some t, w)
            else Some (SOAP_OK, Some t, free_persistence p w)
          }
        }) w"

definition psdims__decline_request ::
  "persistence \<Rightarrow> login_info option \<Rightarrow> string option \<Rightarrow> cint option \<Rightarrow> world \<Rightarrow> cint option handled" where
  "psdims__decline_request srv login request_name timestamp w =
     with_login srv login (request_name \<noteq> None \<and> timestamp \<noteq> None) timestamp
       (\<lambda>p id_user w. do {
          name \<leftarrow> request_name;
          (id_request_name, w) \<leftarrow> get_user_id p name w;
          (t, w) \<leftarrow> Some (now w);
          (r, w) \<leftarrow> Some (exist_request p id_request_name id_user w);
          if r = 0 then Some (SOAP_USER_ERROR, Some t, w)
          else do {
            (r, w) \<leftarrow> Some (decline_friend_request p id_request_name id_user w);
            if r \<noteq> 0 then Some (SOAP_USER_ERROR, Some t, w)
            else Some (SOAP_OK, Some t, free_persistence p w)
          }
        }) w"

end
