(* ===== verification/Server_Chats.thy ===== *)
theory Server_Chats
  imports Server_Users
begin

text \<open>
  \<open>server/psd_ims_server.c\<close>, part three: the handlers for chats, their members and messages, and
  the two that collect what a client needs.
\<close>

section \<open>Reading\<close>

definition psdims__get_chats ::
  "persistence \<Rightarrow> login_info option \<Rightarrow> cint \<Rightarrow> chat_list option \<Rightarrow> world \<Rightarrow> chat_list option handled" where
  "psdims__get_chats srv login timestamp chats w =
     with_login srv login (chats \<noteq> None) chats
       (\<lambda>p i w. do {
          cs \<leftarrow> chats;
          (r, cs, w) \<leftarrow> get_list_chats p i timestamp cs w;
          if r \<noteq> 0 then Some (SOAP_USER_ERROR, Some cs, w)
          else Some (SOAP_OK, Some cs, free_persistence p w)
        }) w"

text \<open>The test for 1 can never pass: \<open>get_all_chat_info\<close> returns 0 or -1.\<close>

definition psdims__get_chat_info ::
  "persistence \<Rightarrow> login_info option \<Rightarrow> cint \<Rightarrow> chat_item option \<Rightarrow> world \<Rightarrow> chat_item option handled" where
  "psdims__get_chat_info srv login chat_id chat w =
     with_login srv login (chat \<noteq> None) chat
       (\<lambda>p id_user w. do {
          c \<leftarrow> chat;
          (r, w) \<leftarrow> Some (chat_exist p chat_id w);
          if r \<noteq> 1 then Some (SOAP_USER_ERROR, chat, w)
          else do {
            (r, c, w) \<leftarrow> get_all_chat_info p chat_id c w;
            if r \<noteq> 1 then Some (SOAP_USER_ERROR, Some c, w)
            else Some (SOAP_OK, Some c, free_persistence p w)
          }
        }) w"

definition psdims__get_chat_messages ::
  "persistence \<Rightarrow> login_info option \<Rightarrow> cint \<Rightarrow> cint \<Rightarrow> message_list option \<Rightarrow> world \<Rightarrow> message_list option handled" where
  "psdims__get_chat_messages srv login chat_id timestamp messages w =
     with_login srv login (messages \<noteq> None) messages
       (\<lambda>p id_user w. do {
          ms \<leftarrow> messages;
          (r, w) \<leftarrow> Some (chat_exist p chat_id w);
          if r \<noteq> 1 then Some (SOAP_USER_ERROR, messages, w)
          else do {
            (r, w) \<leftarrow> Some (exist_user_in_chat p id_user chat_id w);
            if r \<noteq> 1 then Some (SOAP_USER_ERROR, messages, w)
            else do {
              (r, ms, w) \<leftarrow> get_list_messages p chat_id id_user timestamp ms w;
              if r \<noteq> 0 then Some (SOAP_USER_ERROR, Some ms, w)
              else Some (SOAP_OK, Some ms, free_persistence p w)
            }
          }
        }) w"

definition psdims__get_all_data ::
  "persistence \<Rightarrow> login_info option \<Rightarrow> client_data_info option \<Rightarrow> world \<Rightarrow> client_data_info option handled" where
  "psdims__get_all_data srv login client_data w =
     with_login srv login (client_data \<noteq> None) client_data
       (\<lambda>p user_id w. do {
          cd \<leftarrow> client_data;
          (t, w) \<leftarrow> Some (now w);
          let cd = cd\<lparr>cd_timestamp := t\<rparr>;
          (r, rs, w) \<leftarrow> get_notif_friend_requests p user_id 0 (cd_friend_requests cd) w;
          let cd = cd\<lparr>cd_friend_requests := rs\<rparr>;
          if r \<noteq> 0 then Some (SOAP_USER_ERROR, Some cd, w)
          else do {
            (r, cs, w) \<leftarrow> get_list_chats p user_id 0 (cd_chats cd) w;
            let cd = cd\<lparr>cd_chats := cs\<rparr>;
            if r \<noteq> 0 then Some (SOAP_USER_ERROR, Some cd, w)
            else do {
              (r, fs, w) \<leftarrow> get_list_friends p user_id 0 (cd_friends cd) w;
              let cd = cd\<lparr>cd_friends := fs\<rparr>;
              if r \<noteq> 0 then Some (SOAP_USER_ERROR, Some cd, w)
              else Some (SOAP_OK, Some cd, free_persistence p w)
            }
          }
        }) w"

text \<open>The read marks the client sends; the results of \<open>update_sync\<close> are ignored.\<close>

fun sync_loop :: "persistence \<Rightarrow> cint \<Rightarrow> (cint \<times> cint) list \<Rightarrow> world \<Rightarrow> world" where
  "sync_loop p id_user [] w = w"
| "sync_loop p id_user ((chat_id, timestamp) # cs) w =
     (case update_sync p id_user chat_id timestamp w of (_, w) \<Rightarrow> sync_loop p id_user cs w)"

definition psdims__get_pending_notifications ::
  "persistence \<Rightarrow> login_info option \<Rightarrow> cint \<Rightarrow> (cint \<times> cint) list option \<Rightarrow> notifications option \<Rightarrow> world \<Rightarrow>
   notifications option handled" where
  "psdims__get_pending_notifications srv login timestamp sync ns w =
     with_login srv login (ns \<noteq> None \<and> sync \<noteq> None) ns
       (\<lambda>p id_user w. do {
          marks \<leftarrow> sync;
          n \<leftarrow> ns;
          let w = sync_loop p id_user marks w;
          (t, w) \<leftarrow> Some (now w);
          let n = n\<lparr>no_last_timestamp := t\<rparr>;
          (r, l, w) \<leftarrow> get_notif_chats_with_messages p id_user timestamp (no_chats_with_messages n) w;
          let n = n\<lparr>no_chats_with_messages := l\<rparr>;
          if sint r < 0 then Some (SOAP_USER_ERROR, Some n, w) else do {
          (r, l, w) \<leftarrow> get_notif_chats_read_times p id_user (no_chats_read_times n) w;
          let n = n\<lparr>no_chats_read_times := l\<rparr>;
          if sint r < 0 then Some (SOAP_USER_ERROR, Some n, w) else do {
          (r, l, w) \<leftarrow> get_notif_friend_requests p id_user timestamp (no_friend_request n) w;
          let n = n\<lparr>no_friend_request := l\<rparr>;
          if sint r < 0 then Some (SOAP_USER_ERROR, Some n, w) else do {
          (r, l, w) \<leftarrow> get_notif_chat_members p id_user timestamp (no_chat_members n) w;
          let n = n\<lparr>no_chat_members := l\<rparr>;
          if sint r < 0 then Some (SOAP_USER_ERROR, Some n, w) else do {
          (r, l, w) \<leftarrow> get_notif_chat_rem_members p id_user timestamp (no_rem_chat_members n) w;
          let n = n\<lparr>no_rem_chat_members := l\<rparr>;
          if sint r < 0 then Some (SOAP_USER_ERROR, Some n, w) else do {
          (r, l, w) \<leftarrow> get_notif_chat_admins p id_user timestamp (no_chat_admins n) w;
          let n = n\<lparr>no_chat_admins := l\<rparr>;
          if sint r < 0 then Some (SOAP_USER_ERROR, Some n, w) else do {
          (r, l, w) \<leftarrow> get_list_friends p id_user timestamp (no_new_friends n) w;
          let n = n\<lparr>no_new_friends := l\<rparr>;
          if sint r < 0 then Some (SOAP_USER_ERROR, Some n, w)
          else Some (SOAP_OK, Some n, free_persistence p w)
          }}}}}}
        }) w"

section \<open>Chats and members\<close>

text \<open>The test after the look-up of the member is for the wrong variable, \<open>id_user\<close>, so an unknown
  member is -1 in what follows; the chat is not taken back when the second member cannot be
  added.\<close>

definition psdims__create_chat ::
  "persistence \<Rightarrow> login_info option \<Rightarrow> new_chat option \<Rightarrow> cint option \<Rightarrow> world \<Rightarrow> cint option handled" where
  "psdims__create_chat srv login new_chat chat_id w =
     with_login srv login (new_chat \<noteq> None \<and> chat_id \<noteq> None) chat_id
       (\<lambda>p id_user w. do {
          n \<leftarrow> new_chat;
          (timestamp, w) \<leftarrow> Some (now w);
          member \<leftarrow> n_member n;
          (id_member, w) \<leftarrow> get_user_id p member w;
          if id_user = -1 then Some (SOAP_USER_ERROR, chat_id, w)
          else do {
            description \<leftarrow> n_description n;
            (r, new_id, w) \<leftarrow> Some (add_chat p id_user description timestamp w);
            if r \<noteq> 0 then Some (SOAP_USER_ERROR, chat_id, w)
            else do {
              aux_chat_id \<leftarrow> new_id;
              (r, w) \<leftarrow> Some (add_user_chat p id_user aux_chat_id timestamp timestamp w);
              if r \<noteq> 0 then
                (case del_chat p aux_chat_id w of (_, w) \<Rightarrow> Some (SOAP_USER_ERROR, chat_id, w))
              else do {
                (r, w) \<leftarrow> Some (add_user_chat p id_member aux_chat_id timestamp timestamp w);
                if r \<noteq> 0 then Some (SOAP_USER_ERROR, chat_id, w)
                else Some (SOAP_OK, Some aux_chat_id, free_persistence p w)
              }
            }
          }
        }) w"

text \<open>\<open>if (!is_admin(...))\<close>: the error code -1 counts as true.  \<open>ERRCODE\<close> is not used.\<close>

definition psdims__add_member ::
  "persistence \<Rightarrow> login_info option \<Rightarrow> string option \<Rightarrow> cint \<Rightarrow> cint option \<Rightarrow> world \<Rightarrow> cint option handled" where
  "psdims__add_member srv login name chat_id ERRCODE w =
     with_login srv login (name \<noteq> None) ERRCODE
       (\<lambda>p id_login w. do {
          n \<leftarrow> name;
          (timestamp, w) \<leftarrow> Some (now w);
          (r, w) \<leftarrow> Some (chat_exist p chat_id w);
          if r \<noteq> 1 then Some (SOAP_USER_ERROR, ERRCODE, w) else do {
          (r, w) \<leftarrow> Some (is_admin p id_login chat_id w);
          if r = 0 then Some (SOAP_USER_ERROR, ERRCODE, w) else do {
          (id_user, w) \<leftarrow> get_user_id p n w;
          if id_user = -1 then Some (SOAP_USER_ERROR, ERRCODE, w)
          else if id_user = id_login then Some (SOAP_USER_ERROR, ERRCODE, w) else do {
          (r, w) \<leftarrow> Some (exist_friendly p id_user id_login w);
          if r \<noteq> 1 then Some (SOAP_USER_ERROR, ERRCODE, w) else do {
          (r, w) \<leftarrow> Some (exist_user_in_chat p id_user chat_id w);
          if r = 1 then Some (SOAP_USER_ERROR, ERRCODE, w) else do {
          (r, w) \<leftarrow> Some (exist_user_entry_in_chat p id_user chat_id w);
          (r, w) \<leftarrow> Some (if r = 1 then recover_user_chat p id_user chat_id timestamp w
                        else add_user_chat p id_user chat_id timestamp timestamp w);
          if r \<noteq> 0 then Some (SOAP_USER_ERROR, ERRCODE, w)
          else Some (SOAP_OK, ERRCODE, free_persistence p w)
          }}}}}
        }) w"

text \<open>\<open>if (!exist_user_in_chat(...) == 1)\<close> negates the result first.\<close>

definition psdims__remove_member ::
  "persistence \<Rightarrow> login_info option \<Rightarrow> string option \<Rightarrow> cint \<Rightarrow> cint option \<Rightarrow> world \<Rightarrow> cint option handled" where
  "psdims__remove_member srv login name chat_id ERRCODE w =
     with_login srv login (name \<noteq> None) ERRCODE
       (\<lambda>p id_login w. do {
          n \<leftarrow> name;
          (r, w) \<leftarrow> Some (chat_exist p chat_id w);
          if r \<noteq> 1 then Some (SOAP_USER_ERROR, ERRCODE, w) else do {
          (r, w) \<leftarrow> Some (is_admin p id_login chat_id w);
          if r = 0 then Some (SOAP_USER_ERROR, ERRCODE, w) else do {
          (id_user, w) \<leftarrow> get_user_id p n w;
          if id_user = -1 then Some (SOAP_USER_ERROR, ERRCODE, w)
          else if id_user = id_login then Some (SOAP_USER_ERROR, ERRCODE, w) else do {
          (r, w) \<leftarrow> Some (exist_user_in_chat p id_user chat_id w);
          if r = 0 then Some (SOAP_USER_ERROR, ERRCODE, w) else do {
          (timestamp, w) \<leftarrow> Some (now w);
          (r, w) \<leftarrow> Some (del_user_chat p id_user chat_id timestamp w);
          if r \<noteq> 0 then Some (SOAP_USER_ERROR, ERRCODE, w)
          else Some (SOAP_OK, ERRCODE, free_persistence p w)
          }}}}
        }) w"

text \<open>The results of \<open>get_first_users_in_chat\<close> and \<open>change_admin\<close> are compared with 1, which is the
  id of a user for the former and never a result of the latter.\<close>

definition psdims__quit_from_chat ::
  "persistence \<Rightarrow> login_info option \<Rightarrow> cint \<Rightarrow> cint option \<Rightarrow> world \<Rightarrow> cint option handled" where
  "psdims__quit_from_chat srv login chat_id ERRCODE w =
     with_login srv login True ERRCODE
       (\<lambda>p id_user w. do {
          (r, w) \<leftarrow> Some (chat_exist p chat_id w);
          if r \<noteq> 1 then Some (SOAP_USER_ERROR, ERRCODE, w) else do {
          (r, w) \<leftarrow> Some (exist_user_in_chat p id_user chat_id w);
          if r \<noteq> 1 then Some (SOAP_USER_ERROR, ERRCODE, w) else do {
          (timestamp, w) \<leftarrow> Some (now w);
          (r, w) \<leftarrow> Some (del_user_chat p id_user chat_id timestamp w);
          if r \<noteq> 0 then Some (SOAP_USER_ERROR, ERRCODE, w) else do {
          (r, w) \<leftarrow> Some (still_users_in_chat p chat_id w);
          if r = 1 then do {
            (r, w) \<leftarrow> Some (is_admin p id_user chat_id w);
            if r = 1 then do {
              (first_user, w) \<leftarrow> get_first_users_in_chat p chat_id w;
              if first_user = 1 then Some (SOAP_USER_ERROR, ERRCODE, w)
              else do {
                (r, w) \<leftarrow> Some (change_admin p first_user chat_id timestamp w);
                if r = 1 then Some (SOAP_USER_ERROR, ERRCODE, w)
                else Some (SOAP_OK, ERRCODE, free_persistence p w)
              }
            }
            else Some (SOAP_OK, ERRCODE, free_persistence p w)
          }
          else do {
            (r, w) \<leftarrow> Some (del_chat p chat_id w);
            if r \<noteq> 0 then Some (SOAP_USER_ERROR, ERRCODE, w)
            else Some (SOAP_OK, ERRCODE, free_persistence p w)
          }
          }}}
        }) w"

section \<open>Sending a message\<close>

text \<open>The loop that waits for a second without a message in the chat; it may not end, then the
  result is \<^const>\<open>None\<close>.  \<open>sleep\<close> only lets the clock go on, which the oracle does.\<close>

partial_function (option) send_wait :: "persistence \<Rightarrow> cint \<Rightarrow> cint \<Rightarrow> world \<Rightarrow> (cint \<times> world) option" where
  "send_wait p chat_id local_time w = do {
     (r, w) \<leftarrow> exist_timestamp_in_messages p chat_id local_time w;
     if r \<noteq> 0 then (case now w of (t, w) \<Rightarrow> send_wait p chat_id t w)
     else Some (local_time, w)
   }"

definition psdims__send_message ::
  "persistence \<Rightarrow> login_info option \<Rightarrow> cint \<Rightarrow> sent_message option \<Rightarrow> cint option \<Rightarrow> world \<Rightarrow> cint option handled" where
  "psdims__send_message srv login chat_id message timestamp w =
     with_login srv login (message \<noteq> None \<and> timestamp \<noteq> None) timestamp
       (\<lambda>p id_user w. do {
          m \<leftarrow> message;
          (r, w) \<leftarrow> Some (exist_user_in_chat p id_user chat_id w);
          if r \<noteq> 1 then Some (SOAP_USER_ERROR, timestamp, w)
          else do {
            (local_time, w) \<leftarrow> Some (now w);
            (local_time, w) \<leftarrow> send_wait p chat_id local_time w;
            msg \<leftarrow> sm_text m;
            (r, w) \<leftarrow> Some (send_messages p chat_id id_user local_time (sm_file_name m) msg w);
            if r \<noteq> 0 then Some (SOAP_USER_ERROR, timestamp, w)
            else Some (SOAP_OK, Some local_time, free_persistence p w)
          }
        }) w"

end
