(* ===== verification/Server_Files.thy ===== *)
theory Server_Files
  imports Server_Chats
begin

text \<open>
  \<open>server/psd_ims_server.c\<close>, part four: the attachments, one file for each message with a file
  name, in the directory \<open>server_files\<close>.  A \<open>psdims__file\<close> is the string of its bytes.
\<close>

section \<open>Paths\<close>

definition ATTACH_FILES_DIR :: string where
  "ATTACH_FILES_DIR = ''server_files''"

definition MAX_FILE_CHARS :: nat where
  "MAX_FILE_CHARS = 10485760"

definition create_file_path :: "cint \<Rightarrow> cint \<Rightarrow> string" where
  "create_file_path chat_id timestamp = ATTACH_FILES_DIR @ ''/_'' @ str_d chat_id @ str_d timestamp"

text \<open>The array for the path has 20 bytes.\<close>

definition alloc_file_path :: "cint \<Rightarrow> cint \<Rightarrow> world \<Rightarrow> (string \<times> world) option" where
  "alloc_file_path chat_id timestamp w = do {
     w \<leftarrow> soap_array 20 w;
     let path = create_file_path chat_id timestamp;
     Some (path, fill 20 path w)
   }"

section \<open>Reading a file\<close>

text \<open>One byte at a time, until \<open>fread\<close> returns 0 or the buffer is full; \<open>total_blocks\<close> is the number of
  bytes read before.\<close>

fun read_blocks :: "nat \<Rightarrow> string \<Rightarrow> world \<Rightarrow> string \<times> world" where
  "read_blocks total_blocks [] w = ([], snd (io w))"
| "read_blocks total_blocks (c # cs) w =
     (case io w of (ok, w) \<Rightarrow>
        if \<not> ok then ([], w)
        else if Suc total_blocks < MAX_FILE_CHARS
        then (case read_blocks (Suc total_blocks) cs w of (bytes, w) \<Rightarrow> (c # bytes, w))
        else ([c], w))"

text \<open>When the file cannot be opened, the code closes the null pointer that \<open>fopen\<close> returned.\<close>

definition psdims__get_attachment ::
  "persistence \<Rightarrow> login_info option \<Rightarrow> cint \<Rightarrow> cint \<Rightarrow> string option \<Rightarrow> world \<Rightarrow> string option handled" where
  "psdims__get_attachment srv login chat_id msg_timestamp f w =
     with_login srv login (f \<noteq> None) f
       (\<lambda>p id_user w. do {
          (r, w) \<leftarrow> Some (message_have_attach p id_user chat_id msg_timestamp w);
          if r = 0 then Some (SOAP_USER_ERROR, f, w)
          else do {
            (path, w) \<leftarrow> alloc_file_path chat_id msg_timestamp w;
            (fd, w) \<leftarrow> Some (fopen_read path w);
            content \<leftarrow> fd;
            w \<leftarrow> soap_array MAX_FILE_CHARS w;
            (bytes, w) \<leftarrow> Some (read_blocks 0 content w);
            Some (SOAP_OK, Some bytes, free_persistence p w)
          }
        }) w"

section \<open>Storing a file\<close>

definition make_files_dir :: "world \<Rightarrow> world" where
  "make_files_dir w = (if files_dir w then w else (case io w of (ok, w) \<Rightarrow> w\<lparr>files_dir := ok\<rparr>))"

definition psdims__send_attachment ::
  "persistence \<Rightarrow> login_info option \<Rightarrow> cint \<Rightarrow> cint \<Rightarrow> string option \<Rightarrow> cint option \<Rightarrow> world \<Rightarrow> cint option handled" where
  "psdims__send_attachment srv login chat_id msg_timestamp f ERRCODE w =
     (if ERRCODE = None then None
      else let ERRCODE = Some 0 in
        with_login srv login (f \<noteq> None) ERRCODE
          (\<lambda>p id_user w. do {
             content \<leftarrow> f;
             (r, w) \<leftarrow> Some (message_can_attach p id_user chat_id msg_timestamp w);
             if r = 0 then Some (SOAP_USER_ERROR, ERRCODE, w)
             else do {
               let w = make_files_dir w;
               (path, w) \<leftarrow> alloc_file_path chat_id msg_timestamp w;
               (fd_read, w) \<leftarrow> Some (fopen_read path w);
               if fd_read \<noteq> None then Some (SOAP_USER_ERROR, ERRCODE, w)
               else do {
                 (opened, w) \<leftarrow> Some (fopen_write path w);
                 if \<not> opened then Some (SOAP_USER_ERROR, ERRCODE, w)
                 else do {
                   (n, w) \<leftarrow> Some (fwrite path content w);
                   if n \<noteq> 1 then Some (SOAP_USER_ERROR, ERRCODE, w)
                   else Some (SOAP_OK, ERRCODE, free_persistence p w)
                 }
               }
             }
           }) w)"

end
