(* ===== verification/Server_Safety.thy ===== *)
theory Server_Safety
  imports Server_Files
begin

text \<open>
  What the handlers may do in any environment: queries and connections may fail, the clock may show
  anything, memory may run out.  \<open>confined\<close> is the contract of a handler that sends only
  statements of a given set; it is interpreted for all twenty handlers.  The requests to the
  server then form a transition system, whose reachable databases obey the schema.
\<close>

section \<open>Clean requests\<close>

definition clean_opt :: "string option \<Rightarrow> bool" where
  "clean_opt s \<longleftrightarrow> (\<forall>t. s = Some t \<longrightarrow> clean t)"

definition login_clean :: "login_info option \<Rightarrow> bool" where
  "login_clean login \<longleftrightarrow> clean_opt (Option.bind login li_name)"

lemma clean_opt_simps [simp]: "clean_opt None" "clean_opt (Some s) \<longleftrightarrow> clean s"
  by (simp_all add: clean_opt_def)

lemma check_login_ev [ev]:
  "check_login p login w1 = Some (i, w') \<Longrightarrow> evolves d S w w1 \<Longrightarrow> login_clean login \<Longrightarrow> evolves d S w w'"
  by (auto simp: check_login_def login_clean_def clean_opt_def bind_eq_Some_conv split: ev_splits elim!: ev)

lemma clone_persistence_ev [ev]:
  "clone_persistence p w1 = Some (r, w') \<Longrightarrow> evolves d S w w1 \<Longrightarrow> evolves d S w w'"
  by (auto simp: clone_persistence_def init_persistence_def bind_eq_Some_conv split: ev_splits elim!: ev)

lemma make_files_dir_evolves [simp]: "evolves d S w (make_files_dir w') \<longleftrightarrow> evolves d S w w'"
  by (auto simp: make_files_dir_def io_def)

lemma alloc_file_path_ev [ev]:
  "alloc_file_path c t w1 = Some (path, w') \<Longrightarrow> evolves d S w w1 \<Longrightarrow> evolves d S w w'"
  by (auto simp: alloc_file_path_def Let_def bind_eq_Some_conv elim!: soap_array_ev)

lemma read_blocks_ev [ev]: "read_blocks n s w1 = (bytes, w') \<Longrightarrow> evolves d S w w1 \<Longrightarrow> evolves d S w w'"
  by (induction n s w1 arbitrary: bytes rule: read_blocks.induct)
    (auto simp: io_def split: if_splits prod.splits)

lemma send_wait_evolves: "send_wait p c t w1 = Some y \<Longrightarrow> evolves d S w w1 \<longrightarrow> evolves d S w (snd y)"
proof (rule send_wait.raw_induct [where P = "\<lambda>p c t w1 y. evolves d S w w1 \<longrightarrow> evolves d S w (snd y)"])
  fix rec p c t w1 y
  assume IH: "\<And>p c t w1 y. rec p c t w1 = Some y \<Longrightarrow> evolves d S w w1 \<longrightarrow> evolves d S w (snd y)"
    and body: "do { (r, w) \<leftarrow> exist_timestamp_in_messages p c t w1;
      if r \<noteq> 0 then (case now w of (t, w) \<Rightarrow> rec p c t w) else Some (t, w) } = Some y"
  show "evolves d S w w1 \<longrightarrow> evolves d S w (snd y)"
  proof
    assume ev: "evolves d S w w1"
    from body obtain r w2 where r: "exist_timestamp_in_messages p c t w1 = Some (r, w2)"
      "(if r \<noteq> 0 then (case now w2 of (t, w) \<Rightarrow> rec p c t w) else Some (t, w2)) = Some y"
      by (auto simp: bind_eq_Some_conv)
    have "evolves d S w w2" using r(1) ev by (rule exist_timestamp_in_messages_ev)
    then show "evolves d S w (snd y)"
      using r(2) IH by (fastforce simp: now_def split: if_splits)
  qed
qed

lemma send_wait_ev [ev]:
  "send_wait p c t w1 = Some (t', w') \<Longrightarrow> evolves d S w w1 \<Longrightarrow> evolves d S w w'"
  using send_wait_evolves by fastforce

lemma with_login_ev:
  assumes "with_login srv login args out body w1 = Some (r, out', w')" "evolves d S w w1" "login_clean login"
    and "\<And>p i w2. body p i w2 = Some (r, out', w') \<Longrightarrow> evolves d S w w2 \<Longrightarrow> evolves d S w w'"
  shows "evolves d S w w'"
  using assms(1-3)
  by (auto simp: with_login_def elim!: bind_SomeE ev split: option.split_asm if_split_asm prod.split_asm)
    (rule assms(4), assumption, erule check_login_ev, erule clone_persistence_ev, assumption+)

section \<open>The contract\<close>

locale confined =
  fixes d :: dialect and S :: "stmt set" and fit :: bool and handler :: "world \<Rightarrow> 'a handled"
  assumes confined: "fit \<Longrightarrow> handler w = Some (r, out, w') \<Longrightarrow> served d w \<Longrightarrow> evolves d S w w'"
begin

lemma preserves:
  assumes "fit" "served d w" "handler w = Some (r, out, w')" "P (db w)"
    and "\<And>D D'. db_step d S D D' \<Longrightarrow> P D \<Longrightarrow> P D'"
  shows "P (db w')"
proof -
  have "(db_step d S)\<^sup>*\<^sup>* (db w) (db w')" using confined [OF assms(1,3,2)] by (simp add: evolves_def)
  then show ?thesis using assms(4) by (induction rule: rtranclp_induct) (auto intro: assms(5))
qed

lemma keeps_schema:
  "fit \<Longrightarrow> served d w \<Longrightarrow> handler w = Some (r, out, w') \<Longrightarrow> db_ok d (db w) \<Longrightarrow> db_ok d (db w')"
  by (erule (2) preserves [where P = "db_ok d"]) (auto simp: db_step_def intro: exec_db_ok)

lemma reads_only:
  assumes "S = {}" "fit" "served d w" "handler w = Some (r, out, w')"
  shows "db w' = db w"
  using preserves [where P = "\<lambda>D. D = db w"] assms by (auto simp: db_step_def)

end

section \<open>The statements of the handlers\<close>

definition account_stmts :: "stmt set" where
  "account_stmts = {st. case st of Ins_user _ _ _ \<Rightarrow> True | _ \<Rightarrow> False}"

definition leave_stmts :: "stmt set" where
  "leave_stmts = {st. case st of Upd_user_invalid _ \<Rightarrow> True | Upd_leave_all _ _ \<Rightarrow> True | _ \<Rightarrow> False}"

definition friend_stmts :: "stmt set" where
  "friend_stmts = {st. case st of Ins_request _ _ _ \<Rightarrow> True | Ins_friend _ _ _ \<Rightarrow> True | Del_request _ _ \<Rightarrow> True | _ \<Rightarrow> False}"

definition chat_stmts :: "stmt set" where
  "chat_stmts = {st. case st of Ins_chat _ _ _ \<Rightarrow> True | Upd_chat_invalid _ \<Rightarrow> True | Ins_member _ _ _ _ \<Rightarrow> True | Upd_rejoin _ _ _ \<Rightarrow> True | Upd_leave _ _ _ \<Rightarrow> True | Upd_admin _ _ _ \<Rightarrow> True | _ \<Rightarrow> False}"

definition message_stmts :: "stmt set" where
  "message_stmts = {st. case st of Ins_message _ _ _ _ _ \<Rightarrow> True | _ \<Rightarrow> False}"

definition mark_stmts :: "stmt set" where
  "mark_stmts = {st. case st of Upd_read _ _ _ \<Rightarrow> True | Upd_all_read _ _ \<Rightarrow> True | _ \<Rightarrow> False}"

lemmas stmts_defs = account_stmts_def leave_stmts_def friend_stmts_def chat_stmts_def message_stmts_def mark_stmts_def

lemma in_stmts [simp]:
  "Ins_user n p i \<in> account_stmts" "Upd_user_invalid n \<in> leave_stmts" "Upd_leave_all u t \<in> leave_stmts"
  "Ins_request u v t \<in> friend_stmts" "Ins_friend u v t \<in> friend_stmts" "Del_request u v \<in> friend_stmts"
  "Ins_chat u i t \<in> chat_stmts" "Upd_chat_invalid c \<in> chat_stmts" "Ins_member u c t rt \<in> chat_stmts"
  "Upd_rejoin u c t \<in> chat_stmts" "Upd_leave u c t \<in> chat_stmts" "Upd_admin u c t \<in> chat_stmts"
  "Ins_message u c f x t \<in> message_stmts" "Upd_read u c t \<in> mark_stmts" "Upd_all_read c t \<in> mark_stmts"
  by (simp_all add: stmts_defs)

lemma sync_loop_evolves [simp]: "evolves d mark_stmts w w1 \<Longrightarrow> evolves d mark_stmts w (sync_loop p i cs w1)"
proof (induction p i cs w1 rule: sync_loop.induct)
  case (2 p i c t cs w1)
  obtain r w2 where sync: "update_sync p i c t w1 = (r, w2)" by fastforce
  then have "evolves d mark_stmts w w2" using 2(2) by (rule update_sync_ev) simp_all
  with sync show ?case using 2(1) by simp
qed simp

section \<open>The handlers keep the contract\<close>

lemmas handler_splits = option.split_asm if_split_asm prod.split_asm

definition register_clean :: "register_info option \<Rightarrow> bool" where
  "register_clean u \<longleftrightarrow> clean_opt (Option.bind u ri_name) \<and> clean_opt (Option.bind u ri_password) \<and>
     clean_opt (Option.bind u ri_information)"

definition new_chat_clean :: "new_chat option \<Rightarrow> bool" where
  "new_chat_clean n \<longleftrightarrow> clean_opt (Option.bind n n_description) \<and> clean_opt (Option.bind n n_member)"

definition message_clean :: "sent_message option \<Rightarrow> bool" where
  "message_clean m \<longleftrightarrow> clean_opt (Option.bind m sm_text) \<and> clean_opt (Option.bind m sm_file_name)"

lemmas clean_defs = clean_opt_def login_clean_def register_clean_def new_chat_clean_def message_clean_def

interpretation register: confined d account_stmts "register_clean u" "psdims__user_register srv u e"
  for d srv u e
  by unfold_locales
    (auto simp: psdims__user_register_def Let_def clean_defs elim!: bind_SomeE with_login_ev ev split: handler_splits)

interpretation unregister: confined d leave_stmts "login_clean login" "psdims__user_unregister srv login e"
  for d srv login e
  by unfold_locales
    (auto simp: psdims__user_unregister_def Let_def clean_defs elim!: bind_SomeE with_login_ev ev split: handler_splits)

interpretation get_user: confined d "{}" "login_clean login" "psdims__get_user srv login user"
  for d srv login user
  by unfold_locales
    (auto simp: psdims__get_user_def Let_def clean_defs elim!: bind_SomeE with_login_ev ev split: handler_splits)

interpretation get_friends: confined d "{}" "login_clean login" "psdims__get_friends srv login t fs"
  for d srv login t fs
  by unfold_locales
    (auto simp: psdims__get_friends_def Let_def clean_defs elim!: bind_SomeE with_login_ev ev split: handler_splits)

interpretation get_friend_info: confined d "{}" "login_clean login \<and> clean_opt name" "psdims__get_friend_info srv login name info"
  for d srv login name info
  by unfold_locales
    (auto simp: psdims__get_friend_info_def Let_def clean_defs elim!: bind_SomeE with_login_ev ev split: handler_splits)

interpretation send_friend_request: confined d friend_stmts "login_clean login \<and> clean_opt name" "psdims__send_friend_request srv login name t"
  for d srv login name t
  by unfold_locales
    (auto simp: psdims__send_friend_request_def Let_def clean_defs elim!: bind_SomeE with_login_ev ev split: handler_splits)

interpretation accept_request: confined d friend_stmts "login_clean login \<and> clean_opt name" "psdims__accept_request srv login name t"
  for d srv login name t
  by unfold_locales
    (auto simp: psdims__accept_request_def Let_def clean_defs elim!: bind_SomeE with_login_ev ev split: handler_splits)

interpretation decline_request: confined d friend_stmts "login_clean login \<and> clean_opt name" "psdims__decline_request srv login name t"
  for d srv login name t
  by unfold_locales
    (auto simp: psdims__decline_request_def Let_def clean_defs elim!: bind_SomeE with_login_ev ev split: handler_splits)

interpretation get_chats: confined d "{}" "login_clean login" "psdims__get_chats srv login t cs"
  for d srv login t cs
  by unfold_locales
    (auto simp: psdims__get_chats_def Let_def clean_defs elim!: bind_SomeE with_login_ev ev split: handler_splits)

interpretation get_chat_info: confined d "{}" "login_clean login" "psdims__get_chat_info srv login c info"
  for d srv login c info
  by unfold_locales
    (auto simp: psdims__get_chat_info_def Let_def clean_defs elim!: bind_SomeE with_login_ev ev split: handler_splits)

interpretation get_chat_messages: confined d "{}" "login_clean login" "psdims__get_chat_messages srv login c t ms"
  for d srv login c t ms
  by unfold_locales
    (auto simp: psdims__get_chat_messages_def Let_def clean_defs elim!: bind_SomeE with_login_ev ev split: handler_splits)

interpretation get_all_data: confined d "{}" "login_clean login" "psdims__get_all_data srv login cd"
  for d srv login cd
  by unfold_locales
    (auto simp: psdims__get_all_data_def Let_def clean_defs elim!: bind_SomeE with_login_ev ev split: handler_splits)

interpretation get_pending_notifications: confined d mark_stmts "login_clean login" "psdims__get_pending_notifications srv login t sync ns"
  for d srv login t sync ns
  by unfold_locales
    (auto simp: psdims__get_pending_notifications_def Let_def clean_defs elim!: bind_SomeE with_login_ev ev split: handler_splits)

interpretation create_chat: confined d chat_stmts "login_clean login \<and> new_chat_clean n" "psdims__create_chat srv login n c"
  for d srv login n c
  by unfold_locales
    (auto simp: psdims__create_chat_def Let_def clean_defs elim!: bind_SomeE with_login_ev ev split: handler_splits)

interpretation add_member: confined d chat_stmts "login_clean login \<and> clean_opt name" "psdims__add_member srv login name c e"
  for d srv login name c e
  by unfold_locales
    (auto simp: psdims__add_member_def Let_def clean_defs elim!: bind_SomeE with_login_ev ev split: handler_splits)

interpretation remove_member: confined d chat_stmts "login_clean login \<and> clean_opt name" "psdims__remove_member srv login name c e"
  for d srv login name c e
  by unfold_locales
    (auto simp: psdims__remove_member_def Let_def clean_defs elim!: bind_SomeE with_login_ev ev split: handler_splits)

interpretation quit_from_chat: confined d chat_stmts "login_clean login" "psdims__quit_from_chat srv login c e"
  for d srv login c e
  by unfold_locales
    (auto simp: psdims__quit_from_chat_def Let_def clean_defs elim!: bind_SomeE with_login_ev ev split: handler_splits)

interpretation send_message: confined d message_stmts "login_clean login \<and> message_clean m" "psdims__send_message srv login c m t"
  for d srv login c m t
  by unfold_locales
    (auto simp: psdims__send_message_def Let_def clean_defs elim!: bind_SomeE with_login_ev ev split: handler_splits)

interpretation get_attachment: confined d "{}" "login_clean login" "psdims__get_attachment srv login c t f"
  for d srv login c t f
  by unfold_locales
    (auto simp: psdims__get_attachment_def Let_def clean_defs elim!: bind_SomeE with_login_ev ev split: handler_splits)

interpretation send_attachment: confined d "{}" "login_clean login" "psdims__send_attachment srv login c t f e"
  for d srv login c t f e
  by unfold_locales
    (auto simp: psdims__send_attachment_def Let_def clean_defs elim!: bind_SomeE with_login_ev ev split: handler_splits)

end
