(* ===== verification/Sample_World.thy ===== *)
theory Sample_World
  imports Server_Login
begin

text \<open>
  A concrete server with the \<^const>\<open>reference_engine\<close> behind it, on which the hypotheses of the
  properties hold: ana, bob and eva, the chat 7 of ana and bob with a message of ana that announces
  an attachment, a friend request from bob to ana, and the friendship of eva and ana.  The clock shows one more second at every call.
\<close>

definition sample_dialect :: dialect where
  "sample_dialect = \<lparr>weight = \<lambda>s. s, strict = True\<rparr>"

definition sample_db :: db where
  "sample_db =
     \<lparr>t_users =
        [\<lparr>u_id = 1, u_valid = None, u_name = ''System'', u_pass = [], u_info = ''Sup, im da real system''\<rparr>,
         \<lparr>u_id = 2, u_valid = Some 1, u_name = ''ana'', u_pass = ''a'', u_info = ''hi''\<rparr>,
         \<lparr>u_id = 3, u_valid = Some 1, u_name = ''bob'', u_pass = ''b'', u_info = ''ho''\<rparr>,
         \<lparr>u_id = 4, u_valid = Some 1, u_name = ''eva'', u_pass = ''e'', u_info = ''hu''\<rparr>],
      t_chats = [\<lparr>c_id = 7, c_admin = 2, c_admin_time = 5, c_read_time = 5, c_valid = 1, c_description = ''c'', c_time = 5\<rparr>],
      t_friends = [\<lparr>f_id1 = 4, f_id2 = 2, f_time = 4\<rparr>],
      t_members =
        [\<lparr>m_user = 2, m_chat = 7, m_time = 5, m_read_time = 5, m_rem_time = 0\<rparr>,
         \<lparr>m_user = 3, m_chat = 7, m_time = 5, m_read_time = 5, m_rem_time = 0\<rparr>],
      t_messages = [\<lparr>s_sender = 2, s_chat = 7, s_file = Some ''f'', s_text = ''m'', s_time = 100\<rparr>],
      t_requests = [\<lparr>r_id1 = 3, r_id2 = 2, r_time = 6\<rparr>]\<rparr>"

definition sample_env :: env where
  "sample_env =
     \<lparr>engine = reference_engine sample_dialect, outage = \<lambda>_. False, refuse = \<lambda>_. False, mysql_is_thread_safe = True,
      clock = \<lambda>n. 100 + of_nat n, io_fails = \<lambda>_. False, stack_junk = ''junk''\<rparr>"

definition sample_world :: world where
  "sample_world =
     \<lparr>avail = \<lambda>_. True, brk = 0, env = sample_env, db = sample_db, queries = 0, connects = 0, connections = {},
      ticks = 0, io_ops = 0, files_dir = False, files = Map.empty, corrupted = False\<rparr>"

definition sample_server :: persistence where
  "sample_server = \<lparr>mysql = None, thread_safe = True, location = ''localhost'', bd_name = ''PSD'',
     user_name = ''u'', user_pass = ''p''\<rparr>"

definition login_of :: "string \<Rightarrow> string \<Rightarrow> login_info option" where
  "login_of name pass = Some \<lparr>li_name = Some name, li_password = Some pass\<rparr>"

lemma sample_db_ok: "db_ok sample_dialect sample_db"
  by (simp add: db_ok_def sample_db_def sample_dialect_def user_ids_def chat_ids_def)

lemma sample_served: "served sample_dialect sample_world"
  by (simp add: served_def sample_world_def sample_env_def reference_engine_ok)

lemma sample_plenty: "plenty sample_world"
  by (simp add: plenty_def sample_world_def)

lemma sample_online: "online sample_dialect sample_world"
  using sample_db_ok sample_served sample_plenty
  by (simp add: online_def sound_def sample_world_def sample_env_def del: online_sound online_served)

lemma sample_logins:
  "login_user sample_dialect (login_of ''ana'' ''a'') (db sample_world) = Some (t_users sample_db ! 1)"
  "login_user sample_dialect (login_of ''bob'' ''b'') (db sample_world) = Some (t_users sample_db ! 2)"
  by (simp_all add: login_user_def find_user_def valid_user_def sample_dialect_def sample_db_def sample_world_def
      login_of_def)

text \<open>What the witnesses evaluate.\<close>

lemmas sample_defs = sample_dialect_def sample_db_def sample_env_def sample_world_def sample_server_def login_of_def

lemmas sample_eval = sample_defs login_fit_def short_def clean_def clean_char_def login_user_def find_user_def
  valid_user_def named_def user_ids_def chat_ids_def exhausted_def varchar_def member_of_def valid_chat_def admin_of_def
  entry_of_def inhabited_def friends_in_def own_message_def messages_at_def

end
