(* ===== verification/Server_Specs.thy ===== *)
theory Server_Specs
  imports Server_Files Sample_World
begin

text \<open>
  How a handler implements an operation on the database: \<open>meets d w res spec\<close> compares its run
  from the world \<open>w\<close> with the outcome \<open>spec\<close>, \<^const>\<open>None\<close> when the request must be refused, else the
  value for the client and the next database.  These statements are about servers that work
  (\<^const>\<open>online\<close>); what happens when queries fail is the subject of \<open>Server_Safety\<close> and of
  theorems of their own.
\<close>

section \<open>Updates that work\<close>

lemma wrote_done:
  assumes "wrote d st w r w'" "online d w" "\<And>k. exec d k st (db w) = Some (rows, D)"
    and "\<And>k. fresh_for st k (db w)"
  shows "r = 0 \<and> db w' = D \<and> calm w w' \<and> online d w'"
proof -
  obtain k where k: "r = 0" "db w' = D" "calm w w'"
    using assms online_outage [OF assms(2)] by (auto simp: wrote_def)
  have "db_ok d (db w')"
    using exec_db_ok [OF online_db [OF assms(2)] assms(4) assms(3)] k(2) by simp
  with k assms(2) show ?thesis using online_calm by blast
qed

lemma wrote_refused:
  assumes "wrote d st w r w'" "online d w" "\<And>k. exec d k st (db w) = None"
  shows "r = -1 \<and> db w' = db w \<and> calm w w' \<and> online d w'"
proof -
  have "r = -1" "db w' = db w" "calm w w'" using assms by (auto simp: wrote_def)
  then show ?thesis using assms(2) online_calm online_db by metis
qed

lemma fresh_simps [simp]:
  "fresh_for (Upd_user_invalid n) k D" "fresh_for (Upd_leave_all i t) k D" "fresh_for (Ins_message i c f x t) k D"
  "fresh_for (Del_request i j) k D" "fresh_for (Ins_friend i j t) k D" "fresh_for (Ins_request i j t) k D"
  "fresh_for (Ins_member i c t rt) k D" "fresh_for (Upd_chat_invalid c) k D" "fresh_for (Upd_rejoin i c t) k D"
  "fresh_for (Upd_leave i c t) k D" "fresh_for (Upd_admin i c t) k D" "fresh_for (Upd_read i c t) k D"
  "fresh_for (Upd_all_read c t) k D"
  by (simp_all add: fresh_for_def)

lemma free_persistence_simps [simp]:
  "db (free_persistence p w) = db w" "env (free_persistence p w) = env w" "files (free_persistence p w) = files w"
  "online d (free_persistence p w) \<longleftrightarrow> online d w"
  by (simp_all add: free_persistence_def close_handle_def mysql_close_def online_def sound_def served_def plenty_def
      del: online_sound online_served split: option.splits)

lemma now_simps [simp]: "now w = (clock (env w) (ticks w), w\<lparr>ticks := Suc (ticks w)\<rparr>)"
  by (simp add: now_def)

text \<open>The results of the functions that only read.\<close>

definition pending :: "db \<Rightarrow> cint \<Rightarrow> cint \<Rightarrow> bool" where
  "pending D i j \<longleftrightarrow> (\<exists>r \<in> set (t_requests D). r_id1 r = i \<and> r_id2 r = j)"

definition name_id :: "dialect \<Rightarrow> string \<Rightarrow> db \<Rightarrow> cint" where
  "name_id d name D = (case find_user d name D of None \<Rightarrow> -1 | Some u \<Rightarrow> u_id u)"

lemma online_eqs:
  assumes "mysql p = Some h"
  shows "online d w \<Longrightarrow> short name \<Longrightarrow>
      get_user_id p name w = Some (name_id d name (db w), asked MAX_QUERY_CHARS (Sel_user_id name) w)"
    "online d w \<Longrightarrow> exist_request p i j w = (of_bool (pending (db w) i j), asked 200 (Sel_request i j) w)"
    "online d w \<Longrightarrow> exist_friendly p i j w = (of_bool (friends_in (db w) i j), asked 200 (Sel_friendship i j) w)"
    "online d w \<Longrightarrow> chat_exist p c w = (of_bool (valid_chat (db w) c), asked 200 (Sel_chat_valid c) w)"
    "online d w \<Longrightarrow> exist_user_in_chat p i c w = (of_bool (member_of (db w) i c), asked 200 (Sel_member i c) w)"
    "online d w \<Longrightarrow> exist_user_entry_in_chat p i c w = (of_bool (entry_of (db w) i c), asked 200 (Sel_member_entry i c) w)"
    "online d w \<Longrightarrow> is_admin p i c w = (of_bool (admin_of (db w) i c), asked 200 (Sel_admin i c) (narrow [i, c] w))"
    "online d w \<Longrightarrow> still_users_in_chat p c w = (of_bool (inhabited (db w) c), asked 200 (Sel_still_users c) (narrow [c] w))"
    "online d w \<Longrightarrow> exist_timestamp_in_messages p c t w =
      Some (of_nat (length (messages_at (db w) c t)), asked 200 (Sel_message_time c t) w)"
    "online d w \<Longrightarrow> message_can_attach p i c t w =
      (of_bool (length (own_message (db w) i c t) = 1), asked 200 (Sel_can_attach i c t) (narrow [i, t, c] w))"
    "online d w \<Longrightarrow> message_have_attach p i c t w =
      (of_bool (length (visible (db w) i c t) = 1), asked 500 (Sel_have_attach i c t) (narrow [i, t, c] w))"
  using assms
  by (simp_all add: get_user_id_eq [where d = d] exist_request_eq [where d = d] exist_friendly_eq [where d = d]
      chat_exist_eq [where d = d] exist_user_in_chat_eq [where d = d] exist_user_entry_in_chat_eq [where d = d]
      is_admin_eq [where d = d] still_users_in_chat_eq [where d = d] exist_timestamp_eq [where d = d]
      message_can_attach_eq [where d = d] message_have_attach_eq [where d = d]
      online_outage [where d = d] name_id_def pending_def)

section \<open>What the handlers implement\<close>

definition meets :: "dialect \<Rightarrow> world \<Rightarrow> 'a handled \<Rightarrow> ('a \<times> db) option \<Rightarrow> bool" where
  "meets d w res spec \<longleftrightarrow>
     (\<exists>r out w'. res = Some (r, out, w') \<and> online d w' \<and> files w' = files w \<and>
        (case spec of
           None \<Rightarrow> r \<noteq> SOAP_OK \<and> db w' = db w
         | Some (out', D) \<Rightarrow> r = SOAP_OK \<and> out = out' \<and> db w' = D))"

lemma meets_refused [simp]:
  "meets d w (Some (SOAP_USER_ERROR, out, w')) None \<longleftrightarrow> online d w' \<and> files w' = files w \<and> db w' = db w"
  by (auto simp: meets_def)

lemma meets_ok [simp]:
  "meets d w (Some (SOAP_OK, out, w')) (Some (out', D)) \<longleftrightarrow>
   online d w' \<and> files w' = files w \<and> out = out' \<and> db w' = D"
  by (auto simp: meets_def)

text \<open>The time that the first call of \<open>time\<close> returns.\<close>

abbreviation first_time :: "world \<Rightarrow> cint" where
  "first_time w \<equiv> clock (env w) (ticks w)"

lemma meets_with_login:
  assumes "online d w" "login_fit login"
    and "\<And>p u w1. args \<Longrightarrow> login_user d login (db w) = Some u \<Longrightarrow> mysql p = Some (connects w) \<Longrightarrow> online d w1 \<Longrightarrow>
      db w1 = db w \<Longrightarrow> first_time w1 = first_time w \<Longrightarrow> files w1 = files w \<Longrightarrow> u_id u \<in> user_ids (db w) \<Longrightarrow>
      meets d w (body p (u_id u) w1) (spec u)"
  shows "meets d w (with_login srv login args out body w)
    (if args then Option.bind (login_user d login (db w)) spec else None)"
  using assms(1,2)
proof (cases rule: with_login_online [where srv = srv and args = args and out = out and body = body])
  case (refused w')
  then show ?thesis by auto
next
  case (accepted p u w')
  then show ?thesis
    using assms(3) [of u p w'] login_user_found [OF online_db [OF assms(1)], of login u] by simp
qed

text \<open>For a handler whose pointers are set.\<close>

lemma meets_with_login':
  assumes "online d w" "login_fit login" "args"
    and "\<And>p u w1. login_user d login (db w) = Some u \<Longrightarrow> mysql p = Some (connects w) \<Longrightarrow> online d w1 \<Longrightarrow>
      db w1 = db w \<Longrightarrow> first_time w1 = first_time w \<Longrightarrow> files w1 = files w \<Longrightarrow> u_id u \<in> user_ids (db w) \<Longrightarrow>
      meets d w (body p (u_id u) w1) (spec u)"
  shows "meets d w (with_login srv login args out body w) (Option.bind (login_user d login (db w)) spec)"
  using meets_with_login [OF assms(1,2), of args body spec srv out] assms(3,4) by simp

text \<open>For a user whose login is right: any property \<open>Q\<close> of the run follows from that of the body.\<close>

lemma with_login_as:
  assumes "online d w" "login_fit login" "login_user d login (db w) = Some u" "args"
    and "\<And>p w1. mysql p = Some (connects w) \<Longrightarrow> online d w1 \<Longrightarrow> db w1 = db w \<Longrightarrow> env w1 = env w \<Longrightarrow>
      ticks w1 = ticks w \<Longrightarrow> files w1 = files w \<Longrightarrow> Q (body p (u_id u) w1)"
  shows "Q (with_login srv login args out body w)"
  using assms(1,2)
  by (cases rule: with_login_online [where srv = srv and args = args and out = out and body = body])
    (use assms(3-5) in auto)

section \<open>Friend requests\<close>

definition request_friend :: "cint \<Rightarrow> cint \<Rightarrow> cint \<Rightarrow> db \<Rightarrow> db option" where
  "request_friend i j t D =
     (if i = j \<or> friends_in D i j \<or> pending D i j then None
      else Some (D\<lparr>t_requests := t_requests D @ [\<lparr>r_id1 = i, r_id2 = j, r_time = t\<rparr>]\<rparr>))"

definition accept_friend :: "cint \<Rightarrow> cint \<Rightarrow> cint \<Rightarrow> db \<Rightarrow> db option" where
  "accept_friend i j t D =
     (if pending D j i
      then Some (D\<lparr>t_friends := t_friends D @ [\<lparr>f_id1 = j, f_id2 = i, f_time = t\<rparr>],
        t_requests := filter (\<lambda>r. \<not> (r_id1 r = j \<and> r_id2 r = i)) (t_requests D)\<rparr>)
      else None)"

definition decline_friend :: "cint \<Rightarrow> cint \<Rightarrow> db \<Rightarrow> db option" where
  "decline_friend i j D =
     (if pending D j i
      then Some (D\<lparr>t_requests := filter (\<lambda>r. \<not> (r_id1 r = j \<and> r_id2 r = i)) (t_requests D)\<rparr>)
      else None)"

lemma unknown_id: "db_ok d D \<Longrightarrow> -1 \<notin> user_ids D"
proof
  assume "db_ok d D" "-1 \<in> user_ids D"
  then have "0 < sint (-1 :: cint)" unfolding db_ok_def by blast
  then show False by simp
qed

lemma not_pending_unknown: "db_ok d D \<Longrightarrow> \<not> pending D (-1) i"
  using unknown_id [of d D] by (auto simp: db_ok_def pending_def)

text \<open>The functions that send one update: result 0, the next database, nothing else.\<close>

lemma update_online:
  assumes "case x of (r, w') \<Rightarrow> wrote d st w r w'" "online d w" "\<And>k. exec d k st (db w) = Some (rows, D)"
    and "\<And>k. fresh_for st k (db w)"
  shows "fst x = 0 \<and> db (snd x) = D \<and> online d (snd x) \<and> env (snd x) = env w \<and> ticks (snd x) = ticks w \<and>
    files (snd x) = files w"
  using wrote_done [of d st w "fst x" "snd x"] assms by (auto simp: calm_def kept_def split: prod.splits)

lemma del_user_online:
  assumes "mysql p = Some h" "online d w" "short name"
  shows "fst (del_user p name w) = 0 \<and> online d (snd (del_user p name w)) \<and> env (snd (del_user p name w)) = env w \<and>
    ticks (snd (del_user p name w)) = ticks w \<and> files (snd (del_user p name w)) = files w \<and>
    db (snd (del_user p name w)) = (db w)\<lparr>t_users := map (\<lambda>u. if weight d (u_name u) = weight d name then u\<lparr>u_valid := Some 0\<rparr> else u) (t_users (db w))\<rparr>"
  using update_online [OF del_user_wrote [OF online_served [OF assms(2)] assms(1) assms(3)] assms(2)] assms(3) by simp

lemma del_user_all_chats_online:
  assumes "mysql p = Some h" "online d w"
  shows "fst (del_user_all_chats p i t w) = 0 \<and> online d (snd (del_user_all_chats p i t w)) \<and> env (snd (del_user_all_chats p i t w)) = env w \<and>
    ticks (snd (del_user_all_chats p i t w)) = ticks w \<and> files (snd (del_user_all_chats p i t w)) = files w \<and>
    db (snd (del_user_all_chats p i t w)) = (db w)\<lparr>t_members := map (\<lambda>m. if m_user m = i then m\<lparr>m_rem_time := t\<rparr> else m) (t_members (db w))\<rparr>"
  using update_online [OF del_user_all_chats_wrote [OF online_served [OF assms(2)] assms(1)] assms(2)]  by simp

lemma decline_friend_request_online:
  assumes "mysql p = Some h" "online d w"
  shows "fst (decline_friend_request p i j w) = 0 \<and> online d (snd (decline_friend_request p i j w)) \<and> env (snd (decline_friend_request p i j w)) = env w \<and>
    ticks (snd (decline_friend_request p i j w)) = ticks w \<and> files (snd (decline_friend_request p i j w)) = files w \<and>
    db (snd (decline_friend_request p i j w)) = (db w)\<lparr>t_requests := filter (\<lambda>r. \<not> (r_id1 r = i \<and> r_id2 r = j)) (t_requests (db w))\<rparr>"
  using update_online [OF decline_friend_request_wrote [OF online_served [OF assms(2)] assms(1)] assms(2)]  by simp

lemma send_request_online:
  assumes "mysql p = Some h" "online d w" "i \<in> user_ids (db w) \<and> j \<in> user_ids (db w)"
  shows "fst (send_request p i j t w) = 0 \<and> online d (snd (send_request p i j t w)) \<and> env (snd (send_request p i j t w)) = env w \<and>
    ticks (snd (send_request p i j t w)) = ticks w \<and> files (snd (send_request p i j t w)) = files w \<and>
    db (snd (send_request p i j t w)) = (db w)\<lparr>t_requests := t_requests (db w) @ [\<lparr>r_id1 = i, r_id2 = j, r_time = t\<rparr>]\<rparr>"
  using update_online [OF send_request_wrote [OF online_served [OF assms(2)] assms(1)] assms(2)] assms(3) by simp

lemma add_user_chat_online:
  assumes "mysql p = Some h" "online d w" "i \<in> user_ids (db w) \<and> c \<in> chat_ids (db w)"
  shows "fst (add_user_chat p i c rt t w) = 0 \<and> online d (snd (add_user_chat p i c rt t w)) \<and> env (snd (add_user_chat p i c rt t w)) = env w \<and>
    ticks (snd (add_user_chat p i c rt t w)) = ticks w \<and> files (snd (add_user_chat p i c rt t w)) = files w \<and>
    db (snd (add_user_chat p i c rt t w)) = (db w)\<lparr>t_members := t_members (db w) @ [\<lparr>m_user = i, m_chat = c, m_time = t, m_read_time = rt, m_rem_time = 0\<rparr>]\<rparr>"
  using update_online [OF add_user_chat_wrote [OF online_served [OF assms(2)] assms(1)] assms(2)] assms(3) by simp

lemma del_chat_online:
  assumes "mysql p = Some h" "online d w"
  shows "fst (del_chat p c w) = 0 \<and> online d (snd (del_chat p c w)) \<and> env (snd (del_chat p c w)) = env w \<and>
    ticks (snd (del_chat p c w)) = ticks w \<and> files (snd (del_chat p c w)) = files w \<and>
    db (snd (del_chat p c w)) = (db w)\<lparr>t_chats := map (\<lambda>x. if c_id x = c then x\<lparr>c_valid := 0\<rparr> else x) (t_chats (db w))\<rparr>"
  using update_online [OF del_chat_wrote [OF online_served [OF assms(2)] assms(1)] assms(2)]  by simp

lemma recover_user_chat_online:
  assumes "mysql p = Some h" "online d w"
  shows "fst (recover_user_chat p i c t w) = 0 \<and> online d (snd (recover_user_chat p i c t w)) \<and> env (snd (recover_user_chat p i c t w)) = env w \<and>
    ticks (snd (recover_user_chat p i c t w)) = ticks w \<and> files (snd (recover_user_chat p i c t w)) = files w \<and>
    db (snd (recover_user_chat p i c t w)) = (db w)\<lparr>t_members := map (\<lambda>m. if m_user m = i \<and> m_chat m = c then m\<lparr>m_rem_time := 0, m_time := t\<rparr> else m) (t_members (db w))\<rparr>"
  using update_online [OF recover_user_chat_wrote [OF online_served [OF assms(2)] assms(1)] assms(2)]  by simp

lemma del_user_chat_online:
  assumes "mysql p = Some h" "online d w"
  shows "fst (del_user_chat p i c t w) = 0 \<and> online d (snd (del_user_chat p i c t w)) \<and> env (snd (del_user_chat p i c t w)) = env w \<and>
    ticks (snd (del_user_chat p i c t w)) = ticks w \<and> files (snd (del_user_chat p i c t w)) = files w \<and>
    db (snd (del_user_chat p i c t w)) = (db w)\<lparr>t_members := map (\<lambda>m. if m_user m = i \<and> m_chat m = c then m\<lparr>m_rem_time := t\<rparr> else m) (t_members (db w))\<rparr>"
  using update_online [OF del_user_chat_wrote [OF online_served [OF assms(2)] assms(1)] assms(2)]  by simp

lemma change_admin_online:
  assumes "mysql p = Some h" "online d w" "i \<in> user_ids (db w)"
  shows "fst (change_admin p i c t w) = 0 \<and> online d (snd (change_admin p i c t w)) \<and> env (snd (change_admin p i c t w)) = env w \<and>
    ticks (snd (change_admin p i c t w)) = ticks w \<and> files (snd (change_admin p i c t w)) = files w \<and>
    db (snd (change_admin p i c t w)) = (db w)\<lparr>t_chats := map (\<lambda>x. if c_id x = c then x\<lparr>c_admin := i, c_admin_time := t\<rparr> else x) (t_chats (db w))\<rparr>"
  using update_online [OF change_admin_wrote [OF online_served [OF assms(2)] assms(1)] assms(2)] assms(3) by simp

text \<open>A user who is not in the table cannot be a foreign key.\<close>

lemma refused_online:
  assumes "case x of (r, w') \<Rightarrow> wrote d st w r w'" "online d w" "\<And>k. exec d k st (db w) = None"
  shows "fst x = -1 \<and> db (snd x) = db w \<and> online d (snd x) \<and> env (snd x) = env w \<and> ticks (snd x) = ticks w \<and>
    files (snd x) = files w"
  using wrote_refused [of d st w "fst x" "snd x"] assms by (auto simp: calm_def kept_def split: prod.splits)

lemma send_request_unknown:
  assumes "mysql p = Some h" "online d w" "j \<notin> user_ids (db w)"
  shows "fst (send_request p i j t w) = -1 \<and> online d (snd (send_request p i j t w)) \<and>
    env (snd (send_request p i j t w)) = env w \<and> files (snd (send_request p i j t w)) = files w \<and>
    db (snd (send_request p i j t w)) = db w"
  using refused_online [OF send_request_wrote [OF online_served [OF assms(2)] assms(1)] assms(2)] assms(3) by simp

lemma add_user_chat_unknown:
  assumes "mysql p = Some h" "online d w" "i \<notin> user_ids (db w)"
  shows "fst (add_user_chat p i c rt t w) = -1 \<and> online d (snd (add_user_chat p i c rt t w)) \<and>
    env (snd (add_user_chat p i c rt t w)) = env w \<and> files (snd (add_user_chat p i c rt t w)) = files w \<and>
    db (snd (add_user_chat p i c rt t w)) = db w"
  using refused_online [OF add_user_chat_wrote [OF online_served [OF assms(2)] assms(1)] assms(2)] assms(3) by simp

lemma accept_friend_request_online:
  assumes "mysql p = Some h" "online d w" "i \<in> user_ids (db w) \<and> j \<in> user_ids (db w)"
  shows "fst (accept_friend_request p i j t w) = 0 \<and> online d (snd (accept_friend_request p i j t w)) \<and>
    env (snd (accept_friend_request p i j t w)) = env w \<and> files (snd (accept_friend_request p i j t w)) = files w \<and>
    db (snd (accept_friend_request p i j t w)) =
      (db w)\<lparr>t_friends := t_friends (db w) @ [\<lparr>f_id1 = i, f_id2 = j, f_time = t\<rparr>],
        t_requests := filter (\<lambda>r. \<not> (r_id1 r = i \<and> r_id2 r = j)) (t_requests (db w))\<rparr>"
  using online_served [OF assms(2)] assms(1)
proof (cases rule: accept_friend_request_wrote [where i = i and j = j and t = t])
  case (failed w')
  then show ?thesis using wrote_done [OF failed(2) assms(2)] assms(3) by auto
next
  case (accepted w2 r w')
  have "db w2 = (db w)\<lparr>t_friends := t_friends (db w) @ [\<lparr>f_id1 = i, f_id2 = j, f_time = t\<rparr>]\<rparr>"
    "calm w w2" "online d w2"
    using wrote_done [OF accepted(2) assms(2)] assms(3) by auto
  with wrote_done [OF accepted(3)] accepted(1) show ?thesis by (simp add: calm_def kept_def)
qed

lemmas updates_online = del_user_online del_user_all_chats_online decline_friend_request_online send_request_online
  send_request_unknown accept_friend_request_online add_user_chat_online add_user_chat_unknown del_chat_online
  recover_user_chat_online del_user_chat_online change_admin_online

text \<open>The start of a proof about a handler that works on the user \<open>name\<close> names.\<close>

lemma name_id_unknown: "find_user d name D = None \<Longrightarrow> name_id d name D = -1"
  by (simp add: name_id_def)

lemma name_id_known: "find_user d name D = Some u \<Longrightarrow> name_id d name D = u_id u"
  by (simp add: name_id_def)

text \<open>C10. Accepting a request makes the two users friends and removes the request, at the time of the server's clock,
  if the login is right, the name is that of an account and this account has asked; otherwise the handler reports an
  error and the database is as before.\<close>

theorem accept_request_refines:
  assumes "online d w" "login_fit login" "short name"
  shows "meets d w (psdims__accept_request srv login (Some name) (Some t0) w)
    (do {
       u \<leftarrow> login_user d login (db w);
       v \<leftarrow> find_user d name (db w);
       D \<leftarrow> accept_friend (u_id u) (u_id v) (first_time w) (db w);
       Some (Some (first_time w), D)
     })"
  unfolding psdims__accept_request_def
proof (rule meets_with_login' [OF assms(1,2)], goal_cases)
  case (2 p u w1)
  note [simp] = online_eqs [where d = d, OF 2(2)] updates_online [where d = d, OF 2(2)] 2(3-7) assms(3)
  note ok = online_db [OF assms(1)]
  show ?case
  proof (cases "find_user d name (db w)")
    case None
    then show ?thesis using not_pending_unknown [OF ok] by (simp add: name_id_def)
  next
    case (Some v)
    with find_user_id(1) [OF ok Some] show ?thesis
      by (simp add: name_id_def accept_friend_def case_prod_unfold)
  qed
qed simp

lemma accept_request_refines_witness:
  "\<exists>w'. psdims__accept_request sample_server (login_of ''ana'' ''a'') (Some ''bob'') (Some 0) sample_world =
      Some (SOAP_OK, Some 100, w') \<and>
    t_friends (db w') = t_friends sample_db @ [\<lparr>f_id1 = 3, f_id2 = 2, f_time = 100\<rparr>] \<and> t_requests (db w') = []"
  using accept_request_refines [OF sample_online, of "login_of ''ana'' ''a''" "''bob''" sample_server 0]
  by (auto simp: sample_eval meets_def accept_friend_def pending_def)

text \<open>Declining a request removes it, under the same conditions, and nothing else.\<close>

theorem decline_request_refines:
  assumes "online d w" "login_fit login" "short name"
  shows "meets d w (psdims__decline_request srv login (Some name) (Some t0) w)
    (do {
       u \<leftarrow> login_user d login (db w);
       v \<leftarrow> find_user d name (db w);
       D \<leftarrow> decline_friend (u_id u) (u_id v) (db w);
       Some (Some (first_time w), D)
     })"
  unfolding psdims__decline_request_def
proof (rule meets_with_login' [OF assms(1,2)], goal_cases)
  case (2 p u w1)
  note [simp] = online_eqs [where d = d, OF 2(2)] updates_online [where d = d, OF 2(2)] 2(3-7) assms(3)
  note ok = online_db [OF assms(1)]
  show ?case
    using not_pending_unknown [OF ok] find_user_id(1) [OF ok]
    by (cases "find_user d name (db w)") (simp_all add: name_id_def decline_friend_def case_prod_unfold)
qed simp

lemma decline_request_refines_witness:
  "\<exists>w'. psdims__decline_request sample_server (login_of ''ana'' ''a'') (Some ''bob'') (Some 0) sample_world =
      Some (SOAP_OK, Some 100, w') \<and> t_friends (db w') = t_friends sample_db \<and> t_requests (db w') = []"
  using decline_request_refines [OF sample_online, of "login_of ''ana'' ''a''" "''bob''" sample_server 0]
  by (auto simp: sample_eval meets_def decline_friend_def pending_def)

text \<open>C33. A friend request is recorded if the login is right, the name is that of another account, the two are not
  friends and the same request is not pending yet; otherwise the handler reports an error and changes nothing.  A request
  in the other direction does not matter.\<close>

theorem send_friend_request_refines:
  assumes "online d w" "login_fit login" "short name"
  shows "meets d w (psdims__send_friend_request srv login (Some name) (Some t0) w)
    (do {
       u \<leftarrow> login_user d login (db w);
       v \<leftarrow> find_user d name (db w);
       D \<leftarrow> request_friend (u_id u) (u_id v) (first_time w) (db w);
       Some (Some (first_time w), D)
     })"
  unfolding psdims__send_friend_request_def
proof (rule meets_with_login' [OF assms(1,2)], goal_cases)
  case (2 p u w1)
  note [simp] = online_eqs [where d = d, OF 2(2)] updates_online [where d = d, OF 2(2)] 2(3-7) assms(3)
  note ok = online_db [OF assms(1)]
  have u: "u_id u \<noteq> -1" using 2(7) unknown_id [OF ok] by metis
  show ?case
    using unknown_id [OF ok] find_user_id(1) [OF ok] u
    by (cases "find_user d name (db w)") (auto simp: name_id_def request_friend_def case_prod_unfold)
qed simp

lemma send_friend_request_refines_witness:
  "\<exists>w'. psdims__send_friend_request sample_server (login_of ''ana'' ''a'') (Some ''bob'') (Some 0) sample_world =
      Some (SOAP_OK, Some 100, w') \<and> length (t_requests (db w')) = 2"
  using send_friend_request_refines [OF sample_online, of "login_of ''ana'' ''a''" "''bob''" sample_server 0]
  by (auto simp: sample_eval meets_def request_friend_def pending_def friends_in_def)

end
