(* ===== verification/Account_Specs.thy ===== *)
theory Account_Specs
  imports Server_Specs
begin

text \<open>
  Registering, logging in and unregistering.
\<close>

section \<open>Registration\<close>

lemma add_user_online:
  assumes "mysql p = Some h" "online d w" "clean name" "clean pass" "clean info"
    and "strlen name \<le> 25" "strlen pass \<le> 25" "strlen info \<le> 100"
    and "named d name (db w) = []" "\<not> exhausted (user_ids (db w))"
  obtains k w' where "add_user p name pass info w = (0, w')" "fresh_id k (user_ids (db w))" "online d w'"
    "db w' = (db w)\<lparr>t_users := t_users (db w) @
      [\<lparr>u_id = k, u_valid = Some 1, u_name = name, u_pass = pass, u_info = info\<rparr>]\<rparr>"
proof -
  let ?st = "Ins_user name pass info"
  let ?D = "\<lambda>k. (db w)\<lparr>t_users := t_users (db w) @
      [\<lparr>u_id = k, u_valid = Some 1, u_name = name, u_pass = pass, u_info = info\<rparr>]\<rparr>"
  have new: "weight d name \<notin> (weight d \<circ> u_name) ` set (t_users (db w))"
    using assms(9) by (auto simp: named_def filter_empty_conv)
  have runs: "exec d k ?st (db w) = Some ([], ?D k)" for k
    using assms(6-8) new by (simp add: varchar_def)
  have free: "fresh_for ?st (next_id (user_ids (db w))) (db w)"
    using next_id_fresh [OF _ assms(10)] by (simp add: fresh_for_def)
  obtain r w' where add: "add_user p name pass info w = (r, w')" by fastforce
  have wrote: "wrote d ?st w r w'"
    using add_user_wrote [OF online_served [OF assms(2)] assms(1,3-5)] assms(6-8) add
    by (simp add: MAX_QUERY_CHARS_def)
  have "r \<noteq> -1" using wrote online_outage [OF assms(2)] runs free by (auto simp: wrote_def)
  then obtain k where k: "r = 0" "fresh_for ?st k (db w)" "db w' = ?D k" "calm w w'"
    using wrote runs by (auto simp: wrote_def)
  have "db_ok d (db w')" using exec_db_ok [OF online_db [OF assms(2)] k(2) runs] k(3) by simp
  then have "online d w'" using online_calm [OF assms(2) k(4)] by simp
  with k add show ?thesis by (intro that [of w' k]) (simp_all add: fresh_for_def)
qed

text \<open>The account that a name leads to.\<close>

lemma find_app: "List.find P (xs @ ys) = (case List.find P xs of Some x \<Rightarrow> Some x | None \<Rightarrow> List.find P ys)"
  by (induction xs) auto

lemma find_user_append:
  "find_user d name (D\<lparr>t_users := t_users D @ [u]\<rparr>) =
   (case find_user d name D of
      Some v \<Rightarrow> Some v
    | None \<Rightarrow> if weight d (u_name u) = weight d name \<and> valid_user u then Some u else None)"
  by (auto simp: find_user_def find_app split: option.splits)

lemma named_find: "named d name D = [] \<Longrightarrow> find_user d name D = None"
  by (auto simp: named_def find_user_def filter_empty_conv find_None_iff)

lemma register_online:
  assumes "online d w" "clean name" "clean pass" "clean info"
    and "strlen name \<le> 25" "strlen pass \<le> 25" "strlen info \<le> 100"
    and "named d name (db w) = []" "\<not> exhausted (user_ids (db w))"
  obtains k w' where "psdims__user_register srv
      (Some \<lparr>ri_name = Some name, ri_password = Some pass, ri_information = Some info\<rparr>) (Some e) w =
        Some (SOAP_OK, Some 1, w')" "online d w'" "fresh_id k (user_ids (db w))"
    "db w' = (db w)\<lparr>t_users := t_users (db w) @
      [\<lparr>u_id = k, u_valid = Some 1, u_name = name, u_pass = pass, u_info = info\<rparr>]\<rparr>"
proof -
  obtain p w1 where init: "init_persistence (user_name srv) (user_pass srv) w = Some (Some p, w1)"
    "mysql p = Some (connects w)" "connected w w1" "online d w1"
    using init_persistence_online [OF assms(1)] by blast
  have "short name" using assms(2,5) by (simp add: short_def)
  have w1: "db w1 = db w" using init(3) by (simp add: connected_def)
  let ?w2 = "asked MAX_QUERY_CHARS (Sel_user_entry name) w1"
  have entry: "user_entry_exist p name w1 = (0, ?w2)"
    using user_entry_exist_eq [OF online_sound [OF init(4)] init(2) \<open>short name\<close>] online_outage [OF init(4)]
      assms(8) w1 by simp
  obtain k w3 where add: "add_user p name pass info ?w2 = (0, w3)" "fresh_id k (user_ids (db w))" "online d w3"
    "db w3 = (db w)\<lparr>t_users := t_users (db w) @
      [\<lparr>u_id = k, u_valid = Some 1, u_name = name, u_pass = pass, u_info = info\<rparr>]\<rparr>"
    by (rule add_user_online [OF init(2), of d ?w2 name pass info]) (use assms init(4) w1 in auto)
  then show ?thesis
    using init entry
    by (intro that [of "free_persistence p w3" k]) (simp_all add: psdims__user_register_def clone_persistence_def)
qed

lemma find_id_member: "db_ok d D \<Longrightarrow> u \<in> set (t_users D) \<Longrightarrow> find_id (u_id u) D = Some u"
proof -
  assume ok: "db_ok d D" and "u \<in> set (t_users D)"
  then have "u \<in> set (filter (\<lambda>v. u_id v = u_id u) (t_users D))" by simp
  then show ?thesis unfolding with_id [OF ok] by (auto split: option.splits)
qed

text \<open>\<open>psdims__get_user\<close> repeats the name of the login and adds the stored information.\<close>

lemma get_user_online:
  assumes "online d w" "login_fit login" "login_user d login (db w) = Some u"
  shows "\<exists>w'. psdims__get_user srv login (Some old) w =
      Some (SOAP_OK, Some \<lparr>ui_name = the (li_name (the login)), ui_information = u_info u\<rparr>, w')"
  unfolding psdims__get_user_def
proof (rule with_login_as [OF assms], goal_cases)
  case (2 p w1)
  obtain name where name: "Option.bind login li_name = Some name" "the (li_name (the login)) = name"
    using assms(3) by (auto simp: login_user_def split: option.splits)
  let ?w2 = "w1\<lparr>brk := Suc (Suc (brk w1))\<rparr>"
  have "plenty w1" using 2(2) by (simp add: online_def del: online_sound online_served)
  then have mem: "soap_strdup (Some name) w1 = Some (name, w1\<lparr>brk := Suc (brk w1)\<rparr>)"
    "soap_array 200 (w1\<lparr>brk := Suc (brk w1)\<rparr>) = Some ?w2" "online d ?w2"
    using 2(2) by (simp_all add: soap_strdup_def soap_array_def online_def sound_def served_def plenty_def malloc_def
        del: online_sound online_served)
  have ok: "db_ok d (db w)" using assms(1) by (rule online_db)
  have "find_id (u_id u) (db ?w2) = Some u"
    using find_id_member [OF ok] login_user_found [OF ok assms(3)] 2(3) by simp
  then show ?case
    using get_user_info_eq [OF online_sound [OF mem(3)] 2(1), of "u_id u"] online_outage [OF mem(3)] mem name
    by simp
qed simp

text \<open>C19. A user who has registered under a free name can log in with the same name and password, as a user with a
  new id, and reads back the information given at the registration; no other account changes.\<close>

theorem register_then_login:
  assumes "online d w" "clean name" "clean pass" "clean info"
    and "strlen name \<le> 25" "strlen pass \<le> 25" "strlen info \<le> 100"
    and "named d name (db w) = []" "\<not> exhausted (user_ids (db w))"
    and "login = Some \<lparr>li_name = Some name, li_password = Some pass\<rparr>"
  shows "\<exists>w1 u w2. psdims__user_register srv
      (Some \<lparr>ri_name = Some name, ri_password = Some pass, ri_information = Some info\<rparr>) (Some e) w =
        Some (SOAP_OK, Some 1, w1) \<and>
      login_user d login (db w1) = Some u \<and> u_id u \<notin> user_ids (db w) \<and>
      (\<forall>other v. find_user d other (db w) = Some v \<longrightarrow> find_user d other (db w1) = Some v) \<and>
      psdims__get_user srv login (Some old) w1 = Some (SOAP_OK, Some \<lparr>ui_name = name, ui_information = info\<rparr>, w2)"
proof -
  obtain k w1 where w1: "psdims__user_register srv
      (Some \<lparr>ri_name = Some name, ri_password = Some pass, ri_information = Some info\<rparr>) (Some e) w =
        Some (SOAP_OK, Some 1, w1)" "online d w1" "fresh_id k (user_ids (db w))"
    "db w1 = (db w)\<lparr>t_users := t_users (db w) @
      [\<lparr>u_id = k, u_valid = Some 1, u_name = name, u_pass = pass, u_info = info\<rparr>]\<rparr>"
    using register_online [OF assms(1-9)] by blast
  let ?u = "\<lparr>u_id = k, u_valid = Some 1, u_name = name, u_pass = pass, u_info = info\<rparr>"
  have login: "login_user d login (db w1) = Some ?u"
    using named_find [OF assms(8)] by (simp add: assms(10) login_user_def w1(4) find_user_append valid_user_def)
  have "login_fit login" using assms(2,5,10) by (simp add: login_fit_def short_def)
  then obtain w2 where
    "psdims__get_user srv login (Some old) w1 = Some (SOAP_OK, Some \<lparr>ui_name = name, ui_information = info\<rparr>, w2)"
    using get_user_online [OF w1(2) _ login, of srv old] assms(10) by auto
  moreover have "find_user d other (db w) = Some v \<Longrightarrow> find_user d other (db w1) = Some v" for other v
    by (simp add: w1(4) find_user_append)
  ultimately show ?thesis
    using w1(1) login fresh_id_notin [OF w1(3)] by (intro exI [of _ w1] exI [of _ ?u] exI [of _ w2]) simp
qed

lemma register_then_login_witness:
  "\<exists>w1 w2. psdims__user_register sample_server
      (Some \<lparr>ri_name = Some ''kim'', ri_password = Some ''k'', ri_information = Some ''i''\<rparr>) (Some 0) sample_world =
      Some (SOAP_OK, Some 1, w1) \<and>
    psdims__get_user sample_server (login_of ''kim'' ''k'') (Some \<lparr>ui_name = [], ui_information = []\<rparr>) w1 =
      Some (SOAP_OK, Some \<lparr>ui_name = ''kim'', ui_information = ''i''\<rparr>, w2)"
  using register_then_login [OF sample_online, of "''kim''" "''k''" "''i''" "login_of ''kim'' ''k''" sample_server 0
      "\<lparr>ui_name = [], ui_information = []\<rparr>"]
  by (auto simp: sample_eval)

text \<open>A name is taken for ever, also by an account that has been unregistered and by the system account.\<close>

theorem register_taken_name:
  assumes "online d w" "short name" "named d name (db w) \<noteq> []"
  shows "\<exists>w'. psdims__user_register srv
      (Some \<lparr>ri_name = Some name, ri_password = Some pass, ri_information = Some info\<rparr>) (Some e) w =
        Some (SOAP_USER_ERROR, Some 1, w') \<and> db w' = db w"
proof -
  obtain p w1 where init: "init_persistence (user_name srv) (user_pass srv) w = Some (Some p, w1)"
    "mysql p = Some (connects w)" "connected w w1" "online d w1"
    using init_persistence_online [OF assms(1)] by blast
  with user_entry_exist_eq [OF online_sound [OF init(4)] init(2) assms(2)] assms(3) online_outage [OF init(4)]
  show ?thesis by (simp add: psdims__user_register_def clone_persistence_def connected_def)
qed

lemma register_taken_name_witness:
  "\<exists>w'. psdims__user_register sample_server
      (Some \<lparr>ri_name = Some ''System'', ri_password = Some ''k'', ri_information = Some ''i''\<rparr>) (Some 0) sample_world =
      Some (SOAP_USER_ERROR, Some 1, w') \<and> db w' = sample_db"
  using register_taken_name [OF sample_online, of "''System''" sample_server "''k''" "''i''" 0]
  by (simp add: sample_eval)

section \<open>Unregistration\<close>

definition unregistered :: "dialect \<Rightarrow> string \<Rightarrow> cint \<Rightarrow> cint \<Rightarrow> db \<Rightarrow> db" where
  "unregistered d name i t D = D\<lparr>
     t_users := map (\<lambda>u. if weight d (u_name u) = weight d name then u\<lparr>u_valid := Some 0\<rparr> else u) (t_users D),
     t_members := map (\<lambda>m. if m_user m = i then m\<lparr>m_rem_time := t\<rparr> else m) (t_members D)\<rparr>"

text \<open>C34. Unregistering, with the right password, invalidates the account and makes the user leave all chats; otherwise
  nothing changes.  The row of the account stays in the database, with \<open>VALID\<close> 0, although
  \<open>doc/Use_cases.txt\<close> says that the server deletes it.\<close>

theorem unregister_refines:
  assumes "online d w" "short name"
  shows "meets d w (psdims__user_unregister srv (Some \<lparr>li_name = Some name, li_password = Some pass\<rparr>) (Some e) w)
    (do {
       u \<leftarrow> login_user d (Some \<lparr>li_name = Some name, li_password = Some pass\<rparr>) (db w);
       Some (Some 1, unregistered d name (u_id u) (first_time w) (db w))
     })"
proof -
  let ?login = "Some \<lparr>li_name = Some name, li_password = Some pass\<rparr>"
  have fit: "login_fit ?login" using assms(2) by (simp add: login_fit_def)
  show ?thesis
    unfolding psdims__user_unregister_def
  proof (simp only: option.distinct if_False Let_def, rule meets_with_login' [OF assms(1) fit], goal_cases)
    case (2 p u w1)
    note [simp] = updates_online [where d = d, OF 2(2)] 2(3-7) assms(2)
    show ?case by (simp add: case_prod_unfold unregistered_def)
  qed simp
qed

lemma unregister_refines_witness:
  "\<exists>w'. psdims__user_unregister sample_server (login_of ''bob'' ''b'') (Some 0) sample_world =
      Some (SOAP_OK, Some 1, w') \<and> find_user sample_dialect ''bob'' (db w') = None \<and> \<not> member_of (db w') 3 7"
  using unregister_refines [OF sample_online, of "''bob''" sample_server "''b''" 0]
  by (auto simp: sample_eval meets_def unregistered_def)

text \<open>After that nobody can log in under the name, and the user is in no chat (unless the clock showed 0);
  but the chats that the user administrated keep an administrator who cannot log in.\<close>

theorem unregistered_is_gone:
  assumes "t \<noteq> 0"
  shows "login_user d (Some \<lparr>li_name = Some name, li_password = pass\<rparr>) (unregistered d name i t D) = None \<and>
    \<not> member_of (unregistered d name i t D) i c \<and>
    (admin_of (unregistered d name i t D) i c \<longleftrightarrow> admin_of D i c)"
proof -
  have "\<not> valid_user u \<or> weight d (u_name u) \<noteq> weight d name" if "u \<in> set (t_users (unregistered d name i t D))" for u
    using that by (auto simp: unregistered_def valid_user_def)
  then have "find_user d name (unregistered d name i t D) = None"
    unfolding find_user_def find_None_iff by blast
  then have "login_user d (Some \<lparr>li_name = Some name, li_password = pass\<rparr>) (unregistered d name i t D) = None"
    by (simp add: login_user_def split: option.splits)
  moreover have "\<not> member_of (unregistered d name i t D) i c"
    using assms by (simp add: member_of_def unregistered_def ball_Un)
  moreover have "admin_of (unregistered d name i t D) i c \<longleftrightarrow> admin_of D i c"
    by (simp add: admin_of_def unregistered_def)
  ultimately show ?thesis by blast
qed

lemma unregistered_is_gone_witness:
  "login_user sample_dialect (login_of ''ana'' ''a'') (unregistered sample_dialect ''ana'' 2 100 sample_db) = None \<and>
    admin_of (unregistered sample_dialect ''ana'' 2 100 sample_db) 2 7"
  using unregistered_is_gone [of 100 sample_dialect "''ana''" "Some ''a''" 2 sample_db 7]
  by (simp add: login_of_def) (simp add: sample_eval)

end
