(* ===== verification/Server_States.thy ===== *)
theory Server_States
  imports Server_Safety Account_Specs
begin

text \<open>
  The server as a transition system: a state is a world, a step serves one request.  \<open>serve\<close> stands
  for \<open>soap_serve\<close>, which the build generates from \<open>rpc/ims.h\<close>: it calls the handler that the
  request names; the reply is left out.  Requests are served one after the other, as
  \<open>sthread_listen_connection\<close> does.
\<close>

section \<open>Requests\<close>

datatype (plugins only: code size) request =
    User_register "register_info option" "cint option"
  | User_unregister "login_info option" "cint option"
  | Get_user "login_info option" "user_info option"
  | Get_friends "login_info option" cint "user_list option"
  | Get_friend_info "login_info option" "string option" "user_info option"
  | Get_chats "login_info option" cint "chat_list option"
  | Get_chat_info "login_info option" cint "chat_item option"
  | Get_chat_messages "login_info option" cint cint "message_list option"
  | Get_attachment "login_info option" cint cint "string option"
  | Get_pending_notifications "login_info option" cint "(cint \<times> cint) list option" "notifications option"
  | Get_all_data "login_info option" "client_data_info option"
  | Create_chat "login_info option" "new_chat option" "cint option"
  | Add_member "login_info option" "string option" cint "cint option"
  | Remove_member "login_info option" "string option" cint "cint option"
  | Quit_from_chat "login_info option" cint "cint option"
  | Send_message "login_info option" cint "sent_message option" "cint option"
  | Send_attachment "login_info option" cint cint "string option" "cint option"
  | Send_friend_request "login_info option" "string option" "cint option"
  | Accept_request "login_info option" "string option" "cint option"
  | Decline_request "login_info option" "string option" "cint option"

definition status :: "'a handled \<Rightarrow> (soap_result \<times> world) option" where
  "status res = map_option (\<lambda>(r, _, w). (r, w)) res"

primrec serve :: "persistence \<Rightarrow> request \<Rightarrow> world \<Rightarrow> (soap_result \<times> world) option" where
  "serve srv (User_register u e) w = status (psdims__user_register srv u e w)"
| "serve srv (User_unregister login e) w = status (psdims__user_unregister srv login e w)"
| "serve srv (Get_user login user) w = status (psdims__get_user srv login user w)"
| "serve srv (Get_friends login t fs) w = status (psdims__get_friends srv login t fs w)"
| "serve srv (Get_friend_info login name info) w = status (psdims__get_friend_info srv login name info w)"
| "serve srv (Get_chats login t cs) w = status (psdims__get_chats srv login t cs w)"
| "serve srv (Get_chat_info login c info) w = status (psdims__get_chat_info srv login c info w)"
| "serve srv (Get_chat_messages login c t ms) w = status (psdims__get_chat_messages srv login c t ms w)"
| "serve srv (Get_attachment login c t f) w = status (psdims__get_attachment srv login c t f w)"
| "serve srv (Get_pending_notifications login t sync ns) w =
     status (psdims__get_pending_notifications srv login t sync ns w)"
| "serve srv (Get_all_data login cd) w = status (psdims__get_all_data srv login cd w)"
| "serve srv (Create_chat login n c) w = status (psdims__create_chat srv login n c w)"
| "serve srv (Add_member login name c e) w = status (psdims__add_member srv login name c e w)"
| "serve srv (Remove_member login name c e) w = status (psdims__remove_member srv login name c e w)"
| "serve srv (Quit_from_chat login c e) w = status (psdims__quit_from_chat srv login c e w)"
| "serve srv (Send_message login c m t) w = status (psdims__send_message srv login c m t w)"
| "serve srv (Send_attachment login c t f e) w = status (psdims__send_attachment srv login c t f e w)"
| "serve srv (Send_friend_request login name t) w = status (psdims__send_friend_request srv login name t w)"
| "serve srv (Accept_request login name t) w = status (psdims__accept_request srv login name t w)"
| "serve srv (Decline_request login name t) w = status (psdims__decline_request srv login name t w)"

text \<open>Who asks, and what else of the request gets into a statement.\<close>

primrec credentials :: "request \<Rightarrow> login_info option" where
  "credentials (User_register u e) = None"
| "credentials (User_unregister login e) = login"
| "credentials (Get_user login user) = login"
| "credentials (Get_friends login t fs) = login"
| "credentials (Get_friend_info login name info) = login"
| "credentials (Get_chats login t cs) = login"
| "credentials (Get_chat_info login c info) = login"
| "credentials (Get_chat_messages login c t ms) = login"
| "credentials (Get_attachment login c t f) = login"
| "credentials (Get_pending_notifications login t sync ns) = login"
| "credentials (Get_all_data login cd) = login"
| "credentials (Create_chat login n c) = login"
| "credentials (Add_member login name c e) = login"
| "credentials (Remove_member login name c e) = login"
| "credentials (Quit_from_chat login c e) = login"
| "credentials (Send_message login c m t) = login"
| "credentials (Send_attachment login c t f e) = login"
| "credentials (Send_friend_request login name t) = login"
| "credentials (Accept_request login name t) = login"
| "credentials (Decline_request login name t) = login"

definition texts_clean :: "request \<Rightarrow> bool" where
  "texts_clean rq =
     (case rq of
        User_register u _ \<Rightarrow> register_clean u
      | Get_friend_info _ name _ \<Rightarrow> clean_opt name
      | Create_chat _ n _ \<Rightarrow> new_chat_clean n
      | Add_member _ name _ _ \<Rightarrow> clean_opt name
      | Remove_member _ name _ _ \<Rightarrow> clean_opt name
      | Send_message _ _ m _ \<Rightarrow> message_clean m
      | Send_friend_request _ name _ \<Rightarrow> clean_opt name
      | Accept_request _ name _ \<Rightarrow> clean_opt name
      | Decline_request _ name _ \<Rightarrow> clean_opt name
      | _ \<Rightarrow> True)"

definition request_clean :: "request \<Rightarrow> bool" where
  "request_clean rq \<longleftrightarrow> login_clean (credentials rq) \<and> texts_clean rq"

definition stmts_of :: "request \<Rightarrow> stmt set" where
  "stmts_of rq =
     (case rq of
        User_register _ _ \<Rightarrow> account_stmts
      | User_unregister _ _ \<Rightarrow> leave_stmts
      | Get_pending_notifications _ _ _ _ \<Rightarrow> mark_stmts
      | Create_chat _ _ _ \<Rightarrow> chat_stmts
      | Add_member _ _ _ _ \<Rightarrow> chat_stmts
      | Remove_member _ _ _ _ \<Rightarrow> chat_stmts
      | Quit_from_chat _ _ _ \<Rightarrow> chat_stmts
      | Send_message _ _ _ _ \<Rightarrow> message_stmts
      | Send_friend_request _ _ _ \<Rightarrow> friend_stmts
      | Accept_request _ _ _ \<Rightarrow> friend_stmts
      | Decline_request _ _ _ \<Rightarrow> friend_stmts
      | _ \<Rightarrow> {})"

lemma status_Some [elim!]:
  "status res = Some (r, w') \<Longrightarrow> (\<And>out. res = Some (r, out, w') \<Longrightarrow> P) \<Longrightarrow> P"
  by (auto simp: status_def)

text \<open>Every request keeps the contract of its handler.\<close>

lemma serve_confined:
  assumes "served d w" "request_clean rq" "serve srv rq w = Some (r, w')"
  shows "evolves d (stmts_of rq) w w'"
  using assms
  by (cases rq)
    (auto simp: request_clean_def texts_clean_def stmts_of_def login_clean_def
      intro: register.confined unregister.confined get_user.confined get_friends.confined get_friend_info.confined
        send_friend_request.confined accept_request.confined decline_request.confined get_chats.confined
        get_chat_info.confined get_chat_messages.confined get_all_data.confined get_pending_notifications.confined
        create_chat.confined add_member.confined remove_member.confined quit_from_chat.confined
        send_message.confined get_attachment.confined send_attachment.confined)

interpretation served: confined d "stmts_of rq" "request_clean rq" "\<lambda>w. map_option (\<lambda>(r, w). (r, (), w)) (serve srv rq w)"
  for d srv rq
  by unfold_locales (auto intro: serve_confined)

section \<open>Reachable states\<close>

inductive server_step :: "persistence \<Rightarrow> world \<Rightarrow> world \<Rightarrow> bool" for srv where
  request: "request_clean rq \<Longrightarrow> serve srv rq w = Some (r, w') \<Longrightarrow> server_step srv w w'"

abbreviation reachable :: "persistence \<Rightarrow> world \<Rightarrow> world \<Rightarrow> bool" where
  "reachable srv \<equiv> (server_step srv)\<^sup>*\<^sup>*"

inductive_cases server_stepE: "server_step srv w w'"

lemma reachable_preserves:
  assumes "reachable srv w w'" "P w"
    and "\<And>rq r w w'. request_clean rq \<Longrightarrow> serve srv rq w = Some (r, w') \<Longrightarrow> P w \<Longrightarrow> P w'"
  shows "P w'"
  using assms(1,2) by (induction rule: rtranclp_induct) (auto elim!: server_stepE intro: assms(3))

lemma serve_served: "served d w \<Longrightarrow> request_clean rq \<Longrightarrow> serve srv rq w = Some (r, w') \<Longrightarrow> served d w'"
  using serve_confined evolves_served by blast

lemma serve_preserves:
  assumes "served d w" "request_clean rq" "serve srv rq w = Some (r, w')" "P (db w)"
    and "\<And>st k rows D D'. st \<in> stmts_of rq \<Longrightarrow> fresh_for st k D \<Longrightarrow> exec d k st D = Some (rows, D') \<Longrightarrow> P D \<Longrightarrow> P D'"
  shows "P (db w')"
  by (rule served.preserves [where rq = rq and srv = srv and d = d and r = r and out = "()"])
    (use assms in \<open>auto simp: db_step_def\<close>)

lemma schema_kept:
  assumes "served d w" "db_ok d (db w)" "reachable srv w w'"
  shows "db_ok d (db w')"
proof -
  have "served d w' \<and> db_ok d (db w')"
    using assms(3) assms(1,2)
    by (rule reachable_preserves [where P = "\<lambda>w. served d w \<and> db_ok d (db w)", OF _ conjI])
      (auto intro: serve_served serve_preserves [where P = "db_ok d"] exec_db_ok)
  then show ?thesis ..
qed

text \<open>A request for the examples.\<close>

definition kim_registers :: request where
  "kim_registers =
     User_register (Some \<lparr>ri_name = Some ''kim'', ri_password = Some ''k'', ri_information = Some ''i''\<rparr>) (Some 0)"

lemma kim_clean: "request_clean kim_registers"
  by (simp add: kim_registers_def request_clean_def login_clean_def texts_clean_def register_clean_def clean_def
      clean_char_def)

lemma kim_registers_online:
  assumes "online d w" "named d ''kim'' (db w) = []" "\<not> exhausted (user_ids (db w))"
  obtains k w' where "serve srv kim_registers w = Some (SOAP_OK, w')"
    "db w' = (db w)\<lparr>t_users := t_users (db w) @
      [\<lparr>u_id = k, u_valid = Some 1, u_name = ''kim'', u_pass = ''k'', u_info = ''i''\<rparr>]\<rparr>"
  by (rule register_online [OF assms(1), of "''kim''" "''k''" "''i''" srv 0])
    (use assms(2,3) in \<open>auto simp: kim_registers_def clean_def clean_char_def status_def\<close>)

lemma sample_registration:
  obtains w' where "reachable sample_server sample_world w'" "length (t_users (db w')) = 5"
proof -
  obtain k w' where w': "serve sample_server kim_registers sample_world = Some (SOAP_OK, w')"
    "db w' = (db sample_world)\<lparr>t_users := t_users (db sample_world) @
      [\<lparr>u_id = k, u_valid = Some 1, u_name = ''kim'', u_pass = ''k'', u_info = ''i''\<rparr>]\<rparr>"
    by (rule kim_registers_online [OF sample_online]) (auto simp: sample_eval)
  then have "reachable sample_server sample_world w'"
    by (blast intro: r_into_rtranclp server_step.request kim_clean)
  then show ?thesis by (rule that) (simp add: w'(2) sample_world_def sample_db_def)
qed

section \<open>What a request may change\<close>

datatype table = Users | Chats | Friends | Members | Messages | Requests

primrec same_table :: "table \<Rightarrow> db \<Rightarrow> db \<Rightarrow> bool" where
  "same_table Users D D' \<longleftrightarrow> t_users D' = t_users D"
| "same_table Chats D D' \<longleftrightarrow> t_chats D' = t_chats D"
| "same_table Friends D D' \<longleftrightarrow> t_friends D' = t_friends D"
| "same_table Members D D' \<longleftrightarrow> t_members D' = t_members D"
| "same_table Messages D D' \<longleftrightarrow> t_messages D' = t_messages D"
| "same_table Requests D D' \<longleftrightarrow> t_requests D' = t_requests D"

definition writes :: "request \<Rightarrow> table set" where
  "writes rq =
     (case rq of
        User_register _ _ \<Rightarrow> {Users}
      | User_unregister _ _ \<Rightarrow> {Users, Members}
      | Create_chat _ _ _ \<Rightarrow> {Chats, Members}
      | Add_member _ _ _ _ \<Rightarrow> {Chats, Members}
      | Remove_member _ _ _ _ \<Rightarrow> {Chats, Members}
      | Quit_from_chat _ _ _ \<Rightarrow> {Chats, Members}
      | Get_pending_notifications _ _ _ _ \<Rightarrow> {Chats, Members}
      | Send_message _ _ _ _ \<Rightarrow> {Messages}
      | Send_friend_request _ _ _ \<Rightarrow> {Friends, Requests}
      | Accept_request _ _ _ \<Rightarrow> {Friends, Requests}
      | Decline_request _ _ _ \<Rightarrow> {Friends, Requests}
      | _ \<Rightarrow> {})"

definition touches :: "stmt \<Rightarrow> table set" where
  "touches st =
     (case st of
        Ins_user _ _ _ \<Rightarrow> {Users} | Upd_user_invalid _ \<Rightarrow> {Users} | Upd_leave_all _ _ \<Rightarrow> {Members}
      | Ins_chat _ _ _ \<Rightarrow> {Chats} | Upd_chat_invalid _ \<Rightarrow> {Chats} | Upd_admin _ _ _ \<Rightarrow> {Chats}
      | Upd_all_read _ _ \<Rightarrow> {Chats} | Upd_read _ _ _ \<Rightarrow> {Members}
      | Ins_member _ _ _ _ \<Rightarrow> {Members} | Upd_rejoin _ _ _ \<Rightarrow> {Members} | Upd_leave _ _ _ \<Rightarrow> {Members}
      | Ins_message _ _ _ _ _ \<Rightarrow> {Messages} | Ins_friend _ _ _ \<Rightarrow> {Friends} | Del_friend _ _ \<Rightarrow> {Friends}
      | Ins_request _ _ _ \<Rightarrow> {Requests} | Del_request _ _ \<Rightarrow> {Requests}
      | _ \<Rightarrow> {})"

lemma all_tables: "(\<forall>tbl. P tbl) \<longleftrightarrow> P Users \<and> P Chats \<and> P Friends \<and> P Members \<and> P Messages \<and> P Requests"
  by (metis table.exhaust)

lemma exec_touches: "exec d k st D = Some (rows, D') \<Longrightarrow> \<forall>tbl. tbl \<in> touches st \<or> same_table tbl D D'"
  unfolding all_tables by (cases st) (auto simp: touches_def split: option.splits if_splits)

lemma stmts_touch:
  "st \<in> account_stmts \<Longrightarrow> touches st \<subseteq> {Users}" "st \<in> leave_stmts \<Longrightarrow> touches st \<subseteq> {Users, Members}"
  "st \<in> friend_stmts \<Longrightarrow> touches st \<subseteq> {Friends, Requests}" "st \<in> chat_stmts \<Longrightarrow> touches st \<subseteq> {Chats, Members}"
  "st \<in> message_stmts \<Longrightarrow> touches st \<subseteq> {Messages}" "st \<in> mark_stmts \<Longrightarrow> touches st \<subseteq> {Chats, Members}"
  by (cases st; simp add: stmts_defs touches_def)+

lemma request_touch: "st \<in> stmts_of rq \<Longrightarrow> touches st \<subseteq> writes rq"
  unfolding stmts_of_def writes_def by (cases rq) (simp_all add: stmts_touch)

lemma serve_frame:
  assumes "served d w" "request_clean rq" "serve srv rq w = Some (r, w')" "tbl \<notin> writes rq"
  shows "same_table tbl (db w) (db w')"
proof (rule serve_preserves [OF assms(1-3), where P = "same_table tbl (db w)"])
  show "same_table tbl (db w) (db w)" by (cases tbl) simp_all
next
  fix st k rows D D'
  assume "st \<in> stmts_of rq" "exec d k st D = Some (rows, D')" "same_table tbl (db w) D"
  then show "same_table tbl (db w) D'"
    using exec_touches [of d k st D rows D'] request_touch [of st rq] assms(4) by (cases tbl) auto
qed

end
