(* ===== verification/Server_Guard.thy ===== *)
theory Server_Guard
  imports Server_States
begin

text \<open>
  What the login keeps away, in any environment.  \<open>guarded\<close> is the contract of a handler that does
  nothing before \<open>check_login\<close> has accepted; it is interpreted for the nineteen handlers with a login.
\<close>

section \<open>Opening a connection and logging in\<close>

lemma clone_cases:
  assumes "clone_persistence srv w = Some (opened, w1)"
  obtains (none) "opened = None" "db w1 = db w" "env w1 = env w" "files w1 = files w" "connections w1 = connections w"
  | (opened) p where "opened = Some p" "mysql p = Some (connects w)" "connected w w1"
  using assms
  by (auto simp: clone_persistence_def init_persistence_def malloc_def mysql_real_connect_def alloc_copy_def Let_def
      connected_def bind_eq_Some_conv split: if_splits)

lemma login_result_connected: "connected w w1 \<Longrightarrow> login_result d login w1 = login_result d login w"
  by (auto simp: login_result_def connected_def Let_def split: option.split)

lemma with_login_cases:
  assumes "with_login srv login args out body w = Some (r, out', w')" "sound d w" "login_fit login"
  obtains (refused) "r = SOAP_USER_ERROR" "out' = out" "db w' = db w" "env w' = env w" "files w' = files w"
      "connections w \<subseteq> connections w'"
  | (accepted) p w1 where "args" "0 \<le> sint (login_result d login w)" "body p (login_result d login w) w1 = Some (r, out', w')"
      "mysql p = Some (connects w)" "sound d w1" "db w1 = db w" "env w1 = env w" "ticks w1 = ticks w" "files w1 = files w"
proof -
  obtain opened w1 where clone: "clone_persistence srv w = Some (opened, w1)"
    using assms(1) by (auto simp: with_login_def bind_eq_Some_conv)
  then show ?thesis
  proof (cases rule: clone_cases)
    case none
    then show ?thesis using assms(1) clone by (intro refused) (auto simp: with_login_def)
  next
    case (opened p)
    let ?w2 = "login_world d login w1"
    have w1: "sound d w1" "db w1 = db w" "env w1 = env w" "ticks w1 = ticks w" "files w1 = files w"
      "connections w1 = insert (connects w) (connections w)"
      using opened(3) assms(2) by (simp_all add: connected_def sound_def served_def)
    have login: "check_login p login w1 = Some (login_result d login w, ?w2)"
      using check_login_eq [OF w1(1) opened(2) assms(3)] login_result_connected [OF opened(3)] by simp
    show ?thesis
    proof (cases "args \<and> 0 \<le> sint (login_result d login w)")
      case True
      then show ?thesis
        using accepted [of p ?w2] assms(1) clone opened(1,2) login w1
        by (auto simp: with_login_def sound_def served_def not_less)
    next
      case False
      then show ?thesis
        using assms(1) clone opened(1) login w1
        by (intro refused) (auto simp: with_login_def not_less split: if_splits)
    qed
  qed
qed

text \<open>The two ways in which a login is not refused: it is right, or the query for the password fails, which
  \<open>check_login\<close> does not notice, and the password is what the uninitialised array happens to hold.\<close>

definition guessed :: "login_info option \<Rightarrow> world \<Rightarrow> bool" where
  "guessed login w \<longleftrightarrow> outage (env w) (Suc (queries w)) \<and>
     (\<exists>l. login = Some l \<and> li_password l = Some (stack_junk (env w)))"

lemma stranger_result: "login_user d login (db w) = None \<Longrightarrow> \<not> guessed login w \<Longrightarrow> login_result d login w = -1"
  by (auto simp: guessed_def login_result_def login_user_def Let_def split: option.splits if_splits)

lemma online_not_guessed: "online d w \<Longrightarrow> \<not> guessed login w"
  by (simp add: guessed_def online_outage)

section \<open>The contract\<close>

locale guarded =
  fixes srv :: persistence and login :: "login_info option" and fit :: bool and out :: 'a
    and handler :: "world \<Rightarrow> 'a handled"
  assumes guarded: "fit \<Longrightarrow> \<exists>args body. handler = with_login srv login args out body"
begin

lemma rejects:
  assumes "fit" "sound d w" "login_fit login" "login_user d login (db w) = None" "\<not> guessed login w"
    and "handler w = Some (r, out', w')"
  shows "r = SOAP_USER_ERROR \<and> out' = out \<and> db w' = db w \<and> env w' = env w \<and> files w' = files w"
proof -
  obtain args body where "with_login srv login args out body w = Some (r, out', w')"
    using guarded [OF assms(1)] assms(6) by auto
  then show ?thesis
    using assms(2,3) by (cases rule: with_login_cases) (simp_all add: stranger_result [OF assms(4,5)])
qed

lemma leaks:
  assumes "fit" "online d w" "login_fit login" "login_user d login (db w) = None"
  shows "\<exists>w'. status (handler w) = Some (SOAP_USER_ERROR, w') \<and> online d w' \<and> db w' = db w \<and> env w' = env w \<and>
    connections w' = insert (connects w) (connections w) \<and> connects w' = Suc (connects w)"
proof -
  obtain args body where handler: "handler = with_login srv login args out body"
    using guarded [OF assms(1)] by auto
  obtain p w1 where init: "init_persistence (user_name srv) (user_pass srv) w = Some (Some p, w1)"
    "mysql p = Some (connects w)" "connected w w1" "online d w1"
    by (rule init_persistence_online [OF assms(2)])
  have login: "check_login p login w1 = Some (-1, login_world d login w1)"
    using check_login_eq [OF online_sound [OF init(4)] init(2) assms(3)] login_result_connected [OF init(3)]
      stranger_result [OF assms(4) online_not_guessed [OF assms(2)]] by simp
  show ?thesis
    by (rule exI [of _ "if args then login_world d login w1 else w1"])
      (use init login in \<open>simp add: handler with_login_def clone_persistence_def connected_def status_def\<close>)
qed

end

section \<open>The handlers with a login\<close>

interpretation unregister: guarded srv login "e \<noteq> None" "Some 1" "psdims__user_unregister srv login e"
  for srv login e
  by unfold_locales (unfold psdims__user_unregister_def Let_def, intro exI ext, subst if_not_P, assumption, rule refl)

interpretation get_user: guarded srv login "True" "user" "psdims__get_user srv login user"
  for srv login user
  by unfold_locales (auto simp: psdims__get_user_def fun_eq_iff)

interpretation get_friends: guarded srv login "True" "fs" "psdims__get_friends srv login t fs"
  for srv login t fs
  by unfold_locales (auto simp: psdims__get_friends_def fun_eq_iff)

interpretation get_friend_info: guarded srv login "True" "info" "psdims__get_friend_info srv login name info"
  for srv login name info
  by unfold_locales (auto simp: psdims__get_friend_info_def fun_eq_iff)

interpretation send_friend_request: guarded srv login "True" "t" "psdims__send_friend_request srv login name t"
  for srv login name t
  by unfold_locales (auto simp: psdims__send_friend_request_def fun_eq_iff)

interpretation accept_request: guarded srv login "True" "t" "psdims__accept_request srv login name t"
  for srv login name t
  by unfold_locales (auto simp: psdims__accept_request_def fun_eq_iff)

interpretation decline_request: guarded srv login "True" "t" "psdims__decline_request srv login name t"
  for srv login name t
  by unfold_locales (auto simp: psdims__decline_request_def fun_eq_iff)

interpretation get_chats: guarded srv login "True" "cs" "psdims__get_chats srv login t cs"
  for srv login t cs
  by unfold_locales (auto simp: psdims__get_chats_def fun_eq_iff)

interpretation get_chat_info: guarded srv login "True" "info" "psdims__get_chat_info srv login c info"
  for srv login c info
  by unfold_locales (auto simp: psdims__get_chat_info_def fun_eq_iff)

interpretation get_chat_messages: guarded srv login "True" "ms" "psdims__get_chat_messages srv login c t ms"
  for srv login c t ms
  by unfold_locales (auto simp: psdims__get_chat_messages_def fun_eq_iff)

interpretation get_all_data: guarded srv login "True" "cd" "psdims__get_all_data srv login cd"
  for srv login cd
  by unfold_locales (auto simp: psdims__get_all_data_def fun_eq_iff)

interpretation get_pending_notifications: guarded srv login "True" "ns" "psdims__get_pending_notifications srv login t sync ns"
  for srv login t sync ns
  by unfold_locales (auto simp: psdims__get_pending_notifications_def fun_eq_iff)

interpretation create_chat: guarded srv login "True" "c" "psdims__create_chat srv login n c"
  for srv login n c
  by unfold_locales (auto simp: psdims__create_chat_def fun_eq_iff)

interpretation add_member: guarded srv login "True" "e" "psdims__add_member srv login name c e"
  for srv login name c e
  by unfold_locales (auto simp: psdims__add_member_def fun_eq_iff)

interpretation remove_member: guarded srv login "True" "e" "psdims__remove_member srv login name c e"
  for srv login name c e
  by unfold_locales (auto simp: psdims__remove_member_def fun_eq_iff)

interpretation quit_from_chat: guarded srv login "True" "e" "psdims__quit_from_chat srv login c e"
  for srv login c e
  by unfold_locales (auto simp: psdims__quit_from_chat_def fun_eq_iff)

interpretation send_message: guarded srv login "True" "t" "psdims__send_message srv login c m t"
  for srv login c m t
  by unfold_locales (auto simp: psdims__send_message_def fun_eq_iff)

interpretation get_attachment: guarded srv login "True" "f" "psdims__get_attachment srv login c t f"
  for srv login c t f
  by unfold_locales (auto simp: psdims__get_attachment_def fun_eq_iff)

interpretation send_attachment: guarded srv login "e \<noteq> None" "Some 0" "psdims__send_attachment srv login c t f e"
  for srv login c t f e
  by unfold_locales (unfold psdims__send_attachment_def Let_def, intro exI ext, subst if_not_P, assumption, rule refl)

text \<open>gSOAP passes valid pointers for \<open>ERRCODE\<close>; only these two handlers rely on it.\<close>

definition pointers :: "request \<Rightarrow> bool" where
  "pointers rq =
     (case rq of
        User_register _ _ \<Rightarrow> False
      | User_unregister _ e \<Rightarrow> e \<noteq> None
      | Send_attachment _ _ _ _ e \<Rightarrow> e \<noteq> None
      | _ \<Rightarrow> True)"

lemmas rejects_all =
    unregister.rejects get_user.rejects get_friends.rejects get_friend_info.rejects send_friend_request.rejects
    accept_request.rejects decline_request.rejects get_chats.rejects get_chat_info.rejects
    get_chat_messages.rejects get_all_data.rejects get_pending_notifications.rejects create_chat.rejects
    add_member.rejects remove_member.rejects quit_from_chat.rejects send_message.rejects get_attachment.rejects
    send_attachment.rejects

lemma serve_rejects:
  assumes "pointers rq" "sound d w" "login_fit (credentials rq)" "login_user d (credentials rq) (db w) = None"
    and "\<not> guessed (credentials rq) w" "serve srv rq w = Some (r, w')"
  shows "r = SOAP_USER_ERROR \<and> db w' = db w \<and> env w' = env w \<and> files w' = files w"
  using assms
  by (cases rq) (auto simp: pointers_def dest!: rejects_all [rotated 5])

lemmas leaks_all =
    unregister.leaks get_user.leaks get_friends.leaks get_friend_info.leaks send_friend_request.leaks
    accept_request.leaks decline_request.leaks get_chats.leaks get_chat_info.leaks get_chat_messages.leaks
    get_all_data.leaks get_pending_notifications.leaks create_chat.leaks add_member.leaks remove_member.leaks
    quit_from_chat.leaks send_message.leaks get_attachment.leaks send_attachment.leaks

lemma serve_leaks:
  assumes "pointers rq" "online d w" "login_fit (credentials rq)" "login_user d (credentials rq) (db w) = None"
  shows "\<exists>w'. serve srv rq w = Some (SOAP_USER_ERROR, w') \<and> online d w' \<and> db w' = db w \<and> env w' = env w \<and>
    connections w' = insert (connects w) (connections w) \<and> connects w' = Suc (connects w)"
  using assms by (cases rq) (simp_all add: pointers_def leaks_all)

section \<open>Strangers\<close>

text \<open>C14. A request with a login that is not right, its name being one that cannot change a statement, to any of the nineteen operations with a login: it is refused and
  changes neither the database nor the files, whichever connections, queries, allocations and file
  operations fail meanwhile, with one exception: the second query of the request, the one for the
  password, fails and the password is what the stack holds, see \<open>junk_password_accepted\<close>.\<close>

theorem strangers_change_nothing:
  assumes "pointers rq" "sound d w" "login_fit (credentials rq)" "login_user d (credentials rq) (db w) = None"
    and "serve srv rq w = Some (r, w')"
  shows "r = SOAP_USER_ERROR \<and> db w' = db w \<and> files w' = files w \<or>
    outage (env w) (Suc (queries w)) \<and>
      (\<exists>l. credentials rq = Some l \<and> li_password l = Some (stack_junk (env w)))"
  using serve_rejects [OF assms(1-4) _ assms(5)] by (auto simp: guessed_def)

definition intruder :: request where
  "intruder = Remove_member (login_of ''ana'' ''x'') (Some ''bob'') 7 None"

lemma intruder_stranger:
  "pointers intruder" "login_fit (credentials intruder)" "login_user sample_dialect (credentials intruder) (db sample_world) = None"
  by (simp_all add: intruder_def pointers_def sample_eval)

lemma strangers_change_nothing_witness:
  "\<exists>w'. serve sample_server intruder sample_world = Some (SOAP_USER_ERROR, w') \<and> db w' = db sample_world"
proof -
  obtain w' where w': "serve sample_server intruder sample_world = Some (SOAP_USER_ERROR, w')"
    using serve_leaks [OF intruder_stranger(1) sample_online intruder_stranger(2,3)] by blast
  from strangers_change_nothing [OF intruder_stranger(1) online_sound [OF sample_online] intruder_stranger(2,3) w'] w'
  show ?thesis using online_outage [OF sample_online] by blast
qed

text \<open>A server that works through a list of requests.\<close>

primrec serve_all :: "persistence \<Rightarrow> request list \<Rightarrow> world \<Rightarrow> world option" where
  "serve_all srv [] w = Some w"
| "serve_all srv (rq # rqs) w = do { (_, w) \<leftarrow> serve srv rq w; serve_all srv rqs w }"

text \<open>C32. A request that is refused because its login is not right leaves a connection to the database open,
  although the server works: after n such requests, in any order and to any of the nineteen operations
  with a login, there are n more, and the database is as before.\<close>

theorem refused_requests_leak:
  assumes "online d w"
    and "\<And>rq. rq \<in> set rqs \<Longrightarrow> pointers rq \<and> login_fit (credentials rq) \<and>
      login_user d (credentials rq) (db w) = None"
  shows "\<exists>w'. serve_all srv rqs w = Some w' \<and> db w' = db w \<and>
    connections w' = connections w \<union> {connects w ..< connects w + length rqs}"
  using assms
proof (induction rqs arbitrary: w)
  case (Cons rq rqs)
  then obtain w1 where w1: "serve srv rq w = Some (SOAP_USER_ERROR, w1)" "online d w1" "db w1 = db w" "env w1 = env w"
    "connections w1 = insert (connects w) (connections w)" "connects w1 = Suc (connects w)"
    using serve_leaks [of rq d w srv] by auto
  have "\<exists>w'. serve_all srv rqs w1 = Some w' \<and> db w' = db w1 \<and>
      connections w' = connections w1 \<union> {connects w1 ..< connects w1 + length rqs}"
    by (rule Cons.IH) (use Cons.prems(2) w1 in auto)
  with w1 show ?case by (auto simp: atLeastLessThan_def atLeastSucAtMost_greaterThanAtMost)
qed simp

lemma refused_requests_leak_witness:
  "\<exists>w'. serve_all sample_server (replicate 1000 intruder) sample_world = Some w' \<and> connections w' = {0 ..< 1000}"
  using refused_requests_leak [OF sample_online, of "replicate 1000 intruder" sample_server] intruder_stranger
  by (auto simp: sample_world_def)

section \<open>A password from the stack\<close>

text \<open>When the query for the password fails, which \<open>check_login\<close> does not notice, the password is compared with
  an uninitialised array: a client who knows its content is accepted as any user.\<close>

theorem junk_password_accepted:
  assumes "sound d w" "mysql p = Some h" "short name" "find_user d name (db w) = Some u"
    and "\<not> outage (env w) (queries w)" "outage (env w) (Suc (queries w))"
  shows "\<exists>w'. check_login p (Some \<lparr>li_name = Some name, li_password = Some (stack_junk (env w))\<rparr>) w = Some (u_id u, w')"
  using check_login_eq [OF assms(1,2), of "Some \<lparr>li_name = Some name, li_password = Some (stack_junk (env w))\<rparr>"] assms(3-6)
  by (simp add: login_fit_def login_result_def)

lemma junk_password_accepted_witness:
  "\<exists>w'. check_login (sample_server\<lparr>mysql := Some 0\<rparr>) (login_of ''ana'' ''junk'')
    (sample_world\<lparr>env := sample_env\<lparr>outage := \<lambda>n. n = 1\<rparr>\<rparr>) = Some (2, w')"
proof -
  let ?w = "sample_world\<lparr>env := sample_env\<lparr>outage := \<lambda>n. n = 1\<rparr>\<rparr>"
  have "sound sample_dialect ?w"
    using sample_db_ok sample_served by (simp add: sound_def served_def sample_world_def sample_env_def)
  from junk_password_accepted [OF this, of "sample_server\<lparr>mysql := Some 0\<rparr>" 0 "''ana''" "t_users sample_db ! 1"]
  show ?thesis by (simp add: sample_eval)
qed

end
