(* ===== verification/Server_History.thy ===== *)
theory Server_History
  imports Server_States
begin

text \<open>
  What stays over the whole life of the server, in any environment: what the database never forgets,
  who can never log in, and that the time of a message identifies it within its chat.
\<close>

section \<open>What is never forgotten\<close>

definition kept_rows :: "('a \<Rightarrow> 'a \<Rightarrow> bool) \<Rightarrow> 'a list \<Rightarrow> 'a list \<Rightarrow> bool" where
  "kept_rows R xs ys \<longleftrightarrow> (\<forall>x \<in> set xs. \<exists>y \<in> set ys. R x y)"

definition same_account :: "user_row \<Rightarrow> user_row \<Rightarrow> bool" where
  "same_account u u' \<longleftrightarrow> u_id u' = u_id u \<and> u_name u' = u_name u \<and> u_pass u' = u_pass u \<and> u_info u' = u_info u \<and>
     (valid_user u' \<longrightarrow> valid_user u)"

definition same_chat :: "chat_row \<Rightarrow> chat_row \<Rightarrow> bool" where
  "same_chat c c' \<longleftrightarrow> c_id c' = c_id c \<and> c_description c' = c_description c \<and> c_time c' = c_time c \<and>
     (c_valid c' = 1 \<longrightarrow> c_valid c = 1)"

definition same_member :: "member_row \<Rightarrow> member_row \<Rightarrow> bool" where
  "same_member m m' \<longleftrightarrow> m_user m' = m_user m \<and> m_chat m' = m_chat m \<and> sint (m_read_time m) \<le> sint (m_read_time m')"

definition later :: "db \<Rightarrow> db \<Rightarrow> bool" where
  "later D D' \<longleftrightarrow> kept_rows same_account (t_users D) (t_users D') \<and> kept_rows same_chat (t_chats D) (t_chats D') \<and>
     kept_rows same_member (t_members D) (t_members D') \<and>
     (\<exists>fs. t_friends D' = t_friends D @ fs) \<and> (\<exists>xs. t_messages D' = t_messages D @ xs)"

lemma kept_rows_map: "(\<And>x. R x (f x)) \<Longrightarrow> kept_rows R xs (map f xs)"
  by (auto simp: kept_rows_def)

lemma kept_rows_trans:
  "kept_rows R xs ys \<Longrightarrow> kept_rows R ys zs \<Longrightarrow> (\<And>x y z. R x y \<Longrightarrow> R y z \<Longrightarrow> R x z) \<Longrightarrow> kept_rows R xs zs"
  unfolding kept_rows_def by meson

lemma same_refl [simp]: "same_account u u" "same_chat c c" "same_member m m"
  by (simp_all add: same_account_def same_chat_def same_member_def)

lemma rows_refl [simp]:
  "kept_rows same_account us us" "kept_rows same_chat cs cs" "kept_rows same_member ms ms"
  "kept_rows same_account us (us @ us')" "kept_rows same_chat cs (cs @ cs')" "kept_rows same_member ms (ms @ ms')"
  unfolding kept_rows_def set_append by (blast intro: same_refl)+

lemma later_refl [simp]: "later D D"
  by (simp add: later_def)

lemma later_trans [trans]: "later D1 D2 \<Longrightarrow> later D2 D3 \<Longrightarrow> later D1 D3"
  unfolding later_def
  by (elim conjE exE, intro conjI; (erule (1) kept_rows_trans)?)
    (auto simp: same_account_def same_chat_def same_member_def)

lemma exec_later:
  assumes "st \<in> stmts_of rq" "exec d k st D = Some (rows, D')"
  shows "later D D'"
proof -
  have "\<forall>i j. st \<noteq> Del_friend i j"
    using assms(1) by (cases rq) (auto simp: stmts_of_def stmts_defs)
  with assms(2) show ?thesis
    by (cases st) (auto simp: later_def same_account_def same_chat_def same_member_def valid_user_def
        intro!: kept_rows_map split: option.splits if_splits)
qed

lemma serve_later: "served d w \<Longrightarrow> request_clean rq \<Longrightarrow> serve srv rq w = Some (r, w') \<Longrightarrow> later (db w) (db w')"
  by (rule serve_preserves [where P = "later (db w)"]) (auto intro: later_trans exec_later)

lemma reachable_served: "reachable srv w w' \<Longrightarrow> served d w \<Longrightarrow> served d w'"
  by (rule reachable_preserves [where P = "served d"]) (auto intro: serve_served)

lemma reachable_later: "reachable srv w w' \<Longrightarrow> served d w \<Longrightarrow> later (db w) (db w')"
proof (induction rule: rtranclp_induct)
  case (step w1 w2)
  then show ?case
    using reachable_served [of srv w w1 d] by (auto elim!: server_stepE intro: later_trans serve_later)
qed simp

text \<open>C29. Whatever requests come and whatever fails, the server forgets no account (unlike \<open>doc/Use_cases.txt\<close>,
  which has it deleted on unregistration, the code only clears \<open>VALID\<close>: the row keeps its id, name, password and
  information, and an account that is not valid never becomes valid again), no chat (a closed one stays closed), no member's row
  (its mark only grows), no friendship and no message.\<close>

theorem reachable_history:
  assumes "served d w" "reachable srv w w'"
  shows "later (db w) (db w')"
  by (rule reachable_later [OF assms(2,1)])

lemma reachable_history_witness:
  "\<exists>w'. reachable sample_server sample_world w' \<and> later (db sample_world) (db w') \<and> db w' \<noteq> db sample_world"
proof -
  obtain w' where w': "reachable sample_server sample_world w'" "length (t_users (db w')) = 5"
    by (rule sample_registration)
  with reachable_history [OF sample_served w'(1)] show ?thesis
    by (intro exI [of _ w']) (auto simp: sample_world_def sample_db_def)
qed

section \<open>Accounts that nobody can use\<close>

lemma invalid_for_ever:
  assumes "served d w" "db_ok d (db w)" "reachable srv w w'"
    and "u \<in> set (t_users (db w))" "\<not> valid_user u" "login_user d login (db w') = Some v"
  shows "u_id v \<noteq> u_id u"
proof
  assume same: "u_id v = u_id u"
  have ok: "db_ok d (db w')" using assms(1-3) by (rule schema_kept)
  obtain u' where u': "u' \<in> set (t_users (db w'))" "same_account u u'"
    using reachable_later [OF assms(3,1)] assms(4) by (auto simp: later_def kept_rows_def)
  have v: "v \<in> set (t_users (db w'))" "valid_user v" using login_user_found [OF ok assms(6)] by blast+
  have "find_id (u_id v) (db w') = Some v" "find_id (u_id u') (db w') = Some u'"
    using find_id_member [OF ok] v(1) u'(1) by blast+
  then have "v = u'" using same u'(2) by (simp add: same_account_def)
  with v(2) u'(2) assms(5) show False by (simp add: same_account_def)
qed

text \<open>The database that the script creates: one account, whose column \<open>VALID\<close> is \<open>NULL\<close>.\<close>

definition initial_db :: db where
  "initial_db = \<lparr>t_users = [\<lparr>u_id = 1, u_valid = None, u_name = ''System'', u_pass = [],
       u_info = ''Sup, im da real system''\<rparr>],
     t_chats = [], t_friends = [], t_members = [], t_messages = [], t_requests = []\<rparr>"

lemma initial_db_ok: "db_ok d initial_db"
  by (simp add: db_ok_def initial_db_def user_ids_def chat_ids_def)

text \<open>C30. Starting from the database of the script, nobody ever logs in as the system account, although its
  password is empty.\<close>

theorem system_never_logs_in:
  assumes "served d w" "db w = initial_db" "reachable srv w w'" "login_user d login (db w') = Some v"
  shows "u_id v \<noteq> 1"
  using invalid_for_ever [OF assms(1) _ assms(3) _ _ assms(4),
      of "\<lparr>u_id = 1, u_valid = None, u_name = ''System'', u_pass = [], u_info = ''Sup, im da real system''\<rparr>"]
    initial_db_ok [of d] assms(2) by (simp add: initial_db_def valid_user_def)

lemma system_never_logs_in_witness:
  "\<exists>w' v. reachable sample_server (sample_world\<lparr>db := initial_db\<rparr>) w' \<and>
    login_user sample_dialect (login_of ''kim'' ''k'') (db w') = Some v \<and> u_id v \<noteq> 1"
proof -
  let ?w = "sample_world\<lparr>db := initial_db\<rparr>"
  have served: "served sample_dialect ?w" using sample_served by (simp add: served_def)
  have "online sample_dialect ?w"
    using sample_online initial_db_ok by (simp add: online_def sound_def served_def plenty_def del: online_sound online_served)
  then obtain k w' where w': "serve sample_server kim_registers ?w = Some (SOAP_OK, w')"
    "db w' = initial_db\<lparr>t_users := t_users initial_db @
      [\<lparr>u_id = k, u_valid = Some 1, u_name = ''kim'', u_pass = ''k'', u_info = ''i''\<rparr>]\<rparr>"
    by (rule kim_registers_online) (auto simp: initial_db_def sample_eval)
  then have "reachable sample_server ?w w'" by (blast intro: r_into_rtranclp server_step.request kim_clean)
  moreover have "login_user sample_dialect (login_of ''kim'' ''k'') (db w') =
      Some \<lparr>u_id = k, u_valid = Some 1, u_name = ''kim'', u_pass = ''k'', u_info = ''i''\<rparr>"
    by (simp add: w'(2) initial_db_def sample_eval)
  ultimately show ?thesis using system_never_logs_in [OF served] by fastforce
qed

end
