(* ===== verification/Message_Times.thy ===== *)
theory Message_Times
  imports Server_Guard Server_History
begin

text \<open>
  A message has no id: the program takes its chat and its time for one.  In a server that answers one
  request after the other this is right, whatever fails: two messages of a chat never have the same
  time.
\<close>

definition times_unique :: "db \<Rightarrow> bool" where
  "times_unique D \<longleftrightarrow> distinct (map (\<lambda>x. (s_chat x, s_time x)) (t_messages D))"

lemma few_at_a_time:
  assumes "times_unique D"
  shows "length (messages_at D c t) \<le> 1"
proof -
  have "distinct (map (\<lambda>x. (s_chat x, s_time x)) (messages_at D c t))"
    using assms distinct_map_filter by (fastforce simp: times_unique_def messages_at_def)
  moreover have "set (map (\<lambda>x. (s_chat x, s_time x)) (messages_at D c t)) \<subseteq> {(c, t)}"
    by (auto simp: messages_at_def)
  ultimately show ?thesis
    using card_mono [of "{(c, t)}" "set (map (\<lambda>x. (s_chat x, s_time x)) (messages_at D c t))"] distinct_card
    by fastforce
qed

text \<open>The loop ends only with a time at which the chat has no message.\<close>

lemma send_wait_free:
  "send_wait p c t w = Some y \<Longrightarrow> mysql p = Some h \<longrightarrow> served d w \<longrightarrow> times_unique (db w) \<longrightarrow>
   messages_at (db w) c (fst y) = [] \<and> db (snd y) = db w \<and> env (snd y) = env w"
proof (rule send_wait.raw_induct [where P = "\<lambda>p c t w y. mysql p = Some h \<longrightarrow> served d w \<longrightarrow> times_unique (db w) \<longrightarrow>
    messages_at (db w) c (fst y) = [] \<and> db (snd y) = db w \<and> env (snd y) = env w"])
  fix rec p c t w y
  assume IH: "\<And>p c t w y. rec p c t w = Some y \<Longrightarrow> mysql p = Some h \<longrightarrow> served d w \<longrightarrow> times_unique (db w) \<longrightarrow>
      messages_at (db w) c (fst y) = [] \<and> db (snd y) = db w \<and> env (snd y) = env w"
    and body: "do { (r, w) \<leftarrow> exist_timestamp_in_messages p c t w;
      if r \<noteq> 0 then (case now w of (t, w) \<Rightarrow> rec p c t w) else Some (t, w) } = Some y"
  show "mysql p = Some h \<longrightarrow> served d w \<longrightarrow> times_unique (db w) \<longrightarrow>
      messages_at (db w) c (fst y) = [] \<and> db (snd y) = db w \<and> env (snd y) = env w"
  proof (intro impI)
    assume hyps: "mysql p = Some h" "served d w" "times_unique (db w)"
    let ?w1 = "asked 200 (Sel_message_time c t) w"
    note ask = exist_timestamp_eq [OF hyps(2,1), of c t]
    show "messages_at (db w) c (fst y) = [] \<and> db (snd y) = db w \<and> env (snd y) = env w"
    proof (cases "outage (env w) (queries w) \<or> messages_at (db w) c t \<noteq> []")
      case True
      have "length (messages_at (db w) c t) = 1" if "messages_at (db w) c t \<noteq> []"
        using that few_at_a_time [OF hyps(3), of c t] by (cases "messages_at (db w) c t") auto
      then have "(if outage (env w) (queries w) then -1 else of_nat (length (messages_at (db w) c t)) :: cint) \<noteq> 0"
        using True by auto
      then have "rec p c (clock (env w) (ticks w)) (?w1\<lparr>ticks := Suc (ticks w)\<rparr>) = Some y"
        using body by (simp add: ask del: of_nat_eq_0_iff split: if_split_asm)
      from IH [OF this] hyps show ?thesis by (simp add: served_def)
    next
      case False
      then show ?thesis using body by (auto simp: ask)
    qed
  qed
qed

lemma insert_message:
  "exec d k (Ins_message i c f msg t) D = Some (rows, D') \<Longrightarrow>
   \<exists>x. t_messages D' = t_messages D @ [x] \<and> s_chat x = c \<and> s_time x = t"
  by (auto split: option.splits if_splits)

lemma send_messages_unique:
  assumes "mysql p = Some h" "served d w" "clean msg" "case f of None \<Rightarrow> True | Some s \<Rightarrow> clean s"
    and "send_messages p c i t f msg w = (r, w')" "times_unique (db w)" "messages_at (db w) c t = []"
  shows "times_unique (db w')"
proof (cases "message_fits i c t msg")
  case True
  then have "wrote d (Ins_message i c f msg t) w r w'"
    using send_messages_wrote [OF assms(2,1) True assms(3,4)] assms(5) by simp
  then consider "db w' = db w" | k rows where "exec d k (Ins_message i c f msg t) (db w) = Some (rows, db w')"
    unfolding wrote_def by blast
  then show ?thesis
  proof cases
    case 2
    from insert_message [OF 2] obtain x where "t_messages (db w') = t_messages (db w) @ [x]" "s_chat x = c" "s_time x = t"
      by blast
    then show ?thesis
      using assms(6,7) by (auto simp: times_unique_def messages_at_def filter_empty_conv)
  qed (use assms(6) in simp)
next
  case False
  then show ?thesis using assms(1,5,6) by (simp add: send_messages_too_long)
qed

section \<open>The handler\<close>

lemma evolves_none: "evolves d {} w w' \<Longrightarrow> db w' = db w \<and> served d w'"
proof -
  assume ev: "evolves d {} w w'"
  have "(db_step d {})\<^sup>*\<^sup>* (db w) (db w') \<Longrightarrow> db w' = db w"
    by (induction rule: rtranclp_induct) (simp_all add: db_step_def)
  then show ?thesis using evolves_served [OF ev] ev by (simp add: evolves_def)
qed

text \<open>As \<open>with_login_cases\<close>, for logins of any length.\<close>

lemma with_login_any:
  assumes "with_login srv login args out body w = Some (r, out', w')" "served d w" "login_clean login"
  obtains (refused) "db w' = db w"
  | (accepted) p i w1 where "body p i w1 = Some (r, out', w')" "mysql p = Some (connects w)" "served d w1" "db w1 = db w"
proof -
  obtain opened w1 where clone: "clone_persistence srv w = Some (opened, w1)"
    using assms(1) by (auto simp: with_login_def bind_eq_Some_conv)
  then show ?thesis
  proof (cases rule: clone_cases)
    case none
    then show ?thesis using assms(1) clone by (intro refused) (auto simp: with_login_def)
  next
    case (opened p)
    have "evolves d {} w w1" using clone_persistence_ev [OF clone, of d "{}" w] assms(2) by simp
    note w1 = this evolves_none [OF this]
    show ?thesis
    proof (cases args)
      case False
      then show ?thesis using assms(1) clone opened w1 by (intro refused) (auto simp: with_login_def)
    next
      case True
      then obtain i w2 where login: "check_login p login w1 = Some (i, w2)"
        using assms(1) clone opened by (auto simp: with_login_def bind_eq_Some_conv)
      have "evolves d {} w w2" using check_login_ev [OF login w1(1) assms(3)] .
      note w2 = evolves_none [OF this]
      show ?thesis
        using assms(1) clone opened(1,2) login True w2
        by (cases "sint i < 0") (auto simp: with_login_def intro: refused accepted)
    qed
  qed
qed

lemma send_message_unique:
  assumes "psdims__send_message srv login c m t0 w = Some (r, out, w')" "served d w" "login_clean login"
    and "message_clean m" "times_unique (db w)"
  shows "times_unique (db w')"
  using assms(1) unfolding psdims__send_message_def
proof (cases rule: with_login_any [OF _ assms(2,3), consumes 1, case_names refused accepted])
  case refused
  then show ?thesis using assms(5) by simp
next
  case (accepted p i w1)
  note ask = exist_user_in_chat_eq [OF accepted(3,2), of i c]
  let ?w2 = "(asked 200 (Sel_member i c) w1)\<lparr>ticks := Suc (ticks w1)\<rparr>"
  show ?thesis
  proof (cases "db w' = db w")
    case True
    then show ?thesis using assms(5) by simp
  next
    case False
    then obtain sm msg t w3 r4 w4 where m: "m = Some sm" "sm_text sm = Some msg"
      and wait: "send_wait p c (clock (env w1) (ticks w1)) ?w2 = Some (t, w3)"
      and send: "send_messages p c i t (sm_file_name sm) msg w3 = (r4, w4)" and db: "db w' = db w4"
      using accepted(1,4)
      by (auto simp: ask elim!: bind_SomeE split: if_split_asm prod.split_asm)
    have free: "messages_at (db w3) c t = []" "db w3 = db w" "env w3 = env w1"
      using send_wait_free [OF wait] accepted(2-4) assms(5) by (auto simp: served_def)
    have "served d w3" using free(3) accepted(3) by (simp add: served_def)
    then have "times_unique (db w4)"
      using send_messages_unique [OF accepted(2) _ _ _ send] free assms(4,5) m
      by (auto simp: message_clean_def clean_opt_def split: option.splits)
    then show ?thesis using db by simp
  qed
qed

lemma serve_unique:
  assumes "served d w" "request_clean rq" "serve srv rq w = Some (r, w')" "times_unique (db w)"
  shows "times_unique (db w')"
proof (cases "Messages \<in> writes rq")
  case True
  then obtain login c m t where "rq = Send_message login c m t" by (cases rq) (auto simp: writes_def)
  then show ?thesis
    using assms by (auto simp: request_clean_def texts_clean_def intro: send_message_unique)
next
  case False
  then show ?thesis using serve_frame [OF assms(1-3) False] assms(4) by (simp add: times_unique_def)
qed

text \<open>C15. Whatever fails, in a server that answers one request after the other two messages of the same chat never
  have the same time.  Handlers that run at the same time do not keep this, see \<open>send_message_race\<close>.\<close>

theorem message_times_unique:
  assumes "served d w" "times_unique (db w)" "reachable srv w w'"
    and "x \<in> set (t_messages (db w'))" "y \<in> set (t_messages (db w'))" "s_chat x = s_chat y" "s_time x = s_time y"
  shows "x = y"
proof -
  have "served d w' \<and> times_unique (db w')"
    using assms(3) conjI [OF assms(1,2)]
    by (rule reachable_preserves [where P = "\<lambda>w. served d w \<and> times_unique (db w)"])
      (auto intro: serve_served serve_unique)
  then show ?thesis
    using assms(4-7) by (auto simp: times_unique_def distinct_map dest: inj_onD)
qed

lemma message_times_unique_witness:
  "\<exists>w'. reachable sample_server sample_world w' \<and> length (t_users (db w')) = 5 \<and>
    (\<forall>x \<in> set (t_messages (db w')). \<forall>y \<in> set (t_messages (db w')). s_chat x = s_chat y \<longrightarrow> s_time x = s_time y \<longrightarrow> x = y)"
proof -
  obtain w' where w': "reachable sample_server sample_world w'" "length (t_users (db w')) = 5"
    by (rule sample_registration)
  have "times_unique (db sample_world)" by (simp add: times_unique_def sample_world_def sample_db_def)
  from message_times_unique [OF sample_served this w'(1)] w' show ?thesis by blast
qed

end
