(* ===== verification/Chat_Specs.thy ===== *)
theory Chat_Specs
  imports Server_Specs
begin

text \<open>
  The handlers that change chats: who may do it, and what becomes of the database.
\<close>

section \<open>Members\<close>

definition joined :: "cint \<Rightarrow> cint \<Rightarrow> cint \<Rightarrow> db \<Rightarrow> db" where
  "joined j c t D =
     (if entry_of D j c
      then D\<lparr>t_members := map (\<lambda>m. if m_user m = j \<and> m_chat m = c then m\<lparr>m_rem_time := 0, m_time := t\<rparr> else m)
        (t_members D)\<rparr>
      else D\<lparr>t_members := t_members D @
        [\<lparr>m_user = j, m_chat = c, m_time = t, m_read_time = t, m_rem_time = 0\<rparr>]\<rparr>)"

definition gone :: "cint \<Rightarrow> cint \<Rightarrow> cint \<Rightarrow> db \<Rightarrow> db" where
  "gone j c t D = D\<lparr>t_members := map (\<lambda>m. if m_user m = j \<and> m_chat m = c then m\<lparr>m_rem_time := t\<rparr> else m)
     (t_members D)\<rparr>"

definition add_to_chat :: "cint \<Rightarrow> cint \<Rightarrow> cint \<Rightarrow> cint \<Rightarrow> db \<Rightarrow> db option" where
  "add_to_chat i j c t D =
     (if valid_chat D c \<and> admin_of D i c \<and> j \<noteq> i \<and> friends_in D j i \<and> \<not> member_of D j c
      then Some (joined j c t D) else None)"

definition remove_from_chat :: "cint \<Rightarrow> cint \<Rightarrow> cint \<Rightarrow> cint \<Rightarrow> db \<Rightarrow> db option" where
  "remove_from_chat i j c t D =
     (if valid_chat D c \<and> admin_of D i c \<and> j \<noteq> i \<and> member_of D j c then Some (gone j c t D) else None)"

lemma valid_chat_id: "valid_chat D c \<Longrightarrow> c \<in> chat_ids D"
  by (auto simp: valid_chat_def chat_ids_def)

text \<open>C11. The administrator of a valid chat adds a friend: one who left before is back from the given time on, one who
  never was a member gets a new row; a current member, somebody who is no friend, an unknown name, an invalid chat and a request by
  another user are refused, and then the database is as before.\<close>

theorem add_member_refines:
  assumes "online d w" "login_fit login" "short name"
  shows "meets d w (psdims__add_member srv login (Some name) c e w)
    (do {
       u \<leftarrow> login_user d login (db w);
       v \<leftarrow> find_user d name (db w);
       D \<leftarrow> add_to_chat (u_id u) (u_id v) c (first_time w) (db w);
       Some (e, D)
     })"
  unfolding psdims__add_member_def
proof (rule meets_with_login' [OF assms(1,2)], goal_cases)
  case (2 p u w1)
  note [simp] = online_eqs [where d = d, OF 2(2)] updates_online [where d = d, OF 2(2)] 2(3-7) assms(3)
  note ok = online_db [OF assms(1)]
  show ?case
  proof (cases "find_user d name (db w)")
    case None
    then show ?thesis by (simp add: name_id_def)
  next
    case (Some v)
    with find_user_id [OF ok Some] valid_chat_id [of "db w" c] show ?thesis
      by (cases "valid_chat (db w) c") (simp_all add: name_id_def add_to_chat_def joined_def case_prod_unfold)
  qed
qed simp

lemma add_member_refines_witness:
  "\<exists>w'. psdims__add_member sample_server (login_of ''ana'' ''a'') (Some ''eva'') 7 None sample_world =
      Some (SOAP_OK, None, w') \<and> member_of (db w') 4 7"
  using add_member_refines [OF sample_online, of "login_of ''ana'' ''a''" "''eva''" sample_server 7 None]
  by (auto simp: sample_eval meets_def add_to_chat_def joined_def)

text \<open>C12. The administrator of a valid chat removes another member, whose row keeps the time of leaving; in all other cases
  the handler reports an error and the database is as before.\<close>

theorem remove_member_refines:
  assumes "online d w" "login_fit login" "short name"
  shows "meets d w (psdims__remove_member srv login (Some name) c e w)
    (do {
       u \<leftarrow> login_user d login (db w);
       v \<leftarrow> find_user d name (db w);
       D \<leftarrow> remove_from_chat (u_id u) (u_id v) c (first_time w) (db w);
       Some (e, D)
     })"
  unfolding psdims__remove_member_def
proof (rule meets_with_login' [OF assms(1,2)], goal_cases)
  case (2 p u w1)
  note [simp] = online_eqs [where d = d, OF 2(2)] updates_online [where d = d, OF 2(2)] 2(3-7) assms(3)
  note ok = online_db [OF assms(1)]
  show ?case
  proof (cases "find_user d name (db w)")
    case None
    then show ?thesis by (simp add: name_id_def)
  next
    case (Some v)
    with find_user_id [OF ok Some] show ?thesis
      by (simp add: name_id_def remove_from_chat_def gone_def case_prod_unfold)
  qed
qed simp

lemma remove_member_refines_witness:
  "\<exists>w'. psdims__remove_member sample_server (login_of ''ana'' ''a'') (Some ''bob'') 7 None sample_world =
      Some (SOAP_OK, None, w') \<and> \<not> member_of (db w') 3 7 \<and> member_of (db w') 2 7"
  using remove_member_refines [OF sample_online, of "login_of ''ana'' ''a''" "''bob''" sample_server 7 None]
  by (auto simp: sample_eval meets_def remove_from_chat_def gone_def)

section \<open>Leaving\<close>

definition closed :: "cint \<Rightarrow> db \<Rightarrow> db" where
  "closed c D = D\<lparr>t_chats := map (\<lambda>x. if c_id x = c then x\<lparr>c_valid := 0\<rparr> else x) (t_chats D)\<rparr>"

definition handed_to :: "cint \<Rightarrow> cint \<Rightarrow> cint \<Rightarrow> db \<Rightarrow> db" where
  "handed_to j c t D = D\<lparr>t_chats := map (\<lambda>x. if c_id x = c then x\<lparr>c_admin := j, c_admin_time := t\<rparr> else x) (t_chats D)\<rparr>"

text \<open>What a member's departure may lead to: the result and the database.  \<open>j\<close> is the member who
  becomes the administrator.\<close>

definition quit_outcome :: "cint \<Rightarrow> cint \<Rightarrow> cint \<Rightarrow> db \<Rightarrow> soap_result \<Rightarrow> db \<Rightarrow> bool" where
  "quit_outcome i c t D r D' \<longleftrightarrow>
     (let D1 = gone i c t D in
      if \<not> inhabited D1 c then r = SOAP_OK \<and> D' = closed c D1
      else if \<not> admin_of D1 i c then r = SOAP_OK \<and> D' = D1
      else (\<exists>j. member_of D1 j c \<and>
        (if j = 1 then r = SOAP_USER_ERROR \<and> D' = D1 else r = SOAP_OK \<and> D' = handed_to j c t D1)))"

lemma gone_simps [simp]: "user_ids (gone i c t D) = user_ids D" "t_chats (gone i c t D) = t_chats D"
  by (simp_all add: gone_def)

lemma member_user_id: "db_ok d D \<Longrightarrow> member_of D j c \<Longrightarrow> j \<in> user_ids D"
  by (auto simp: member_of_def db_ok_def)

text \<open>The member whose row comes first.\<close>

definition first_member :: "persistence \<Rightarrow> cint \<Rightarrow> world \<Rightarrow> cint" where
  "first_member p c w = (case get_first_users_in_chat p c w of None \<Rightarrow> 0 | Some (i, _) \<Rightarrow> i)"

lemma first_member_online:
  assumes "mysql p = Some h" "online d w" "inhabited (db w) c"
  shows "get_first_users_in_chat p c w = Some (first_member p c w, asked 200 (Sel_first_users c) (narrow [c] w))"
    and "member_of (db w) (first_member p c w) c"
  using online_served [OF assms(2)] assms(1)
  by (cases rule: get_first_users_in_chat_cases [where c = c],
      use online_outage [OF assms(2)] assms(3) in \<open>simp_all add: first_member_def\<close>)+

text \<open>C28. A member who leaves is a member no more.  A chat without members is closed; if the administrator leaves, some
  remaining member becomes the administrator, except when that member has the id 1: then the handler reports an error
  and the chat keeps an administrator who has left.\<close>

theorem quit_from_chat_effect:
  assumes "online d w" "login_fit login" "login_user d login (db w) = Some u"
    and "valid_chat (db w) c" "member_of (db w) (u_id u) c"
  shows "\<exists>r w'. psdims__quit_from_chat srv login c e w = Some (r, e, w') \<and> online d w' \<and>
    quit_outcome (u_id u) c (first_time w) (db w) r (db w')"
proof -
  let ?i = "u_id u" and ?t = "first_time w"
  let ?D1 = "gone ?i c ?t (db w)"
  show ?thesis
    unfolding psdims__quit_from_chat_def
  proof (rule with_login_as [OF assms(1-3)], goal_cases)
    case (2 p w1)
    note [simp] = online_eqs [where d = d, OF 2(1)] updates_online [where d = d, OF 2(1)] 2(2-5) assms(4,5)
    define w2 where "w2 = snd (del_user_chat p ?i c ?t
      ((asked 200 (Sel_member ?i c) (asked 200 (Sel_chat_valid c) w1))\<lparr>ticks := Suc (ticks w)\<rparr>))"
    have w2 [simp]: "db w2 = ?D1" "online d w2" by (simp_all add: w2_def gone_def)
    let ?w3 = "asked 200 (Sel_still_users c) (narrow [c] w2)"
    let ?w4 = "asked 200 (Sel_admin ?i c) (narrow [?i, c] ?w3)"
    let ?j = "first_member p c ?w4"
    consider "\<not> inhabited ?D1 c" | "inhabited ?D1 c" "\<not> admin_of ?D1 ?i c" | "inhabited ?D1 c" "admin_of ?D1 ?i c"
      by blast
    then show ?case
    proof cases
      case 1
      then show ?thesis
        by (simp add: case_prod_unfold w2_def [symmetric] quit_outcome_def Let_def closed_def)
    next
      case 2
      then show ?thesis
        by (simp add: case_prod_unfold w2_def [symmetric] quit_outcome_def Let_def)
    next
      case 3
      have j: "member_of ?D1 ?j c" using first_member_online(2) [OF 2(1), of d ?w4 c] 3 by simp
      then have "?j \<in> user_ids (db w)"
        using member_user_id [OF online_db [OF w2(2)], of ?j c] by simp
      with 3 j show ?thesis
        by (cases "?j = 1") (auto simp: case_prod_unfold w2_def [symmetric] quit_outcome_def Let_def handed_to_def
            first_member_online(1) [where d = d, OF 2(1)])
    qed
  qed simp
qed

lemma quit_from_chat_effect_witness:
  "\<exists>w'. psdims__quit_from_chat sample_server (login_of ''ana'' ''a'') 7 None sample_world = Some (SOAP_OK, None, w') \<and>
    \<not> member_of (db w') 2 7 \<and> admin_of (db w') 3 7"
  using quit_from_chat_effect [OF sample_online, of "login_of ''ana'' ''a''" _ 7 sample_server None]
  by (auto simp: sample_eval quit_outcome_def gone_def handed_to_def Let_def)

section \<open>Creating a chat\<close>

definition chat_with :: "cint \<Rightarrow> cint \<Rightarrow> string \<Rightarrow> cint \<Rightarrow> cint list \<Rightarrow> db \<Rightarrow> db" where
  "chat_with k i desc t members D = D\<lparr>
     t_chats := t_chats D @ [\<lparr>c_id = k, c_admin = i, c_admin_time = t, c_read_time = 0, c_valid = 1,
       c_description = desc, c_time = t\<rparr>],
     t_members := t_members D @
       map (\<lambda>j. \<lparr>m_user = j, m_chat = k, m_time = t, m_read_time = t, m_rem_time = 0\<rparr>) members\<rparr>"

lemma chat_with_simps [simp]:
  "user_ids (chat_with k i desc t ms D) = user_ids D" "k \<in> chat_ids (chat_with k i desc t ms D)"
  by (simp_all add: chat_with_def chat_ids_def user_ids_def)

lemma add_chat_online:
  assumes "mysql p = Some h" "online d w" "clean desc" "varchar d 100 desc = Some x" "i \<in> user_ids (db w)"
    and "\<not> exhausted (chat_ids (db w))"
  obtains k w' where "add_chat p i desc t w = (0, Some k, w')" "fresh_id k (chat_ids (db w))"
    "db w' = chat_with k i x t [] (db w)" "online d w'" "env w' = env w" "files w' = files w"
proof -
  have runs: "exec d k (Ins_chat i desc t) (db w) = Some ([], chat_with k i x t [] (db w))" for k
    using assms(4,5) by (simp add: chat_with_def)
  have "fresh_for (Ins_chat i desc t) (next_id (chat_ids (db w))) (db w)"
    using next_id_fresh [OF _ assms(6)] by (simp add: fresh_for_def)
  with runs have no_fail: "\<not> (\<forall>k. fresh_for (Ins_chat i desc t) k (db w) \<longrightarrow> exec d k (Ins_chat i desc t) (db w) = None)"
    by auto
  from online_served [OF assms(2)] assms(1,3) show ?thesis
  proof (cases rule: add_chat_cases [where i = i and t = t])
    case (failed w')
    then show ?thesis using no_fail online_outage [OF assms(2)] by (simp add: wrote_def)
  next
    case (added k w' y)
    then have D: "db w' = chat_with k i x t [] (db w)" using assms(4) by (simp add: chat_with_def)
    have calm: "calm w w'" using added(2) by (simp add: wrote_def)
    have "db_ok d (db w')"
      using exec_db_ok [OF online_db [OF assms(2)] _ runs [of k]] added(3) D by (simp add: fresh_for_def)
    then have "online d w'" using online_calm [OF assms(2) calm] by simp
    then show ?thesis
      using that added(1,3) D calm by (simp add: calm_def kept_def)
  qed
qed

text \<open>C36. A new chat has a new id, the user as administrator and two members.  When the name of the second member is
  unknown, the handler reports an error, but the chat stays in the database with its administrator as the only
  member.  (A user who names himself gets two rows.)\<close>

theorem create_chat_effect:
  assumes "online d w" "login_fit login" "login_user d login (db w) = Some u"
    and "clean desc" "short name" "varchar d 100 desc = Some x" "\<not> exhausted (chat_ids (db w))"
  shows "\<exists>k r out w'. psdims__create_chat srv login
        (Some \<lparr>n_description = Some desc, n_member = Some name\<rparr>) (Some c0) w = Some (r, out, w') \<and>
      online d w' \<and> fresh_id k (chat_ids (db w)) \<and>
      (case find_user d name (db w) of
         Some v \<Rightarrow> r = SOAP_OK \<and> out = Some k \<and>
           db w' = chat_with k (u_id u) x (first_time w) [u_id u, u_id v] (db w)
       | None \<Rightarrow> r = SOAP_USER_ERROR \<and> out = Some c0 \<and>
           db w' = chat_with k (u_id u) x (first_time w) [u_id u] (db w))"
  unfolding psdims__create_chat_def
proof (rule with_login_as [OF assms(1-3)], goal_cases)
  case (2 p w1)
  note ok = online_db [OF assms(1)]
  have u: "u_id u \<in> user_ids (db w)" "u_id u \<noteq> -1"
    using login_user_found [OF ok assms(3)] by auto
  note [simp] = online_eqs [where d = d, OF 2(1)] updates_online [where d = d, OF 2(1)] 2(2-5)
    assms(5) u unknown_id [OF ok]
  let ?w2 = "asked MAX_QUERY_CHARS (Sel_user_id name) (w1\<lparr>ticks := Suc (ticks w)\<rparr>)"
  obtain k w3 where add: "add_chat p (u_id u) desc (first_time w) ?w2 = (0, Some k, w3)" "fresh_id k (chat_ids (db w))"
    "db w3 = chat_with k (u_id u) x (first_time w) [] (db w)" "online d w3"
    by (rule add_chat_online [OF 2(1), of d ?w2 desc x "u_id u" "first_time w"])
      (use assms(4,6,7) in auto)
  show ?case
  proof (cases "find_user d name (db w)")
    case None
    with add show ?thesis
      by (intro exI [of _ k]) (simp add: name_id_def case_prod_unfold chat_with_def)
  next
    case (Some v)
    with add find_user_id(1) [OF ok Some] show ?thesis
      by (intro exI [of _ k]) (simp add: name_id_def case_prod_unfold chat_with_def)
  qed
qed simp

lemma create_chat_effect_witness:
  "\<exists>k w'. psdims__create_chat sample_server (login_of ''ana'' ''a'')
      (Some \<lparr>n_description = Some ''d'', n_member = Some ''nobody''\<rparr>) (Some 0) sample_world =
      Some (SOAP_USER_ERROR, Some 0, w') \<and> map c_id (t_chats (db w')) = [7, k]"
  using create_chat_effect [OF sample_online, of "login_of ''ana'' ''a''" _ "''d''" "''nobody''" "''d''" sample_server 0]
  by (auto simp: sample_eval chat_with_def)

end
