(* ===== verification/Message_Specs.thy ===== *)
theory Message_Specs
  imports Chat_Specs
begin

text \<open>
  Sending messages: the loop that looks for a second of its own, when it ends and when it does not.
\<close>

section \<open>The loop\<close>

text \<open>The times the loop tries: its argument, then what the clock shows.\<close>

definition tried :: "cint \<Rightarrow> world \<Rightarrow> nat \<Rightarrow> cint" where
  "tried t w n = (case n of 0 \<Rightarrow> t | Suc m \<Rightarrow> clock (env w) (ticks w + m))"

definition few_messages :: "db \<Rightarrow> bool" where
  "few_messages D \<longleftrightarrow> length (t_messages D) < 2 ^ 32"

lemma count_zero:
  assumes "few_messages D"
  shows "(of_nat (length (messages_at D c t)) :: cint) = 0 \<longleftrightarrow> messages_at D c t = []"
proof -
  have "length (messages_at D c t) < 2 ^ 32"
    using assms length_filter_le [of _ "t_messages D"] unfolding few_messages_def messages_at_def by (rule le_less_trans [rotated])
  then show ?thesis by (auto simp: word_of_nat_eq_0_iff dest: dvd_imp_le)
qed

lemma send_wait_ends:
  assumes "mysql p = Some h" "online d w" "few_messages (db w)"
    and "messages_at (db w) c (tried t w n) = []" "\<And>m. m < n \<Longrightarrow> messages_at (db w) c (tried t w m) \<noteq> []"
  shows "\<exists>w'. send_wait p c t w = Some (tried t w n, w') \<and> online d w' \<and> db w' = db w \<and> env w' = env w \<and>
    files w' = files w"
  using assms(2-5)
proof (induction n arbitrary: t w)
  case 0
  then show ?case
    by (subst send_wait.simps)
      (simp add: online_eqs [where d = d, OF assms(1)] tried_def)
next
  case (Suc n)
  let ?w = "(asked 200 (Sel_message_time c t) w)\<lparr>ticks := Suc (ticks w)\<rparr>"
  have taken: "(of_nat (length (messages_at (db w) c t)) :: cint) \<noteq> 0"
    using Suc.prems(4) [of 0] count_zero [OF Suc.prems(2)] by (simp add: tried_def)
  have shift: "tried (first_time w) ?w m = tried t w (Suc m)" for m
    by (cases m) (simp_all add: tried_def)
  have "\<exists>w'. send_wait p c (first_time w) ?w = Some (tried (first_time w) ?w n, w') \<and> online d w' \<and>
      db w' = db ?w \<and> env w' = env ?w \<and> files w' = files ?w"
    by (rule Suc.IH) (use Suc.prems in \<open>simp_all add: shift\<close>)
  then show ?case
    by (subst send_wait.simps)
      (use taken Suc.prems(1) in \<open>simp add: online_eqs [where d = d, OF assms(1)] shift\<close>)
qed

text \<open>If every query fails from now on, the loop never ends: -1 counts as \<open>true\<close>.\<close>

lemma send_wait_hangs:
  assumes "mysql p = Some h" "served d w" "\<And>n. queries w \<le> n \<Longrightarrow> outage (env w) n"
  shows "send_wait p c t w = None"
proof -
  have "\<lbrakk>send_wait p c t w = Some y\<rbrakk> \<Longrightarrow> mysql p = Some h \<longrightarrow> served d w \<longrightarrow> (\<forall>n \<ge> queries w. outage (env w) n) \<longrightarrow> False" for y
  proof (erule send_wait.raw_induct [where P = "\<lambda>p c t w y. mysql p = Some h \<longrightarrow> served d w \<longrightarrow>
      (\<forall>n \<ge> queries w. outage (env w) n) \<longrightarrow> False", rotated], intro impI)
    fix rec p c t w y
    assume IH: "\<And>p c t w y. rec p c t w = Some y \<Longrightarrow>
        mysql p = Some h \<longrightarrow> served d w \<longrightarrow> (\<forall>n \<ge> queries w. outage (env w) n) \<longrightarrow> False"
      and body: "do { (r, w) \<leftarrow> exist_timestamp_in_messages p c t w;
        if r \<noteq> 0 then (case now w of (t, w) \<Rightarrow> rec p c t w) else Some (t, w) } = Some y"
      and out: "mysql p = Some h" "served d w" "\<forall>n \<ge> queries w. outage (env w) n"
    let ?w = "(asked 200 (Sel_message_time c t) w)\<lparr>ticks := Suc (ticks w)\<rparr>"
    have "rec p c (first_time w) ?w = Some y"
      using body out by (simp add: exist_timestamp_eq [where d = d, OF out(2,1)])
    from IH [OF this] out show False by (simp add: served_def)
  qed
  then show ?thesis using assms by (cases "send_wait p c t w") auto
qed

section \<open>The handler\<close>

definition sent :: "cint \<Rightarrow> cint \<Rightarrow> string option \<Rightarrow> string \<Rightarrow> cint \<Rightarrow> db \<Rightarrow> db" where
  "sent i c f msg t D = D\<lparr>t_messages := t_messages D @
     [\<lparr>s_sender = i, s_chat = c, s_file = f, s_text = msg, s_time = t\<rparr>]\<rparr>"

lemma send_messages_online:
  assumes "mysql p = Some h" "online d w" "message_fits i c t msg" "clean msg" "i \<in> user_ids (db w)"
    and "c \<in> chat_ids (db w)" "case f of None \<Rightarrow> True | Some s \<Rightarrow> clean s \<and> length s \<le> 50"
  shows "fst (send_messages p c i t f msg w) = 0 \<and> online d (snd (send_messages p c i t f msg w)) \<and>
    env (snd (send_messages p c i t f msg w)) = env w \<and> files (snd (send_messages p c i t f msg w)) = files w \<and>
    db (snd (send_messages p c i t f msg w)) = sent i c f msg t (db w)"
proof -
  have "strlen msg \<le> 500" using assms(3) by (simp add: message_fits_def)
  then have runs: "exec d k (Ins_message i c f msg t) (db w) = Some ([], sent i c f msg t (db w))" for k
    using assms(5-7) by (auto simp: sent_def varchar_def split: option.splits)
  have "case f of None \<Rightarrow> True | Some s \<Rightarrow> clean s" using assms(7) by (simp split: option.splits)
  from send_messages_wrote [OF online_served [OF assms(2)] assms(1,3,4) this]
  show ?thesis using update_online [OF _ assms(2) runs] by simp
qed

lemma member_chat_id: "db_ok d D \<Longrightarrow> member_of D i c \<Longrightarrow> c \<in> chat_ids D"
  by (auto simp: member_of_def db_ok_def)

lemma send_message_first_free:
  assumes "online d w" "login_fit login" "login_user d login (db w) = Some u" "member_of (db w) (u_id u) c"
    and "few_messages (db w)" "messages_at (db w) c (clock (env w) (ticks w + n)) = []"
    and "\<And>m. m < n \<Longrightarrow> messages_at (db w) c (clock (env w) (ticks w + m)) \<noteq> []"
    and "clean msg" "strlen msg \<le> 80" "case f of None \<Rightarrow> True | Some s \<Rightarrow> clean s \<and> length s \<le> 50"
  shows "\<exists>w'. psdims__send_message srv login c (Some \<lparr>sm_text = Some msg, sm_file_name = f\<rparr>) (Some t0) w =
      Some (SOAP_OK, Some (clock (env w) (ticks w + n)), w') \<and> online d w' \<and>
    db w' = sent (u_id u) c f msg (clock (env w) (ticks w + n)) (db w)"
  unfolding psdims__send_message_def
proof (rule with_login_as [OF assms(1-3)], goal_cases)
  case (2 p w1)
  let ?t = "clock (env w) (ticks w + n)"
  note ok = online_db [OF assms(1)]
  note [simp] = online_eqs [where d = d, OF 2(1)] 2(2-5) assms(4)
  let ?w2 = "(asked 200 (Sel_member (u_id u) c) w1)\<lparr>ticks := Suc (ticks w)\<rparr>"
  have shift: "tried (first_time w) ?w2 m = clock (env w) (ticks w + m)" for m
    by (cases m) (simp_all add: tried_def)
  have "\<exists>w3. send_wait p c (first_time w) ?w2 = Some (tried (first_time w) ?w2 n, w3) \<and> online d w3 \<and>
      db w3 = db ?w2 \<and> env w3 = env ?w2 \<and> files w3 = files ?w2"
    by (rule send_wait_ends [OF 2(1)]) (use assms(5-7) in \<open>simp_all add: shift\<close>)
  then obtain w3 where w3: "send_wait p c (first_time w) ?w2 = Some (?t, w3)" "online d w3" "db w3 = db w"
    by (auto simp: shift)
  have "u_id u \<in> user_ids (db w)" "c \<in> chat_ids (db w)"
    using login_user_found [OF ok assms(3)] member_chat_id [OF ok assms(4)] by simp_all
  moreover have "message_fits (u_id u) c ?t msg"
    using assms(9) length_str_d_le [of "u_id u"] length_str_d_le [of c] length_str_d_le [of ?t]
    by (simp add: message_fits_def)
  ultimately show ?case
    using send_messages_online [OF 2(1) w3(2), of "u_id u" c ?t msg f] w3 assms(8,10)
    by (simp add: case_prod_unfold)
qed simp

text \<open>A clock that goes on while the loop runs leaves at most as many rounds as the chat has
  messages.\<close>

lemma free_second:
  assumes "inj_on s {..N}" "N = length (filter (\<lambda>x. s_chat x = c) (t_messages D))"
  obtains n where "n \<le> N" "messages_at D c (s n) = []" "\<And>m. m < n \<Longrightarrow> messages_at D c (s m) \<noteq> []"
proof -
  let ?times = "s_time ` set (filter (\<lambda>x. s_chat x = c) (t_messages D))"
  have "card ?times \<le> N"
    using card_image_le [of "set (filter (\<lambda>x. s_chat x = c) (t_messages D))" s_time]
      card_length [of "filter (\<lambda>x. s_chat x = c) (t_messages D)"] assms(2) by simp
  moreover have "card (s ` {..N}) = Suc N" using card_image [OF assms(1)] by simp
  ultimately have "\<not> s ` {..N} \<subseteq> ?times"
    using card_mono [of ?times "s ` {..N}"] by fastforce
  then obtain k where k: "k \<le> N" "s k \<notin> ?times" by auto
  then have "messages_at D c (s k) = []" by (auto simp: messages_at_def filter_empty_conv image_iff)
  then have ex: "\<exists>k. k \<le> N \<and> messages_at D c (s k) = []" using k by blast
  let ?n = "LEAST k. k \<le> N \<and> messages_at D c (s k) = []"
  from LeastI_ex [OF ex] have "?n \<le> N" "messages_at D c (s ?n) = []" by auto
  moreover have "messages_at D c (s m) \<noteq> []" if "m < ?n" for m
    using not_less_Least [OF that] that \<open>?n \<le> N\<close> by auto
  ultimately show ?thesis by (rule that)
qed

text \<open>C13. Sending a message ends with success when the clock advances at every reading: the loop that looks for a free
  second makes at most as many rounds as the chat has messages.  The message is stored under a time at which the chat
  had none, and nothing else changes.\<close>

theorem send_message_ends:
  assumes "online d w" "login_fit login" "login_user d login (db w) = Some u" "member_of (db w) (u_id u) c"
    and "few_messages (db w)" "N = length (filter (\<lambda>x. s_chat x = c) (t_messages (db w)))"
    and "\<And>m n. m < n \<Longrightarrow> n \<le> N \<Longrightarrow> sint (clock (env w) (ticks w + m)) < sint (clock (env w) (ticks w + n))"
    and "clean msg" "strlen msg \<le> 80" "case f of None \<Rightarrow> True | Some s \<Rightarrow> clean s \<and> length s \<le> 50"
  shows "\<exists>n \<le> N. \<exists>t w'. t = clock (env w) (ticks w + n) \<and>
    psdims__send_message srv login c (Some \<lparr>sm_text = Some msg, sm_file_name = f\<rparr>) (Some t0) w =
      Some (SOAP_OK, Some t, w') \<and>
    messages_at (db w) c t = [] \<and> db w' = sent (u_id u) c f msg t (db w)"
proof -
  have inj: "inj_on (\<lambda>n. clock (env w) (ticks w + n)) {..N}"
  proof (rule inj_onI)
    fix m n assume "m \<in> {..N}" "n \<in> {..N}" "clock (env w) (ticks w + m) = clock (env w) (ticks w + n)"
    then show "m = n" using assms(7) [of m n] assms(7) [of n m] by (cases m n rule: linorder_cases) auto
  qed
  obtain n where n: "n \<le> N" "messages_at (db w) c (clock (env w) (ticks w + n)) = []"
    "\<And>m. m < n \<Longrightarrow> messages_at (db w) c (clock (env w) (ticks w + m)) \<noteq> []"
    using free_second [OF inj assms(6)] by blast
  from send_message_first_free [OF assms(1-5) n(2,3) assms(8-10)] n(1,2) show ?thesis by blast
qed

lemma send_message_ends_witness:
  "\<exists>w'. psdims__send_message sample_server (login_of ''bob'' ''b'') 7
      (Some \<lparr>sm_text = Some ''yo'', sm_file_name = None\<rparr>) (Some 0) sample_world = Some (SOAP_OK, Some 101, w') \<and>
    map s_time (t_messages (db w')) = [100, 101]"
proof -
  have "sint (100 + of_nat m :: cint) < sint (100 + of_nat n :: cint)" if "m < n" "n \<le> 1" for m n
    using that by (cases m) (auto simp: le_Suc_eq)
  then have "\<exists>n \<le> 1. \<exists>t w'. t = clock (env sample_world) (ticks sample_world + n) \<and>
      psdims__send_message sample_server (login_of ''bob'' ''b'') 7
        (Some \<lparr>sm_text = Some ''yo'', sm_file_name = None\<rparr>) (Some 0) sample_world = Some (SOAP_OK, Some t, w') \<and>
      messages_at (db sample_world) 7 t = [] \<and> db w' = sent 3 7 None ''yo'' t (db sample_world)"
    using send_message_ends [OF sample_online, of "login_of ''bob'' ''b''" _ 7 1 "''yo''" None sample_server 0]
    by (simp add: sample_eval few_messages_def)
  then show ?thesis by (auto simp: le_Suc_eq sample_eval sent_def)
qed

text \<open>C31. When the database stops answering after the first three queries of the handler, it never returns: the error code
  of the query counts as a message at the same time, and the loop goes on for ever.\<close>

theorem send_message_hangs:
  assumes "sound d w" "plenty w" "\<not> refuse (env w) (connects w)" "login_fit login"
    and "login_user d login (db w) = Some u" "member_of (db w) (u_id u) c"
    and "\<And>n. outage (env w) n \<longleftrightarrow> queries w + 3 \<le> n"
  shows "psdims__send_message srv login c (Some m) (Some t0) w = None"
  unfolding psdims__send_message_def
proof (rule with_login_runs [OF assms(1-5)], goal_cases)
  case (4 p w1)
  let ?w2 = "(asked 200 (Sel_member (u_id u) c) w1)\<lparr>ticks := Suc (ticks w1)\<rparr>"
  have "exist_user_in_chat p (u_id u) c w1 = (1, asked 200 (Sel_member (u_id u) c) w1)"
    using exist_user_in_chat_eq [of d w1 p "connects w" "u_id u" c] 4 assms(6,7) by simp
  moreover have "send_wait p c t ?w2 = None" for t
    by (rule send_wait_hangs [OF 4(1), of d]) (use 4 assms(7) in \<open>auto simp: sound_def served_def\<close>)
  ultimately show ?case by simp
qed (use assms(7) in simp_all)

lemma send_message_hangs_witness:
  "psdims__send_message sample_server (login_of ''bob'' ''b'') 7 (Some \<lparr>sm_text = Some ''yo'', sm_file_name = None\<rparr>) (Some 0)
    (sample_world\<lparr>env := sample_env\<lparr>outage := \<lambda>n. 3 \<le> n\<rparr>\<rparr>) = None"
  by (rule send_message_hangs [where d = sample_dialect])
    (use sample_db_ok sample_served in \<open>auto simp: sound_def served_def plenty_def sample_eval\<close>)

end
