(* ===== verification/Reading_Specs.thy ===== *)
theory Reading_Specs
  imports Message_Specs
begin

text \<open>
  What a member gets to see of a chat, and how the read marks are kept.
\<close>

section \<open>Messages\<close>

lemma distinct_acc_subset: "set (distinct_acc k seen xs) \<subseteq> set xs"
proof (induction xs arbitrary: seen)
  case (Cons a xs)
  show ?case using Cons [of seen] Cons [of "k a # seen"] by auto
qed simp

lemma distinct_acc_covers:
  "x \<in> set xs \<Longrightarrow> k x \<notin> set seen \<Longrightarrow> \<exists>y \<in> set (distinct_acc k seen xs). k y = k x"
proof (induction xs arbitrary: seen)
  case (Cons a xs)
  show ?case
  proof (cases "k a \<in> set seen \<or> k a \<noteq> k x")
    case True
    then have "x \<in> set xs" using Cons.prems by auto
    then show ?thesis using Cons True by (cases "k a \<in> set seen") auto
  next
    case False
    then show ?thesis by auto
  qed
qed simp

text \<open>The messages of a chat that a user may see from a time on: those after the user joined.\<close>

definition may_see :: "db \<Rightarrow> cint \<Rightarrow> cint \<Rightarrow> cint \<Rightarrow> message_row \<Rightarrow> bool" where
  "may_see D c i t x \<longleftrightarrow> x \<in> set (t_messages D) \<and> s_chat x = c \<and> sint t \<le> sint (s_time x) \<and>
     (\<exists>m \<in> set (t_members D). m_user m = i \<and> m_chat m = c \<and> sint (m_time m) < sint (s_time x))"

definition message_row_item :: "row \<Rightarrow> message_item" where
  "message_row_item r = \<lparr>mi_user = the (r ! 0), mi_text = the (r ! 1), mi_file_name = r ! 3,
     mi_send_date = atoi (the (r ! 2))\<rparr>"

definition message_rows :: "string \<Rightarrow> message_row \<Rightarrow> row" where
  "message_rows n x = [Some n, Some (s_text x), cell (s_time x), s_file x]"

text \<open>A message as it is shown to the client.\<close>

definition shown :: "db \<Rightarrow> message_row \<Rightarrow> message_item \<Rightarrow> bool" where
  "shown D x it \<longleftrightarrow> (\<exists>u \<in> set (t_users D). u_id u = s_sender x \<and> it = \<lparr>mi_user = u_name u, mi_text = s_text x,
     mi_file_name = s_file x, mi_send_date = s_time x\<rparr>)"

lemma item_of_row [simp]:
  "message_row_item (message_rows n x) =
   \<lparr>mi_user = n, mi_text = s_text x, mi_file_name = s_file x, mi_send_date = s_time x\<rparr>"
  by (simp add: message_row_item_def message_rows_def)

lemma fetch_messages_plenty:
  assumes "plenty w" "\<And>r. r \<in> set rows \<Longrightarrow> \<exists>n x. r = message_rows n x"
  shows "\<exists>l w'. fetch_messages rows latest w = Some (map message_row_item rows, l, w') \<and> plenty w' \<and>
    env w' = env w \<and> db w' = db w \<and> files w' = files w"
  using assms
proof (induction rows arbitrary: latest w)
  case (Cons r rows)
  obtain n x where r: "r = message_rows n x" using Cons.prems(2) [of r] by auto
  let ?k = "case s_file x of None \<Rightarrow> 2 | Some _ \<Rightarrow> 3"
  let ?w = "w\<lparr>brk := ?k + brk w\<rparr>"
  let ?l = "if sint latest < sint (s_time x) then s_time x else latest"
  have "plenty ?w" using Cons.prems(1) by simp
  then obtain l w' where IH: "fetch_messages rows ?l ?w = Some (map message_row_item rows, l, w')" "plenty w'"
    "env w' = env w" "db w' = db w" "files w' = files w"
    using Cons.IH [of ?w ?l] Cons.prems(2) by auto
  have "column r 0 = Some n" "column r 1 = Some (s_text x)" "column r 2 = cell (s_time x)" "column r 3 = s_file x"
    by (simp_all add: r message_rows_def column_def)
  then show ?case
    using IH Cons.prems(1)
    by (auto simp: r soap_strdup_def strdup_opt_def numeral_2_eq_2 numeral_3_eq_3 split: option.splits)
qed simp

lemma left_join_sender:
  assumes "db_ok d D" "x \<in> set (t_messages D)"
  shows "o_u \<in> set (left_join (filter (\<lambda>u. u_id u = s_sender x) (t_users D))) \<longleftrightarrow>
    (\<exists>u \<in> set (t_users D). u_id u = s_sender x \<and> o_u = Some u)"
proof -
  have "s_sender x \<in> user_ids D" using assms by (auto simp: db_ok_def)
  then have "filter (\<lambda>u. u_id u = s_sender x) (t_users D) \<noteq> []" by (auto simp: user_ids_def filter_empty_conv)
  then show ?thesis by (auto simp: left_join_def)
qed

lemma select_messages:
  assumes "db_ok d D"
  shows "r \<in> set (select d (Sel_messages c i t) D) \<Longrightarrow>
      \<exists>x u. may_see D c i t x \<and> u \<in> set (t_users D) \<and> u_id u = s_sender x \<and> r = message_rows (u_name u) x"
    and "may_see D c i t x \<Longrightarrow> \<exists>y u. may_see D c i t y \<and> weight d (s_text y) = weight d (s_text x) \<and>
      s_time y = s_time x \<and> u \<in> set (t_users D) \<and> u_id u = s_sender y \<and>
      message_rows (u_name u) y \<in> set (select d (Sel_messages c i t) D)"
proof -
  let ?key = "\<lambda>(n, x). (map_option (weight d) n, weight d (s_text x), s_time x, map_option (weight d) (s_file x))"
  define Lst where "Lst = [(map_option u_name o_u, x). x \<leftarrow> t_messages D,
           m \<leftarrow> filter (\<lambda>m. m_chat m = s_chat x) (t_members D),
           o_u \<leftarrow> left_join (filter (\<lambda>u. u_id u = s_sender x) (t_users D)),
           sint (m_time m) < sint (s_time x) \<and> s_chat x = c \<and> sint t \<le> sint (s_time x) \<and> m_user m = i]"
  have L: "(n, x) \<in> set Lst \<longleftrightarrow>
      may_see D c i t x \<and> (\<exists>u \<in> set (t_users D). u_id u = s_sender x \<and> n = Some (u_name u))" for n x
  proof (cases "x \<in> set (t_messages D)")
    case True
    have mem: "(n, x) \<in> set Lst \<longleftrightarrow> s_chat x = c \<and> sint t \<le> sint (s_time x) \<and>
        (\<exists>m \<in> set (t_members D). m_user m = i \<and> m_chat m = c \<and> sint (m_time m) < sint (s_time x)) \<and>
        (\<exists>o_u \<in> set (left_join (filter (\<lambda>u. u_id u = s_sender x) (t_users D))). n = map_option u_name o_u)"
      unfolding Lst_def using True by (auto simp del: filter_filter)
    have "(\<exists>o_u \<in> set (left_join (filter (\<lambda>u. u_id u = s_sender x) (t_users D))). n = map_option u_name o_u) \<longleftrightarrow>
        (\<exists>u \<in> set (t_users D). u_id u = s_sender x \<and> n = Some (u_name u))"
      unfolding Bex_def left_join_sender [OF assms True] by auto
    with mem True show ?thesis unfolding may_see_def by (simp only: simp_thms conj_assoc)
  qed (auto simp: may_see_def Lst_def)
  have sel: "select d (Sel_messages c i t) D =
      map (\<lambda>(n, x). [n, Some (s_text x), cell (s_time x), s_file x]) (distinct_by ?key Lst)"
    by (simp add: select_def Lst_def)
  show "\<exists>x u. may_see D c i t x \<and> u \<in> set (t_users D) \<and> u_id u = s_sender x \<and> r = message_rows (u_name u) x"
    if "r \<in> set (select d (Sel_messages c i t) D)"
  proof -
    from that obtain n x where nx: "(n, x) \<in> set (distinct_by ?key Lst)" "r = [n, Some (s_text x), cell (s_time x), s_file x]"
      unfolding sel by auto
    then have "(n, x) \<in> set Lst" by (blast intro: subsetD [OF distinct_acc_subset])
    with nx(2) show ?thesis unfolding L by (auto simp: message_rows_def)
  qed
  show "\<exists>y u. may_see D c i t y \<and> weight d (s_text y) = weight d (s_text x) \<and>
      s_time y = s_time x \<and> u \<in> set (t_users D) \<and> u_id u = s_sender y \<and>
      message_rows (u_name u) y \<in> set (select d (Sel_messages c i t) D)"
    if see: "may_see D c i t x"
  proof -
    from see assms obtain v where "v \<in> set (t_users D)" "u_id v = s_sender x"
      by (auto simp: may_see_def db_ok_def user_ids_def)
    with see have "(Some (u_name v), x) \<in> set Lst" unfolding L by auto
    then obtain n y where y: "(n, y) \<in> set (distinct_by ?key Lst)" "?key (n, y) = ?key (Some (u_name v), x)"
      using distinct_acc_covers [of "(Some (u_name v), x)" Lst ?key "[]"] by force
    then have "(n, y) \<in> set Lst" by (blast intro: subsetD [OF distinct_acc_subset])
    then obtain u where u: "may_see D c i t y" "u \<in> set (t_users D)" "u_id u = s_sender y" "n = Some (u_name u)"
      unfolding L by blast
    have "message_rows (u_name u) y \<in> set (select d (Sel_messages c i t) D)"
      unfolding sel using y(1) u(4) by (force simp: message_rows_def)
    with u y(2) show ?thesis by auto
  qed
qed

lemma get_list_messages_online:
  assumes "mysql p = Some h" "online d w"
  shows "\<exists>ms' w'. get_list_messages p c i t ms w = Some (0, ms', w') \<and> online d w' \<and> db w' = db w \<and>
    files w' = files w \<and>
    mset (xl_messages ms') = image_mset message_row_item (mset (select d (Sel_messages c i t) (db w)))"
proof -
  let ?st = "Sel_messages c i t"
  have guard: "\<not> 450 \<le> strlen (str_d i) + strlen (str_d t) + strlen (sql_head ?st)"
    using length_str_d_le [of i] length_str_d_le [of t] by (simp add: stmt_simps)
  have st: "sql_clean ?st" "sql_select ?st" by (simp_all add: stmt_simps)
  from online_served [OF assms(2)] st show ?thesis
  proof (cases rule: select_cases [where cap = 500])
    case failed
    then show ?thesis using online_outage [OF assms(2)] by simp
  next
    case (answered rows k)
    have "plenty w" using assms(2) by (simp add: online_def del: online_sound online_served)
    then have array: "soap_array (length rows) (asked 500 ?st w) = Some ((asked 500 ?st w)\<lparr>brk := Suc (brk w)\<rparr>)"
      "plenty ((asked 500 ?st w)\<lparr>brk := Suc (brk w)\<rparr>)"
      by (simp_all add: soap_array_def plenty_def malloc_def)
    have rows: "set rows = set (select d ?st (db w))" using answered(3) by (metis set_mset_mset)
    then obtain l w' where "fetch_messages rows t ((asked 500 ?st w)\<lparr>brk := Suc (brk w)\<rparr>) =
        Some (map message_row_item rows, l, w')" "plenty w'" "env w' = env w" "db w' = db w" "files w' = files w"
      using fetch_messages_plenty [OF array(2), of rows t] select_messages(1) [OF online_db [OF assms(2)], where c = c and i = i and t = t]
      by fastforce
    moreover from this assms(2) have "online d w'"
      by (simp add: online_def sound_def served_def del: online_sound online_served)
    ultimately show ?thesis
      using guard assms(1) answered array(1) by (simp add: get_list_messages_def)
  qed
qed

lemma get_chat_messages_online:
  assumes "online d w" "login_fit login" "login_user d login (db w) = Some u"
  shows "if valid_chat (db w) c \<and> member_of (db w) (u_id u) c
    then \<exists>ms' w'. psdims__get_chat_messages srv login c t (Some ms) w = Some (SOAP_OK, Some ms', w') \<and>
      mset (xl_messages ms') = image_mset message_row_item (mset (select d (Sel_messages c (u_id u) t) (db w)))
    else \<exists>w'. psdims__get_chat_messages srv login c t (Some ms) w = Some (SOAP_USER_ERROR, Some ms, w')"
  unfolding psdims__get_chat_messages_def
proof (rule with_login_as [OF assms], goal_cases)
  case (2 p w1)
  note [simp] = online_eqs [where d = d, OF 2(1)] 2(2-5)
  let ?w2 = "asked 200 (Sel_member (u_id u) c) (asked 200 (Sel_chat_valid c) w1)"
  obtain ms' w3 where get: "get_list_messages p c (u_id u) t ms ?w2 = Some (0, ms', w3)"
    "mset (xl_messages ms') = image_mset message_row_item (mset (select d (Sel_messages c (u_id u) t) (db w)))"
    using get_list_messages_online [OF 2(1), of d ?w2 c "u_id u" t ms] by auto
  show ?case using get by auto
qed simp

text \<open>The items, as messages of the database.\<close>

lemma shown_items:
  assumes "db_ok d D" "mset its = image_mset message_row_item (mset (select d (Sel_messages c i t) D))"
  shows "it \<in> set its \<Longrightarrow> \<exists>x. may_see D c i t x \<and> shown D x it"
    and "may_see D c i t x \<Longrightarrow> \<exists>y. may_see D c i t y \<and> weight d (s_text y) = weight d (s_text x) \<and>
      s_time y = s_time x \<and> (\<exists>it \<in> set its. shown D y it)"
proof -
  have items: "set its = message_row_item ` set (select d (Sel_messages c i t) D)"
    using arg_cong [OF assms(2), of set_mset] by simp
  note sel = select_messages [OF assms(1), where c = c and i = i and t = t]
  show "it \<in> set its \<Longrightarrow> \<exists>x. may_see D c i t x \<and> shown D x it"
    using sel(1) unfolding items by (fastforce simp: shown_def)
  assume "may_see D c i t x"
  then obtain y u where y: "may_see D c i t y" "weight d (s_text y) = weight d (s_text x)" "s_time y = s_time x"
      "u \<in> set (t_users D)" "u_id u = s_sender y" "message_rows (u_name u) y \<in> set (select d (Sel_messages c i t) D)"
    using sel(2) by blast
  have "message_row_item (message_rows (u_name u) y) \<in> set its" unfolding items using y(6) by (rule imageI)
  moreover have "shown D y (message_row_item (message_rows (u_name u) y))" using y(4,5) by (auto simp: shown_def)
  ultimately show "\<exists>y. may_see D c i t y \<and> weight d (s_text y) = weight d (s_text x) \<and>
      s_time y = s_time x \<and> (\<exists>it \<in> set its. shown D y it)" using y(1-3) by blast
qed

text \<open>C20. A member of a valid chat gets exactly the messages that were sent after the member joined and not before the
  given time, each with its sender's name, text, file and time (of messages that the collation of the database cannot
  tell apart, one); others get an error and nothing.\<close>

theorem get_chat_messages_shows:
  assumes "online d w" "login_fit login" "login_user d login (db w) = Some u"
  shows "if valid_chat (db w) c \<and> member_of (db w) (u_id u) c
    then \<exists>ms' w'. psdims__get_chat_messages srv login c t (Some ms) w = Some (SOAP_OK, Some ms', w') \<and>
      (\<forall>it \<in> set (xl_messages ms'). \<exists>x. may_see (db w) c (u_id u) t x \<and> shown (db w) x it) \<and>
      (\<forall>x. may_see (db w) c (u_id u) t x \<longrightarrow> (\<exists>it \<in> set (xl_messages ms'). mi_send_date it = s_time x \<and>
         weight d (mi_text it) = weight d (s_text x)))
    else \<exists>w'. psdims__get_chat_messages srv login c t (Some ms) w = Some (SOAP_USER_ERROR, Some ms, w')"
proof (cases "valid_chat (db w) c \<and> member_of (db w) (u_id u) c")
  case True
  then obtain ms' w' where get: "psdims__get_chat_messages srv login c t (Some ms) w = Some (SOAP_OK, Some ms', w')"
    "mset (xl_messages ms') = image_mset message_row_item (mset (select d (Sel_messages c (u_id u) t) (db w)))"
    using get_chat_messages_online [OF assms, of c srv t ms] by auto
  note items = shown_items [OF online_db [OF assms(1)] get(2)]
  have "\<exists>it \<in> set (xl_messages ms'). mi_send_date it = s_time x \<and> weight d (mi_text it) = weight d (s_text x)"
    if "may_see (db w) c (u_id u) t x" for x
    using items(2) [OF that] by (force simp: shown_def)
  with True get(1) items(1) show ?thesis by auto
next
  case False
  then show ?thesis using get_chat_messages_online [OF assms, of c srv t ms] by auto
qed

lemma get_chat_messages_shows_witness:
  "\<exists>ms w'. psdims__get_chat_messages sample_server (login_of ''bob'' ''b'') 7 50
      (Some \<lparr>xl_messages = [], xl_read_timestamp = 0, xl_last_timestamp = 0\<rparr>) sample_world = Some (SOAP_OK, Some ms, w') \<and>
    mi_text ` set (xl_messages ms) = {''m''}"
  using get_chat_messages_shows [OF sample_online, of "login_of ''bob'' ''b''" _ 7 sample_server 50
      "\<lparr>xl_messages = [], xl_read_timestamp = 0, xl_last_timestamp = 0\<rparr>"]
  by (force simp: sample_eval may_see_def shown_def)

section \<open>Read marks\<close>

definition marked :: "cint \<Rightarrow> cint \<Rightarrow> cint \<Rightarrow> db \<Rightarrow> db" where
  "marked i c t D = D\<lparr>t_members := map (\<lambda>m. if m_user m = i \<and> m_chat m = c \<and> sint (m_read_time m) < sint t
     then m\<lparr>m_read_time := t\<rparr> else m) (t_members D)\<rparr>"

definition everyone_read :: "db \<Rightarrow> cint \<Rightarrow> cint \<Rightarrow> bool" where
  "everyone_read D c t \<longleftrightarrow>
     (\<forall>m \<in> set (t_members D). m_chat m = c \<and> m_rem_time m = 0 \<longrightarrow> sint t \<le> sint (m_read_time m))"

text \<open>The mark of the chat is set to \<open>t\<close>, be it later or earlier than the old one.\<close>

definition synced :: "cint \<Rightarrow> cint \<Rightarrow> cint \<Rightarrow> db \<Rightarrow> db" where
  "synced i c t D =
     (let D1 = marked i c t D in
      if everyone_read D1 c t
      then D1\<lparr>t_chats := map (\<lambda>x. if c_id x = c then x\<lparr>c_read_time := t\<rparr> else x) (t_chats D1)\<rparr>
      else D1)"

text \<open>C38. Synchronising a chat, while the database works, raises the member's mark to the given time, unless it is later already; if then all
  members have read up to that time, the chat's mark is set to it, even when the chat's mark was later.\<close>

theorem update_sync_effect:
  assumes "mysql p = Some h" "online d w"
  shows "\<exists>w'. update_sync p i c t w = (0, w') \<and> online d w' \<and> db w' = synced i c t (db w) \<and> env w' = env w \<and>
    ticks w' = ticks w \<and> files w' = files w"
  using online_served [OF assms(2)] assms(1)
proof (cases rule: update_sync_wrote [where i = i and c = c and t = t])
  case (failed w')
  then show ?thesis using wrote_done [OF failed(2) assms(2)] by auto
next
  case (sent w1 r w')
  have w1: "db w1 = marked i c t (db w)" "online d w1" "calm w w1"
    using wrote_done [OF sent(2) assms(2)] by (auto simp: marked_def)
  have set_mark: "(\<lambda>x. if c_id x = c \<and> \<not> (\<exists>m \<in> set (t_members D). m_chat m = c_id x \<and> sint (m_read_time m) < sint t \<and>
      m_rem_time m = 0) then x\<lparr>c_read_time := t\<rparr> else x) =
      (\<lambda>x. if c_id x = c \<and> everyone_read D c t then x\<lparr>c_read_time := t\<rparr> else x)" for D
    by (auto simp: everyone_read_def fun_eq_iff not_less)
  have "db w' = synced i c t (db w) \<and> r = 0 \<and> online d w' \<and> calm w1 w'"
    using wrote_done [OF sent(3) w1(2) exec.simps(41) fresh_simps(13)] unfolding w1(1) set_mark
    by (cases "everyone_read (marked i c t (db w)) c t") (simp_all add: synced_def Let_def)
  with sent(1) w1 show ?thesis by (auto simp: calm_def kept_def)
qed

lemma update_sync_effect_witness:
  "\<exists>w'. update_sync (sample_server\<lparr>mysql := Some 0\<rparr>) 2 7 3 sample_world = (0, w') \<and>
    map m_read_time (t_members (db w')) = [5, 5] \<and> map c_read_time (t_chats (db sample_world)) = [5] \<and>
    map c_read_time (t_chats (db w')) = [3]"
  using update_sync_effect [OF _ sample_online, of "sample_server\<lparr>mysql := Some 0\<rparr>" 0 2 7 3]
  by (auto simp: sample_eval synced_def marked_def everyone_read_def Let_def)

text \<open>The marks of a member only grow, up to the given time at least; the chat's mark may go back.\<close>

lemma read_marks_grow:
  assumes "m \<in> set (t_members D)"
  obtains m' where "m' \<in> set (t_members (synced i c t D))" "m_user m' = m_user m" "m_chat m' = m_chat m"
    "sint (m_read_time m) \<le> sint (m_read_time m')"
    "m_user m = i \<Longrightarrow> m_chat m = c \<Longrightarrow> sint t \<le> sint (m_read_time m')"
proof -
  let ?f = "\<lambda>m. if m_user m = i \<and> m_chat m = c \<and> sint (m_read_time m) < sint t then m\<lparr>m_read_time := t\<rparr> else m"
  have "t_members (synced i c t D) = map ?f (t_members D)" by (simp add: synced_def marked_def Let_def)
  then show ?thesis using assms by (intro that [of "?f m"]) auto
qed

end
