(* ===== verification/Attachment_Specs.thy ===== *)
theory Attachment_Specs
  imports Server_Specs
begin

text \<open>
  Storing an attachment and reading it back; the paths of the files.
\<close>

section \<open>Paths\<close>

lemma length_digits_exact: "10 ^ k \<le> n \<Longrightarrow> n < 10 ^ Suc k \<Longrightarrow> length (digits n) = Suc k"
proof (induction k arbitrary: n)
  case 0
  then show ?case by (simp add: digits.simps [of n])
next
  case (Suc k)
  have "10 ^ k \<le> n div 10" "n div 10 < 10 ^ Suc k"
    using Suc.prems by (simp_all add: less_eq_div_iff_mult_less_eq div_less_iff_less_mult mult.commute)
  moreover have "(1 :: nat) \<le> 10 ^ k" by simp
  then have "\<not> n < 10" using Suc.prems(1) unfolding power_Suc by linarith
  ultimately show ?case using Suc.IH by (simp add: digits.simps [of n])
qed

text \<open>A time of ten digits: any after September 2001.\<close>

definition modern :: "cint \<Rightarrow> bool" where
  "modern t \<longleftrightarrow> 10 ^ 9 \<le> sint t"

lemma modern_length: "modern t \<Longrightarrow> strlen (str_d t) = 10"
proof -
  assume t: "modern t"
  have "(10 :: nat) ^ 9 \<le> nat (sint t)" "nat (sint t) < 10 ^ Suc 9"
    using t sint_cint_upper [of t] by (auto simp: modern_def)
  then have "length (digits (nat (sint t))) = Suc 9" by (rule length_digits_exact)
  moreover have "\<not> sint t < 0" using t by (simp add: modern_def)
  ultimately show ?thesis by (simp add: str_d_def print_int_def)
qed

text \<open>Attachments of different messages are in different files, as long as the times have ten digits.\<close>

theorem modern_paths_inject:
  assumes "modern t" "modern t'" "create_file_path c t = create_file_path c' t'"
  shows "c = c' \<and> t = t'"
proof -
  have "str_d c @ str_d t = str_d c' @ str_d t'"
    using assms(3) by (simp add: create_file_path_def)
  moreover have "length (str_d t) = length (str_d t')" using modern_length assms by simp
  ultimately show ?thesis by simp
qed

lemma modern_paths_inject_witness:
  "modern 1400000000 \<and> modern 1500000000 \<and> create_file_path 1 1400000000 \<noteq> create_file_path 1 1500000000"
proof -
  have modern: "modern 1400000000" "modern 1500000000" by (simp_all add: modern_def)
  moreover have "create_file_path 1 1400000000 \<noteq> create_file_path 1 1500000000"
    using modern_paths_inject [OF modern, of 1 1] by auto
  ultimately show ?thesis by blast
qed

text \<open>Without that, two messages may share a file.\<close>

lemma paths_collide: "create_file_path 1 23 = create_file_path 12 3"
  by code_simp

section \<open>Reading back\<close>

definition reliable :: "world \<Rightarrow> bool" where
  "reliable w \<longleftrightarrow> (\<forall>n. \<not> io_fails (env w) n)"

lemma io_reliable: "reliable w \<Longrightarrow> io w = (True, w\<lparr>io_ops := Suc (io_ops w)\<rparr>)"
  by (simp add: io_def reliable_def)

lemma reliable_simps [simp]:
  "reliable (w\<lparr>io_ops := n\<rparr>) = reliable w" "reliable (w\<lparr>files := f\<rparr>) = reliable w"
  "reliable (w\<lparr>files_dir := b\<rparr>) = reliable w" "reliable (w\<lparr>brk := k\<rparr>) = reliable w"
  "reliable (asked cap st w) = reliable w" "reliable (narrow xs w) = reliable w" "reliable (fill n s w) = reliable w"
  "reliable (free_persistence p w) = reliable w"
  by (simp_all add: reliable_def fill_def)

lemma read_blocks_reliable:
  "reliable w \<Longrightarrow> n < MAX_FILE_CHARS \<Longrightarrow>
   \<exists>k. read_blocks n s w = (take (MAX_FILE_CHARS - n) s, w\<lparr>io_ops := k\<rparr>)"
proof (induction s arbitrary: n w)
  case Nil
  then show ?case by (auto simp: io_reliable)
next
  case (Cons c cs)
  show ?case
  proof (cases "Suc n < MAX_FILE_CHARS")
    case True
    with Cons.IH [of "w\<lparr>io_ops := Suc (io_ops w)\<rparr>" "Suc n"] Cons.prems(1) obtain k where
      "read_blocks (Suc n) cs (w\<lparr>io_ops := Suc (io_ops w)\<rparr>) =
        (take (MAX_FILE_CHARS - Suc n) cs, w\<lparr>io_ops := k\<rparr>)" by auto
    moreover have "MAX_FILE_CHARS - n = Suc (MAX_FILE_CHARS - Suc n)" using True by simp
    ultimately show ?thesis using Cons.prems(1) True by (intro exI [of _ k]) (simp add: io_reliable)
  next
    case False
    with Cons.prems(2) have "MAX_FILE_CHARS - n = 1" by simp
    with Cons.prems(1) False show ?thesis
      by (intro exI [of _ "Suc (io_ops w)"]) (simp add: io_reliable)
  qed
qed

lemma alloc_file_path_online:
  assumes "online d w"
  obtains w' where "alloc_file_path c t w = Some (create_file_path c t, w')" "online d w'" "db w' = db w"
    "env w' = env w" "files w' = files w" "files_dir w' = files_dir w" "io_ops w' = io_ops w"
proof -
  let ?w = "fill 20 (create_file_path c t) (w\<lparr>brk := Suc (brk w)\<rparr>)"
  have "plenty w" using assms by (simp add: online_def del: online_sound online_served)
  then have "alloc_file_path c t w = Some (create_file_path c t, ?w)"
    by (simp add: alloc_file_path_def soap_array_def Let_def)
  moreover have "online d ?w"
    using assms by (simp add: online_def sound_def served_def plenty_def fill_def del: online_sound online_served)
  ultimately show ?thesis by (intro that [of ?w]) (simp_all add: fill_def)
qed

lemma online_files [simp]:
  "online d (w\<lparr>files := f\<rparr>) \<longleftrightarrow> online d w" "online d (w\<lparr>files_dir := b\<rparr>) \<longleftrightarrow> online d w"
  "online d (w\<lparr>io_ops := n\<rparr>) \<longleftrightarrow> online d w"
  by (simp_all add: online_def sound_def served_def plenty_def del: online_sound online_served)

lemma make_files_dir_reliable:
  "reliable w \<Longrightarrow> \<exists>n. make_files_dir w = w\<lparr>files_dir := True, io_ops := n\<rparr>"
proof (cases "files_dir w")
  case True
  then show ?thesis by (intro exI [of _ "io_ops w"]) (simp add: make_files_dir_def)
next
  case False
  assume "reliable w"
  with False show ?thesis by (intro exI [of _ "Suc (io_ops w)"]) (simp add: make_files_dir_def io_reliable)
qed

text \<open>For a time of ten digits the path never fits the 20 bytes that the program allocates for it.\<close>

theorem path_overflows:
  assumes "modern t" "alloc_file_path c t w = Some (path, w')"
  shows "path = create_file_path c t \<and> 20 < strlen path \<and> corrupted w'"
proof -
  have "25 \<le> strlen (create_file_path c t)"
    using modern_length [OF assms(1)] length_str_d_pos [of c]
    by (simp add: create_file_path_def ATTACH_FILES_DIR_def Suc_le_eq)
  then show ?thesis
    using assms(2) by (auto simp: alloc_file_path_def bind_eq_Some_conv Let_def fill_def)
qed

lemma path_overflows_witness:
  "\<exists>w'. alloc_file_path 7 1400000000 sample_world = Some (create_file_path 7 1400000000, w') \<and> corrupted w'"
proof -
  obtain w' where run: "alloc_file_path 7 1400000000 sample_world = Some (create_file_path 7 1400000000, w')"
    using alloc_file_path_online [OF sample_online] by blast
  have "modern 1400000000" by (simp add: modern_def)
  from path_overflows [OF this run] run show ?thesis by blast
qed

text \<open>Sending: the file is stored, if there was none; an empty one is stored too, but reported as an
  error.\<close>

lemma send_attachment_stores:
  assumes "online d w" "reliable w" "login_fit login" "login_user d login (db w) = Some u"
    and "length (own_message (db w) (u_id u) c t) = 1" "files w (create_file_path c t) = None"
  shows "\<exists>w'. psdims__send_attachment srv login c t (Some content) (Some e) w =
      Some (if content = [] then SOAP_USER_ERROR else SOAP_OK, Some 0, w') \<and>
    online d w' \<and> reliable w' \<and> db w' = db w \<and> files w' = (files w)(create_file_path c t \<mapsto> content)"
  unfolding psdims__send_attachment_def
proof (simp only: option.distinct if_False Let_def, rule with_login_as [OF assms(1,3,4)], goal_cases)
  case (2 p w1)
  note [simp] = online_eqs [where d = d, OF 2(1)] 2(2-6) assms(5)
  have rel: "reliable w1" using assms(2) by (simp add: reliable_def)
  let ?path = "create_file_path c t"
  let ?w2 = "asked 200 (Sel_can_attach (u_id u) c t) (narrow [u_id u, t, c] w1)"
  obtain n where dir: "make_files_dir ?w2 = ?w2\<lparr>files_dir := True, io_ops := n\<rparr>"
    using make_files_dir_reliable [of ?w2] rel by auto
  have "online d (?w2\<lparr>files_dir := True, io_ops := n\<rparr>)" by simp
  then obtain w3 where w3: "alloc_file_path c t (?w2\<lparr>files_dir := True, io_ops := n\<rparr>) = Some (?path, w3)" "online d w3"
    "db w3 = db w" "env w3 = env w" "files w3 = files w" "files_dir w3"
    by (rule alloc_file_path_online [where c = c and t = t]) simp
  have rel3: "reliable w3" using assms(2) w3(4) by (simp add: reliable_def)
  show ?case
    using w3 rel3 assms(6)
    by (auto simp: dir fopen_read_def fopen_write_def fwrite_def io_reliable)
qed simp

lemma get_attachment_reads:
  assumes "online d w" "reliable w" "login_fit login" "login_user d login (db w) = Some u"
    and "length (visible (db w) (u_id u) c t) = 1" "files w (create_file_path c t) = Some content"
  shows "\<exists>w'. psdims__get_attachment srv login c t (Some old) w = Some (SOAP_OK, Some (take MAX_FILE_CHARS content), w')"
  unfolding psdims__get_attachment_def
proof (rule with_login_as [OF assms(1,3,4)], goal_cases)
  case (2 p w1)
  note [simp] = online_eqs [where d = d, OF 2(1)] 2(2-6) assms(5)
  let ?path = "create_file_path c t"
  let ?w2 = "asked 500 (Sel_have_attach (u_id u) c t) (narrow [u_id u, t, c] w1)"
  have "online d ?w2" by simp
  then obtain w3 where w3: "alloc_file_path c t ?w2 = Some (?path, w3)" "online d w3" "env w3 = env w" "files w3 = files w"
    by (rule alloc_file_path_online [where c = c and t = t]) simp
  let ?w4 = "w3\<lparr>io_ops := Suc (io_ops w3), brk := Suc (brk w3)\<rparr>"
  have "reliable w3" using assms(2) w3(3) by (simp add: reliable_def)
  then have rel: "reliable w3" "reliable ?w4" by simp_all
  then obtain k where blocks: "read_blocks 0 content ?w4 = (take MAX_FILE_CHARS content, ?w4\<lparr>io_ops := k\<rparr>)"
    using read_blocks_reliable [of ?w4 0 content] by (auto simp: MAX_FILE_CHARS_def)
  have "plenty w3" using w3(2) by (simp add: online_def del: online_sound online_served)
  then have "soap_array MAX_FILE_CHARS (w3\<lparr>io_ops := Suc (io_ops w3)\<rparr>) = Some ?w4"
    by (simp add: soap_array_def malloc_def plenty_def)
  with w3 rel blocks assms(6) show ?case
    by (auto simp: fopen_read_def io_reliable)
qed simp

text \<open>C18. The sender of a message stores its attachment, and every user who may see the message reads back the same
  bytes, provided that they fit into the buffer of the reader.\<close>

theorem attachment_roundtrip:
  assumes "online d w" "reliable w" "login_fit sender" "login_user d sender (db w) = Some u"
    and "length (own_message (db w) (u_id u) c t) = 1" "files w (create_file_path c t) = None"
    and "content \<noteq> []" "length content \<le> MAX_FILE_CHARS"
    and "login_fit reader" "login_user d reader (db w) = Some v" "length (visible (db w) (u_id v) c t) = 1"
  shows "\<exists>w1 w2. psdims__send_attachment srv sender c t (Some content) (Some e) w = Some (SOAP_OK, Some 0, w1) \<and>
    psdims__get_attachment srv reader c t (Some old) w1 = Some (SOAP_OK, Some content, w2)"
proof -
  obtain w1 where w1: "psdims__send_attachment srv sender c t (Some content) (Some e) w = Some (SOAP_OK, Some 0, w1)"
    "online d w1" "reliable w1" "db w1 = db w" "files w1 = (files w)(create_file_path c t \<mapsto> content)"
    using send_attachment_stores [OF assms(1-6), of srv content e] assms(7) by auto
  from get_attachment_reads [OF w1(2,3) assms(9), of v c t content srv old] w1 assms(8,10,11) show ?thesis by auto
qed

lemma attachment_roundtrip_witness:
  "\<exists>w1 w2. psdims__send_attachment sample_server (login_of ''ana'' ''a'') 7 100 (Some ''data'') (Some 0) sample_world =
      Some (SOAP_OK, Some 0, w1) \<and>
    psdims__get_attachment sample_server (login_of ''bob'' ''b'') 7 100 (Some []) w1 = Some (SOAP_OK, Some ''data'', w2)"
  by (rule attachment_roundtrip [OF sample_online _ _ sample_logins(1) _ _ _ _ _ sample_logins(2)])
    (simp_all add: sample_eval reliable_def visible_def MAX_FILE_CHARS_def)

text \<open>An empty attachment creates an empty file and is reported as an error; no attachment can be stored for the
  message afterwards.\<close>

theorem empty_attachment_blocks:
  assumes "online d w" "reliable w" "login_fit sender" "login_user d sender (db w) = Some u"
    and "length (own_message (db w) (u_id u) c t) = 1" "files w (create_file_path c t) = None"
  shows "\<exists>w1 w2. psdims__send_attachment srv sender c t (Some []) (Some e) w = Some (SOAP_USER_ERROR, Some 0, w1) \<and>
    psdims__send_attachment srv sender c t (Some content) (Some e) w1 = Some (SOAP_USER_ERROR, Some 0, w2) \<and>
    files w2 (create_file_path c t) = Some []"
proof -
  obtain w1 where w1: "psdims__send_attachment srv sender c t (Some []) (Some e) w = Some (SOAP_USER_ERROR, Some 0, w1)"
    "online d w1" "reliable w1" "db w1 = db w" "files w1 = (files w)(create_file_path c t \<mapsto> [])"
    using send_attachment_stores [OF assms, of srv "[]" e] by auto
  have login: "login_user d sender (db w1) = Some u" using assms(4) w1(4) by simp
  have "\<exists>w2. psdims__send_attachment srv sender c t (Some content) (Some e) w1 = Some (SOAP_USER_ERROR, Some 0, w2) \<and>
    files w2 (create_file_path c t) = Some []"
    unfolding psdims__send_attachment_def
  proof (simp only: option.distinct if_False Let_def, rule with_login_as [OF w1(2) assms(3) login], goal_cases)
    case (2 p w3)
    note [simp] = online_eqs [where d = d, OF 2(1)] 2(2-6) assms(5) w1(4,5)
    let ?w4 = "asked 200 (Sel_can_attach (u_id u) c t) (narrow [u_id u, t, c] w3)"
    have "reliable ?w4" using w1(3) by (simp add: reliable_def)
    then obtain n where dir: "make_files_dir ?w4 = ?w4\<lparr>files_dir := True, io_ops := n\<rparr>"
      using make_files_dir_reliable by blast
    have "online d (?w4\<lparr>files_dir := True, io_ops := n\<rparr>)" by simp
    then obtain w5 where w5: "alloc_file_path c t (?w4\<lparr>files_dir := True, io_ops := n\<rparr>) = Some (create_file_path c t, w5)"
      "env w5 = env w1" "files w5 = files w1"
      by (rule alloc_file_path_online [where c = c and t = t]) simp
    then have "reliable w5" using w1(3) by (simp add: reliable_def)
    with w5 show ?case by (auto simp: dir fopen_read_def io_reliable)
  qed simp
  with w1(1) show ?thesis by blast
qed

lemma empty_attachment_blocks_witness:
  "\<exists>w1 w2. psdims__send_attachment sample_server (login_of ''ana'' ''a'') 7 100 (Some []) (Some 0) sample_world =
      Some (SOAP_USER_ERROR, Some 0, w1) \<and>
    psdims__send_attachment sample_server (login_of ''ana'' ''a'') 7 100 (Some ''data'') (Some 0) w1 =
      Some (SOAP_USER_ERROR, Some 0, w2) \<and> files w2 (create_file_path 7 100) = Some []"
  by (rule empty_attachment_blocks [OF sample_online _ _ sample_logins(1)])
    (simp_all add: sample_eval reliable_def)

text \<open>Asking for the attachment of a visible message before it has been stored crashes the server.\<close>

theorem missing_attachment_crashes:
  assumes "online d w" "login_fit login" "login_user d login (db w) = Some u"
    and "length (visible (db w) (u_id u) c t) = 1" "files w (create_file_path c t) = None"
  shows "psdims__get_attachment srv login c t (Some old) w = None"
  unfolding psdims__get_attachment_def
proof (rule with_login_as [OF assms(1-3)], goal_cases)
  case (2 p w1)
  note [simp] = online_eqs [where d = d, OF 2(1)] 2(2-6) assms(4)
  let ?w2 = "asked 500 (Sel_have_attach (u_id u) c t) (narrow [u_id u, t, c] w1)"
  have "online d ?w2" by simp
  then obtain w3 where w3: "alloc_file_path c t ?w2 = Some (create_file_path c t, w3)" "files w3 = files w"
    by (rule alloc_file_path_online [where c = c and t = t]) simp
  then show ?case using assms(5) by (simp add: fopen_read_def io_def)
qed simp

lemma missing_attachment_crashes_witness:
  "psdims__get_attachment sample_server (login_of ''bob'' ''b'') 7 100 (Some []) sample_world = None"
  by (rule missing_attachment_crashes [OF sample_online _ sample_logins(2)])
    (simp_all add: sample_eval visible_def)

end
