(* ===== verification/Server_Limits.thy ===== *)
theory Server_Limits
  imports Chat_Specs Attachment_Specs
begin

text \<open>
  Where the server's buffers are too small and where error codes are taken for answers.
\<close>

section \<open>Buffers\<close>

lemma run_sql_corrupted: "corrupted w \<Longrightarrow> corrupted (snd (run_sql cap st w))"
  by (simp add: run_sql_eq split: option.split prod.split)

lemma sprintf_modern: "modern t \<Longrightarrow> corrupted (snd (sprintf_d 10 t w))" "fst (sprintf_d cap n w) = str_d n"
  "corrupted w \<Longrightarrow> corrupted (snd (sprintf_d cap n w))"
  by (simp_all add: sprintf_d_def modern_length)

text \<open>The functions that store a time print it into ten bytes, which a time since September 2001 overflows by
  one: every friend request, friendship, new chat and new member corrupts the memory of the server.\<close>

theorem times_overflow:
  assumes "modern t" "mysql p \<noteq> None"
  shows "corrupted (snd (send_request p i j t w)) \<and> corrupted (snd (accept_friend_request p i j t w)) \<and>
    corrupted (snd (snd (add_chat p i desc t w))) \<and> corrupted (snd (add_user_chat p i c rt t w))"
proof -
  have run: "run_sql cap st w1 = (x, w2) \<Longrightarrow> corrupted w1 \<Longrightarrow> corrupted w2" for cap st w1 x w2
    using run_sql_corrupted [of w1 cap st] by simp
  have big: "10 \<le> strlen (str_d t)" using modern_length [OF assms(1)] by simp
  have decline: "corrupted w1 \<Longrightarrow> corrupted (snd (decline_friend_request p i j w1))" for w1
    by (auto simp: decline_friend_request_def sprintf_d_def Let_def split: prod.split option.split dest!: run)
  have "corrupted (snd (send_request p i j t w))"
    using assms(2) big by (auto simp: send_request_def sprintf_d_def Let_def split: prod.split option.split dest!: run)
  moreover have "corrupted (snd (accept_friend_request p i j t w))"
    using assms(2) big decline
    by (auto simp: accept_friend_request_def sprintf_d_def Let_def case_prod_unfold split: option.split dest: run
        intro!: decline run_sql_corrupted)
  moreover have "corrupted (snd (snd (add_chat p i desc t w)))"
    using assms(2) big by (auto simp: add_chat_def sprintf_d_def Let_def split: prod.split option.split dest!: run)
  moreover have "corrupted (snd (add_user_chat p i c rt t w))"
    using assms(2) big by (auto simp: add_user_chat_def sprintf_d_def Let_def split: prod.split option.split dest!: run)
  ultimately show ?thesis by blast
qed

lemma times_overflow_witness:
  "modern 1400000000 \<and> corrupted (snd (send_request (sample_server\<lparr>mysql := Some 0\<rparr>) 2 3 1400000000 sample_world))"
proof -
  have modern: "modern 1400000000" by (simp add: modern_def)
  from times_overflow [OF this, of "sample_server\<lparr>mysql := Some 0\<rparr>"] modern show ?thesis by simp
qed

text \<open>The functions that ask for members, friends, requests and times have room for every number: they never
  write beyond the end of an array.\<close>

theorem questions_fit:
  assumes "served d w" "mysql p = Some h"
  shows "corrupted (snd (exist_request p i j w)) = corrupted w \<and> corrupted (snd (exist_friendly p i j w)) = corrupted w \<and>
    corrupted (snd (exist_user_in_chat p i c w)) = corrupted w \<and>
    corrupted (snd (exist_user_entry_in_chat p i c w)) = corrupted w \<and>
    corrupted (snd (chat_exist p c w)) = corrupted w \<and>
    corrupted (snd (the (exist_timestamp_in_messages p c t w))) = corrupted w"
  using length_str_d_le [of i] length_str_d_le [of j] length_str_d_le [of c] length_str_d_le [of t]
  by (simp add: exist_request_eq [OF assms] exist_friendly_eq [OF assms] exist_user_in_chat_eq [OF assms]
      exist_user_entry_in_chat_eq [OF assms] chat_exist_eq [OF assms] exist_timestamp_eq [OF assms]
      sql_text_def sql_head.simps sql_tail.simps)

lemma questions_fit_witness:
  "\<not> corrupted (snd (exist_friendly (sample_server\<lparr>mysql := Some 0\<rparr>) (- (2 ^ 31)) (- (2 ^ 31)) sample_world))"
  using questions_fit [OF sample_served, of "sample_server\<lparr>mysql := Some 0\<rparr>" 0] by (simp add: sample_world_def)

section \<open>Answers\<close>

text \<open>Asking for one chat never succeeds: the handler waits for a 1 that \<open>get_all_chat_info\<close> does not return.\<close>

theorem get_chat_info_fails:
  assumes "psdims__get_chat_info srv login c info w = Some (r, out, w')"
  shows "r = SOAP_USER_ERROR"
proof -
  have never: "get_all_chat_info p c info w1 = Some (r1, info', w2) \<Longrightarrow> r1 = -1" for p info w1 r1 info' w2
    by (auto simp: get_all_chat_info_def Let_def split: if_split_asm option.split_asm prod.split_asm)
  show ?thesis
    using assms
    by (auto simp: psdims__get_chat_info_def with_login_def elim!: bind_SomeE dest!: never
        split: if_split_asm option.split_asm prod.split_asm)
qed

lemma get_chat_info_fails_witness:
  "\<exists>w'. psdims__get_chat_info sample_server None 7 None sample_world = Some (SOAP_USER_ERROR, None, w')"
proof -
  obtain out w' where run: "psdims__get_chat_info sample_server None 7 None sample_world = Some (SOAP_USER_ERROR, out, w')"
    and out: "out = None"
    using sample_online
    by (cases rule: with_login_online [of _ _ None sample_server "False" None "\<lambda>_ _ _. None"])
      (auto simp: psdims__get_chat_info_def login_fit_def with_login_def split: option.splits)
  from get_chat_info_fails [OF run] run out show ?thesis by blast
qed

text \<open>C39. When the fourth query of a request to add a member fails, the one of \<open>is_admin\<close>, and only that one, its
  error code passes for a yes: any user, administrator or not, adds a friend to any valid chat.\<close>

theorem admin_bypass:
  assumes "sound d w" "plenty w" "\<not> refuse (env w) (connects w)" "login_fit login"
    and "login_user d login (db w) = Some u" "\<And>n. outage (env w) n \<longleftrightarrow> n = queries w + 3"
    and "short name" "find_user d name (db w) = Some v" "u_id v \<noteq> u_id u" "friends_in (db w) (u_id v) (u_id u)"
    and "valid_chat (db w) c" "\<not> entry_of (db w) (u_id v) c"
  shows "\<exists>w'. psdims__add_member srv login (Some name) c e w = Some (SOAP_OK, e, w') \<and> member_of (db w') (u_id v) c"
  unfolding psdims__add_member_def
proof (rule with_login_runs [OF assms(1-5)], goal_cases)
  case (4 p w1)
  let ?i = "u_id u" and ?j = "u_id v" and ?t = "clock (env w) (ticks w)"
  have ok: "db_ok d (db w)" using assms(1) by (simp add: sound_def)
  note v = find_user_id [OF ok assms(8)]
  have no_member: "\<not> member_of (db w) ?j c" using assms(12) by (auto simp: member_of_def entry_of_def)
  define w2 where "w2 = w1\<lparr>ticks := Suc (ticks w)\<rparr>"
  define w3 where "w3 = asked 200 (Sel_chat_valid c) w2"
  define w4 where "w4 = asked 200 (Sel_admin ?i c) (narrow [?i, c] w3)"
  define w5 where "w5 = asked MAX_QUERY_CHARS (Sel_user_id name) w4"
  define w6 where "w6 = asked 200 (Sel_friendship ?j ?i) w5"
  define w7 where "w7 = asked 200 (Sel_member ?j c) w6"
  define w8 where "w8 = asked 200 (Sel_member_entry ?j c) w7"
  note ws = w2_def w3_def w4_def w5_def w6_def w7_def w8_def
  have same: "db w2 = db w" "db w3 = db w" "db w4 = db w" "db w5 = db w" "db w6 = db w" "db w7 = db w" "db w8 = db w"
    "env w2 = env w" "env w3 = env w" "env w4 = env w" "env w5 = env w" "env w6 = env w" "env w7 = env w" "env w8 = env w"
    "queries w2 = queries w + 2" "queries w3 = queries w + 3" "queries w4 = queries w + 4" "queries w5 = queries w + 5"
    "queries w6 = queries w + 6" "queries w7 = queries w + 7" "queries w8 = queries w + 8"
    using 4 by (simp_all add: ws)
  have sound: "sound d w2" "sound d w4" "served d w3" "served d w5" "served d w6" "served d w7" "served d w8"
    using assms(1) same by (simp_all add: sound_def served_def)
  have calls: "chat_exist p c w2 = (1, w3)" "is_admin p ?i c w3 = (-1, w4)" "get_user_id p name w4 = Some (?j, w5)"
    "exist_friendly p ?j ?i w5 = (1, w6)" "exist_user_in_chat p ?j c w6 = (0, w7)"
    "exist_user_entry_in_chat p ?j c w7 = (0, w8)"
    using chat_exist_eq [OF sound_served [OF sound(1)] 4(1), of c] is_admin_eq [OF sound(3) 4(1), of ?i c]
      get_user_id_eq [OF sound(2) 4(1) assms(7)] exist_friendly_eq [OF sound(4) 4(1), of ?j ?i]
      exist_user_in_chat_eq [OF sound(5) 4(1), of ?j c] exist_user_entry_in_chat_eq [OF sound(6) 4(1), of ?j c]
      assms(6,8,10-12) no_member
    by (simp_all add: same w3_def w4_def w5_def w6_def w7_def w8_def)
  obtain r w9 where add: "add_user_chat p ?j c ?t ?t w8 = (r, w9)" by fastforce
  let ?D = "(db w)\<lparr>t_members := t_members (db w) @
      [\<lparr>m_user = ?j, m_chat = c, m_time = ?t, m_read_time = ?t, m_rem_time = 0\<rparr>]\<rparr>"
  have runs: "exec d k (Ins_member ?j c ?t ?t) (db w) = Some ([], ?D)" for k
    using v(1) valid_chat_id [OF assms(11)] by simp
  have "r = 0 \<and> db w9 = ?D"
    using add_user_chat_wrote [OF sound(7) 4(1), of ?j c ?t ?t] assms(6)
    by (auto simp: add wrote_def same runs simp del: exec.simps)
  then have "r = 0 \<and> member_of (db w9) ?j c" by (simp add: member_of_def)
  then show ?case
    using calls add v assms(9) 4(4,6) by (simp add: w2_def [symmetric])
qed (use assms(6) in simp_all)

lemma admin_bypass_witness:
  "\<exists>w'. psdims__add_member sample_server (login_of ''bob'' ''b'') (Some ''eva'') 7 None
      (sample_world\<lparr>env := sample_env\<lparr>outage := \<lambda>n. n = 3\<rparr>,
        db := sample_db\<lparr>t_friends := [\<lparr>f_id1 = 4, f_id2 = 3, f_time = 4\<rparr>]\<rparr>\<rparr>) = Some (SOAP_OK, None, w') \<and>
    member_of (db w') 4 7 \<and> \<not> admin_of sample_db 3 7"
proof -
  let ?w = "sample_world\<lparr>env := sample_env\<lparr>outage := \<lambda>n. n = 3\<rparr>,
        db := sample_db\<lparr>t_friends := [\<lparr>f_id1 = 4, f_id2 = 3, f_time = 4\<rparr>]\<rparr>\<rparr>"
  have "db_ok sample_dialect (sample_db\<lparr>t_friends := [\<lparr>f_id1 = 4, f_id2 = 3, f_time = 4\<rparr>]\<rparr>)"
    by (rule db_ok_set_friends [OF sample_db_ok]) (simp add: sample_db_def user_ids_def)
  then have "sound sample_dialect ?w"
    using sample_served by (simp add: sound_def served_def sample_world_def sample_env_def)
  moreover have "plenty ?w" using sample_plenty by (simp add: plenty_def)
  ultimately show ?thesis
    using admin_bypass [of sample_dialect ?w "login_of ''bob'' ''b''" "t_users sample_db ! 2" "''eva''"
        "t_users sample_db ! 3" 7 sample_server None]
    by (simp add: sample_eval)
qed

end
