(* ===== verification/Server_Listen.thy ===== *)
theory Server_Listen
  imports Server_States
begin

text \<open>
  The rest of \<open>server/psd_ims_server.c\<close> and \<open>server/server.c\<close>: accepting connections, with a thread
  for each of them or without, the count of the threads, and the loop of \<open>main\<close>.  What the
  environment decides about one connection is in a \<open>listen_event\<close>; signals are in \<open>Server_Program\<close>.
\<close>

section \<open>The environment and the state\<close>

datatype accepted = Valid_socket | Socket_error | Timed_out

text \<open>\<open>ev_err\<close>, \<open>ev_err_again\<close>: \<open>mysql_errno\<close> is not 0, before and after reconnecting.  \<open>ev_copy\<close>,
  \<open>ev_thread\<close>: \<open>soap_copy\<close> and \<open>pthread_create\<close> work.  \<open>ev_request\<close>: what the client sends, if
  gSOAP understands it.\<close>

record listen_event =
  ev_accept :: accepted
  ev_err :: bool
  ev_err_again :: bool
  ev_copy :: bool
  ev_thread :: bool
  ev_request :: "request option"

text \<open>\<open>threads\<close> counts the threads that really exist.\<close>

record server =
  server_persistence :: persistence
  n_alive_threads :: cint
  threads :: nat

definition MAX_ALIVE_THREADS :: int where
  "MAX_ALIVE_THREADS = 200"

section \<open>Start and end\<close>

text \<open>\<open>bound\<close>: \<open>soap_bind\<close> works.\<close>

definition init_server :: "string \<Rightarrow> string \<Rightarrow> bool \<Rightarrow> world \<Rightarrow> (cint \<times> server option \<times> world) option" where
  "init_server user pass bound w = do {
     (opened, w) \<leftarrow> init_persistence user pass w;
     case opened of None \<Rightarrow> Some (-1, None, w)
     | Some p \<Rightarrow>
         let s = \<lparr>server_persistence = p, n_alive_threads = 0, threads = 0\<rparr> in
         if bound then Some (0, Some s, w) else Some (-1, Some s, w)
   }"

text \<open>\<^const>\<open>None\<close>: it waits for the threads.\<close>

definition free_server :: "server \<Rightarrow> world \<Rightarrow> world option" where
  "free_server s w =
     (if 0 < sint (n_alive_threads s) then None else Some (free_persistence (server_persistence s) w))"

section \<open>Listening\<close>

definition restore_persistence :: "listen_event \<Rightarrow> server \<Rightarrow> world \<Rightarrow> bool \<times> server \<times> world" where
  "restore_persistence e s w =
     (if \<not> ev_err e then (True, s, w)
      else case reconnect_persistence (server_persistence s) w of
        (_, p, w) \<Rightarrow> (\<not> ev_err_again e, s\<lparr>server_persistence := p\<rparr>, w))"

definition sthread_listen_connection :: "listen_event \<Rightarrow> server \<Rightarrow> world \<Rightarrow> (cint \<times> server \<times> world) option" where
  "sthread_listen_connection e s w =
     (if ev_accept e \<noteq> Valid_socket then Some (-1, s, w)
      else case restore_persistence e s w of (ok, s, w) \<Rightarrow>
        if \<not> ok then Some (-1, s, w)
        else case ev_request e of
          None \<Rightarrow> Some (0, s, w)
        | Some rq \<Rightarrow> do { (_, w) \<leftarrow> serve (server_persistence s) rq w; Some (0, s, w) })"

definition mthread_listen_connection :: "listen_event \<Rightarrow> server \<Rightarrow> world \<Rightarrow> cint \<times> server \<times> world" where
  "mthread_listen_connection e s w =
     (if ev_accept e \<noteq> Valid_socket then (-1, s, w)
      else case restore_persistence e s w of (ok, s, w) \<Rightarrow>
        if \<not> ok then (-1, s, w)
        else if \<not> ev_copy e then (-1, s, w)
        else if MAX_ALIVE_THREADS \<le> sint (n_alive_threads s) then (-1, s, w)
        else (0, s\<lparr>n_alive_threads := n_alive_threads s + 1,
                    threads := (if ev_thread e then Suc (threads s) else threads s)\<rparr>, w))"

text \<open>The end of \<open>thread_serve_request\<close>, after \<open>soap_serve\<close>.\<close>

definition thread_ends :: "server \<Rightarrow> server" where
  "thread_ends s = s\<lparr>n_alive_threads := n_alive_threads s - 1, threads := threads s - 1\<rparr>"

definition listen_connection :: "listen_event \<Rightarrow> server \<Rightarrow> world \<Rightarrow> (cint \<times> server \<times> world) option" where
  "listen_connection e s w =
     (if thread_safe (server_persistence s) then Some (mthread_listen_connection e s w)
      else sthread_listen_connection e s w)"

text \<open>The loop of \<open>main\<close> over the connections that arrive; the flag says whether it is still running
  after them.\<close>

primrec listen_loop :: "listen_event list \<Rightarrow> server \<Rightarrow> world \<Rightarrow> (bool \<times> server \<times> world) option" where
  "listen_loop [] s w = Some (True, s, w)"
| "listen_loop (e # es) s w = do {
     (r, s, w) \<leftarrow> listen_connection e s w;
     if r = 0 then listen_loop es s w else Some (False, s, w)
   }"

section \<open>The server without threads\<close>

definition calm_event :: "listen_event \<Rightarrow> bool" where
  "calm_event e \<longleftrightarrow> ev_accept e = Valid_socket \<and> \<not> ev_err e \<and>
     (case ev_request e of None \<Rightarrow> True | Some rq \<Rightarrow> request_clean rq)"

text \<open>Without threads the loop serves one request after the other: it is a run of the transition system
  \<open>server_step\<close>, and goes on listening.\<close>

theorem sequential_server_steps:
  assumes "\<not> thread_safe (server_persistence s)" "\<forall>e \<in> set es. calm_event e" "listen_loop es s w = Some (on, s', w')"
  shows "on \<and> s' = s \<and> reachable (server_persistence s) w w'"
  using assms(2,3)
proof (induction es arbitrary: w)
  case (Cons e es)
  from Cons.prems obtain w1 where w1: "listen_connection e s w = Some (0, s, w1)" "listen_loop es s w1 = Some (on, s', w')"
    "w1 = w \<or> server_step (server_persistence s) w w1"
    using assms(1)
    by (auto simp: listen_connection_def sthread_listen_connection_def restore_persistence_def calm_event_def
        bind_eq_Some_conv server_step.simps split: option.splits)
  have "on \<and> s' = s \<and> reachable (server_persistence s) w1 w'" using Cons.prems(1) by (intro Cons.IH w1(2)) simp
  then show ?case using w1(3) by (auto intro: converse_rtranclp_into_rtranclp)
qed simp

section \<open>The count of the threads\<close>

inductive thread_step :: "server \<Rightarrow> server \<Rightarrow> bool" where
  accept: "mthread_listen_connection e s w = (r, s', w') \<Longrightarrow> thread_step s s'"
| finish: "0 < threads s \<Longrightarrow> thread_step s (thread_ends s)"

inductive_cases thread_stepE: "thread_step s s'"

abbreviation fresh_server :: "persistence \<Rightarrow> server" where
  "fresh_server p \<equiv> \<lparr>server_persistence = p, n_alive_threads = 0, threads = 0\<rparr>"

definition counted :: "server \<Rightarrow> bool" where
  "counted s \<longleftrightarrow> int (threads s) \<le> sint (n_alive_threads s) \<and> sint (n_alive_threads s) \<le> MAX_ALIVE_THREADS"

text \<open>Threads that are counted but do not exist.\<close>

definition lost :: "server \<Rightarrow> int" where
  "lost s = sint (n_alive_threads s) - int (threads s)"

lemma sint_succ: "0 \<le> sint n \<Longrightarrow> sint n < 200 \<Longrightarrow> sint (n + 1 :: cint) = sint n + 1"
  by (simp add: signed_take_bit_int_eq_self sint_word_ariths)

lemma sint_pred: "0 < sint n \<Longrightarrow> sint n \<le> 200 \<Longrightarrow> sint (n - 1 :: cint) = sint n - 1"
  by (simp add: signed_take_bit_int_eq_self sint_word_ariths)

lemma accept_counts:
  assumes "mthread_listen_connection e s w = (r, s', w')" "counted s"
  shows "counted s'" "lost s' = lost s + of_bool (r = 0 \<and> \<not> ev_thread e)" "threads s \<le> threads s'"
  using assms sint_succ [of "n_alive_threads s"]
  by (auto simp: mthread_listen_connection_def restore_persistence_def counted_def lost_def MAX_ALIVE_THREADS_def
      split: if_splits prod.splits)

lemma thread_ends_simps [simp]:
  "threads (thread_ends s) = threads s - 1" "server_persistence (thread_ends s) = server_persistence s"
  by (simp_all add: thread_ends_def)

lemma finish_counts:
  assumes "0 < threads s" "counted s"
  shows "counted (thread_ends s)" "lost (thread_ends s) = lost s"
  using assms sint_pred [of "n_alive_threads s"]
  by (auto simp: thread_ends_def counted_def lost_def MAX_ALIVE_THREADS_def)

lemma thread_step_counts: "thread_step s s' \<Longrightarrow> counted s \<Longrightarrow> counted s' \<and> lost s \<le> lost s'"
  by (auto elim!: thread_stepE simp: accept_counts finish_counts)

lemma thread_steps_count: "thread_step\<^sup>*\<^sup>* s s' \<Longrightarrow> counted s \<Longrightarrow> counted s' \<and> lost s \<le> lost s'"
  by (induction rule: rtranclp_induct) (auto dest: thread_step_counts)

lemma fresh_counted: "counted (fresh_server p)" "lost (fresh_server p) = 0"
  by (simp_all add: counted_def lost_def MAX_ALIVE_THREADS_def)

text \<open>C37. However connections arrive, threads end and \<open>pthread_create\<close> fails: the counter never wraps around, is at
  most 200 and never below the number of threads.\<close>

theorem thread_count_bounded:
  assumes "thread_step\<^sup>*\<^sup>* (fresh_server p) s"
  shows "int (threads s) \<le> sint (n_alive_threads s) \<and> sint (n_alive_threads s) \<le> 200"
  using thread_steps_count [OF assms fresh_counted(1)] by (simp add: counted_def MAX_ALIVE_THREADS_def)

definition sample_event :: listen_event where
  "sample_event = \<lparr>ev_accept = Valid_socket, ev_err = False, ev_err_again = False, ev_copy = True, ev_thread = True,
     ev_request = Some kim_registers\<rparr>"

lemma accept_sample:
  "mthread_listen_connection sample_event (fresh_server p) w = (0, \<lparr>server_persistence = p, n_alive_threads = 1, threads = 1\<rparr>, w)"
  "mthread_listen_connection (sample_event\<lparr>ev_thread := False\<rparr>) (fresh_server p) w =
    (0, \<lparr>server_persistence = p, n_alive_threads = 1, threads = 0\<rparr>, w)"
  by (simp_all add: mthread_listen_connection_def restore_persistence_def sample_event_def MAX_ALIVE_THREADS_def)

lemma thread_count_bounded_witness:
  "thread_step\<^sup>*\<^sup>* (fresh_server sample_server) \<lparr>server_persistence = sample_server, n_alive_threads = 1, threads = 1\<rparr> \<and>
    int 1 \<le> sint (1 :: cint) \<and> sint (1 :: cint) \<le> 200"
proof -
  have "thread_step\<^sup>*\<^sup>* (fresh_server sample_server) \<lparr>server_persistence = sample_server, n_alive_threads = 1, threads = 1\<rparr>"
    using thread_step.accept [OF accept_sample(1)] by (rule r_into_rtranclp)
  from thread_count_bounded [OF this] this show ?thesis by simp
qed

lemma sequential_server_steps_witness:
  "\<exists>w'. listen_loop [sample_event] (fresh_server (sample_server\<lparr>thread_safe := False\<rparr>)) sample_world =
      Some (True, fresh_server (sample_server\<lparr>thread_safe := False\<rparr>), w') \<and> length (t_users (db w')) = 5 \<and>
    reachable (sample_server\<lparr>thread_safe := False\<rparr>) sample_world w'"
proof -
  let ?s = "fresh_server (sample_server\<lparr>thread_safe := False\<rparr>)"
  obtain k w' where w': "serve (server_persistence ?s) kim_registers sample_world = Some (SOAP_OK, w')"
    "db w' = (db sample_world)\<lparr>t_users := t_users (db sample_world) @
      [\<lparr>u_id = k, u_valid = Some 1, u_name = ''kim'', u_pass = ''k'', u_info = ''i''\<rparr>]\<rparr>"
    by (rule kim_registers_online [OF sample_online]) (auto simp: sample_eval)
  then have run: "listen_loop [sample_event] ?s sample_world = Some (True, ?s, w')"
    by (simp add: listen_connection_def sthread_listen_connection_def restore_persistence_def sample_event_def)
  have "\<forall>e \<in> set [sample_event]. calm_event e" by (simp add: calm_event_def sample_event_def kim_clean)
  from sequential_server_steps [OF _ this run] run w'(2) show ?thesis
    by (auto simp: sample_world_def sample_db_def)
qed

section \<open>Waiting for the threads\<close>

lemma ends_count:
  assumes "counted s" "n \<le> threads s"
  shows "counted ((thread_ends ^^ n) s) \<and> lost ((thread_ends ^^ n) s) = lost s \<and>
    threads ((thread_ends ^^ n) s) = threads s - n \<and>
    server_persistence ((thread_ends ^^ n) s) = server_persistence s"
  using assms(2)
proof (induction n)
  case (Suc n)
  then show ?case
    using finish_counts [of "(thread_ends ^^ n) s"] by simp
qed (use assms(1) in simp)

text \<open>After all its threads have ended, \<open>free_server\<close> returns if every \<open>pthread_create\<close> has worked.  One failure
  is enough, and it waits for ever: the counter has been raised for a thread that does not exist.\<close>

theorem free_server_waits:
  assumes "thread_step\<^sup>*\<^sup>* (fresh_server p) s"
  shows "free_server ((thread_ends ^^ threads s) s) w =
    (if lost s = 0 then Some (free_persistence (server_persistence s) w) else None)"
proof -
  have "counted s" using thread_steps_count [OF assms fresh_counted(1)] by simp
  then have "lost ((thread_ends ^^ threads s) s) = lost s" "threads ((thread_ends ^^ threads s) s) = 0"
    "server_persistence ((thread_ends ^^ threads s) s) = server_persistence s" "0 \<le> lost s"
    using ends_count [of s "threads s"] by (simp_all add: counted_def lost_def)
  then show ?thesis by (auto simp: free_server_def lost_def)
qed

lemma free_server_waits_witness:
  "thread_step\<^sup>*\<^sup>* (fresh_server sample_server) \<lparr>server_persistence = sample_server, n_alive_threads = 1, threads = 0\<rparr> \<and>
    free_server \<lparr>server_persistence = sample_server, n_alive_threads = 1, threads = 0\<rparr> sample_world = None"
proof -
  have "thread_step\<^sup>*\<^sup>* (fresh_server sample_server) \<lparr>server_persistence = sample_server, n_alive_threads = 1, threads = 0\<rparr>"
    using thread_step.accept [OF accept_sample(2)] by (rule r_into_rtranclp)
  from free_server_waits [OF this] this show ?thesis by (simp add: lost_def)
qed

text \<open>When 200 threads are counted, the next connection ends the loop of \<open>main\<close>: the server stops instead of
  turning the client away, and it does so without \<open>free_server\<close>.\<close>

theorem full_server_stops:
  assumes "thread_safe (server_persistence s)" "n_alive_threads s = 200"
  shows "\<exists>s' w'. listen_loop (e # es) s w = Some (False, s', w') \<and> n_alive_threads s' = 200 \<and> threads s' = threads s"
  using assms
  by (auto simp: listen_connection_def mthread_listen_connection_def restore_persistence_def MAX_ALIVE_THREADS_def
      split: prod.split)

lemma full_server_stops_witness:
  "\<exists>s' w'. listen_loop [sample_event] \<lparr>server_persistence = sample_server, n_alive_threads = 200, threads = 200\<rparr> sample_world =
      Some (False, s', w') \<and> threads s' = 200"
  using full_server_stops [of "\<lparr>server_persistence = sample_server, n_alive_threads = 200, threads = 200\<rparr>"
      sample_event "[]" sample_world]
  by (auto simp: sample_server_def)

end
