(* ===== verification/Server_Program.thy ===== *)
theory Server_Program
  imports Server_Listen
begin

text \<open>
  The program \<open>server.c\<close>: \<open>main\<close>, the signal handler, and the threads that serve the connections.
  Connections, signals and the moments at which a thread serves its request come from outside, in any
  order; a thread serves its request as a whole.  The handler is attached before \<open>init_server\<close>: a signal
  that comes before this has returned is not modelled.
\<close>

section \<open>The program\<close>

text \<open>\<open>thread_serve_request\<close>, for a thread that exists, with what its client sends.\<close>

definition thread_serve_request :: "request option \<Rightarrow> server \<Rightarrow> world \<Rightarrow> (server \<times> world) option" where
  "thread_serve_request rq s w =
     (if threads s = 0 then Some (s, w)
      else do {
        w \<leftarrow> (case rq of None \<Rightarrow> Some w | Some rq \<Rightarrow> map_option snd (serve (server_persistence s) rq w));
        Some (thread_ends s, w)
      })"

datatype server_event = Connection listen_event | Thread_runs "request option" | Signal

text \<open>The handler \<open>stop_server\<close>: \<open>free_server\<close> waits while threads are counted, and only they run.
  Afterwards the connection that \<open>main\<close> waits for fails, and the loop ends.  The flag says whether the
  program is still running.\<close>

fun stop_server :: "server_event list \<Rightarrow> server \<Rightarrow> world \<Rightarrow> (bool \<times> server \<times> world) option" where
  "stop_server es s w =
     (case free_server s w of
        Some w \<Rightarrow> Some (False, s, w)
      | None \<Rightarrow>
          (case es of
             [] \<Rightarrow> Some (True, s, w)
           | Thread_runs rq # es \<Rightarrow> do { (s, w) \<leftarrow> thread_serve_request rq s w; stop_server es s w }
           | _ # es \<Rightarrow> stop_server es s w))"

declare stop_server.simps [simp del]

primrec server_loop :: "server_event list \<Rightarrow> server \<Rightarrow> world \<Rightarrow> (bool \<times> server \<times> world) option" where
  "server_loop [] s w = Some (True, s, w)"
| "server_loop (x # es) s w =
     (case x of
        Connection e \<Rightarrow> do {
          (r, s, w) \<leftarrow> listen_connection e s w;
          if r = 0 then server_loop es s w else Some (False, s, w)
        }
      | Thread_runs rq \<Rightarrow> do { (s, w) \<leftarrow> thread_serve_request rq s w; server_loop es s w }
      | Signal \<Rightarrow> stop_server es s w)"


text \<open>Connections alone: the loop of \<open>Server_Listen\<close>.\<close>

lemma server_loop_connections: "server_loop (map Connection es) s w = listen_loop es s w"
  by (induction es arbitrary: s w) (simp_all cong: if_cong)

section \<open>The end of the program\<close>













end
