(* ===== verification/Network.thy ===== *)
theory Network
  imports Soap_Types
begin

text \<open>
  \<open>client/network.c\<close>: the client's side of the SOAP service.  The stubs \<open>soap_call_psdims__*\<close> are
  generated by the build from \<open>rpc/ims.h\<close>, so they are parameters, collected in the record \<open>remote\<close>;
  what they act on (the network, the server, its database) is a state of any type \<open>'w\<close>.

  A run of the client that crashes, waits for ever or has undefined behaviour in C has the result
  \<^const>\<open>None\<close>.  The strings that the client owns itself are modelled here; the blocks that gSOAP
  allocates for a reply and their hand-over (\<open>soap_unlink\<close>, \<open>net_free_*\<close>) in \<open>Reply_Memory\<close>.
\<close>

section \<open>Pointers to strings\<close>

text \<open>A \<open>char *\<close> of the client is \<open>NULL\<close>, points to a string of its own, to memory not yet written, or holds an
  address that is not (or no more) allocated.\<close>

datatype char_ptr = Null | Live string | Raw | Dangling

text \<open>Reading the string: neither a dangling pointer nor uninitialised memory may be read.\<close>

fun deref :: "char_ptr \<Rightarrow> string option option" where
  "deref Null = Some None"
| "deref (Live s) = Some (Some s)"
| "deref Raw = None"
| "deref Dangling = None"

text \<open>\<open>free\<close>, and the pointer after it: a dangling pointer may not be freed.\<close>

fun free_string :: "char_ptr \<Rightarrow> char_ptr option" where
  "free_string Null = Some Null"
| "free_string (Live s) = Some Dangling"
| "free_string Raw = Some Dangling"
| "free_string Dangling = None"

text \<open>An array for \<open>n\<close> elements, whose \<open>malloc\<close> nobody checks; its elements are accessed only if
  there are any.\<close>

definition alloc_array :: "nat \<Rightarrow> 'z mem_scheme \<Rightarrow> 'z mem_scheme option" where
  "alloc_array n m = (case malloc m of (None, m) \<Rightarrow> if n = 0 then Some m else None | (Some _, m) \<Rightarrow> Some m)"

section \<open>The remote side\<close>

text \<open>A call returns the reply, or \<^const>\<open>None\<close> for every code but \<open>SOAP_OK\<close>; a call that never
  returns has no result at all.  The first argument is the server's URL.\<close>

type_synonym ('w, 'r) stub = "string option \<Rightarrow> login_info \<Rightarrow> 'w \<Rightarrow> ('r option \<times> 'w) option"

record 'w remote =
  soap_call_user_register :: "string option \<Rightarrow> register_info \<Rightarrow> 'w \<Rightarrow> (unit option \<times> 'w) option"
  soap_call_user_unregister :: "('w, unit) stub"
  soap_call_get_user :: "('w, user_info) stub"
  soap_call_get_friends :: "cint \<Rightarrow> ('w, user_list) stub"
  soap_call_get_friend_info :: "string \<Rightarrow> ('w, user_info) stub"
  soap_call_get_chats :: "cint \<Rightarrow> ('w, chat_list) stub"
  soap_call_get_chat_messages :: "cint \<Rightarrow> cint \<Rightarrow> ('w, message_list) stub"
  soap_call_get_attachment :: "cint \<Rightarrow> cint \<Rightarrow> ('w, string) stub"
  soap_call_get_pending_notifications :: "cint \<Rightarrow> (cint \<times> cint) list \<Rightarrow> ('w, notifications) stub"
  soap_call_get_all_data :: "('w, client_data_info) stub"
  soap_call_create_chat :: "new_chat \<Rightarrow> ('w, cint) stub"
  soap_call_add_member :: "string \<Rightarrow> cint \<Rightarrow> ('w, unit) stub"
  soap_call_remove_member :: "string \<Rightarrow> cint \<Rightarrow> ('w, unit) stub"
  soap_call_quit_from_chat :: "cint \<Rightarrow> ('w, unit) stub"
  soap_call_send_message :: "cint \<Rightarrow> sent_message \<Rightarrow> ('w, cint) stub"
  soap_call_send_attachment :: "cint \<Rightarrow> cint \<Rightarrow> string \<Rightarrow> ('w, unit) stub"
  soap_call_send_friend_request :: "string \<Rightarrow> ('w, cint) stub"
  soap_call_accept_request :: "string \<Rightarrow> ('w, cint) stub"
  soap_call_decline_request :: "string \<Rightarrow> ('w, cint) stub"
  wire_int :: "cint option \<Rightarrow> cint" \<comment> \<open>the number a field arrives as, which the server may not have set\<close>
  wire_members :: "string list option \<Rightarrow> string list" \<comment> \<open>and likewise for a list of members\<close>
  disk_fails :: "nat \<Rightarrow> bool" \<comment> \<open>which file operations of the client fail\<close>

section \<open>The state of the client\<close>

record network =
  logged :: bool
  login_name :: char_ptr \<comment> \<open>\<open>login_info.name\<close>\<close>
  login_password :: char_ptr
  serverURL :: char_ptr

text \<open>What the network functions act on: the allocator, the structure \<open>network\<close> and the outside.\<close>

record 'w site = mem +
  net :: "network option"
  outside :: 'w

text \<open>When a call fails, 200 bytes are allocated for the fault's text and written to, whether or not
  the allocation succeeded.\<close>

definition soap_call :: "('w \<Rightarrow> ('r option \<times> 'w) option) \<Rightarrow> ('w, 'z) site_scheme \<Rightarrow> ('r option \<times> ('w, 'z) site_scheme) option" where
  "soap_call f s = do {
     (reply, w) \<leftarrow> f (outside s);
     let s = s\<lparr>outside := w\<rparr>;
     case reply of
       None \<Rightarrow> (case malloc s of (None, s) \<Rightarrow> None | (Some _, s) \<Rightarrow> Some (None, s))
     | Some r \<Rightarrow> Some (Some r, s)
   }"

text \<open>The login data of \<open>network\<close> as a stub reads them.\<close>

definition net_login_info :: "network \<Rightarrow> login_info option" where
  "net_login_info n = do {
     name \<leftarrow> deref (login_name n);
     password \<leftarrow> deref (login_password n);
     Some \<lparr>li_name = name, li_password = password\<rparr>
   }"

section \<open>Creation, login, logout\<close>

definition net_new :: "'z mem_scheme \<Rightarrow> network option \<times> 'z mem_scheme" where
  "net_new m =
     (case malloc m of (None, m) \<Rightarrow> (None, m)
      | (Some _, m) \<Rightarrow>
        (Some \<lparr>logged = False, login_name = Null, login_password = Null, serverURL = Null\<rparr>, m))"

definition net_free :: "network \<Rightarrow> unit option" where
  "net_free n = do {
     _ \<leftarrow> free_string (serverURL n);
     _ \<leftarrow> free_string (login_name n);
     _ \<leftarrow> free_string (login_password n);
     Some ()
   }"

definition net_bind_network :: "string \<Rightarrow> ('w, 'z) site_scheme \<Rightarrow> (int \<times> ('w, 'z) site_scheme) option" where
  "net_bind_network url s = do {
     n \<leftarrow> net s;
     case malloc s of
       (None, s) \<Rightarrow> Some (-1, s\<lparr>net := Some (n\<lparr>serverURL := Null\<rparr>)\<rparr>)
     | (Some _, s) \<Rightarrow> Some (0, s\<lparr>net := Some (n\<lparr>serverURL := Live url\<rparr>)\<rparr>)
   }"

definition net_login ::
  "'w remote \<Rightarrow> string \<Rightarrow> string \<Rightarrow> ('w, 'z) site_scheme \<Rightarrow> (user_info option \<times> ('w, 'z) site_scheme) option" where
  "net_login R name password s = do {
     n \<leftarrow> net s;
     case malloc s of (None, s) \<Rightarrow> Some (None, s)
     | (Some _, s) \<Rightarrow> do {
         url \<leftarrow> deref (serverURL n);
         (reply, s) \<leftarrow> soap_call (soap_call_get_user R url \<lparr>li_name = Some name, li_password = Some password\<rparr>) s;
         case reply of None \<Rightarrow> Some (None, s)
         | Some user_info \<Rightarrow>
         (case malloc s of
            (None, s) \<Rightarrow> Some (None, s\<lparr>net := Some (n\<lparr>login_name := Null\<rparr>)\<rparr>)
          | (Some _, s) \<Rightarrow>
         (case malloc s of
            (None, s) \<Rightarrow> Some (None, s\<lparr>net := Some (n\<lparr>login_name := Null, login_password := Null\<rparr>)\<rparr>)
          | (Some _, s) \<Rightarrow>
            Some (Some user_info, s\<lparr>net := Some (n\<lparr>login_name := Live name, login_password := Live password,
              logged := True\<rparr>)\<rparr>)))
       }
   }"

definition net_logout :: "('w, 'z) site_scheme \<Rightarrow> ('w, 'z) site_scheme option" where
  "net_logout s = do {
     n \<leftarrow> net s;
     name \<leftarrow> free_string (login_name n);
     password \<leftarrow> free_string (login_password n);
     Some (s\<lparr>net := Some (n\<lparr>logged := False, login_name := name, login_password := password\<rparr>)\<rparr>)
   }"

section \<open>Requests that fill a structure\<close>

text \<open>The common part of \<open>net_recv_*\<close> and \<open>net_get_*\<close>: refuse when not logged in, allocate the
  structure, call.\<close>

definition net_query ::
  "('w, 'r) stub \<Rightarrow> ('w, 'z) site_scheme \<Rightarrow> ('r option \<times> ('w, 'z) site_scheme) option" where
  "net_query stub s = do {
     n \<leftarrow> net s;
     case malloc s of (None, s) \<Rightarrow> Some (None, s)
     | (Some _, s) \<Rightarrow> do {
         url \<leftarrow> deref (serverURL n);
         login \<leftarrow> net_login_info n;
         soap_call (stub url login) s
       }
   }"

definition if_logged ::
  "(('w, 'z) site_scheme \<Rightarrow> ('r option \<times> ('w, 'z) site_scheme) option) \<Rightarrow>
   ('w, 'z) site_scheme \<Rightarrow> ('r option \<times> ('w, 'z) site_scheme) option" where
  "if_logged f s = do { n \<leftarrow> net s; if \<not> logged n then Some (None, s) else f s }"

definition net_recv_user_info ::
  "'w remote \<Rightarrow> string \<Rightarrow> ('w, 'z) site_scheme \<Rightarrow> (user_info option \<times> ('w, 'z) site_scheme) option" where
  "net_recv_user_info R name s = net_query (soap_call_get_friend_info R name) s"

definition net_recv_all_data ::
  "'w remote \<Rightarrow> ('w, 'z) site_scheme \<Rightarrow> (client_data_info option \<times> ('w, 'z) site_scheme) option" where
  "net_recv_all_data R s = net_query (soap_call_get_all_data R) s"

text \<open>Before the call, the array for the chats' read times is allocated.\<close>

definition net_recv_notifications ::
  "'w remote \<Rightarrow> cint \<Rightarrow> (cint \<times> cint) list \<Rightarrow> ('w, 'z) site_scheme \<Rightarrow>
   (notifications option \<times> ('w, 'z) site_scheme) option" where
  "net_recv_notifications R timestamp sync = if_logged (\<lambda>s. do {
     n \<leftarrow> net s;
     case malloc s of (None, s) \<Rightarrow> Some (None, s)
     | (Some _, s) \<Rightarrow>
     (case malloc s of (None, s) \<Rightarrow> Some (None, s)
      | (Some _, s) \<Rightarrow> do {
         url \<leftarrow> deref (serverURL n);
         login \<leftarrow> net_login_info n;
         soap_call (soap_call_get_pending_notifications R timestamp sync url login) s
       })
   })"

definition net_recv_pending_messages ::
  "'w remote \<Rightarrow> cint \<Rightarrow> cint \<Rightarrow> ('w, 'z) site_scheme \<Rightarrow> (message_list option \<times> ('w, 'z) site_scheme) option" where
  "net_recv_pending_messages R chat_id timestamp =
     if_logged (net_query (soap_call_get_chat_messages R chat_id timestamp))"

definition net_get_attachment ::
  "'w remote \<Rightarrow> cint \<Rightarrow> cint \<Rightarrow> ('w, 'z) site_scheme \<Rightarrow> (string option \<times> ('w, 'z) site_scheme) option" where
  "net_get_attachment R chat_id msg_timestamp =
     if_logged (net_query (soap_call_get_attachment R chat_id msg_timestamp))"

definition net_get_chat_list ::
  "'w remote \<Rightarrow> cint \<Rightarrow> ('w, 'z) site_scheme \<Rightarrow> (chat_list option \<times> ('w, 'z) site_scheme) option" where
  "net_get_chat_list R timestamp = if_logged (net_query (soap_call_get_chats R timestamp))"

definition net_get_friend_list ::
  "'w remote \<Rightarrow> cint \<Rightarrow> ('w, 'z) site_scheme \<Rightarrow> (user_list option \<times> ('w, 'z) site_scheme) option" where
  "net_get_friend_list R timestamp = if_logged (net_query (soap_call_get_friends R timestamp))"

section \<open>Requests that do something\<close>

text \<open>The code of an order: 0 or -1.  An order whose reply is a number (a chat id, a time) returns
  it, or \<^const>\<open>None\<close> for -1.\<close>

definition code_of :: "('r option \<times> 's) option \<Rightarrow> (int \<times> 's) option" where
  "code_of res = map_option (\<lambda>(reply, s). (if reply = None then -1 else 0, s)) res"

definition net_order ::
  "('w, 'r) stub \<Rightarrow> ('w, 'z) site_scheme \<Rightarrow> ('r option \<times> ('w, 'z) site_scheme) option" where
  "net_order stub s = do {
     n \<leftarrow> net s;
     url \<leftarrow> deref (serverURL n);
     login \<leftarrow> net_login_info n;
     soap_call (stub url login) s
   }"

definition net_user_register ::
  "'w remote \<Rightarrow> string \<Rightarrow> string \<Rightarrow> string \<Rightarrow> ('w, 'z) site_scheme \<Rightarrow> (int \<times> ('w, 'z) site_scheme) option" where
  "net_user_register R name password information s = do {
     n \<leftarrow> net s;
     url \<leftarrow> deref (serverURL n);
     code_of (soap_call (soap_call_user_register R url
       \<lparr>ri_name = Some name, ri_password = Some password, ri_information = Some information\<rparr>) s)
   }"

definition net_user_unregister ::
  "'w remote \<Rightarrow> string \<Rightarrow> string \<Rightarrow> ('w, 'z) site_scheme \<Rightarrow> (int \<times> ('w, 'z) site_scheme) option" where
  "net_user_unregister R name password s = do {
     n \<leftarrow> net s;
     url \<leftarrow> deref (serverURL n);
     code_of (soap_call (soap_call_user_unregister R url \<lparr>li_name = Some name, li_password = Some password\<rparr>) s)
   }"

definition net_create_chat ::
  "'w remote \<Rightarrow> string \<Rightarrow> string option \<Rightarrow> ('w, 'z) site_scheme \<Rightarrow> (cint option \<times> ('w, 'z) site_scheme) option" where
  "net_create_chat R description member =
     net_order (soap_call_create_chat R \<lparr>n_description = Some description, n_member = member\<rparr>)"

definition net_add_user_to_chat ::
  "'w remote \<Rightarrow> string \<Rightarrow> cint \<Rightarrow> ('w, 'z) site_scheme \<Rightarrow> (int \<times> ('w, 'z) site_scheme) option" where
  "net_add_user_to_chat R member chat_id s = code_of (net_order (soap_call_add_member R member chat_id) s)"

definition net_remove_user_from_chat ::
  "'w remote \<Rightarrow> string \<Rightarrow> cint \<Rightarrow> ('w, 'z) site_scheme \<Rightarrow> (int \<times> ('w, 'z) site_scheme) option" where
  "net_remove_user_from_chat R member chat_id s = code_of (net_order (soap_call_remove_member R member chat_id) s)"

definition net_quit_from_chat ::
  "'w remote \<Rightarrow> cint \<Rightarrow> ('w, 'z) site_scheme \<Rightarrow> (int \<times> ('w, 'z) site_scheme) option" where
  "net_quit_from_chat R chat_id s = code_of (net_order (soap_call_quit_from_chat R chat_id) s)"

definition net_send_message ::
  "'w remote \<Rightarrow> cint \<Rightarrow> string option \<Rightarrow> string option \<Rightarrow> ('w, 'z) site_scheme \<Rightarrow>
   (cint option \<times> ('w, 'z) site_scheme) option" where
  "net_send_message R chat_id txt attach_name =
     if_logged (net_order (soap_call_send_message R chat_id \<lparr>sm_text = txt, sm_file_name = attach_name\<rparr>))"

definition net_send_attachment ::
  "'w remote \<Rightarrow> cint \<Rightarrow> cint \<Rightarrow> string \<Rightarrow> ('w, 'z) site_scheme \<Rightarrow> (int \<times> ('w, 'z) site_scheme) option" where
  "net_send_attachment R chat_id msg_timestamp bytes s =
     code_of (if_logged (net_order (soap_call_send_attachment R chat_id msg_timestamp bytes)) s)"

definition net_send_friend_request ::
  "'w remote \<Rightarrow> string \<Rightarrow> ('w, 'z) site_scheme \<Rightarrow> (int \<times> ('w, 'z) site_scheme) option" where
  "net_send_friend_request R user s = code_of (if_logged (net_order (soap_call_send_friend_request R user)) s)"

definition net_send_request_accept ::
  "'w remote \<Rightarrow> string \<Rightarrow> ('w, 'z) site_scheme \<Rightarrow> (int \<times> ('w, 'z) site_scheme) option" where
  "net_send_request_accept R user s = code_of (if_logged (net_order (soap_call_accept_request R user)) s)"

definition net_send_request_decline ::
  "'w remote \<Rightarrow> string \<Rightarrow> ('w, 'z) site_scheme \<Rightarrow> (int \<times> ('w, 'z) site_scheme) option" where
  "net_send_request_decline R user s = code_of (if_logged (net_order (soap_call_decline_request R user)) s)"

end
