(* ===== verification/Client_Api.thy ===== *)
theory Client_Api
  imports Network Client_Data
begin

text \<open>
  \<open>client/psd_ims_client.c\<close>, part one: the client structure, its mutexes, login and logout, and the
  orders that only pass a request on to the server.

  The structure \<open>psd_ims_client\<close> and what surrounds it in the process are one record: the mutexes the
  running thread holds and the client's files.  Locking a mutex twice never returns; unlocking a
  mutex that the thread does not hold is undefined in POSIX and usually takes it away from its
  owner: it is recorded in \<open>stray_unlock\<close>.
\<close>

section \<open>The structure\<close>

datatype mutex = New_chats_mutex | Chats_mutex | Network_mutex | Friends_mutex | Requests_mutex

record 'w client = "'w site" +
  user_name :: char_ptr
  user_pass :: char_ptr
  user_information :: char_ptr \<comment> \<open>\<open>user_info\<close>\<close>
  last_connection :: cint
  last_notif_timestamp :: cint
  c_friends :: "friends option"
  c_requests :: "friend_requests option"
  c_chats :: "chats option"
  held :: "mutex set"
  stray_unlock :: bool
  local_files :: "string \<Rightarrow> string option"
  local_dirs :: "string set"
  disk_ops :: nat

abbreviation MAX_FRIENDS :: int where "MAX_FRIENDS \<equiv> 50"
abbreviation MAX_FRIEND_REQUESTS :: int where "MAX_FRIEND_REQUESTS \<equiv> 50"
abbreviation MAX_CHATS :: int where "MAX_CHATS \<equiv> 50"
abbreviation MAX_MESSAGES :: int where "MAX_MESSAGES \<equiv> 50"
abbreviation MAX_MEMBERS :: int where "MAX_MEMBERS \<equiv> 50"
abbreviation MAX_FILE_PATH_CHARS :: nat where "MAX_FILE_PATH_CHARS \<equiv> 100"
abbreviation CLIENT_FILE_CHARS :: nat where "CLIENT_FILE_CHARS \<equiv> 10485760"

definition lock :: "mutex \<Rightarrow> 'w client \<Rightarrow> 'w client option" where
  "lock x s = (if x \<in> held s then None else Some (s\<lparr>held := insert x (held s)\<rparr>))"

definition unlock :: "mutex \<Rightarrow> 'w client \<Rightarrow> 'w client" where
  "unlock x s = (if x \<in> held s then s\<lparr>held := held s - {x}\<rparr> else s\<lparr>stray_unlock := True\<rparr>)"

text \<open>A network call between locking and unlocking the network mutex.\<close>

definition with_network :: "('w client \<Rightarrow> ('r \<times> 'w client) option) \<Rightarrow> 'w client \<Rightarrow> ('r \<times> 'w client) option" where
  "with_network f s = do {
     s \<leftarrow> lock Network_mutex s;
     (r, s) \<leftarrow> f s;
     Some (r, unlock Network_mutex s)
   }"

definition psd_new_client :: "'w client \<Rightarrow> 'w client option" where
  "psd_new_client s =
     (case malloc s of (None, s) \<Rightarrow> None
      | (Some _, s) \<Rightarrow>
        (case fri_new MAX_FRIENDS s of (fs, s) \<Rightarrow>
        (case req_new MAX_FRIEND_REQUESTS s of (rs, s) \<Rightarrow>
        (case cha_new MAX_CHATS s of (cs, s) \<Rightarrow>
        (case net_new s of (n, s) \<Rightarrow>
           Some (s\<lparr>user_name := Null, user_pass := Null, user_information := Dangling, last_connection := 0,
             last_notif_timestamp := 0, held := {}, c_friends := fs, c_requests := rs, c_chats := cs, net := n\<rparr>))))))"

text \<open>The lists are freed through their pointers, so they must exist.  The strings that \<open>net_free\<close>
  frees may not be dangling.\<close>

definition psd_free_client :: "'w client \<Rightarrow> 'w client option" where
  "psd_free_client s = do {
     _ \<leftarrow> c_friends s;
     _ \<leftarrow> c_requests s;
     _ \<leftarrow> c_chats s;
     n \<leftarrow> net s;
     _ \<leftarrow> net_free n;
     name \<leftarrow> free_string (user_name s);
     pass \<leftarrow> free_string (user_pass s);
     Some (s\<lparr>c_friends := None, c_requests := None, c_chats := None, net := None, user_name := name, user_pass := pass\<rparr>)
   }"

definition psd_set_name :: "string \<Rightarrow> 'w client \<Rightarrow> int \<times> 'w client" where
  "psd_set_name name s =
     (case malloc s of (None, s) \<Rightarrow> (-1, s) | (Some _, s) \<Rightarrow> (0, s\<lparr>user_name := Live name\<rparr>))"

definition psd_set_pass :: "string \<Rightarrow> 'w client \<Rightarrow> int \<times> 'w client" where
  "psd_set_pass pass s =
     (case malloc s of (None, s) \<Rightarrow> (-1, s) | (Some _, s) \<Rightarrow> (0, s\<lparr>user_pass := Live pass\<rparr>))"

section \<open>Login and logout\<close>

definition psd_bind_network :: "string \<Rightarrow> 'w client \<Rightarrow> (int \<times> 'w client) option" where
  "psd_bind_network url s = with_network (net_bind_network url) s"

text \<open>After the first failed allocation, the strings allocated so far stay uninitialised.\<close>

definition psd_login :: "'w remote \<Rightarrow> string \<Rightarrow> string \<Rightarrow> 'w client \<Rightarrow> (int \<times> 'w client) option" where
  "psd_login R name password s = do {
     (reply, s) \<leftarrow> with_network (net_login R name password) s;
     case reply of None \<Rightarrow> Some (-1, s)
     | Some info \<Rightarrow>
     (case malloc s of (None, s) \<Rightarrow> Some (-1, s\<lparr>user_name := Null\<rparr>)
      | (Some _, s) \<Rightarrow>
     (case malloc s of (None, s) \<Rightarrow> Some (-1, s\<lparr>user_name := Raw, user_pass := Null\<rparr>)
      | (Some _, s) \<Rightarrow>
     (case malloc s of (None, s) \<Rightarrow> Some (-1, s\<lparr>user_name := Raw, user_pass := Raw, user_information := Null\<rparr>)
      | (Some _, s) \<Rightarrow>
        Some (0, s\<lparr>user_name := Live name, user_pass := Live password, user_information := Live (ui_information info)\<rparr>))))
   }"

definition psd_logout :: "'w client \<Rightarrow> 'w client option" where
  "psd_logout s = do {
     s \<leftarrow> net_logout s;
     _ \<leftarrow> free_string (user_name s);
     _ \<leftarrow> free_string (user_pass s);
     _ \<leftarrow> free_string (user_information s);
     _ \<leftarrow> c_friends s;
     _ \<leftarrow> c_requests s;
     _ \<leftarrow> c_chats s;
     let s = s\<lparr>user_name := Null, user_pass := Null, user_information := Null, last_connection := 0,
       last_notif_timestamp := 0\<rparr>;
     (fs, s) \<leftarrow> Some (fri_new MAX_FRIENDS s);
     (rs, s) \<leftarrow> Some (req_new MAX_FRIEND_REQUESTS s);
     (cs, s) \<leftarrow> Some (cha_new MAX_CHATS s);
     Some (s\<lparr>c_friends := fs, c_requests := rs, c_chats := cs\<rparr>)
   }"

definition psd_user_register :: "'w remote \<Rightarrow> string \<Rightarrow> string \<Rightarrow> string \<Rightarrow> 'w client \<Rightarrow> (int \<times> 'w client) option" where
  "psd_user_register R name password information s =
     with_network (net_user_register R name password information) s"

definition psd_user_unregister :: "'w remote \<Rightarrow> string \<Rightarrow> string \<Rightarrow> 'w client \<Rightarrow> (int \<times> 'w client) option" where
  "psd_user_unregister R name password s = with_network (net_user_unregister R name password) s"

section \<open>Orders about chats and requests\<close>

text \<open>Returns the chat's id, or -1.\<close>

definition psd_create_chat :: "'w remote \<Rightarrow> string \<Rightarrow> string option \<Rightarrow> 'w client \<Rightarrow> (cint \<times> 'w client) option" where
  "psd_create_chat R description member s =
     (let create = (\<lambda>s. do {
        (reply, s) \<leftarrow> with_network (net_create_chat R description member) s;
        case reply of None \<Rightarrow> Some (-1, s) | Some chat_id \<Rightarrow> Some (chat_id, s)
      })
      in case member of None \<Rightarrow> create s
      | Some name \<Rightarrow> do {
          s \<leftarrow> lock Friends_mutex s;
          fs \<leftarrow> c_friends s;
          if fri_find_friend fs name = None then Some (-1, unlock Friends_mutex s)
          else create (unlock Friends_mutex s)
        })"

definition psd_add_member_to_chat :: "'w remote \<Rightarrow> string \<Rightarrow> cint \<Rightarrow> 'w client \<Rightarrow> (int \<times> 'w client) option" where
  "psd_add_member_to_chat R member chat_id s = with_network (net_add_user_to_chat R member chat_id) s"

definition psd_del_member_from_chat :: "'w remote \<Rightarrow> string \<Rightarrow> cint \<Rightarrow> 'w client \<Rightarrow> (int \<times> 'w client) option" where
  "psd_del_member_from_chat R member chat_id s = with_network (net_remove_user_from_chat R member chat_id) s"

definition psd_quit_from_chat :: "'w remote \<Rightarrow> cint \<Rightarrow> 'w client \<Rightarrow> (int \<times> 'w client) option" where
  "psd_quit_from_chat R chat_id s = with_network (net_quit_from_chat R chat_id) s"

definition psd_remove_chat :: "cint \<Rightarrow> 'w client \<Rightarrow> (int \<times> 'w client) option" where
  "psd_remove_chat chat_id s = do {
     s \<leftarrow> lock Chats_mutex s;
     cs \<leftarrow> c_chats s;
     (r, cs) \<leftarrow> Some (cha_del_chat cs chat_id);
     let s = unlock Chats_mutex (s\<lparr>c_chats := Some cs\<rparr>);
     if r \<noteq> 0 then Some (-1, s) else Some (0, s)
   }"

definition psd_chat_exists :: "cint \<Rightarrow> 'w client \<Rightarrow> bool option" where
  "psd_chat_exists chat_id s = do { cs \<leftarrow> c_chats s; Some (cha_find_chat cs chat_id \<noteq> None) }"

definition psd_send_friend_request :: "'w remote \<Rightarrow> string \<Rightarrow> 'w client \<Rightarrow> (int \<times> 'w client) option" where
  "psd_send_friend_request R user s = with_network (net_send_friend_request R user) s"

text \<open>The end of \<open>psd_send_request_accept\<close> and \<open>psd_send_request_decline\<close>: the request is deleted
  locally.\<close>

definition forget_request :: "string \<Rightarrow> 'w client \<Rightarrow> (int \<times> 'w client) option" where
  "forget_request user s = do {
     s \<leftarrow> lock Requests_mutex s;
     rs \<leftarrow> c_requests s;
     (r, rs) \<leftarrow> Some (req_del_request rs user);
     let s = unlock Requests_mutex (s\<lparr>c_requests := Some rs\<rparr>);
     if r \<noteq> 0 then Some (-1, s) else Some (0, s)
   }"

definition psd_send_request_accept :: "'w remote \<Rightarrow> string \<Rightarrow> 'w client \<Rightarrow> (int \<times> 'w client) option" where
  "psd_send_request_accept R user s = do {
     (r, s) \<leftarrow> with_network (net_send_request_accept R user) s;
     if r \<noteq> 0 then Some (-1, s) else forget_request user s
   }"

definition psd_send_request_decline :: "'w remote \<Rightarrow> string \<Rightarrow> 'w client \<Rightarrow> (int \<times> 'w client) option" where
  "psd_send_request_decline R user s = do {
     (r, s) \<leftarrow> with_network (net_send_request_decline R user) s;
     if r \<noteq> 0 then Some (-1, s) else forget_request user s
   }"

end
