(* ===== verification/Client_Lists.thy ===== *)
theory Client_Lists
  imports Client_Api
begin

text \<open>
  \<open>client/psd_ims_client.c\<close>, part two: \<open>psd_recv_friends\<close>, \<open>psd_recv_chats\<close>,
  \<open>psd_recv_all_data\<close> and \<open>psd_recv_notifications\<close>, which bring the local lists up to date.  A list
  that could not be created is a \<open>NULL\<close> pointer, read at its first use.
\<close>

section \<open>Friends\<close>

text \<open>The first loop of \<open>psd_recv_friends\<close>; it returns the friends it has not added.\<close>

fun add_friends_loop :: "user_info list \<Rightarrow> friends \<Rightarrow> 'z mem_scheme \<Rightarrow> user_info list \<times> friends \<times> 'z mem_scheme" where
  "add_friends_loop [] fs s = ([], fs, s)"
| "add_friends_loop (u # us) fs s =
     (case fri_add_friend fs (ui_name u) (ui_information u) s of (r, fs, s) \<Rightarrow>
        if r = -1 then (u # us, fs, s) else add_friends_loop us fs s)"

text \<open>The second loop, which takes the added ones back; \<^const>\<open>False\<close> for the critical failure.\<close>

fun del_friends_loop :: "user_info list \<Rightarrow> friends \<Rightarrow> bool \<times> friends" where
  "del_friends_loop [] fs = (True, fs)"
| "del_friends_loop (u # us) fs =
     (case fri_del_friend fs (ui_name u) of (r, fs) \<Rightarrow> if r = -1 then (False, fs) else del_friends_loop us fs)"

text \<open>What happens to a reply.  Whether or not everything could be taken back, the result is -1.\<close>

definition take_friends :: "user_list \<Rightarrow> 'w client \<Rightarrow> (int \<times> 'w client) option" where
  "take_friends friends s = do {
     s \<leftarrow> lock Friends_mutex s;
     fs \<leftarrow> c_friends s;
     (rest, fs, s) \<leftarrow> Some (add_friends_loop (ul_user friends) fs s);
     let i = length (ul_user friends) - length rest;
     if i < length (ul_user friends) then
       (case del_friends_loop (rev (take i (ul_user friends))) fs of
          (_, fs) \<Rightarrow> Some (-1, unlock Friends_mutex (s\<lparr>c_friends := Some fs\<rparr>)))
     else
       Some (int (length (ul_user friends)),
         unlock Friends_mutex (s\<lparr>c_friends := Some (fri_set_timestamp fs (ul_last_timestamp friends))\<rparr>))
   }"

definition psd_recv_friends :: "'w remote \<Rightarrow> 'w client \<Rightarrow> (int \<times> 'w client) option" where
  "psd_recv_friends R s = do {
     s \<leftarrow> lock Friends_mutex s;
     fs \<leftarrow> c_friends s;
     let friends_timestamp = fri_get_timestamp fs;
     let s = unlock Friends_mutex s;
     (reply, s) \<leftarrow> with_network (net_get_friend_list R friends_timestamp) s;
     case reply of None \<Rightarrow> Some (-1, s) | Some friends \<Rightarrow> take_friends friends s
   }"

section \<open>Chats\<close>

text \<open>The arrays \<open>member_names\<close> and \<open>members\<close>: each member with the friend it is.\<close>

definition chat_people :: "'w remote \<Rightarrow> chat_item \<Rightarrow> 'w client \<Rightarrow> (string \<times> friend_info option) list option" where
  "chat_people R chat s =
     those (map (\<lambda>name. do { fs \<leftarrow> c_friends s; Some (name, fri_find_friend fs name) })
       (wire_members R (ci_members chat)))"

definition add_chat_item ::
  "'w remote \<Rightarrow> chat_item \<Rightarrow> (string \<times> friend_info option) list \<Rightarrow> 'w client \<Rightarrow> (int \<times> 'w client) option" where
  "add_chat_item R chat people s = do {
     cs \<leftarrow> c_chats s;
     (r, cs, s) \<leftarrow> Some (cha_add_chat cs (ci_chat_id chat) (ci_description chat) (ci_admin chat) people
        MAX_MEMBERS MAX_MESSAGES (wire_int R (ci_read_timestamp chat)) (ci_all_read_timestamp chat) s);
     Some (r, s\<lparr>c_chats := Some cs\<rparr>)
   }"

text \<open>The loop of \<open>psd_recv_chats\<close>; \<^const>\<open>False\<close> when an array could not be allocated.  It unlocks
  the friends' mutex, which it has never locked; a chat that cannot be added is left out.\<close>

fun recv_chats_loop :: "'w remote \<Rightarrow> chat_item list \<Rightarrow> 'w client \<Rightarrow> (bool \<times> 'w client) option" where
  "recv_chats_loop R [] s = Some (True, s)"
| "recv_chats_loop R (chat # rest) s =
     (case malloc s of (None, s) \<Rightarrow> Some (False, s)
      | (Some _, s) \<Rightarrow>
     (case malloc s of (None, s) \<Rightarrow> Some (False, s)
      | (Some _, s) \<Rightarrow> do {
          people \<leftarrow> chat_people R chat s;
          let s = unlock Friends_mutex s;
          s \<leftarrow> lock Chats_mutex s;
          (r, s) \<leftarrow> add_chat_item R chat people s;
          recv_chats_loop R rest (unlock Chats_mutex s)
        }))"

definition psd_recv_chats :: "'w remote \<Rightarrow> 'w client \<Rightarrow> (int \<times> 'w client) option" where
  "psd_recv_chats R s = do {
     s \<leftarrow> lock Chats_mutex s;
     cs \<leftarrow> c_chats s;
     let chat_timestamp = cha_get_timestamp cs;
     let s = unlock Chats_mutex s;
     (reply, s) \<leftarrow> with_network (net_get_chat_list R chat_timestamp) s;
     case reply of None \<Rightarrow> Some (-1, s)
     | Some chats \<Rightarrow> do {
         (ok, s) \<leftarrow> recv_chats_loop R (ch_chat_info chats) s;
         if \<not> ok then Some (-1, s)
         else do {
           s \<leftarrow> lock Chats_mutex s;
           cs \<leftarrow> c_chats s;
           Some (int (length (ch_chat_info chats)),
             unlock Chats_mutex (s\<lparr>c_chats := Some (cha_set_timestamp cs (ch_last_timestamp chats))\<rparr>))
         }
       }
   }"

section \<open>Everything\<close>

text \<open>The loops that \<open>psd_recv_all_data\<close> and \<open>psd_recv_notifications\<close> have in common; the results
  of the calls are ignored.\<close>

fun add_requests_loop :: "notif_friend list \<Rightarrow> 'w client \<Rightarrow> 'w client option" where
  "add_requests_loop [] s = Some s"
| "add_requests_loop (f # rest) s = do {
     rs \<leftarrow> c_requests s;
     (_, rs, s) \<leftarrow> Some (req_add_request rs (nf_name f) (nf_send_date f) s);
     add_requests_loop rest (s\<lparr>c_requests := Some rs\<rparr>)
   }"

fun add_new_friends_loop :: "user_info list \<Rightarrow> 'w client \<Rightarrow> 'w client option" where
  "add_new_friends_loop [] s = Some s"
| "add_new_friends_loop (u # rest) s = do {
     fs \<leftarrow> c_friends s;
     (_, fs, s) \<leftarrow> Some (fri_add_friend fs (ui_name u) (ui_information u) s);
     add_new_friends_loop rest (s\<lparr>c_friends := Some fs\<rparr>)
   }"

text \<open>The loop over the chats.  When \<open>cha_add_chat\<close> fails, the loop frees the structure it is
  reading, and reads it again for its condition: undefined.\<close>

fun all_chats_loop :: "'w remote \<Rightarrow> chat_item list \<Rightarrow> 'w client \<Rightarrow> (bool \<times> 'w client) option" where
  "all_chats_loop R [] s = Some (True, s)"
| "all_chats_loop R (chat # rest) s =
     (case malloc s of (None, s) \<Rightarrow> Some (False, s)
      | (Some _, s) \<Rightarrow>
     (case malloc s of (None, s) \<Rightarrow> Some (False, s)
      | (Some _, s) \<Rightarrow> do {
          s \<leftarrow> lock Friends_mutex s;
          people \<leftarrow> chat_people R chat s;
          s \<leftarrow> lock Chats_mutex (unlock Friends_mutex s);
          (r, s) \<leftarrow> add_chat_item R chat people s;
          if r \<noteq> 0 then None else all_chats_loop R rest (unlock Chats_mutex s)
        }))"

definition psd_recv_all_data :: "'w remote \<Rightarrow> 'w client \<Rightarrow> (int \<times> 'w client) option" where
  "psd_recv_all_data R s = do {
     (reply, s) \<leftarrow> with_network (net_recv_all_data R) s;
     case reply of None \<Rightarrow> Some (-1, s)
     | Some cd \<Rightarrow> do {
         s \<leftarrow> lock Requests_mutex (s\<lparr>last_notif_timestamp := cd_timestamp cd\<rparr>);
         s \<leftarrow> add_requests_loop (cd_friend_requests cd) s;
         rs \<leftarrow> c_requests s;
         let s = unlock Requests_mutex (s\<lparr>c_requests := Some (req_list_set_timestamp rs (cd_timestamp cd))\<rparr>);
         s \<leftarrow> lock Friends_mutex s;
         s \<leftarrow> add_new_friends_loop (ul_user (cd_friends cd)) s;
         fs \<leftarrow> c_friends s;
         let s = unlock Friends_mutex (s\<lparr>c_friends := Some (fri_set_timestamp fs (cd_timestamp cd))\<rparr>);
         (ok, s) \<leftarrow> all_chats_loop R (ch_chat_info (cd_chats cd)) s;
         if \<not> ok then Some (-1, s)
         else do {
           s \<leftarrow> lock Chats_mutex s;
           cs \<leftarrow> c_chats s;
           Some (0, unlock Chats_mutex (s\<lparr>c_chats := Some (cha_set_timestamp cs (ch_last_timestamp (cd_chats cd)))\<rparr>))
         }
       }
   }"

section \<open>Notifications\<close>

text \<open>A notification about a chat that is not in the list makes the client fetch the chats.\<close>

definition find_or_fetch :: "'w remote \<Rightarrow> cint \<Rightarrow> 'w client \<Rightarrow> (chat_info option \<times> 'w client) option" where
  "find_or_fetch R chat_id s = do {
     cs \<leftarrow> c_chats s;
     case cha_find_chat cs chat_id of
       Some chat \<Rightarrow> Some (Some chat, s)
     | None \<Rightarrow> do {
         (_, s) \<leftarrow> psd_recv_chats R (unlock Chats_mutex s);
         s \<leftarrow> lock Chats_mutex s;
         cs \<leftarrow> c_chats s;
         Some (cha_find_chat cs chat_id, s)
       }
   }"

text \<open>One turn of the loops over notifications: \<open>change\<close> is what is done to the chat; without the
  chat, the turn ends.\<close>

definition on_chat ::
  "'w remote \<Rightarrow> cint \<Rightarrow> (chat_info \<Rightarrow> 'w client \<Rightarrow> (chat_info \<times> 'w client) option) \<Rightarrow> 'w client \<Rightarrow> 'w client option" where
  "on_chat R chat_id change s = do {
     (found, s) \<leftarrow> find_or_fetch R chat_id s;
     case found of None \<Rightarrow> Some s
     | Some chat \<Rightarrow> do {
         (chat, s) \<leftarrow> change chat s;
         cs \<leftarrow> c_chats s;
         Some (s\<lparr>c_chats := Some (put_chat chat_id chat cs)\<rparr>)
       }
   }"

fun for_each :: "('a \<Rightarrow> 's \<Rightarrow> 's option) \<Rightarrow> 'a list \<Rightarrow> 's \<Rightarrow> 's option" where
  "for_each f [] s = Some s"
| "for_each f (x # xs) s = do { s \<leftarrow> f x s; for_each f xs s }"

definition notif_add_member :: "'w remote \<Rightarrow> notif_member \<Rightarrow> 'w client \<Rightarrow> 'w client option" where
  "notif_add_member R x = on_chat R (nm_chat_id x) (\<lambda>chat s. do {
     fs \<leftarrow> c_friends s;
     (_, chat, s) \<leftarrow> Some (cha_add_member chat (fri_find_friend fs (nm_name x)) (nm_name x) s);
     Some (chat, s)
   })"

definition notif_rem_member :: "'w remote \<Rightarrow> notif_member \<Rightarrow> 'w client \<Rightarrow> 'w client option" where
  "notif_rem_member R x = on_chat R (nm_chat_id x) (\<lambda>chat s. Some (snd (cha_del_member chat (nm_name x)), s))"

definition notif_admin :: "'w remote \<Rightarrow> notif_member \<Rightarrow> 'w client \<Rightarrow> 'w client option" where
  "notif_admin R x = on_chat R (nm_chat_id x) (\<lambda>chat s. do {
     (_, chat, s) \<leftarrow> Some (cha_change_admin chat (nm_name x) s);
     Some (chat, s)
   })"

definition notif_pending :: "'w remote \<Rightarrow> notif_chat \<Rightarrow> 'w client \<Rightarrow> 'w client option" where
  "notif_pending R x = on_chat R (nc_chat_id x) (\<lambda>chat s. Some (cha_set_pending chat 1, s))"

definition notif_read :: "'w remote \<Rightarrow> notif_chat \<Rightarrow> 'w client \<Rightarrow> 'w client option" where
  "notif_read R x = on_chat R (nc_chat_id x) (\<lambda>chat s.
     Some (cha_set_all_read_timestamp chat (wire_int R (nc_timestamp x)), s))"

text \<open>The chats' ids and read times that are sent along.\<close>

definition sync_chats :: "chats \<Rightarrow> (cint \<times> cint) list" where
  "sync_chats cs = map (\<lambda>c. (cha_id c, cha_read_timestamp c)) (entries cs)"

text \<open>The returned total counts the requests, the friends, the admins and the read times only.\<close>

definition psd_recv_notifications :: "'w remote \<Rightarrow> 'w client \<Rightarrow> (int \<times> 'w client) option" where
  "psd_recv_notifications R s = do {
     s \<leftarrow> lock Chats_mutex s;
     cs \<leftarrow> c_chats s;
     s \<leftarrow> alloc_array (length (entries cs)) s;
     s \<leftarrow> alloc_array (length (entries cs)) s;
     let s = unlock Chats_mutex s;
     (reply, s) \<leftarrow> with_network (net_recv_notifications R (last_notif_timestamp s) (sync_chats cs)) s;
     case reply of None \<Rightarrow> Some (-1, s)
     | Some ns \<Rightarrow> do {
         s \<leftarrow> lock Requests_mutex (s\<lparr>last_notif_timestamp := no_last_timestamp ns\<rparr>);
         s \<leftarrow> add_requests_loop (no_friend_request ns) s;
         s \<leftarrow> lock Friends_mutex (unlock Requests_mutex s);
         s \<leftarrow> add_new_friends_loop (ul_user (no_new_friends ns)) s;
         s \<leftarrow> lock Chats_mutex (unlock Friends_mutex s);
         s \<leftarrow> for_each (notif_add_member R) (no_chat_members ns) s;
         s \<leftarrow> for_each (notif_rem_member R) (no_rem_chat_members ns) s;
         s \<leftarrow> for_each (notif_admin R) (no_chat_admins ns) s;
         s \<leftarrow> lock Chats_mutex (unlock Chats_mutex s);
         s \<leftarrow> for_each (notif_pending R) (no_chats_with_messages ns) s;
         s \<leftarrow> for_each (notif_read R) (no_chats_read_times ns) s;
         Some (int (length (no_friend_request ns)) + int (length (ul_user (no_new_friends ns))) +
           int (length (no_chat_admins ns)) + int (length (no_chats_read_times ns)), unlock Chats_mutex s)
       }
   }"

end
