(* ===== verification/Client_Messages.thy ===== *)
theory Client_Messages
  imports Client_Lists
begin

text \<open>
  \<open>client/psd_ims_client.c\<close>, part three: receiving messages and attachments, and sending a message
  with its attachment.  A \<open>chat_info\<close> that the code changes through a pointer is returned.
\<close>

section \<open>Messages\<close>

text \<open>The arrays \<open>sender\<close>, \<open>text\<close>, \<open>send_date\<close> and \<open>attach_path\<close>; the sender of the user's own
  messages is \<open>NULL\<close>.\<close>

definition raw_messages :: "message_item list \<Rightarrow> 'w client \<Rightarrow> raw_message list option" where
  "raw_messages ms s =
     those (map (\<lambda>x. do {
       own \<leftarrow> deref (user_name s);
       name \<leftarrow> own;
       Some (if strcmp (mi_user x) name = 0 then None else Some (mi_user x), Some (mi_text x), mi_send_date x,
         mi_file_name x)
     }) ms)"

definition alloc_arrays :: "nat \<Rightarrow> 'w client \<Rightarrow> 'w client option" where
  "alloc_arrays n s = do {
     s \<leftarrow> alloc_array n s;
     s \<leftarrow> alloc_array n s;
     s \<leftarrow> alloc_array n s;
     alloc_array n s
   }"

definition recv_messages :: "'w remote \<Rightarrow> chat_info \<Rightarrow> 'w client \<Rightarrow> (int \<times> chat_info \<times> 'w client) option" where
  "recv_messages R chat s = do {
     (reply, s) \<leftarrow> with_network
       (net_recv_pending_messages R (cha_id chat) (mes_get_timestamp (cha_messages chat))) s;
     case reply of None \<Rightarrow> Some (-1, chat, s)
     | Some l \<Rightarrow> do {
         s \<leftarrow> alloc_arrays (length (xl_messages l)) s;
         msgs \<leftarrow> raw_messages (xl_messages l) s;
         (r, chat, s) \<leftarrow> Some (cha_add_messages chat msgs s);
         if r \<noteq> 0 then Some (-1, chat, s)
         else Some (int (length (xl_messages l)),
           cha_set_messages_timestamp (cha_set_pending chat 0) (xl_last_timestamp l), s)
       }
   }"

text \<open>\<open>psd_recv_messages\<close> and \<open>psd_recv_pending_messages\<close> differ in a test of the chat.\<close>

definition recv_chat_messages :: "'w remote \<Rightarrow> (chat_info \<Rightarrow> bool) \<Rightarrow> cint \<Rightarrow> 'w client \<Rightarrow> (int \<times> 'w client) option" where
  "recv_chat_messages R wanted chat_id s = do {
     s \<leftarrow> lock Chats_mutex s;
     cs \<leftarrow> c_chats s;
     case cha_find_chat cs chat_id of
       None \<Rightarrow> Some (-1, unlock Chats_mutex s)
     | Some chat \<Rightarrow>
         if \<not> wanted chat then Some (0, unlock Chats_mutex s)
         else do {
           (r, chat, s) \<leftarrow> recv_messages R chat s;
           Some (r, unlock Chats_mutex (s\<lparr>c_chats := Some (put_chat chat_id chat cs)\<rparr>))
         }
   }"

definition psd_recv_messages :: "'w remote \<Rightarrow> cint \<Rightarrow> 'w client \<Rightarrow> (int \<times> 'w client) option" where
  "psd_recv_messages R chat_id s = recv_chat_messages R (\<lambda>_. True) chat_id s"

definition psd_recv_pending_messages :: "'w remote \<Rightarrow> cint \<Rightarrow> 'w client \<Rightarrow> (int \<times> 'w client) option" where
  "psd_recv_pending_messages R chat_id s = recv_chat_messages R (\<lambda>chat. 0 < sint (cha_pending chat)) chat_id s"

text \<open>The loops over the chats: the chats after the loop, and the last error or 0.\<close>

fun recv_each ::
  "'w remote \<Rightarrow> (chat_info \<Rightarrow> bool) \<Rightarrow> chat_info list \<Rightarrow> int \<Rightarrow> 'w client \<Rightarrow> (int \<times> chat_info list \<times> 'w client) option" where
  "recv_each R wanted [] ret_val s = Some (ret_val, [], s)"
| "recv_each R wanted (chat # rest) ret_val s =
     (if \<not> wanted chat then do {
        (ret_val, rest, s) \<leftarrow> recv_each R wanted rest ret_val s;
        Some (ret_val, chat # rest, s)
      }
      else do {
        (r, chat, s) \<leftarrow> recv_messages R chat s;
        (ret_val, rest, s) \<leftarrow> recv_each R wanted rest (if r < 0 then r else ret_val) s;
        Some (ret_val, chat # rest, s)
      })"

definition recv_all_chats :: "'w remote \<Rightarrow> (chat_info \<Rightarrow> bool) \<Rightarrow> 'w client \<Rightarrow> (int \<times> 'w client) option" where
  "recv_all_chats R wanted s = do {
     s \<leftarrow> lock Chats_mutex s;
     cs \<leftarrow> c_chats s;
     (ret_val, chats, s) \<leftarrow> recv_each R wanted (entries cs) 0 s;
     Some (ret_val, unlock Chats_mutex (s\<lparr>c_chats := Some (cs\<lparr>entries := chats\<rparr>)\<rparr>))
   }"

definition psd_recv_all_messages :: "'w remote \<Rightarrow> 'w client \<Rightarrow> (int \<times> 'w client) option" where
  "psd_recv_all_messages R s = recv_all_chats R (\<lambda>_. True) s"

definition psd_recv_all_pending_messages :: "'w remote \<Rightarrow> 'w client \<Rightarrow> (int \<times> 'w client) option" where
  "psd_recv_all_pending_messages R s = recv_all_chats R (\<lambda>chat. 0 < sint (cha_pending chat)) s"

section \<open>Files\<close>

text \<open>One file operation; \<^const>\<open>False\<close> when it fails.\<close>

definition disk :: "'w remote \<Rightarrow> 'w client \<Rightarrow> bool \<times> 'w client" where
  "disk R s = (\<not> disk_fails R (disk_ops s), s\<lparr>disk_ops := Suc (disk_ops s)\<rparr>)"

definition ATTACH_FILES_DIR_RCV :: string where "ATTACH_FILES_DIR_RCV = ''attached_files_rcv''"
definition ATTACH_FILES_DIR_SND :: string where "ATTACH_FILES_DIR_SND = ''attached_files_snd''"

definition create_file_path_rcv :: "cint \<Rightarrow> cint \<Rightarrow> string" where
  "create_file_path_rcv chat_id timestamp = ATTACH_FILES_DIR_RCV @ ''/_'' @ str_d chat_id @ str_d timestamp"

definition create_file_path_snd :: "cint \<Rightarrow> cint \<Rightarrow> string" where
  "create_file_path_snd chat_id timestamp = ATTACH_FILES_DIR_SND @ ''/_'' @ str_d chat_id @ str_d timestamp"

text \<open>\<open>stat\<close> and \<open>mkdir\<close>, whose result nobody looks at.\<close>

definition ensure_dir :: "'w remote \<Rightarrow> string \<Rightarrow> 'w client \<Rightarrow> 'w client" where
  "ensure_dir R dir s =
     (if dir \<in> local_dirs s then s
      else case disk R s of (ok, s) \<Rightarrow> if ok then s\<lparr>local_dirs := insert dir (local_dirs s)\<rparr> else s)"

text \<open>\<open>fopen(path, "w")\<close> for a path in the directory \<open>dir\<close>.\<close>

definition open_write :: "'w remote \<Rightarrow> string \<Rightarrow> string \<Rightarrow> 'w client \<Rightarrow> bool \<times> 'w client" where
  "open_write R dir path s =
     (case disk R s of (ok, s) \<Rightarrow>
        if ok \<and> dir \<in> local_dirs s then (True, s\<lparr>local_files := (local_files s)(path \<mapsto> [])\<rparr>) else (False, s))"

text \<open>\<open>fopen(path, "r")\<close>: the content.\<close>

definition open_read :: "'w remote \<Rightarrow> string \<Rightarrow> 'w client \<Rightarrow> string option \<times> 'w client" where
  "open_read R path s = (case disk R s of (ok, s) \<Rightarrow> (if ok then local_files s path else None, s))"

text \<open>\<open>fwrite\<close> of one object of that many bytes: it returns 1 unless the size is 0.\<close>

definition psd_recv_message_attachment :: "'w remote \<Rightarrow> cint \<Rightarrow> cint \<Rightarrow> 'w client \<Rightarrow> (int \<times> 'w client) option" where
  "psd_recv_message_attachment R chat_id msg_timestamp s = do {
     (reply, s) \<leftarrow> with_network (net_get_attachment R chat_id msg_timestamp) s;
     case reply of None \<Rightarrow> Some (-1, s)
     | Some bytes \<Rightarrow>
         let s = ensure_dir R ATTACH_FILES_DIR_RCV s;
             file_path = create_file_path_rcv chat_id msg_timestamp
         in case open_write R ATTACH_FILES_DIR_RCV file_path s of
           (False, s) \<Rightarrow> Some (-1, s)
         | (True, s) \<Rightarrow>
             (case disk R s of (ok, s) \<Rightarrow>
               if \<not> ok \<or> bytes = [] then Some (-1, s)
               else Some (0, s\<lparr>local_files := (local_files s)(file_path \<mapsto> bytes)\<rparr>))
   }"

section \<open>Sending\<close>

text \<open>The reading loop: a byte at a time, until the end of the file, an error, or \<open>room\<close> bytes.\<close>

fun read_bytes :: "'w remote \<Rightarrow> nat \<Rightarrow> string \<Rightarrow> 'w client \<Rightarrow> string \<times> 'w client" where
  "read_bytes R room [] s = (case disk R s of (_, s) \<Rightarrow> ([], s))"
| "read_bytes R room (b # bs) s =
     (case disk R s of (ok, s) \<Rightarrow>
        if \<not> ok then ([], s)
        else if room \<le> 1 then ([b], s)
        else case read_bytes R (room - 1) bs s of (xs, s) \<Rightarrow> (b # xs, s))"

text \<open>The writing loop, which goes on to the next byte also after an error, until the number of
  bytes written is that of the bytes read; \<open>buff\<close> is what is left of the buffer, and reading beyond
  it is undefined.\<close>

fun write_bytes :: "'w remote \<Rightarrow> nat \<Rightarrow> string \<Rightarrow> string \<Rightarrow> 'w client \<Rightarrow> (string \<times> 'w client) option" where
  "write_bytes R todo [] out s = None"
| "write_bytes R todo (b # buff) out s =
     (case disk R s of (ok, s) \<Rightarrow>
        let out = (if ok then out @ [b] else out) in
        if length out < todo then write_bytes R todo buff out s else Some (out, s))"

text \<open>The attached file: \<^const>\<open>None\<close> when it cannot be opened, else whether there is a buffer, and
  the bytes read.  Storing into a buffer that could not be allocated is a crash.\<close>

definition read_attachment :: "'w remote \<Rightarrow> string \<Rightarrow> 'w client \<Rightarrow> ((bool \<times> string) option \<times> 'w client) option" where
  "read_attachment R path s =
     (case malloc s of (buff, s) \<Rightarrow>
      case open_read R path s of
        (None, s) \<Rightarrow> Some (None, s)
      | (Some content, s) \<Rightarrow>
          if buff = None \<and> content \<noteq> [] then None
          else case read_bytes R CLIENT_FILE_CHARS content s of (bytes, s) \<Rightarrow> Some (Some (buff \<noteq> None, bytes), s))"

text \<open>Whether the sending goes on, and with which attachment: none without a path.\<close>

definition read_input ::
  "'w remote \<Rightarrow> string option \<Rightarrow> 'w client \<Rightarrow> (bool \<times> (bool \<times> string) option \<times> 'w client) option" where
  "read_input R file_path s =
     (case file_path of None \<Rightarrow> Some (True, None, s)
      | Some path \<Rightarrow> map_option (\<lambda>(a, s). (a \<noteq> None, a, s)) (read_attachment R path s))"

text \<open>The copy in the client's own directory.  \<open>rest\<close> is what the buffer holds after the bytes
  read.\<close>

definition keep_copy :: "'w remote \<Rightarrow> string \<Rightarrow> cint \<Rightarrow> cint \<Rightarrow> bool \<Rightarrow> string \<Rightarrow> 'w client \<Rightarrow> (bool \<times> 'w client) option" where
  "keep_copy R rest chat_id timestamp allocated bytes s =
     (let path = create_file_path_snd chat_id timestamp; s = ensure_dir R ATTACH_FILES_DIR_SND s in
      case open_write R ATTACH_FILES_DIR_SND path s of
        (False, s) \<Rightarrow> Some (False, s)
      | (True, s) \<Rightarrow>
          if \<not> allocated then None
          else do {
            (out, s) \<leftarrow> write_bytes R (length bytes) (bytes @ rest) [] s;
            Some (True, s\<lparr>local_files := (local_files s)(path \<mapsto> out)\<rparr>)
          })"

text \<open>When the chat does not exist, the function returns with the chats' mutex locked.\<close>

definition psd_send_message ::
  "'w remote \<Rightarrow> string \<Rightarrow> cint \<Rightarrow> string option \<Rightarrow> string option \<Rightarrow> string option \<Rightarrow> 'w client \<Rightarrow> (int \<times> 'w client) option" where
  "psd_send_message R rest chat_id txt file_path file_info s = do {
     s \<leftarrow> lock Chats_mutex s;
     cs \<leftarrow> c_chats s;
     if cha_find_chat cs chat_id = None then Some (-1, s)
     else do {
       let s = unlock Chats_mutex s;
       (opened, attachment, s) \<leftarrow> read_input R file_path s;
       if \<not> opened then Some (-1, s)
       else do {
         (reply, s) \<leftarrow> with_network (net_send_message R chat_id txt file_info) s;
         case reply of None \<Rightarrow> Some (-1, s)
         | Some send_timestamp \<Rightarrow>
         (case attachment of None \<Rightarrow> Some (0, s)
          | Some (allocated, bytes) \<Rightarrow> do {
              (copied, s) \<leftarrow> keep_copy R rest chat_id send_timestamp allocated bytes s;
              if \<not> copied then Some (-1, s)
              else do {
                (r, s) \<leftarrow> with_network (net_send_attachment R chat_id send_timestamp bytes) s;
                if r \<noteq> 0 then Some (-1, s) else Some (0, s)
              }
            })
       }
     }
   }"

end
