(* ===== verification/Client_Iterators.thy ===== *)
theory Client_Iterators
  imports Client_Messages
begin

text \<open>
  The macros of \<open>client/psd_ims_client.h\<close> with which a user interface reads the lists: a block
  between \<open>psd_begin_*_iteration\<close> and \<open>psd_end_*_iteration\<close> holds the mutex of the list.  An
  iterator of \<open>list.h\<close> is the address of a node; over the bounded lists it is an index, and the
  lemmas of the first section relate the two.
\<close>

section \<open>Iterators of a bounded list\<close>

definition cl_iterator :: "'i clist \<Rightarrow> nat option" where
  "cl_iterator l = (if entries l = [] then None else Some 0)"

definition cl_iterator_next :: "'i clist \<Rightarrow> nat \<Rightarrow> nat option" where
  "cl_iterator_next l i = (if Suc i < length (entries l) then Some (Suc i) else None)"

definition cl_iterator_info :: "'i clist \<Rightarrow> nat \<Rightarrow> 'i" where
  "cl_iterator_info l i = entries l ! i"

text \<open>The index stands for the node at this place.\<close>

lemma list_iterator_refines:
  assumes "represents l h ps xs"
  shows "list_iterator l h = Some (map_option ((!) ps) (cl_iterator (clist_of l xs)))"
proof -
  have "length ps = length xs" using assms by (auto simp: represents_def dest: ring_length)
  moreover have "list_iterator l h = Some (if ps = [] then None else Some (hd ps))"
    using assms by (intro list_iterator_ring) (auto simp: represents_def)
  ultimately show ?thesis by (auto simp: cl_iterator_def hd_conv_nth)
qed

lemma list_iterator_next_refines:
  assumes "represents l h ps xs" "i < length xs"
  shows "list_iterator_next l (ps ! i) h = Some (map_option ((!) ps) (cl_iterator_next (clist_of l xs) i))"
proof -
  have r: "ring h (ghost_item l) ps xs" using assms(1) by (simp add: represents_def)
  have len: "length ps = length xs" by (rule ring_length [OF r])
  define as bs where "as = take i ps" and "bs = drop (Suc i) ps"
  have ps: "ps = as @ ps ! i # bs"
    using assms(2) len by (simp add: as_def bs_def id_take_nth_drop)
  have bs: "bs = [] \<longleftrightarrow> \<not> Suc i < length xs" "bs \<noteq> [] \<Longrightarrow> hd bs = ps ! Suc i"
    using len by (auto simp: bs_def hd_drop_conv_nth)
  obtain ys y zs where ys: "xs = ys @ y # zs" "length ys = length as"
    using assms(2) len by (metis as_def id_take_nth_drop length_take)
  have r': "ring h (ghost_item l) (as @ ps ! i # bs) (ys @ y # zs)" using r ps ys by simp
  then have "list_iterator_next l (ps ! i) h = Some (if bs = [] then None else Some (hd bs))"
    by (cases bs) (auto simp: list_iterator_next_def ring_next [OF r'] ring_def)
  with bs show ?thesis by (auto simp: cl_iterator_next_def)
qed

lemma list_iterator_info_refines:
  assumes "represents l h ps xs" "i < length xs"
  shows "list_iterator_info (ps ! i) h = Some (Some (cl_iterator_info (clist_of l xs) i))"
proof -
  have r: "ring h (ghost_item l) ps xs" using assms(1) by (simp add: represents_def)
  have len: "length ps = length xs" by (rule ring_length [OF r])
  have "map (it h) ps = map (\<lambda>x. Some (Some x)) xs" using r by (simp add: ring_def)
  then have "map (it h) ps ! i = map (\<lambda>x. Some (Some x)) xs ! i" by simp
  then show ?thesis
    using assms(2) len by (simp add: list_iterator_info_def cl_iterator_info_def)
qed

text \<open>The loop \<open>while (valid(iterator)) { \<dots>; next }\<close>, collecting what its body prints; a body that
  reads an invalid pointer ends it.\<close>

function iterate :: "('i \<Rightarrow> string option) \<Rightarrow> 'i clist \<Rightarrow> nat option \<Rightarrow> string option" where
  "iterate f l None = Some []"
| "iterate f l (Some i) = do {
     this \<leftarrow> f (cl_iterator_info l i);
     others \<leftarrow> iterate f l (cl_iterator_next l i);
     Some (this @ others)
   }"
  by pat_completeness auto

termination
  by (relation "measure (\<lambda>(f, l, i). case i of None \<Rightarrow> 0 | Some i \<Rightarrow> Suc (length (entries l) - i))")
    (auto simp: cl_iterator_next_def)

text \<open>The loop visits every item once, in order.\<close>

lemma iterate_from:
  "i < length (entries l) \<Longrightarrow> iterate f l (Some i) = map_option concat (those (map f (drop i (entries l))))"
proof (induction "length (entries l) - i" arbitrary: i)
  case (Suc n)
  note d = Cons_nth_drop_Suc [OF Suc.prems, symmetric]
  have "iterate f l (cl_iterator_next l i) = map_option concat (those (map f (drop (Suc i) (entries l))))"
    using Suc.hyps(1) [of "Suc i"] Suc.hyps(2) by (auto simp: cl_iterator_next_def simp del: iterate.simps(2))
  then show ?case
    by (subst d, subst iterate.simps(2)) (auto simp: cl_iterator_info_def map_option_case split: option.split)
qed simp

lemma iterate_all: "iterate f l (cl_iterator l) = map_option concat (those (map f (entries l)))"
  by (auto simp: cl_iterator_def iterate_from simp del: iterate.simps(2))

declare iterate.simps(2) [simp del]

section \<open>Friends, requests, chats\<close>

definition psd_begin_fri_iteration :: "'w client \<Rightarrow> (nat option \<times> 'w client) option" where
  "psd_begin_fri_iteration s = do {
     s \<leftarrow> lock Friends_mutex s;
     fs \<leftarrow> c_friends s;
     Some (cl_iterator fs, s)
   }"

definition psd_end_fri_iteration :: "'w client \<Rightarrow> 'w client" where
  "psd_end_fri_iteration s = unlock Friends_mutex s"

definition psd_begin_req_iteration :: "'w client \<Rightarrow> (nat option \<times> 'w client) option" where
  "psd_begin_req_iteration s = do {
     s \<leftarrow> lock Requests_mutex s;
     rs \<leftarrow> c_requests s;
     Some (cl_iterator rs, s)
   }"

definition psd_end_req_iteration :: "'w client \<Rightarrow> 'w client" where
  "psd_end_req_iteration s = unlock Requests_mutex s"

definition psd_begin_chat_iteration :: "'w client \<Rightarrow> (nat option \<times> 'w client) option" where
  "psd_begin_chat_iteration s = do {
     s \<leftarrow> lock Chats_mutex s;
     cs \<leftarrow> c_chats s;
     Some (cl_iterator cs, s)
   }"

definition psd_end_chat_iteration :: "'w client \<Rightarrow> 'w client" where
  "psd_end_chat_iteration s = unlock Chats_mutex s"

section \<open>The messages of a chat\<close>

text \<open>\<open>struct chat_mes_iterator\<close>; \<^const>\<open>None\<close> below is the iterator \<open>NULL\<close>.  \<open>malloc\<close> is not
  checked.  Without the chat or without messages the block begins, with the mutex locked, but the
  iterator is not valid.\<close>

record chat_mes_iterator =
  mes_iter :: "nat option"
  mes_chat :: chat_info

definition psd_begin_mes_iteration :: "cint \<Rightarrow> 'w client \<Rightarrow> (chat_mes_iterator option \<times> 'w client) option" where
  "psd_begin_mes_iteration chat_id s =
     (case malloc s of (iterator, s) \<Rightarrow> do {
        s \<leftarrow> lock Chats_mutex s;
        cs \<leftarrow> c_chats s;
        _ \<leftarrow> iterator;
        case cha_find_chat cs chat_id of
          None \<Rightarrow> Some (None, s)
        | Some chat \<Rightarrow>
            (case cl_iterator (cha_messages chat) of
               None \<Rightarrow> Some (None, s)
             | Some i \<Rightarrow> Some (Some \<lparr>mes_iter = Some i, mes_chat = chat\<rparr>, s))
      })"

definition psd_mes_iterator_valid :: "chat_mes_iterator option \<Rightarrow> bool" where
  "psd_mes_iterator_valid iterator = (case iterator of None \<Rightarrow> False | Some x \<Rightarrow> mes_iter x \<noteq> None)"

definition psd_end_mes_iteration :: "'w client \<Rightarrow> 'w client" where
  "psd_end_mes_iteration s = unlock Chats_mutex s"

text \<open>The unread counter is cleared in the chat itself.\<close>

definition psd_mes_iterator_clear_unread ::
  "chat_mes_iterator \<Rightarrow> 'w client \<Rightarrow> (chat_mes_iterator \<times> 'w client) option" where
  "psd_mes_iterator_clear_unread iterator s = do {
     cs \<leftarrow> c_chats s;
     chat \<leftarrow> Some (cha_clear_unread (mes_chat iterator));
     Some (iterator\<lparr>mes_chat := chat\<rparr>, s\<lparr>c_chats := Some (put_chat (cha_id chat) chat cs)\<rparr>)
   }"

definition psd_mes_iterator_double_check_time :: "chat_mes_iterator \<Rightarrow> cint" where
  "psd_mes_iterator_double_check_time iterator = cha_all_read_timestamp (mes_chat iterator)"

section \<open>The members of a chat\<close>

text \<open>Here \<open>malloc\<close> is checked, but a failure returns without the lock; and a chat that does not exist is
  read.\<close>

record chat_member_iterator =
  member_iter :: "nat option"
  member_chat :: chat_info

definition psd_begin_member_iteration :: "cint \<Rightarrow> 'w client \<Rightarrow> (chat_member_iterator option \<times> 'w client) option" where
  "psd_begin_member_iteration chat_id s =
     (case malloc s of (None, s) \<Rightarrow> Some (None, s)
      | (Some _, s) \<Rightarrow> do {
          cs \<leftarrow> c_chats s;
          found \<leftarrow> Some (cha_find_chat cs chat_id);
          s \<leftarrow> lock Chats_mutex s;
          chat \<leftarrow> found;
          case cl_iterator (cha_members chat) of
            None \<Rightarrow> Some (None, s)
          | Some i \<Rightarrow> Some (Some \<lparr>member_iter = Some i, member_chat = chat\<rparr>, s)
        })"

definition psd_end_member_iteration :: "'w client \<Rightarrow> 'w client" where
  "psd_end_member_iteration s = unlock Chats_mutex s"

definition psd_member_iterator_admin_myself :: "chat_member_iterator \<Rightarrow> bool" where
  "psd_member_iterator_admin_myself iterator = cha_admin_myself (member_chat iterator)"

definition psd_member_iterator_admin_name :: "chat_member_iterator \<Rightarrow> string option" where
  "psd_member_iterator_admin_name iterator = cha_admin (member_chat iterator)"

text \<open>The macros that read an item; their argument is what \<open>*_get_info\<close> returns for the iterator.\<close>

definition psd_member_iterator_name :: "member_info \<Rightarrow> string" where
  "psd_member_iterator_name info = member_name info"

definition psd_member_iterator_isfriend :: "member_info \<Rightarrow> bool" where
  "psd_member_iterator_isfriend info = member_is_friend info"

definition psd_member_iterator_information :: "member_info \<Rightarrow> string option" where
  "psd_member_iterator_information info =
     (if \<not> member_is_friend info then None else map_option fri_information (member_friend_info info))"

section \<open>Fields of friends, requests, chats and messages\<close>

definition psd_fri_iterator_name :: "friend_info \<Rightarrow> string" where
  "psd_fri_iterator_name info = fri_name info"

definition psd_fri_iterator_information :: "friend_info \<Rightarrow> string" where
  "psd_fri_iterator_information info = fri_information info"

definition psd_req_iterator_name :: "request_info \<Rightarrow> string" where
  "psd_req_iterator_name info = req_name info"

definition psd_req_iterator_time :: "request_info \<Rightarrow> cint" where
  "psd_req_iterator_time info = req_time info"

definition psd_chat_iterator_id :: "chat_info \<Rightarrow> cint" where
  "psd_chat_iterator_id info = cha_id info"

definition psd_chat_iterator_description :: "chat_info \<Rightarrow> string" where
  "psd_chat_iterator_description info = cha_description info"

definition psd_chat_iterator_unread :: "chat_info \<Rightarrow> cint" where
  "psd_chat_iterator_unread info = cha_unread info"

definition psd_chat_iterator_pending :: "chat_info \<Rightarrow> cint" where
  "psd_chat_iterator_pending info = cha_pending info"

definition psd_chat_iterator_admin_myself :: "chat_info \<Rightarrow> bool" where
  "psd_chat_iterator_admin_myself info = cha_admin_myself info"

definition psd_chat_iterator_admin_name :: "chat_info \<Rightarrow> string option" where
  "psd_chat_iterator_admin_name info = (if cha_admin_myself info then None else cha_admin info)"

definition psd_mes_iterator_sender :: "message_info \<Rightarrow> string option" where
  "psd_mes_iterator_sender info = mes_sender info"

definition psd_mes_iterator_text :: "message_info \<Rightarrow> string" where
  "psd_mes_iterator_text info = mes_text info"

definition psd_mes_iterator_attach_path :: "message_info \<Rightarrow> string option" where
  "psd_mes_iterator_attach_path info = mes_attach_path info"

definition psd_mes_iterator_time :: "message_info \<Rightarrow> cint" where
  "psd_mes_iterator_time info = mes_message_timestamp info"

lemmas iterator_fields [simp] = psd_member_iterator_name_def psd_member_iterator_isfriend_def
  psd_fri_iterator_name_def psd_fri_iterator_information_def psd_req_iterator_name_def psd_req_iterator_time_def
  psd_chat_iterator_id_def psd_chat_iterator_description_def psd_chat_iterator_unread_def
  psd_mes_iterator_sender_def psd_mes_iterator_text_def psd_mes_iterator_attach_path_def psd_mes_iterator_time_def

end
