(* ===== verification/Terminal.thy ===== *)
theory Terminal
  imports Client_Iterators
begin

text \<open>
  \<open>client/client_graphic_v2.c\<close>, part one: the structure \<open>client_graphic\<close>, reading lines from
  the terminal, the thread that fetches notifications, and the signal handler.

  The program has two threads.  The main thread spends its time waiting for the user, and that is when
  the other thread runs here: \<open>turns\<close> says how many turns of its loop it makes before each line is
  read.  Finer interleavings are not modelled, nor are signals that arrive while the main thread is not
  waiting for input.  The three mutexes of \<open>client_graphic\<close> are held only while a flag is read or
  written or a screen is drawn, so they are free whenever they are locked and do not appear.
\<close>

section \<open>The environment and the state\<close>

text \<open>\<open>stack_junk\<close> is what an array on the stack holds before it is written, \<open>flag_junk\<close> the same for a
  flag, \<open>heap_junk\<close> for a buffer from \<open>malloc\<close>; \<open>time_text\<close> is the local time of day as
  \<open>hh:mm:ss\<close>; \<open>no_thread\<close> says when \<open>pthread_create\<close> fails.\<close>

record terminal =
  turns :: "nat \<Rightarrow> nat"
  no_thread :: "nat \<Rightarrow> bool"
  stack_junk :: string
  flag_junk :: bool
  heap_junk :: string
  time_text :: "cint \<Rightarrow> string"

text \<open>A key of the user, or one of the signals \<open>SIGINT\<close>, \<open>SIGTERM\<close> and \<open>SIGABRT\<close>; after the last
  one the input is at its end.\<close>

datatype key = Key char | Interrupt

text \<open>The notifications thread, as \<open>notifications_tid\<close> stands for it: never created (-1), running,
  waiting for ever for a mutex that the main thread keeps, at its end, or joined already (or of unknown
  identity, after a failure of \<open>pthread_create\<close>).\<close>

datatype fetcher = No_thread | Fetching | Blocked | Ended | Joined

datatype screen = No_screen | Screen_login | Screen_main | Screen_friend_req | Screen_chat

record chat_data =
  data_chat_id :: cint
  data_has_attach :: bool
  data_attach_path :: string

record 'w client_graphic =
  graphic_client :: "'w client"
  menu_update_screen :: screen
  screen_data :: "chat_data option"
  continue_fetching :: bool
  continue_graphic :: bool
  screen_updateable :: bool
  notifications_tid :: fetcher
  input_buffer :: string \<comment> \<open>the array, with what follows the terminator\<close>
  stdin :: "key list"
  stdout :: string
  reads :: nat

definition print :: "string \<Rightarrow> 'w client_graphic \<Rightarrow> 'w client_graphic" where
  "print s g = g\<lparr>stdout := stdout g @ s\<rparr>"

definition newline :: char where "newline = CHR 0x0A"

definition line :: "string \<Rightarrow> string" where "line s = s @ [newline]"

text \<open>\<open>printf("%s")\<close> of a pointer that may be \<open>NULL\<close>.\<close>

definition str_s :: "string option \<Rightarrow> string" where
  "str_s s = (case s of None \<Rightarrow> ''(null)'' | Some s \<Rightarrow> s)"

text \<open>A call of the client library.\<close>

definition with_client ::
  "('w client \<Rightarrow> ('r \<times> 'w client) option) \<Rightarrow> 'w client_graphic \<Rightarrow> ('r \<times> 'w client_graphic) option" where
  "with_client f g = do {
     (r, c) \<leftarrow> f (graphic_client g);
     Some (r, g\<lparr>graphic_client := c\<rparr>)
   }"

section \<open>The notifications thread\<close>

text \<open>One turn of the loop of \<open>notifications_fetch\<close>.\<close>

definition notifications_fetch :: "'w remote \<Rightarrow> 'w client_graphic \<Rightarrow> 'w client_graphic option" where
  "notifications_fetch R g = do {
     (_, g) \<leftarrow> with_client (psd_recv_notifications R) g;
     (_, g) \<leftarrow> with_client (psd_recv_all_pending_messages R) g;
     if \<not> continue_fetching g then Some (g\<lparr>notifications_tid := Ended\<rparr>) else Some g
   }"

text \<open>Its first action is to lock the chats, which it cannot do when the main thread holds them.\<close>

fun fetch_turns :: "'w remote \<Rightarrow> nat \<Rightarrow> 'w client_graphic \<Rightarrow> 'w client_graphic option" where
  "fetch_turns R 0 g = Some g"
| "fetch_turns R (Suc n) g =
     (if notifications_tid g \<noteq> Fetching then Some g
      else if held (graphic_client g) \<noteq> {} then Some (g\<lparr>notifications_tid := Blocked\<rparr>)
      else do { g \<leftarrow> notifications_fetch R g; fetch_turns R n g })"

definition await_input :: "terminal \<Rightarrow> 'w remote \<Rightarrow> 'w client_graphic \<Rightarrow> 'w client_graphic option" where
  "await_input E R g = fetch_turns R (turns E (reads g)) (g\<lparr>reads := Suc (reads g)\<rparr>)"

text \<open>The first statement of the new thread sets \<open>continue_fetching\<close>.\<close>

definition run_notifications_thread :: "terminal \<Rightarrow> 'w client_graphic \<Rightarrow> 'w client_graphic" where
  "run_notifications_thread E g =
     (if no_thread E (reads g)
      then print (line ''Could not create the notifications thread'') (g\<lparr>notifications_tid := Joined\<rparr>)
      else g\<lparr>notifications_tid := Fetching, continue_fetching := True\<rparr>)"

text \<open>\<open>pthread_join\<close> of the thread, unless there has been none.  A running thread makes the turn that it
  is in and ends if it is told to; to join a thread twice is undefined.\<close>

definition join_notifications :: "'w remote \<Rightarrow> 'w client_graphic \<Rightarrow> 'w client_graphic option" where
  "join_notifications R g =
     (if notifications_tid g = No_thread then Some g
      else do {
        g \<leftarrow> fetch_turns R 1 g;
        if notifications_tid g = Ended then Some (g\<lparr>notifications_tid := Joined\<rparr>) else None
      })"

text \<open>\<open>stop_client\<close>, the signal handler.  Reading from the closed \<open>stdin\<close> is taken to report the end of
  the file.\<close>

definition stop_client :: "'w remote \<Rightarrow> 'w client_graphic \<Rightarrow> 'w client_graphic option" where
  "stop_client R g = do {
     g \<leftarrow> join_notifications R (g\<lparr>continue_fetching := False\<rparr>);
     Some (g\<lparr>continue_graphic := False, stdin := []\<rparr>)
   }"

section \<open>Input\<close>

text \<open>\<open>getchar\<close>; \<^const>\<open>None\<close> for \<open>EOF\<close>.\<close>

definition getchar :: "'w remote \<Rightarrow> 'w client_graphic \<Rightarrow> (char option \<times> 'w client_graphic) option" where
  "getchar R g =
     (case stdin g of
        [] \<Rightarrow> Some (None, g)
      | Key c # ks \<Rightarrow> Some (Some c, g\<lparr>stdin := ks\<rparr>)
      | Interrupt # ks \<Rightarrow> do { g \<leftarrow> stop_client R (g\<lparr>stdin := ks\<rparr>); Some (None, g) })"

text \<open>The result is stored in a \<open>char\<close>, so the character 255 looks like \<open>EOF\<close>.\<close>

definition is_EOF :: "char option \<Rightarrow> bool" where
  "is_EOF c \<longleftrightarrow> c = None \<or> c = Some (CHR 0xFF)"

text \<open>The loop of \<open>scan_input_string\<close> with room for \<open>n\<close> characters: whether it has not met \<open>EOF\<close>, and
  the characters.\<close>

fun scan_loop :: "'w remote \<Rightarrow> nat \<Rightarrow> 'w client_graphic \<Rightarrow> (bool \<times> string \<times> 'w client_graphic) option" where
  "scan_loop R 0 g = Some (True, [], g)"
| "scan_loop R (Suc n) g = do {
     (aux_char, g) \<leftarrow> getchar R g;
     if aux_char = Some newline then Some (True, [], g)
     else if is_EOF aux_char then Some (False, [], g)
     else do {
       (ok, s, g) \<leftarrow> scan_loop R n g;
       Some (ok, the aux_char # s, g)
     }
   }"

text \<open>A C string in an array, and writing over the beginning of an array.\<close>

definition cstring :: "string \<Rightarrow> string" where
  "cstring b = takeWhile (\<lambda>c. c \<noteq> CHR 0x00) b"

definition overwrite :: "string \<Rightarrow> string \<Rightarrow> string" where
  "overwrite s b = s @ drop (length s) b"

text \<open>The result is the number of characters, or -1 at the end of the input, and then the array has no
  terminator.  The rest of a line that is too long stays in the input: \<open>index >= max_chars\<close>, which
  should flush it, is never true.\<close>

definition scan_input_string ::
  "terminal \<Rightarrow> 'w remote \<Rightarrow> nat \<Rightarrow> string \<Rightarrow> 'w client_graphic \<Rightarrow> (int \<times> string \<times> 'w client_graphic) option" where
  "scan_input_string E R max_chars buffer g = do {
     g \<leftarrow> await_input E R g;
     (ok, s, g) \<leftarrow> scan_loop R (max_chars - 1) g;
     if ok then Some (int (length s), overwrite (s @ [CHR 0x00]) buffer, g)
     else Some (-1, overwrite s buffer, g)
   }"

text \<open>Reading into an array on the stack.\<close>

definition scan_local ::
  "terminal \<Rightarrow> 'w remote \<Rightarrow> nat \<Rightarrow> 'w client_graphic \<Rightarrow> (int \<times> string \<times> 'w client_graphic) option" where
  "scan_local E R max_chars g = do {
     (ret, b, g) \<leftarrow> scan_input_string E R max_chars (stack_junk E) g;
     Some (ret, cstring b, g)
   }"

definition is_numeric :: "string \<Rightarrow> bool" where
  "is_numeric s = list_all is_digit s"

abbreviation MAX_USER_NAME_CHARS :: nat where "MAX_USER_NAME_CHARS \<equiv> 20"
abbreviation MAX_USER_PASS_CHARS :: nat where "MAX_USER_PASS_CHARS \<equiv> 20"
abbreviation MAX_USER_INFO_CHARS :: nat where "MAX_USER_INFO_CHARS \<equiv> 100"
abbreviation MAX_DESCRIPTION_CHARS :: nat where "MAX_DESCRIPTION_CHARS \<equiv> 100"
abbreviation MAX_INPUT_CHARS :: nat where "MAX_INPUT_CHARS \<equiv> 100"

definition get_user_input :: "terminal \<Rightarrow> 'w remote \<Rightarrow> 'w client_graphic \<Rightarrow> (int \<times> 'w client_graphic) option" where
  "get_user_input E R g = do {
     (ret, b, g) \<leftarrow> scan_input_string E R MAX_INPUT_CHARS (input_buffer g) g;
     Some (ret, g\<lparr>input_buffer := b\<rparr>)
   }"

text \<open>\<open>FLUSH_INPUT\<close>, given the keys to come.\<close>

fun flush_input :: "'w remote \<Rightarrow> key list \<Rightarrow> 'w client_graphic \<Rightarrow> 'w client_graphic option" where
  "flush_input R [] g = Some (g\<lparr>stdin := []\<rparr>)"
| "flush_input R (Interrupt # ks) g = stop_client R (g\<lparr>stdin := ks\<rparr>)"
| "flush_input R (Key c # ks) g =
     (if c = newline \<or> is_EOF (Some c) then Some (g\<lparr>stdin := ks\<rparr>) else flush_input R ks g)"

definition wait_user :: "terminal \<Rightarrow> 'w remote \<Rightarrow> 'w client_graphic \<Rightarrow> 'w client_graphic option" where
  "wait_user E R g = do {
     g \<leftarrow> await_input E R (print ([newline] @ '' Press ENTER to continue...'') g);
     flush_input R (stdin g) g
   }"

text \<open>A message, and \<open>wait_user\<close>.\<close>

definition say_and_wait :: "terminal \<Rightarrow> 'w remote \<Rightarrow> string \<Rightarrow> 'w client_graphic \<Rightarrow> 'w client_graphic option" where
  "say_and_wait E R s g = wait_user E R (print (line s) g)"

definition menu_header_show :: "string \<Rightarrow> string" where
  "menu_header_show title =
     [CHR 0x1B] @ ''[H'' @ [CHR 0x1B] @ ''[2J'' @
     line ''============================================='' @
     line (''              '' @ title) @
     line ''=============================================''"

definition menu_footer_show :: string where
  "menu_footer_show = [newline] @ line '' -----------------------------------------------'' @ '' -> ''"

end
