(* ===== verification/Console.thy ===== *)
theory Console
  imports Terminal
begin

text \<open>
  \<open>client/client_graphic_v2.c\<close>, part two: the screens, the commands and the four menus, and the main
  function of \<open>client/client.c\<close>.  The loops of the menus end when the user leaves or the input ends;
  they are \<open>partial_function\<close>s, so that a menu that is never left has the result \<^const>\<open>None\<close>.  The
  results of the commands, which no menu uses, are left out.
\<close>

definition COMMAND_CHAR :: char where "COMMAND_CHAR = CHR ''/''"

text \<open>The character at a place of an array.\<close>

definition at :: "string \<Rightarrow> nat \<Rightarrow> char" where
  "at b i = (if i < length b then b ! i else CHR 0x00)"

text \<open>The string that begins at the third character of the input, as in \<open>&input_buffer[2]\<close>.\<close>

definition argument :: "'w client_graphic \<Rightarrow> string" where
  "argument g = cstring (drop 2 (input_buffer g))"

definition rule_line :: string where
  "rule_line = line '' --------------------------------------------''"

section \<open>Screens\<close>

definition screen_friend_req_show :: "'w client \<Rightarrow> (string \<times> 'w client) option" where
  "screen_friend_req_show c = do {
     (iterator, c) \<leftarrow> psd_begin_req_iteration c;
     rs \<leftarrow> c_requests c;
     shown \<leftarrow> iterate (\<lambda>x. Some (line ('' ['' @ str_d (psd_req_iterator_time x) @ '']: '' @ psd_req_iterator_name x))) rs iterator;
     Some (menu_header_show ''PSD IMS - Friend requests'' @
       line '' (/e)exit, (/a<name>)accept <name>, (/d<name>)decline <name>'' @
       line '' (/u)update screen'' @ rule_line @ shown @ menu_footer_show, psd_end_req_iteration c)
   }"

definition show_message :: "terminal \<Rightarrow> cint \<Rightarrow> message_info \<Rightarrow> string" where
  "show_message E double_check_time x =
     '' '' @ [CHR 0x1B] @ ''[0;36m('' @ time_text E (psd_mes_iterator_time x) @ '') '' @
     (if sint double_check_time < sint (psd_mes_iterator_time x) then '' '' else [CHR 0xE2, CHR 0x9C, CHR 0x94]) @
     ''['' @ (case psd_mes_iterator_sender x of None \<Rightarrow> ''I'' | Some sender \<Rightarrow> sender) @ '']:'' @ [CHR 0x1B] @ ''[0m'' @ [CHR 0x09] @
     psd_mes_iterator_text x @
     (case psd_mes_iterator_attach_path x of None \<Rightarrow> [newline] | Some path \<Rightarrow> line ('' [FILE: '' @ path @ '']''))"

text \<open>The screen of a chat marks its messages as read.\<close>

definition chat_heading :: string where
  "chat_heading = menu_header_show ''PSD IMS - Chats'' @
     line '' (/e)exit, (/s)show members,  (/a)add member, (/d)delete member, (/l)leave'' @
     line '' (/t)<file> attach <file> to message, (/r)remove attach (/f)download attach'' @
     line '' (/u)update screen'' @ rule_line"

definition chat_footing :: "chat_data \<Rightarrow> string" where
  "chat_footing data =
     (if data_has_attach data then '' attached file: '' @ data_attach_path data else []) @ menu_footer_show"

definition screen_chat_show :: "terminal \<Rightarrow> chat_data \<Rightarrow> 'w client \<Rightarrow> (string \<times> 'w client) option" where
  "screen_chat_show E data c = do {
     (iterator, c) \<leftarrow> psd_begin_mes_iteration (data_chat_id data) c;
     (shown, c) \<leftarrow>
       (case iterator of
          None \<Rightarrow> Some ([], c)
        | Some iterator \<Rightarrow> do {
            (iterator, c) \<leftarrow> psd_mes_iterator_clear_unread iterator c;
            double_check_time \<leftarrow> Some (psd_mes_iterator_double_check_time iterator);
            shown \<leftarrow> iterate (\<lambda>x. Some (show_message E double_check_time x))
              (cha_messages (mes_chat iterator)) (mes_iter iterator);
            Some (shown, c)
          });
     Some (chat_heading @ shown @ chat_footing data, psd_end_mes_iteration c)
   }"

definition screen_main_show :: "'w client \<Rightarrow> (string \<times> 'w client) option" where
  "screen_main_show c = do {
     (iterator, c) \<leftarrow> psd_begin_chat_iteration c;
     cs \<leftarrow> c_chats c;
     shown \<leftarrow> iterate (\<lambda>x. Some (line ('' ('' @ str_d (psd_chat_iterator_unread x) @ '') '' @ str_d (psd_chat_iterator_id x) @ '': '' @
       psd_chat_iterator_description x))) cs iterator;
     Some (menu_header_show ''PSD IMS - Chats'' @
       line '' (/e)exit, (/l)logout, (/n)new chat (/f)view friends'' @
       line '' (/r)review friend requests, (/s)send friend request'' @
       line '' (/u)update screen (/t)show timestamps'' @ rule_line @ shown @ menu_footer_show,
       psd_end_chat_iteration c)
   }"

definition screen_login_show :: string where
  "screen_login_show =
     menu_header_show ''PSD IMS - Login'' @ line '' 1. Login'' @ line '' 2. Register'' @ line '' 3. Unregister'' @
     [newline] @ line '' 0. Exit'' @ menu_footer_show"

text \<open>The call through the pointer \<open>menu_update_screen\<close>.\<close>

definition screen_update :: "terminal \<Rightarrow> 'w client_graphic \<Rightarrow> 'w client_graphic option" where
  "screen_update E g =
     (if \<not> screen_updateable g then Some g
      else do {
        (s, g) \<leftarrow> with_client (\<lambda>c.
          case menu_update_screen g of
            No_screen \<Rightarrow> None
          | Screen_login \<Rightarrow> Some (screen_login_show, c)
          | Screen_main \<Rightarrow> screen_main_show c
          | Screen_friend_req \<Rightarrow> screen_friend_req_show c
          | Screen_chat \<Rightarrow> do { data \<leftarrow> screen_data g; screen_chat_show E data c }) g;
        Some (print s g)
      })"

definition set_screen_update :: "screen \<Rightarrow> chat_data option \<Rightarrow> 'w client_graphic \<Rightarrow> 'w client_graphic" where
  "set_screen_update scr data g = g\<lparr>menu_update_screen := scr, screen_data := data\<rparr>"

section \<open>The menu of friend requests\<close>

definition accept_friend_req :: "terminal \<Rightarrow> 'w remote \<Rightarrow> string \<Rightarrow> 'w client_graphic \<Rightarrow> 'w client_graphic option" where
  "accept_friend_req E R name g = do {
     (r, g) \<leftarrow> with_client (psd_send_request_accept R name) g;
     if r \<noteq> 0 then say_and_wait E R '' Could not accept the friend request'' g
     else say_and_wait E R ('' User '' @ [CHR 0x27] @ name @ [CHR 0x27] @ '' accepted as friend'') g
   }"

definition decline_friend_req :: "terminal \<Rightarrow> 'w remote \<Rightarrow> string \<Rightarrow> 'w client_graphic \<Rightarrow> 'w client_graphic option" where
  "decline_friend_req E R name g = do {
     (r, g) \<leftarrow> with_client (psd_send_request_decline R name) g;
     if r \<noteq> 0 then say_and_wait E R '' Could not reject the friend request'' g
     else say_and_wait E R ('' User '' @ [CHR 0x27] @ name @ [CHR 0x27] @ '' rejected as friend'') g
   }"

text \<open>One command; whether the menu is left.\<close>

definition friend_req_command :: "terminal \<Rightarrow> 'w remote \<Rightarrow> 'w client_graphic \<Rightarrow> (bool \<times> 'w client_graphic) option" where
  "friend_req_command E R g =
     (if at (input_buffer g) 0 \<noteq> COMMAND_CHAR then Some (False, g)
      else if at (input_buffer g) 1 = CHR ''e'' then Some (True, g)
      else map_option (Pair False)
        (if at (input_buffer g) 1 = CHR ''a'' then accept_friend_req E R (argument g) g
         else if at (input_buffer g) 1 = CHR ''d'' then decline_friend_req E R (argument g) g
         else if at (input_buffer g) 1 = CHR ''u'' then screen_update E g
         else Some g))"

text \<open>An input of less than two characters goes straight to the condition of the loop, whose flag
  \<open>cont\<close> is not set before the first command.\<close>

definition friend_req_input ::
  "terminal \<Rightarrow> 'w remote \<Rightarrow> bool \<Rightarrow> int \<Rightarrow> 'w client_graphic \<Rightarrow> (bool \<times> 'w client_graphic) option" where
  "friend_req_input E R cont ret g =
     (if ret < 2 then Some (\<not> cont, g)
      else map_option (\<lambda>(exit, g). (exit \<or> \<not> continue_graphic g, g)) (friend_req_command E R g))"

partial_function (option) friend_req_loop ::
  "terminal \<Rightarrow> 'w remote \<Rightarrow> bool \<Rightarrow> 'w client_graphic \<Rightarrow> 'w client_graphic option" where
  "friend_req_loop E R cont g = do {
     g \<leftarrow> screen_update E (g\<lparr>screen_updateable := True\<rparr>);
     (ret, g) \<leftarrow> get_user_input E R g;
     if ret < 0 then Some g
     else do {
       (exit, g) \<leftarrow> friend_req_input E R cont ret g;
       if exit then Some g else friend_req_loop E R True g
     }
   }"

definition menu_friend_req :: "terminal \<Rightarrow> 'w remote \<Rightarrow> 'w client_graphic \<Rightarrow> 'w client_graphic option" where
  "menu_friend_req E R g = friend_req_loop E R (flag_junk E) (set_screen_update Screen_friend_req None g)"

section \<open>The menu of a chat\<close>

text \<open>The administrator and the members, as \<open>show_chat_members\<close> and \<open>delete_member_from_chat\<close> print
  them.  An iterator \<open>NULL\<close> is read.\<close>

definition show_member :: "'w client \<Rightarrow> member_info \<Rightarrow> string option" where
  "show_member c x = do {
     own \<leftarrow> deref (user_name c);
     own \<leftarrow> own;
     if strcmp (psd_member_iterator_name x) own = 0 then do {
       information \<leftarrow> deref (user_information c);
       Some (line ('' [I]: '' @ str_s information @ '' ''))
     }
     else Some (line ('' ['' @ psd_member_iterator_name x @ '']: '' @
       (if psd_member_iterator_isfriend x then str_s (psd_member_iterator_information x) else ''Not a friend'')))
   }"

definition show_members :: "cint \<Rightarrow> 'w client \<Rightarrow> (string \<times> 'w client) option" where
  "show_members chat_id c = do {
     (iterator, c) \<leftarrow> psd_begin_member_iteration chat_id c;
     iterator \<leftarrow> iterator;
     shown \<leftarrow> iterate (show_member c) (cha_members (member_chat iterator)) (member_iter iterator);
     Some ('' [ADMIN] '' @
       (if psd_member_iterator_admin_myself iterator then line ''Myself''
        else line (str_s (psd_member_iterator_admin_name iterator))) @ shown, psd_end_member_iteration c)
   }"

definition show_chat_members :: "terminal \<Rightarrow> 'w remote \<Rightarrow> cint \<Rightarrow> 'w client_graphic \<Rightarrow> 'w client_graphic option" where
  "show_chat_members E R chat_id g = do {
     (shown, g) \<leftarrow> with_client (show_members chat_id) g;
     wait_user E R (print shown g)
   }"

text \<open>The friends, as \<open>add_member_to_chat\<close>, \<open>create_new_chat\<close> and \<open>view_friends\<close> print them.\<close>

definition show_friends :: "'w client \<Rightarrow> (string \<times> 'w client) option" where
  "show_friends c = do {
     (iterator, c) \<leftarrow> psd_begin_fri_iteration c;
     fs \<leftarrow> c_friends c;
     shown \<leftarrow> iterate (\<lambda>x. Some (line ('' '' @ psd_fri_iterator_name x @ '': '' @ psd_fri_iterator_information x))) fs iterator;
     Some (line '' Friends '' @ shown, psd_end_fri_iteration c)
   }"

definition ask_member :: "string \<Rightarrow> string" where
  "ask_member shown = shown @ [newline] @ '' member: ''"

definition add_member_to_chat :: "terminal \<Rightarrow> 'w remote \<Rightarrow> cint \<Rightarrow> 'w client_graphic \<Rightarrow> 'w client_graphic option" where
  "add_member_to_chat E R chat_id g = do {
     (shown, g) \<leftarrow> with_client show_friends g;
     (_, member, g) \<leftarrow> scan_local E R MAX_USER_NAME_CHARS (print (ask_member shown) g);
     (r, g) \<leftarrow> with_client (psd_add_member_to_chat R member chat_id) g;
     if r \<noteq> 0 then say_and_wait E R ('' FAIL: Could not add '' @ member @ '' to the chat'') g else Some g
   }"

definition delete_member_from_chat ::
  "terminal \<Rightarrow> 'w remote \<Rightarrow> cint \<Rightarrow> 'w client_graphic \<Rightarrow> 'w client_graphic option" where
  "delete_member_from_chat E R chat_id g = do {
     (shown, g) \<leftarrow> with_client (show_members chat_id) g;
     (_, member, g) \<leftarrow> scan_local E R MAX_USER_NAME_CHARS (print (ask_member shown) g);
     (r, g) \<leftarrow> with_client (psd_del_member_from_chat R member chat_id) g;
     if r \<noteq> 0 then say_and_wait E R ('' FAIL: Could not delete '' @ member @ '' to the chat'') g else Some g
   }"

definition leave_chat :: "terminal \<Rightarrow> 'w remote \<Rightarrow> cint \<Rightarrow> 'w client_graphic \<Rightarrow> 'w client_graphic option" where
  "leave_chat E R chat_id g = do {
     (r, g) \<leftarrow> with_client (psd_quit_from_chat R chat_id) g;
     if r \<noteq> 0 then say_and_wait E R '' Failed to leave the chat'' g else Some g
   }"

text \<open>Whether the file exists, and the description of it in the array \<open>file_info\<close>.\<close>

definition attach_file ::
  "terminal \<Rightarrow> 'w remote \<Rightarrow> string \<Rightarrow> string \<Rightarrow> 'w client_graphic \<Rightarrow> (bool \<times> string \<times> 'w client_graphic) option" where
  "attach_file E R file_path file_info g = do {
     (content, g) \<leftarrow> with_client (\<lambda>c. Some (open_read R file_path c)) g;
     case content of None \<Rightarrow> Some (False, file_info, g)
     | Some _ \<Rightarrow> do {
         (_, file_info, g) \<leftarrow> scan_input_string E R MAX_DESCRIPTION_CHARS file_info
           (print ([newline] @ '' file info: '') g);
         Some (True, file_info, g)
       }
   }"

definition show_attachments :: "cint \<Rightarrow> 'w client \<Rightarrow> (string \<times> 'w client) option" where
  "show_attachments chat_id c = do {
     (iterator, c) \<leftarrow> psd_begin_mes_iteration chat_id c;
     shown \<leftarrow>
       (case iterator of None \<Rightarrow> Some []
        | Some iterator \<Rightarrow>
            iterate (\<lambda>x. Some (if psd_mes_iterator_attach_path x = None then []
              else line ('' ('' @ str_d (psd_mes_iterator_time x) @ '') ['' @
                (case psd_mes_iterator_sender x of None \<Rightarrow> ''I'' | Some sender \<Rightarrow> sender) @ '']: '' @ psd_mes_iterator_text x)))
              (cha_messages (mes_chat iterator)) (mes_iter iterator));
     Some (shown @ ''Attach timestamp: '', psd_end_mes_iteration c)
   }"

definition download_attach :: "terminal \<Rightarrow> 'w remote \<Rightarrow> cint \<Rightarrow> 'w client_graphic \<Rightarrow> 'w client_graphic option" where
  "download_attach E R chat_id g = do {
     (shown, g) \<leftarrow> with_client (show_attachments chat_id) g;
     (_, msg_timestamp, g) \<leftarrow> scan_local E R MAX_USER_NAME_CHARS (print shown g);
     (r, g) \<leftarrow> with_client (psd_recv_message_attachment R chat_id (atoi msg_timestamp)) g;
     if r < 0 then say_and_wait E R '' failed to get the message attachment'' g else Some g
   }"

definition send_message ::
  "terminal \<Rightarrow> 'w remote \<Rightarrow> string \<Rightarrow> cint \<Rightarrow> string option \<Rightarrow> string option \<Rightarrow> 'w client_graphic \<Rightarrow> 'w client_graphic option" where
  "send_message E R txt chat_id file_path file_info g = do {
     (r, g) \<leftarrow> with_client (psd_send_message R (heap_junk E) chat_id (Some txt) file_path file_info) g;
     if r \<noteq> 0 then say_and_wait E R '' Failed to send the message'' g else Some g
   }"

text \<open>\<open>chat_data\<close> is the structure that \<open>screen_data\<close> points to.\<close>

definition set_attachment :: "string option \<Rightarrow> 'w client_graphic \<Rightarrow> 'w client_graphic" where
  "set_attachment path g = g\<lparr>screen_data := map_option (\<lambda>data.
     case path of None \<Rightarrow> data\<lparr>data_has_attach := False\<rparr>
     | Some path \<Rightarrow> data\<lparr>data_has_attach := True, data_attach_path := path\<rparr>) (screen_data g)\<rparr>"

text \<open>One command, after an input of at least two characters; \<open>/f\<close> falls through to \<open>/u\<close>.\<close>

definition chat_command ::
  "terminal \<Rightarrow> 'w remote \<Rightarrow> cint \<Rightarrow> string \<Rightarrow> 'w client_graphic \<Rightarrow> (bool \<times> string \<times> 'w client_graphic) option" where
  "chat_command E R chat_id file_info g =
     (let c = at (input_buffer g) 1;
          same = map_option (\<lambda>g. (False, file_info, g))
      in
      if c = CHR ''e'' then Some (True, file_info, g)
      else if c = CHR ''a'' then same (add_member_to_chat E R chat_id g)
      else if c = CHR ''s'' then same (show_chat_members E R chat_id g)
      else if c = CHR ''d'' then same (delete_member_from_chat E R chat_id g)
      else if c = CHR ''l'' then same (leave_chat E R chat_id g)
      else if c = CHR ''t'' then do {
        (exists, file_info, g) \<leftarrow> attach_file E R (argument g) file_info g;
        Some (False, file_info, if exists then set_attachment (Some (argument g)) g else g)
      }
      else if c = CHR ''f'' then same (do { g \<leftarrow> download_attach E R chat_id g; screen_update E g })
      else if c = CHR ''u'' then same (screen_update E g)
      else if c = CHR ''r'' then Some (False, file_info, set_attachment None g)
      else Some (False, file_info, g))"

text \<open>A line that is not a command is a message.\<close>

definition chat_line :: "terminal \<Rightarrow> 'w remote \<Rightarrow> cint \<Rightarrow> string \<Rightarrow> 'w client_graphic \<Rightarrow> 'w client_graphic option" where
  "chat_line E R chat_id file_info g = do {
     data \<leftarrow> screen_data g;
     g \<leftarrow> (if data_has_attach data
           then send_message E R (cstring (input_buffer g)) chat_id (Some (data_attach_path data)) (Some (cstring file_info)) g
           else send_message E R (cstring (input_buffer g)) chat_id None None g);
     Some (set_attachment None g)
   }"

definition chat_input ::
  "terminal \<Rightarrow> 'w remote \<Rightarrow> cint \<Rightarrow> string \<Rightarrow> int \<Rightarrow> 'w client_graphic \<Rightarrow> (bool \<times> string \<times> 'w client_graphic) option" where
  "chat_input E R chat_id file_info ret g =
     (if ret < 1 then Some (False, file_info, g)
      else if at (input_buffer g) 0 = COMMAND_CHAR \<and> ret < 2 then Some (False, file_info, g)
      else map_option (\<lambda>(exit, file_info, g). (exit \<or> \<not> continue_graphic g, file_info, g))
        (if at (input_buffer g) 0 = COMMAND_CHAR then chat_command E R chat_id file_info g
         else map_option (\<lambda>g. (False, file_info, g)) (chat_line E R chat_id file_info g)))"

partial_function (option) chat_loop ::
  "terminal \<Rightarrow> 'w remote \<Rightarrow> cint \<Rightarrow> string \<Rightarrow> 'w client_graphic \<Rightarrow> 'w client_graphic option" where
  "chat_loop E R chat_id file_info g = do {
     g \<leftarrow> screen_update E (g\<lparr>screen_updateable := True\<rparr>);
     (ret, g) \<leftarrow> get_user_input E R g;
     if ret < 0 then Some g
     else do {
       (exit, file_info, g) \<leftarrow> chat_input E R chat_id file_info ret g;
       if exit then Some g else chat_loop E R chat_id file_info g
     }
   }"

text \<open>The result of \<open>malloc\<close> is written to without a check.\<close>

definition menu_chat :: "terminal \<Rightarrow> 'w remote \<Rightarrow> cint \<Rightarrow> 'w client_graphic \<Rightarrow> 'w client_graphic option" where
  "menu_chat E R chat_id g = do {
     (chat_data, g) \<leftarrow> with_client (\<lambda>c. Some (malloc c)) g;
     _ \<leftarrow> chat_data;
     chat_loop E R chat_id (stack_junk E) (set_screen_update Screen_chat
       (Some \<lparr>data_chat_id = chat_id, data_has_attach = False, data_attach_path = stack_junk E\<rparr>) g)
   }"

section \<open>The main menu\<close>

definition create_new_chat :: "terminal \<Rightarrow> 'w remote \<Rightarrow> 'w client_graphic \<Rightarrow> 'w client_graphic option" where
  "create_new_chat E R g = do {
     (shown, g) \<leftarrow> with_client show_friends g;
     (_, member, g) \<leftarrow> scan_local E R MAX_USER_NAME_CHARS (print (ask_member shown) g);
     (_, description, g) \<leftarrow> scan_local E R MAX_DESCRIPTION_CHARS (print ([newline] @ '' description: '') g);
     (chat_id, g) \<leftarrow> with_client (psd_create_chat R description (Some member)) g;
     if sint chat_id < 0 then say_and_wait E R '' FAIL: Could not create the chat'' g
     else Some (print (line ('' Chat with '' @ member @ '' created'')) g)
   }"

definition view_friends :: "terminal \<Rightarrow> 'w remote \<Rightarrow> 'w client_graphic \<Rightarrow> 'w client_graphic option" where
  "view_friends E R g = do {
     (shown, g) \<leftarrow> with_client show_friends g;
     wait_user E R (print shown g)
   }"

definition send_friend_request :: "terminal \<Rightarrow> 'w remote \<Rightarrow> 'w client_graphic \<Rightarrow> 'w client_graphic option" where
  "send_friend_request E R g = do {
     (_, name, g) \<leftarrow> scan_local E R MAX_USER_NAME_CHARS (print ([newline, newline] @ '' User name: '') g);
     (r, g) \<leftarrow> with_client (psd_send_friend_request R name) g;
     say_and_wait E R
       ((if r \<noteq> 0 then '' FAIL: Could not request friendship to '' else '' Sended a friend request to '') @
         [CHR 0x27] @ name @ [CHR 0x27]) g
   }"

definition show_timestamps :: "terminal \<Rightarrow> 'w remote \<Rightarrow> 'w client_graphic \<Rightarrow> 'w client_graphic option" where
  "show_timestamps E R g = do {
     cs \<leftarrow> c_chats (graphic_client g);
     fs \<leftarrow> c_friends (graphic_client g);
     rs \<leftarrow> c_requests (graphic_client g);
     wait_user E R (print (line (''notif: '' @ str_d (last_notif_timestamp (graphic_client g))) @
       line (''chats: '' @ str_d (cha_get_timestamp cs)) @ line (''frien: '' @ str_d (fri_get_timestamp fs)) @
       line (''reque: '' @ str_d (req_list_timestamp rs))) g)
   }"

text \<open>One input of at least two characters that is a command: whether the menu is left, and
  \<open>global_exit\<close>.\<close>

definition main_command ::
  "terminal \<Rightarrow> 'w remote \<Rightarrow> bool \<Rightarrow> 'w client_graphic \<Rightarrow> (bool \<times> bool \<times> 'w client_graphic) option" where
  "main_command E R global_exit g =
     (let c = at (input_buffer g) 1;
          same = map_option (\<lambda>g. (False, global_exit, g))
      in
      if c = CHR ''e'' then Some (True, True, g)
      else if c = CHR ''l'' then Some (True, False, g)
      else if c = CHR ''n'' then same (create_new_chat E R g)
      else if c = CHR ''f'' then same (view_friends E R g)
      else if c = CHR ''s'' then same (send_friend_request E R g)
      else if c = CHR ''u'' then same (screen_update E g)
      else if c = CHR ''t'' then same (show_timestamps E R g)
      else if c = CHR ''r'' then
        same (map_option (set_screen_update Screen_main None) (menu_friend_req E R g))
      else Some (False, global_exit, g))"

text \<open>A number opens the chat.\<close>

definition open_chat :: "terminal \<Rightarrow> 'w remote \<Rightarrow> 'w client_graphic \<Rightarrow> 'w client_graphic option" where
  "open_chat E R g =
     (let s = cstring (input_buffer g) in
      if \<not> is_numeric s then Some g
      else do {
        exists \<leftarrow> psd_chat_exists (atoi s) (graphic_client g);
        if \<not> exists then Some g
        else map_option (set_screen_update Screen_main None) (menu_chat E R (atoi s) g)
      })"

definition main_input ::
  "terminal \<Rightarrow> 'w remote \<Rightarrow> bool \<Rightarrow> int \<Rightarrow> 'w client_graphic \<Rightarrow> (bool \<times> bool \<times> 'w client_graphic) option" where
  "main_input E R global_exit ret g =
     (if ret < 1 then Some (False, global_exit, g)
      else if at (input_buffer g) 0 = COMMAND_CHAR \<and> ret < 2 then Some (False, global_exit, g)
      else map_option (\<lambda>(exit, global_exit, g). (exit \<or> \<not> continue_graphic g, global_exit, g))
        (if at (input_buffer g) 0 = COMMAND_CHAR then main_command E R global_exit g
         else map_option (\<lambda>g. (False, global_exit, g)) (open_chat E R g)))"

text \<open>Whether the loop has ended by its condition, not by the \<open>return\<close> at the end of the input.\<close>

partial_function (option) main_loop ::
  "terminal \<Rightarrow> 'w remote \<Rightarrow> bool \<Rightarrow> 'w client_graphic \<Rightarrow> (bool \<times> bool \<times> 'w client_graphic) option" where
  "main_loop E R global_exit g = do {
     g \<leftarrow> screen_update E (g\<lparr>screen_updateable := True\<rparr>);
     (ret, g) \<leftarrow> get_user_input E R g;
     if ret < 0 then Some (False, global_exit, g)
     else do {
       (exit, global_exit, g) \<leftarrow> main_input E R global_exit ret g;
       if exit then Some (True, global_exit, g) else main_loop E R global_exit g
     }
   }"

text \<open>At the end of the input the menu returns at once: the thread goes on and the user stays logged
  in.\<close>

definition menu_main ::
  "terminal \<Rightarrow> 'w remote \<Rightarrow> bool \<Rightarrow> 'w client_graphic \<Rightarrow> (bool \<times> 'w client_graphic) option" where
  "menu_main E R global_exit g = do {
     (left, global_exit, g) \<leftarrow> main_loop E R global_exit (set_screen_update Screen_main None g);
     if \<not> left then Some (global_exit, g)
     else do {
       g \<leftarrow> join_notifications R (g\<lparr>continue_fetching := False\<rparr>);
       c \<leftarrow> psd_logout (graphic_client g);
       Some (global_exit, g\<lparr>graphic_client := c\<rparr>)
     }
   }"

section \<open>The login menu\<close>

definition user_register :: "terminal \<Rightarrow> 'w remote \<Rightarrow> 'w client_graphic \<Rightarrow> 'w client_graphic option" where
  "user_register E R g = do {
     (ret, name, g) \<leftarrow> scan_local E R MAX_USER_NAME_CHARS (print ([newline] @ '' User name: '') g);
     if ret < 0 then Some g
     else do {
       (ret, pass, g) \<leftarrow> scan_local E R MAX_USER_PASS_CHARS (print '' User password: '' g);
       if ret < 0 then Some g
       else do {
         (ret, info, g) \<leftarrow> scan_local E R MAX_USER_INFO_CHARS (print '' Describe yourself: '' g);
         if ret < 0 then Some g
         else do {
           (r, g) \<leftarrow> with_client (psd_user_register R name pass info) g;
           if r \<noteq> 0 then say_and_wait E R
             '' Register failed, maybe the name is already registered or the conection is failing'' g
           else say_and_wait E R ('' User '' @ [CHR 0x27] @ name @ [CHR 0x27] @ '' correctly registered'') g
         }
       }
     }
   }"

definition user_unregister :: "terminal \<Rightarrow> 'w remote \<Rightarrow> 'w client_graphic \<Rightarrow> 'w client_graphic option" where
  "user_unregister E R g = do {
     (ret, name, g) \<leftarrow> scan_local E R MAX_USER_NAME_CHARS (print ([newline] @ '' User name: '') g);
     if ret < 0 then Some g
     else do {
       (ret, pass, g) \<leftarrow> scan_local E R MAX_USER_PASS_CHARS (print '' User password: '' g);
       if ret < 0 then Some g
       else do {
         (r, g) \<leftarrow> with_client (psd_user_unregister R name pass) g;
         if r \<noteq> 0 then say_and_wait E R
           '' Unregister failed, maybe the user is not registered or the conection is failing'' g
         else say_and_wait E R ('' User '' @ [CHR 0x27] @ name @ [CHR 0x27] @ '' correctly unregistered'') g
       }
     }
   }"

definition retrieve_user_data :: "terminal \<Rightarrow> 'w remote \<Rightarrow> 'w client_graphic \<Rightarrow> 'w client_graphic option" where
  "retrieve_user_data E R g = do {
     (r, g) \<leftarrow> with_client (psd_recv_all_data R) g;
     if r < 0 then wait_user E R (print '' Failed to retrieve the user data'' g)
     else do {
       (r, g) \<leftarrow> with_client (psd_recv_all_messages R) g;
       if r < 0 then wait_user E R (print '' Failed to retrieve the chats messages'' g) else Some g
     }
   }"

text \<open>Whether the login has succeeded.\<close>

definition login :: "terminal \<Rightarrow> 'w remote \<Rightarrow> 'w client_graphic \<Rightarrow> (bool \<times> 'w client_graphic) option" where
  "login E R g = do {
     (ret, name, g) \<leftarrow> scan_local E R MAX_USER_NAME_CHARS (print ([newline] @ '' User name: '') g);
     if ret < 0 then Some (False, g)
     else do {
       (ret, pass, g) \<leftarrow> scan_local E R MAX_USER_PASS_CHARS (print '' User password: '' g);
       if ret < 0 then Some (False, g)
       else do {
         (r, g) \<leftarrow> with_client (psd_login R name pass) (print (line ('' '' @ name @ '' '' @ pass)) g);
         if r \<noteq> 0 then map_option (Pair False) (say_and_wait E R
           '' Login failed, maybe the credentials are incorrect or the conection is failing'' g)
         else do {
           g \<leftarrow> retrieve_user_data E R
             (print (line ('' Logged in as '' @ [CHR 0x27] @ name @ [CHR 0x27]) @ '' Retrieving user data ...'') g);
           map_option (Pair True) (say_and_wait E R '' Done'' g)
         }
       }
     }
   }"

text \<open>One round; the choice is the first character of the array, whether or not something was read.\<close>

definition login_command :: "terminal \<Rightarrow> 'w remote \<Rightarrow> 'w client_graphic \<Rightarrow> (bool \<times> 'w client_graphic) option" where
  "login_command E R g =
     (let c = at (input_buffer g) 0 in
      if c = CHR ''1'' then do {
        (ok, g) \<leftarrow> login E R g;
        if \<not> ok then Some (False, g)
        else map_option (\<lambda>(exit, g). (exit, set_screen_update Screen_login None g))
          (menu_main E R False (run_notifications_thread E g))
      }
      else if c = CHR ''2'' then map_option (Pair False) (user_register E R g)
      else if c = CHR ''3'' then map_option (Pair False) (user_unregister E R g)
      else if c = CHR ''0'' then Some (True, g)
      else Some (False, g))"

partial_function (option) login_loop :: "terminal \<Rightarrow> 'w remote \<Rightarrow> 'w client_graphic \<Rightarrow> 'w client_graphic option" where
  "login_loop E R g = do {
     g \<leftarrow> screen_update E (g\<lparr>screen_updateable := True\<rparr>);
     (_, g) \<leftarrow> get_user_input E R g;
     (exit, g) \<leftarrow> login_command E R (g\<lparr>screen_updateable := False\<rparr>);
     if continue_graphic g \<and> \<not> exit then login_loop E R g else Some g
   }"

definition menu_login :: "terminal \<Rightarrow> 'w remote \<Rightarrow> 'w client_graphic \<Rightarrow> 'w client_graphic option" where
  "menu_login E R g = login_loop E R (set_screen_update Screen_login None g)"

section \<open>The program\<close>

definition graphic_client_run :: "terminal \<Rightarrow> 'w remote \<Rightarrow> key list \<Rightarrow> 'w client \<Rightarrow> 'w client_graphic option" where
  "graphic_client_run E R keys c =
     menu_login E R \<lparr>graphic_client = c, menu_update_screen = No_screen, screen_data = None,
       continue_fetching = False, continue_graphic = True, screen_updateable = False, notifications_tid = No_thread,
       input_buffer = stack_junk E, stdin = keys, stdout = [], reads = 0\<rparr>"

text \<open>\<open>main\<close> of \<open>client.c\<close>; the result is what has been printed, and the process at its end.\<close>

definition main_client :: "terminal \<Rightarrow> 'w remote \<Rightarrow> string list \<Rightarrow> key list \<Rightarrow> 'w client \<Rightarrow> (string \<times> 'w client) option" where
  "main_client E R argv keys s =
     (if length argv < 2
      then Some (line (''Usage: '' @ (if argv = [] then ''(null)'' else hd argv) @ '' <url>:<port>''), s)
      else do {
        c \<leftarrow> psd_new_client s;
        (_, c) \<leftarrow> psd_bind_network (argv ! 1) c;
        g \<leftarrow> graphic_client_run E R keys c;
        c \<leftarrow> psd_free_client (graphic_client g);
        Some (stdout g, c)
      })"

end
