(* ===== verification/Client_Safety.thy ===== *)
theory Client_Safety
  imports Client_Messages
begin

text \<open>
  What every call of the client library keeps: the lists stay well-formed and bounded, and every
  mutex that the call locks is unlocked again.
\<close>

section \<open>What the network and the allocator leave alone\<close>

lemma malloc_more: "malloc m = (p, m') \<Longrightarrow> mem.more m' = mem.more m"
  by (auto simp: malloc_def)

lemma malloc_site: "malloc s = (p, s') \<Longrightarrow> site.more s' = site.more s"
  by (auto simp: malloc_def)

lemma soap_call_site: "soap_call f s = Some (r, s') \<Longrightarrow> site.more s' = site.more s"
  by (auto simp: soap_call_def Let_def elim!: bind_SomeE split: option.split_asm prod.split_asm dest!: malloc_site)

lemma net_query_site: "net_query stub s = Some (r, s') \<Longrightarrow> site.more s' = site.more s"
  by (auto simp: net_query_def elim!: bind_SomeE split: option.split_asm prod.split_asm
      dest!: malloc_site soap_call_site)

lemma net_order_site: "net_order stub s = Some (r, s') \<Longrightarrow> site.more s' = site.more s"
  by (auto simp: net_order_def elim!: bind_SomeE dest!: soap_call_site)

lemma if_logged_site:
  "if_logged f s = Some (r, s') \<Longrightarrow> (\<And>r s'. f s = Some (r, s') \<Longrightarrow> site.more s' = site.more s) \<Longrightarrow>
   site.more s' = site.more s"
  by (auto simp: if_logged_def elim!: bind_SomeE split: if_split_asm)

lemma code_of_Some [elim!]:
  "code_of res = Some (r, s') \<Longrightarrow> (\<And>reply. res = Some (reply, s') \<Longrightarrow> r = (if reply = None then -1 else 0) \<Longrightarrow> P) \<Longrightarrow> P"
  by (auto simp: code_of_def)

lemma net_login_site: "net_login R n p s = Some (r, s') \<Longrightarrow> site.more s' = site.more s"
  by (auto simp: net_login_def elim!: bind_SomeE split: option.split_asm prod.split_asm
      dest!: malloc_site soap_call_site)

lemma net_bind_site: "net_bind_network url s = Some (r, s') \<Longrightarrow> site.more s' = site.more s"
  by (auto simp: net_bind_network_def elim!: bind_SomeE split: option.split_asm prod.split_asm dest!: malloc_site)

lemma net_logout_site: "net_logout s = Some s' \<Longrightarrow> site.more s' = site.more s"
  by (auto simp: net_logout_def elim!: bind_SomeE)

lemma net_recv_notifications_site:
  "net_recv_notifications R t sync s = Some (r, s') \<Longrightarrow> site.more s' = site.more s"
  unfolding net_recv_notifications_def
  by (erule if_logged_site) (auto elim!: bind_SomeE split: option.split_asm prod.split_asm
      dest!: malloc_site soap_call_site)

lemma net_user_register_site: "net_user_register R n p i s = Some (r, s') \<Longrightarrow> site.more s' = site.more s"
  by (auto simp: net_user_register_def elim!: bind_SomeE dest!: soap_call_site)

lemma net_user_unregister_site: "net_user_unregister R n p s = Some (r, s') \<Longrightarrow> site.more s' = site.more s"
  by (auto simp: net_user_unregister_def elim!: bind_SomeE dest!: soap_call_site)

text \<open>An operation on the network that changes only what the network functions act on.\<close>

definition quiet :: "(('w, 'z) site_scheme \<Rightarrow> ('r \<times> ('w, 'z) site_scheme) option) \<Rightarrow> bool" where
  "quiet f \<longleftrightarrow> (\<forall>s r s'. f s = Some (r, s') \<longrightarrow> site.more s' = site.more s)"

lemma quietI: "(\<And>s r s'. f s = Some (r, s') \<Longrightarrow> site.more s' = site.more s) \<Longrightarrow> quiet f"
  by (simp add: quiet_def)

lemma quiet_query [intro]: "quiet (net_query stub)"
  by (rule quietI, erule net_query_site)

lemma quiet_order [intro]: "quiet (net_order stub)"
  by (rule quietI, erule net_order_site)

lemma quiet_if_logged [intro]: "quiet f \<Longrightarrow> quiet (if_logged f)"
  by (rule quietI, erule if_logged_site) (simp add: quiet_def)

lemma quiet_code [intro]: "quiet f \<Longrightarrow> quiet (\<lambda>s. code_of (f s))"
  by (rule quietI) (auto simp: quiet_def)

lemmas net_op_defs = net_recv_all_data_def net_recv_pending_messages_def net_get_attachment_def
  net_get_chat_list_def net_get_friend_list_def net_create_chat_def net_add_user_to_chat_def
  net_remove_user_from_chat_def net_quit_from_chat_def net_send_message_def net_send_attachment_def
  net_send_friend_request_def net_send_request_accept_def net_send_request_decline_def

lemma net_quiet:
  "quiet (net_recv_all_data R)" "quiet (net_recv_pending_messages R c t)" "quiet (net_get_attachment R c t)"
  "quiet (net_get_chat_list R t)" "quiet (net_get_friend_list R t)" "quiet (net_create_chat R d x)"
  "quiet (net_add_user_to_chat R n c)" "quiet (net_remove_user_from_chat R n c)" "quiet (net_quit_from_chat R c)"
  "quiet (net_send_message R c q a)" "quiet (net_send_attachment R c t b)" "quiet (net_send_friend_request R n)"
  "quiet (net_send_request_accept R n)" "quiet (net_send_request_decline R n)"
  "quiet (net_recv_notifications R t sync)" "quiet (net_login R n pw)" "quiet (net_bind_network url)"
  "quiet (net_user_register R n pw i)" "quiet (net_user_unregister R n pw)"
  by (unfold net_op_defs [abs_def], (blast | rule quietI,
    erule net_recv_notifications_site net_login_site net_bind_site net_user_register_site net_user_unregister_site)+)

section \<open>What the list operations leave alone\<close>

lemma cl_new_more: "cl_new t n m = (l, m') \<Longrightarrow> mem.more m' = mem.more m"
  by (auto simp: cl_new_def malloc_def split: if_split_asm)

lemma cl_add_more: "cl_add cmp x l m = (r, l', m') \<Longrightarrow> mem.more m' = mem.more m"
  by (auto simp: cl_add_def malloc_def split: if_split_asm)

lemma fri_add_friend_more: "fri_add_friend fs n i m = (r, fs', m') \<Longrightarrow> mem.more m' = mem.more m"
  by (auto simp: fri_add_friend_def malloc_def split: if_split_asm prod.split_asm dest!: cl_add_more)

lemma req_add_request_more: "req_add_request rs n t m = (r, rs', m') \<Longrightarrow> mem.more m' = mem.more m"
  by (auto simp: req_add_request_def malloc_def split: if_split_asm prod.split_asm dest!: cl_add_more)

lemma members_add_member_more: "members_add_member ms n i m = (r, ms', m') \<Longrightarrow> mem.more m' = mem.more m"
  by (auto simp: members_add_member_def malloc_def split: if_split_asm prod.split_asm dest!: cl_add_more)

lemma dup_option_more: "dup_option x m = (r, m') \<Longrightarrow> mem.more m' = mem.more m"
  by (auto simp: dup_option_def malloc_def split: if_split_asm option.split_asm)

lemma mes_add_message_more: "mes_add_message ms s x t a m = (r, ms', m') \<Longrightarrow> mem.more m' = mem.more m"
  by (auto simp: mes_add_message_def malloc_def split: if_split_asm prod.split_asm option.split_asm bool.split_asm
      dest!: cl_add_more dup_option_more)

lemma add_members_loop_more: "add_members_loop xs cs m = (b, cs', m') \<Longrightarrow> mem.more m' = mem.more m"
proof (induction xs arbitrary: cs m)
  case (Cons x xs)
  obtain n i where x: "x = (n, i)" by (cases x)
  obtain r cs1 m1 where "members_add_member cs n i m = (r, cs1, m1)" by (metis prod_cases3)
  with Cons show ?case by (auto simp: x split: if_split_asm dest: members_add_member_more)
qed simp

lemma cha_add_chat_more:
  assumes "cha_add_chat cs i d a xs mm mx rt art m = (r, cs', m')"
  shows "mem.more m' = mem.more m"
  using assms
  by (auto simp: cha_add_chat_def members_new_def mes_new_def malloc_def
      split: if_split_asm prod.split_asm option.split_asm bool.split_asm
      dest!: cl_add_more add_members_loop_more cl_new_more)

lemma add_messages_loop_more: "add_messages_loop i xs c m = (r, c', m') \<Longrightarrow> mem.more m' = mem.more m"
proof (induction xs arbitrary: i c m)
  case (Cons x xs)
  obtain s b t a where x: "x = (s, b, t, a)" by (cases x)
  obtain r ms m1 where add: "mes_add_message (cha_messages c) s b t a m = (r, ms, m1)" by (metis prod_cases3)
  show ?case
    using Cons.prems Cons.IH [of "i + 1" _ m1] mes_add_message_more [OF add]
    by (auto simp: x add Let_def split: if_split_asm)
qed simp

lemma cha_add_messages_more: "cha_add_messages c xs m = (r, c', m') \<Longrightarrow> mem.more m' = mem.more m"
  by (auto simp: cha_add_messages_def Let_def dest: add_messages_loop_more)

lemma alloc_array_more: "alloc_array n m = Some m' \<Longrightarrow> mem.more m' = mem.more m"
  by (auto simp: alloc_array_def malloc_def split: if_split_asm)

lemma fri_add_friend_limit: "fri_add_friend fs n i m = (r, fs', m') \<Longrightarrow> limit fs' = limit fs"
  by (elim fri_add_friend_cases) (auto dest: friends.add_result)

lemma fri_del_friend_limit: "fri_del_friend fs n = (r, fs') \<Longrightarrow> limit fs' = limit fs"
  by (auto simp: fri_del_friend_def dest: friends.delete_result)

lemma req_add_request_limit: "req_add_request rs n t m = (r, rs', m') \<Longrightarrow> limit rs' = limit rs"
  by (elim req_add_request_cases) (auto dest: requests.add_result)

lemma req_del_request_limit: "req_del_request rs n = (r, rs') \<Longrightarrow> limit rs' = limit rs"
  by (auto simp: req_del_request_def dest: requests.delete_result)

lemma cha_add_chat_limit: "cha_add_chat cs i d a xs mm mx rt art m = (r, cs', m') \<Longrightarrow> limit cs' = limit cs"
  by (elim cha_add_chat_cases) (auto dest: chats.add_result)

lemma cha_del_chat_limit: "cha_del_chat cs i = (r, cs') \<Longrightarrow> limit cs' = limit cs"
  by (auto simp: cha_del_chat_def dest: chats.delete_result)

section \<open>The invariant\<close>

definition lists_ok :: "'w client \<Rightarrow> bool" where
  "lists_ok s \<longleftrightarrow>
     pred_option (\<lambda>fs. friends_wf fs \<and> limit fs = MAX_FRIENDS) (c_friends s) \<and>
     pred_option (\<lambda>rs. requests_wf rs \<and> limit rs = MAX_FRIEND_REQUESTS) (c_requests s) \<and>
     pred_option (\<lambda>cs. chats_wf cs \<and> limit cs = MAX_CHATS) (c_chats s)"

definition intact :: "'w client \<Rightarrow> 'w client \<Rightarrow> bool" where
  "intact s s' \<longleftrightarrow> held s' = held s \<and> (lists_ok s \<longrightarrow> lists_ok s')"

text \<open>Most calls moreover forget no chat.\<close>

definition known_ids :: "chats option \<Rightarrow> cint set" where
  "known_ids cs = (case cs of None \<Rightarrow> {} | Some cs \<Rightarrow> cha_id ` set (entries cs))"

lemma known_ids_Some [simp]: "known_ids (Some cs) = cha_id ` set (entries cs)"
  by (simp add: known_ids_def)

definition keeps :: "'w client \<Rightarrow> 'w client \<Rightarrow> bool" where
  "keeps s s' \<longleftrightarrow> held s' = held s \<and> (lists_ok s \<longrightarrow> lists_ok s') \<and> known_ids (c_chats s) \<subseteq> known_ids (c_chats s')"

lemma keeps_intact: "keeps s s' \<Longrightarrow> intact s s'"
  by (simp add: keeps_def intact_def)

lemma keeps_refl [simp]: "keeps s s"
  by (simp add: keeps_def)

lemma keeps_trans [trans]: "keeps s t \<Longrightarrow> keeps t u \<Longrightarrow> keeps s u"
  by (auto simp: keeps_def)

text \<open>Everything the invariant speaks of is outside of \<open>site\<close>.\<close>

lemma site_eq:
  fixes s s' :: "('w, 'z) site_scheme"
  assumes "site.more s' = site.more s"
  shows "s' = s\<lparr>avail := avail s', brk := brk s', net := net s', outside := outside s'\<rparr>"
  using assms by (cases s rule: site.cases_scheme; cases s' rule: site.cases_scheme) simp

lemma site_more_fields:
  fixes s s' :: "'w client"
  assumes "site.more s' = site.more s"
  shows "held s' = held s" "c_friends s' = c_friends s" "c_requests s' = c_requests s" "c_chats s' = c_chats s"
    "user_name s' = user_name s" "stray_unlock s' = stray_unlock s" "last_notif_timestamp s' = last_notif_timestamp s"
  by (subst site_eq [OF assms], simp)+

lemma site_keeps:
  assumes "site.more s' = site.more s"
  shows "keeps s s'"
  unfolding keeps_def lists_ok_def site_more_fields [OF assms] by simp

lemma mem_site:
  fixes s s' :: "('w, 'z) site_scheme"
  assumes "mem.more s' = mem.more s"
  shows "site.more s' = site.more s"
  using assms by (cases s rule: site.cases_scheme; cases s' rule: site.cases_scheme) simp

lemma lists_ok_fields [simp]:
  "lists_ok (s\<lparr>held := H\<rparr>) = lists_ok s" "lists_ok (s\<lparr>stray_unlock := b\<rparr>) = lists_ok s"
  "lists_ok (s\<lparr>last_notif_timestamp := t\<rparr>) = lists_ok s" "lists_ok (s\<lparr>user_name := n\<rparr>) = lists_ok s"
  "lists_ok (s\<lparr>user_pass := n\<rparr>) = lists_ok s" "lists_ok (s\<lparr>user_information := n\<rparr>) = lists_ok s"
  by (simp_all add: lists_ok_def)

lemma lock_Some: "lock x s = Some s1 \<longleftrightarrow> x \<notin> held s \<and> s1 = s\<lparr>held := insert x (held s)\<rparr>"
  by (auto simp: lock_def)

lemma locked_keeps:
  assumes "lock x s = Some s1" "keeps s1 s2"
  shows "keeps s (unlock x s2)"
proof -
  have "held s2 = insert x (held s)" "x \<notin> held s" "lists_ok s \<longrightarrow> lists_ok s2"
    "known_ids (c_chats s) \<subseteq> known_ids (c_chats s2)"
    using assms by (simp_all add: lock_Some keeps_def)
  then show ?thesis by (simp add: keeps_def unlock_def)
qed

lemma with_network_keeps:
  assumes "with_network f s = Some (r, s')" "quiet f"
  shows "keeps s s'"
proof -
  obtain s1 s2 where "lock Network_mutex s = Some s1" "f s1 = Some (r, s2)" "s' = unlock Network_mutex s2"
    using assms(1) by (auto simp: with_network_def elim!: bind_SomeE)
  then show ?thesis using locked_keeps [OF _ site_keeps] assms(2) unfolding quiet_def by blast
qed

lemmas network_keeps = net_quiet [THEN [2] with_network_keeps]

section \<open>Changing one list\<close>

abbreviation friends_ok :: "friends \<Rightarrow> bool" where
  "friends_ok fs \<equiv> friends_wf fs \<and> limit fs = MAX_FRIENDS"

abbreviation requests_ok :: "friend_requests \<Rightarrow> bool" where
  "requests_ok rs \<equiv> requests_wf rs \<and> limit rs = MAX_FRIEND_REQUESTS"

abbreviation chats_ok :: "chats \<Rightarrow> bool" where
  "chats_ok cs \<equiv> chats_wf cs \<and> limit cs = MAX_CHATS"

lemma put_friends:
  assumes "keeps s s'" "c_friends s = Some fs" "friends_ok fs \<Longrightarrow> friends_ok fs'"
  shows "keeps s (s'\<lparr>c_friends := Some fs'\<rparr>)"
  using assms by (simp add: keeps_def lists_ok_def)

lemma put_requests:
  assumes "keeps s s'" "c_requests s = Some rs" "requests_ok rs \<Longrightarrow> requests_ok rs'"
  shows "keeps s (s'\<lparr>c_requests := Some rs'\<rparr>)"
  using assms by (simp add: keeps_def lists_ok_def)

lemma put_chats:
  assumes "keeps s s'" "c_chats s = Some cs"
    and "(chats_ok cs \<longrightarrow> chats_ok cs') \<and> cha_id ` set (entries cs) \<subseteq> cha_id ` set (entries cs')"
  shows "keeps s (s'\<lparr>c_chats := Some cs'\<rparr>)"
  using assms by (simp add: keeps_def lists_ok_def)

lemma chats_ok_replace:
  assumes "chats_ok cs" "chat_wf c" "cha_id c = i"
  shows "chats_ok (put_chat i c cs)"
  using assms put_chat_wf [of cs c i] by (simp add: put_chat_def)

lemma put_chat_ids: "cha_id c = i \<Longrightarrow> cha_id ` set (entries (put_chat i c cs)) = cha_id ` set (entries cs)"
  by (auto simp: put_chat_def image_image intro: rev_image_eqI)

lemma put_chat_ok:
  assumes "chats_wf cs \<longrightarrow> chat_wf c" "cha_id c = i"
  shows "(chats_ok cs \<longrightarrow> chats_ok (put_chat i c cs)) \<and> cha_id ` set (entries cs) \<subseteq> cha_id ` set (entries (put_chat i c cs))"
  using assms chats_ok_replace [of cs c i] by (simp add: put_chat_ids)

lemma cha_add_chat_ids:
  "cha_add_chat cs i d a xs mm mx rt art m = (r, cs', m') \<Longrightarrow> cha_id ` set (entries cs) \<subseteq> cha_id ` set (entries cs')"
  by (elim cha_add_chat_cases) (auto dest: chats.add_result)

lemmas mem_keeps = site_keeps [OF mem_site]

end
