(* ===== verification/Client_Invariant.thy ===== *)
theory Client_Invariant
  imports Client_Safety
begin

text \<open>
  The client library as a transition system: a step is one call that returns.  Each call keeps the
  lists well-formed and gives every mutex back, with the exception of \<open>psd_send_message\<close> to a chat
  that the client does not know.
\<close>

section \<open>Simple calls\<close>

lemma psd_bind_network_keeps: "psd_bind_network url s = Some (r, s') \<Longrightarrow> keeps s s'"
  unfolding psd_bind_network_def by (rule network_keeps)

lemma psd_set_name_keeps: "psd_set_name n s = (r, s') \<Longrightarrow> keeps s s'"
  by (auto simp: psd_set_name_def malloc_def keeps_def lists_ok_def split: if_split_asm)

lemma psd_set_pass_keeps: "psd_set_pass n s = (r, s') \<Longrightarrow> keeps s s'"
  by (auto simp: psd_set_pass_def malloc_def keeps_def lists_ok_def split: if_split_asm)

lemma malloc_keeps: "malloc s = (p, s') \<Longrightarrow> keeps s s'"
  by (intro mem_keeps malloc_more)

lemma keeps_fields [simp]:
  "keeps s (s'\<lparr>user_name := n\<rparr>) = keeps s s'" "keeps s (s'\<lparr>user_pass := n\<rparr>) = keeps s s'"
  "keeps s (s'\<lparr>user_information := n\<rparr>) = keeps s s'" "keeps s (s'\<lparr>last_notif_timestamp := t\<rparr>) = keeps s s'"
  "keeps s (s'\<lparr>last_connection := t\<rparr>) = keeps s s'"
  by (simp_all add: keeps_def lists_ok_def)

lemma psd_login_keeps:
  assumes "psd_login R name pass s = Some (r, s')"
  shows "keeps s s'"
proof -
  obtain reply s1 where net: "with_network (net_login R name pass) s = Some (reply, s1)"
    and rest: "keeps s1 s'"
    using assms
    by (auto simp: psd_login_def malloc_def site_keeps elim!: bind_SomeE split: option.split_asm if_split_asm)
  show ?thesis using network_keeps(16) [OF net] rest by (rule keeps_trans)
qed

lemma new_lists_ok:
  assumes "fri_new MAX_FRIENDS s = (fs, s1)" "req_new MAX_FRIEND_REQUESTS s1 = (rs, s2)" "cha_new MAX_CHATS s2 = (cs, s3)"
  shows "pred_option friends_ok fs" "pred_option requests_ok rs" "pred_option chats_ok cs"
  using assms fri_new_wf [of MAX_FRIENDS s] req_new_wf [of MAX_FRIEND_REQUESTS s1] cha_new_wf [of MAX_CHATS s2]
  by (cases fs; cases rs; cases cs; simp)+

lemma new_more:
  assumes "fri_new MAX_FRIENDS s = (fs, s1)" "req_new MAX_FRIEND_REQUESTS s1 = (rs, s2)" "cha_new MAX_CHATS s2 = (cs, s3)"
  shows "mem.more s3 = mem.more s"
  using assms
  by (auto simp: fri_new_def req_new_def cha_new_def malloc_def split: prod.split_asm if_split_asm dest!: cl_new_more)

lemma psd_logout_intact:
  assumes "psd_logout s = Some s'"
  shows "intact s s'"
proof -
  obtain s0 fs s1 rs s2 cs s3 where out: "net_logout s = Some s0"
    and new: "fri_new MAX_FRIENDS (s0\<lparr>user_name := Null, user_pass := Null, user_information := Null,
        last_connection := 0, last_notif_timestamp := 0\<rparr>) = (fs, s1)"
      "req_new MAX_FRIEND_REQUESTS s1 = (rs, s2)" "cha_new MAX_CHATS s2 = (cs, s3)"
    and s': "s' = s3\<lparr>c_friends := fs, c_requests := rs, c_chats := cs\<rparr>"
    using assms by (auto simp: psd_logout_def Let_def elim!: bind_SomeE split: prod.split_asm)
  have "held s3 = held s"
    using site_more_fields [OF mem_site [OF new_more [OF new]]] site_more_fields [OF net_logout_site [OF out]] by simp
  then show ?thesis using new_lists_ok [OF new] by (simp add: s' intact_def lists_ok_def)
qed

lemma psd_user_register_keeps: "psd_user_register R n p i s = Some (r, s') \<Longrightarrow> keeps s s'"
  unfolding psd_user_register_def by (rule network_keeps)

lemma psd_user_unregister_keeps: "psd_user_unregister R n p s = Some (r, s') \<Longrightarrow> keeps s s'"
  unfolding psd_user_unregister_def by (rule network_keeps)

text \<open>The orders that are only passed on.\<close>

lemma psd_add_member_to_chat_keeps: "psd_add_member_to_chat R x c s = Some (r, s') \<Longrightarrow> keeps s s'"
  unfolding psd_add_member_to_chat_def by (rule network_keeps)

lemma psd_del_member_from_chat_keeps: "psd_del_member_from_chat R x c s = Some (r, s') \<Longrightarrow> keeps s s'"
  unfolding psd_del_member_from_chat_def by (rule network_keeps)

lemma psd_quit_from_chat_keeps: "psd_quit_from_chat R c s = Some (r, s') \<Longrightarrow> keeps s s'"
  unfolding psd_quit_from_chat_def by (rule network_keeps)

lemma psd_send_friend_request_keeps: "psd_send_friend_request R x s = Some (r, s') \<Longrightarrow> keeps s s'"
  unfolding psd_send_friend_request_def by (rule network_keeps)

lemma unlock_lock_keeps: "lock x s = Some s1 \<Longrightarrow> keeps s (unlock x s1)"
  by (rule locked_keeps [OF _ keeps_refl])

lemma lock_eq: "lock x s = Some s1 \<Longrightarrow> c_friends s1 = c_friends s \<and> c_requests s1 = c_requests s \<and> c_chats s1 = c_chats s"
  by (simp add: lock_Some)

lemma psd_create_chat_keeps:
  assumes "psd_create_chat R d x s = Some (r, s')"
  shows "keeps s s'"
proof -
  have create: "keeps s0 s1" if "(do { (reply, s) \<leftarrow> with_network (net_create_chat R d x) s0;
      case reply of None \<Rightarrow> Some (-1, s) | Some chat_id \<Rightarrow> Some (chat_id, s) }) = Some (q, s1)" for s0 q s1
    using that by (auto elim!: bind_SomeE split: option.split_asm dest: network_keeps)
  show ?thesis
  proof (cases x)
    case None
    then show ?thesis using assms create by (simp add: psd_create_chat_def)
  next
    case (Some name)
    then obtain s1 fs where l: "lock Friends_mutex s = Some s1" "c_friends s1 = Some fs"
      using assms by (auto simp: psd_create_chat_def elim!: bind_SomeE)
    show ?thesis
      using assms Some l unlock_lock_keeps [OF l(1)] create [of "unlock Friends_mutex s1"]
      by (auto simp: psd_create_chat_def intro: keeps_trans split: if_split_asm)
  qed
qed

lemma psd_remove_chat_intact:
  assumes "psd_remove_chat c s = Some (r, s')"
  shows "intact s s'"
proof -
  obtain s1 cs q cs' where l: "lock Chats_mutex s = Some s1" "c_chats s1 = Some cs" "cha_del_chat cs c = (q, cs')"
    "s' = unlock Chats_mutex (s1\<lparr>c_chats := Some cs'\<rparr>)"
    using assms by (auto simp: psd_remove_chat_def Let_def elim!: bind_SomeE split: prod.split_asm if_split_asm)
  have "chats_ok cs \<longrightarrow> chats_ok cs'"
    using cha_del_chat_wf [OF l(3)] cha_del_chat_limit [OF l(3)] by simp
  then show ?thesis
    using l(1,2) unfolding l(4) by (auto simp: intact_def lists_ok_def lock_Some unlock_def)
qed

lemma forget_request_keeps:
  assumes "forget_request x s = Some (r, s')"
  shows "keeps s s'"
proof -
  obtain s1 rs q rs' where l: "lock Requests_mutex s = Some s1" "c_requests s1 = Some rs" "req_del_request rs x = (q, rs')"
    "s' = unlock Requests_mutex (s1\<lparr>c_requests := Some rs'\<rparr>)"
    using assms by (auto simp: forget_request_def Let_def elim!: bind_SomeE split: prod.split_asm if_split_asm)
  have "keeps s1 (s1\<lparr>c_requests := Some rs'\<rparr>)"
    by (rule put_requests [OF keeps_refl l(2)]) (use req_del_request_wf [OF l(3)] req_del_request_limit [OF l(3)] in simp)
  then show ?thesis unfolding l(4) by (rule locked_keeps [OF l(1)])
qed

lemma psd_send_request_accept_keeps: "psd_send_request_accept R x s = Some (r, s') \<Longrightarrow> keeps s s'"
  by (auto simp: psd_send_request_accept_def elim!: bind_SomeE split: if_split_asm
      dest!: network_keeps forget_request_keeps intro: keeps_trans)

lemma psd_send_request_decline_keeps: "psd_send_request_decline R x s = Some (r, s') \<Longrightarrow> keeps s s'"
  by (auto simp: psd_send_request_decline_def elim!: bind_SomeE split: if_split_asm
      dest!: network_keeps forget_request_keeps intro: keeps_trans)

section \<open>Friends and chats\<close>

lemma add_friends_loop_ok:
  "add_friends_loop us fs s = (rest, fs', s') \<Longrightarrow> friends_ok fs \<Longrightarrow> friends_ok fs'"
proof (induction us arbitrary: fs s)
  case (Cons u us)
  obtain r fs1 s1 where add: "fri_add_friend fs (ui_name u) (ui_information u) s = (r, fs1, s1)" by (metis prod_cases3)
  have "friends_ok fs1"
    using fri_add_friend_wf [OF add] fri_add_friend_limit [OF add] Cons.prems(2) by simp
  then show ?case using Cons by (simp add: add split: if_split_asm)
qed simp

lemma add_friends_loop_more: "add_friends_loop us fs s = (rest, fs', s') \<Longrightarrow> mem.more s' = mem.more s"
proof (induction us arbitrary: fs s)
  case (Cons u us)
  obtain r fs1 s1 where add: "fri_add_friend fs (ui_name u) (ui_information u) s = (r, fs1, s1)" by (metis prod_cases3)
  then show ?case using Cons fri_add_friend_more [OF add] by (simp split: if_split_asm)
qed simp

lemma del_friends_loop_ok: "del_friends_loop us fs = (b, fs') \<Longrightarrow> friends_ok fs \<Longrightarrow> friends_ok fs'"
proof (induction us arbitrary: fs)
  case (Cons u us)
  obtain r fs1 where del: "fri_del_friend fs (ui_name u) = (r, fs1)" by (cases "fri_del_friend fs (ui_name u)")
  have "friends_ok fs1"
    using fri_del_friend_wf [OF del] fri_del_friend_limit [OF del] Cons.prems(2) by simp
  then show ?case using Cons by (simp add: del split: if_split_asm)
qed simp

lemma take_friends_keeps:
  assumes "take_friends l s = Some (r, s')"
  shows "keeps s s'"
proof -
  obtain s1 fs where t: "lock Friends_mutex s = Some s1" "c_friends s1 = Some fs"
    using assms unfolding take_friends_def by (auto elim!: bind_SomeE)
  obtain rest fs1 s2 where loop: "add_friends_loop (ul_user l) fs s1 = (rest, fs1, s2)" by (metis prod_cases3)
  let ?i = "length (ul_user l) - length rest"
  obtain b fs3 where del: "del_friends_loop (rev (take ?i (ul_user l))) fs1 = (b, fs3)"
    by (cases "del_friends_loop (rev (take ?i (ul_user l))) fs1")
  define fs2 where "fs2 = (if ?i < length (ul_user l) then fs3 else fri_set_timestamp fs1 (ul_last_timestamp l))"
  have u: "friends_ok fs1 \<Longrightarrow> friends_ok fs2"
    using del_friends_loop_ok [OF del] by (simp add: fs2_def fri_set_timestamp_def keyed_wf_stamp)
  have s': "s' = unlock Friends_mutex (s2\<lparr>c_friends := Some fs2\<rparr>)"
    using assms unfolding take_friends_def fs2_def
    by (cases "?i < length (ul_user l)") (simp_all add: t loop del Let_def)
  have "keeps s1 (s2\<lparr>c_friends := Some fs2\<rparr>)"
    by (rule put_friends [OF mem_keeps [OF add_friends_loop_more [OF loop]] t(2)])
      (use u add_friends_loop_ok [OF loop] in blast)
  then show ?thesis unfolding s' by (rule locked_keeps [OF t(1)])
qed

lemma psd_recv_friends_keeps:
  assumes "psd_recv_friends R s = Some (r, s')"
  shows "keeps s s'"
proof -
  obtain s1 fs reply s2 where l: "lock Friends_mutex s = Some s1"
    "with_network (net_get_friend_list R (fri_get_timestamp fs)) (unlock Friends_mutex s1) = Some (reply, s2)"
    "keeps s2 s'"
    using assms
    by (auto simp: psd_recv_friends_def Let_def elim!: bind_SomeE split: option.split_asm dest!: take_friends_keeps)
  show ?thesis using keeps_trans [OF keeps_trans [OF unlock_lock_keeps [OF l(1)] network_keeps(5) [OF l(2)]] l(3)] .
qed

lemma add_chat_item_keeps:
  assumes "add_chat_item R ci people s = Some (r, s')"
  shows "keeps s s'"
proof -
  obtain cs cs' s1 where c: "c_chats s = Some cs" "cha_add_chat cs (ci_chat_id ci) (ci_description ci) (ci_admin ci) people
      MAX_MEMBERS MAX_MESSAGES (wire_int R (ci_read_timestamp ci)) (ci_all_read_timestamp ci) s = (r, cs', s1)"
    "s' = s1\<lparr>c_chats := Some cs'\<rparr>"
    using assms by (auto simp: add_chat_item_def elim!: bind_SomeE split: prod.split_asm)
  show ?thesis unfolding c(3)
    by (rule put_chats [OF mem_keeps [OF cha_add_chat_more [OF c(2)]] c(1)])
      (use cha_add_chat_wf [OF c(2)] cha_add_chat_limit [OF c(2)] cha_add_chat_ids [OF c(2)] in simp)
qed

text \<open>\<open>psd_recv_chats\<close> unlocks the friends' mutex: its caller must not hold it.\<close>

lemma unlock_free_keeps: "x \<notin> held s \<Longrightarrow> keeps s (unlock x s)"
  by (simp add: unlock_def keeps_def)

lemma recv_chats_loop_keeps:
  "recv_chats_loop R cs s = Some (b, s') \<Longrightarrow> Friends_mutex \<notin> held s \<Longrightarrow> keeps s s'"
proof (induction cs arbitrary: s)
  case (Cons ci cs)
  show ?case
  proof (cases "\<exists>s1. malloc s = (None, s1) \<and> s' = s1 \<or> (\<exists>p s2. malloc s = (Some p, s2) \<and> malloc s2 = (None, s1) \<and> s' = s1)")
    case True
    then show ?thesis by (auto dest!: malloc_keeps intro: keeps_trans)
  next
    case False
    then obtain p s1 q s2 people s3 r s4 where m: "malloc s = (Some p, s1)" "malloc s1 = (Some q, s2)"
      and t: "lock Chats_mutex (unlock Friends_mutex s2) = Some s3" "add_chat_item R ci people s3 = Some (r, s4)"
        "recv_chats_loop R cs (unlock Chats_mutex s4) = Some (b, s')"
      using Cons.prems(1) by (auto simp: Let_def elim!: bind_SomeE split: option.split_asm prod.split_asm)
    have k: "keeps s s2" using malloc_keeps [OF m(1)] malloc_keeps [OF m(2)] by (rule keeps_trans)
    moreover have "keeps s2 (unlock Friends_mutex s2)"
      using k Cons.prems(2) by (intro unlock_free_keeps) (simp add: keeps_def)
    moreover have "keeps (unlock Friends_mutex s2) (unlock Chats_mutex s4)"
      by (rule locked_keeps [OF t(1) add_chat_item_keeps [OF t(2)]])
    ultimately have "keeps s (unlock Chats_mutex s4)" by (blast intro: keeps_trans)
    moreover from this have "Friends_mutex \<notin> held (unlock Chats_mutex s4)"
      using Cons.prems(2) by (simp add: keeps_def)
    ultimately show ?thesis using Cons.IH [OF t(3)] by (blast intro: keeps_trans)
  qed
qed simp

lemma set_chats_time_keeps:
  assumes "lock Chats_mutex s = Some s1" "c_chats s1 = Some cs"
  shows "keeps s (unlock Chats_mutex (s1\<lparr>c_chats := Some (cha_set_timestamp cs t)\<rparr>))"
  by (rule locked_keeps [OF assms(1) put_chats [OF keeps_refl assms(2)]])
    (simp add: cha_set_timestamp_def chats_wf_def keyed_wf_stamp)

lemma psd_recv_chats_keeps:
  assumes "psd_recv_chats R s = Some (r, s')" "Friends_mutex \<notin> held s"
  shows "keeps s s'"
proof -
  obtain s1 cs reply s2 where l: "lock Chats_mutex s = Some s1" "c_chats s1 = Some cs"
    "with_network (net_get_chat_list R (cha_get_timestamp cs)) (unlock Chats_mutex s1) = Some (reply, s2)"
    using assms(1) unfolding psd_recv_chats_def Let_def by (auto elim!: bind_SomeE)
  have k: "keeps s s2" using unlock_lock_keeps [OF l(1)] network_keeps(4) [OF l(3)] by (rule keeps_trans)
  show ?thesis
  proof (cases reply)
    case None
    with assms(1) l k show ?thesis by (simp add: psd_recv_chats_def)
  next
    case (Some cl)
    then obtain ok s3 where loop: "recv_chats_loop R (ch_chat_info cl) s2 = Some (ok, s3)"
      and rest: "\<not> ok \<and> s' = s3 \<or> (\<exists>s4 cs'. lock Chats_mutex s3 = Some s4 \<and> c_chats s4 = Some cs' \<and>
        s' = unlock Chats_mutex (s4\<lparr>c_chats := Some (cha_set_timestamp cs' (ch_last_timestamp cl))\<rparr>))"
      using assms(1) l by (auto simp: psd_recv_chats_def elim!: bind_SomeE split: if_split_asm)
    have "keeps s2 s3"
      using recv_chats_loop_keeps [OF loop] k assms(2) by (simp add: keeps_def)
    with k rest show ?thesis by (blast intro: keeps_trans set_chats_time_keeps)
  qed
qed

section \<open>Everything\<close>

lemma add_requests_loop_keeps: "add_requests_loop xs s = Some s' \<Longrightarrow> keeps s s'"
proof (induction xs arbitrary: s)
  case (Cons x xs)
  obtain rs r rs' s1 where t: "c_requests s = Some rs" "req_add_request rs (nf_name x) (nf_send_date x) s = (r, rs', s1)"
    "add_requests_loop xs (s1\<lparr>c_requests := Some rs'\<rparr>) = Some s'"
    using Cons.prems by (auto elim!: bind_SomeE split: prod.split_asm)
  have "keeps s (s1\<lparr>c_requests := Some rs'\<rparr>)"
    by (rule put_requests [OF mem_keeps [OF req_add_request_more [OF t(2)]] t(1)])
      (use req_add_request_wf [OF t(2)] req_add_request_limit [OF t(2)] in simp)
  then show ?case using Cons.IH [OF t(3)] by (rule keeps_trans)
qed simp

lemma add_new_friends_loop_keeps: "add_new_friends_loop xs s = Some s' \<Longrightarrow> keeps s s'"
proof (induction xs arbitrary: s)
  case (Cons x xs)
  obtain fs r fs' s1 where t: "c_friends s = Some fs" "fri_add_friend fs (ui_name x) (ui_information x) s = (r, fs', s1)"
    "add_new_friends_loop xs (s1\<lparr>c_friends := Some fs'\<rparr>) = Some s'"
    using Cons.prems by (auto elim!: bind_SomeE split: prod.split_asm)
  have "keeps s (s1\<lparr>c_friends := Some fs'\<rparr>)"
    by (rule put_friends [OF mem_keeps [OF fri_add_friend_more [OF t(2)]] t(1)])
      (use fri_add_friend_wf [OF t(2)] fri_add_friend_limit [OF t(2)] in simp)
  then show ?case using Cons.IH [OF t(3)] by (rule keeps_trans)
qed simp

lemma all_chats_loop_keeps: "all_chats_loop R cs s = Some (b, s') \<Longrightarrow> keeps s s'"
proof (induction cs arbitrary: s)
  case (Cons ci cs)
  show ?case
  proof (cases "\<exists>s1. malloc s = (None, s1) \<and> s' = s1 \<or> (\<exists>p s2. malloc s = (Some p, s2) \<and> malloc s2 = (None, s1) \<and> s' = s1)")
    case True
    then show ?thesis by (auto dest!: malloc_keeps intro: keeps_trans)
  next
    case False
    then obtain p s1 q s2 people s3 s4 s5 where m: "malloc s = (Some p, s1)" "malloc s1 = (Some q, s2)"
      and t: "lock Friends_mutex s2 = Some s3" "lock Chats_mutex (unlock Friends_mutex s3) = Some s4"
        "add_chat_item R ci people s4 = Some (0, s5)" "all_chats_loop R cs (unlock Chats_mutex s5) = Some (b, s')"
      using Cons.prems(1) by (auto simp: Let_def elim!: bind_SomeE split: option.split_asm prod.split_asm if_split_asm)
    note malloc_keeps [OF m(1)]
    also note malloc_keeps [OF m(2)]
    also note unlock_lock_keeps [OF t(1)]
    also note locked_keeps [OF t(2) add_chat_item_keeps [OF t(3)]]
    also note Cons.IH [OF t(4)]
    finally show ?thesis .
  qed
qed simp

lemma psd_recv_all_data_end:
  assumes "psd_recv_all_data R s = Some (r, s')"
  obtains t where "keeps s t" "s' = t \<and> r = -1 \<or> (\<exists>t' cs time. lock Chats_mutex t = Some t' \<and> c_chats t' = Some cs \<and>
    s' = unlock Chats_mutex (t'\<lparr>c_chats := Some (cha_set_timestamp cs time)\<rparr>))"
proof -
  obtain reply s1 where net: "with_network (net_recv_all_data R) s = Some (reply, s1)"
    using assms by (auto simp: psd_recv_all_data_def elim!: bind_SomeE)
  show ?thesis
  proof (cases reply)
    case None
    with assms net show ?thesis by (intro that [of s1]) (auto simp: psd_recv_all_data_def network_keeps)
  next
    case (Some cd)
    let ?s1 = "s1\<lparr>last_notif_timestamp := cd_timestamp cd\<rparr>"
    obtain s2 s3 rs where q: "lock Requests_mutex ?s1 = Some s2" "add_requests_loop (cd_friend_requests cd) s2 = Some s3"
      "c_requests s3 = Some rs"
      using assms net Some by (auto simp: psd_recv_all_data_def elim!: bind_SomeE)
    let ?s4 = "unlock Requests_mutex (s3\<lparr>c_requests := Some (req_list_set_timestamp rs (cd_timestamp cd))\<rparr>)"
    obtain s5 s6 fs where f: "lock Friends_mutex ?s4 = Some s5" "add_new_friends_loop (ul_user (cd_friends cd)) s5 = Some s6"
      "c_friends s6 = Some fs"
      using assms net Some q by (auto simp: psd_recv_all_data_def elim!: bind_SomeE)
    let ?s7 = "unlock Friends_mutex (s6\<lparr>c_friends := Some (fri_set_timestamp fs (cd_timestamp cd))\<rparr>)"
    obtain ok s8 where c: "all_chats_loop R (ch_chat_info (cd_chats cd)) ?s7 = Some (ok, s8)"
      and rest: "s' = s8 \<and> r = -1 \<or> (\<exists>s9 cs. lock Chats_mutex s8 = Some s9 \<and> c_chats s9 = Some cs \<and>
        s' = unlock Chats_mutex (s9\<lparr>c_chats := Some (cha_set_timestamp cs (ch_last_timestamp (cd_chats cd)))\<rparr>))"
      using assms net Some q f by (auto simp: psd_recv_all_data_def elim!: bind_SomeE split: if_split_asm)
    have "keeps s ?s1" using network_keeps(1) [OF net] by simp
    also have "keeps s2 (s3\<lparr>c_requests := Some (req_list_set_timestamp rs (cd_timestamp cd))\<rparr>)"
      by (rule keeps_trans [OF add_requests_loop_keeps [OF q(2)] put_requests [OF keeps_refl q(3)]])
        (simp add: req_list_set_timestamp_def keyed_wf_stamp)
    note locked_keeps [OF q(1) this]
    also have "keeps s5 (s6\<lparr>c_friends := Some (fri_set_timestamp fs (cd_timestamp cd))\<rparr>)"
      by (rule keeps_trans [OF add_new_friends_loop_keeps [OF f(2)] put_friends [OF keeps_refl f(3)]])
        (simp add: fri_set_timestamp_def keyed_wf_stamp)
    note locked_keeps [OF f(1) this]
    also note all_chats_loop_keeps [OF c]
    finally show ?thesis using rest by (intro that [of s8]) blast+
  qed
qed

lemma psd_recv_all_data_keeps: "psd_recv_all_data R s = Some (r, s') \<Longrightarrow> keeps s s'"
  by (erule psd_recv_all_data_end) (blast intro: keeps_trans set_chats_time_keeps)

text \<open>It cannot succeed while another call has the chats.\<close>

lemma psd_recv_all_data_blocked:
  assumes "psd_recv_all_data R s = Some (r, s')" "Chats_mutex \<in> held s"
  shows "r = -1"
proof -
  obtain t where "keeps s t" "r = -1 \<or> (\<exists>t'. lock Chats_mutex t = Some t')"
    using psd_recv_all_data_end [OF assms(1)] by metis
  then show ?thesis using assms(2) by (auto simp: keeps_def lock_def)
qed

section \<open>Notifications\<close>

text \<open>The loops run with the chats' mutex and without the friends' one.\<close>

definition chats_only :: "'w client \<Rightarrow> bool" where
  "chats_only s \<longleftrightarrow> Chats_mutex \<in> held s \<and> Friends_mutex \<notin> held s"

lemma keeps_chats_only: "keeps s s' \<Longrightarrow> chats_only s' = chats_only s"
  by (simp add: keeps_def chats_only_def)

lemma relock_keeps:
  assumes "x \<in> held s" "keeps (unlock x s) s1" "lock x s1 = Some s2"
  shows "keeps s s2"
  using assms by (auto simp: keeps_def unlock_def lock_Some)

lemma find_or_fetch_keeps:
  assumes "find_or_fetch R i s = Some (found, s')" "chats_only s"
  shows "keeps s s'"
proof -
  obtain cs where cs: "c_chats s = Some cs" using assms(1) by (auto simp: find_or_fetch_def elim!: bind_SomeE)
  show ?thesis
  proof (cases "cha_find_chat cs i")
    case None
    then obtain r s1 where t: "psd_recv_chats R (unlock Chats_mutex s) = Some (r, s1)" "lock Chats_mutex s1 = Some s'"
      using assms(1) cs by (auto simp: find_or_fetch_def elim!: bind_SomeE)
    have "keeps (unlock Chats_mutex s) s1"
      using assms(2) by (intro psd_recv_chats_keeps [OF t(1)]) (simp add: chats_only_def unlock_def)
    with assms(2) t(2) show ?thesis by (auto simp: chats_only_def intro: relock_keeps)
  next
    case (Some c)
    then show ?thesis using assms(1) cs by (simp add: find_or_fetch_def)
  qed
qed

text \<open>What the notifications do to a chat: it keeps its id and stays well-formed.\<close>

definition tame :: "(chat_info \<Rightarrow> 'w client \<Rightarrow> (chat_info \<times> 'w client) option) \<Rightarrow> bool" where
  "tame f \<longleftrightarrow> (\<forall>c s c' s'. f c s = Some (c', s') \<longrightarrow>
     mem.more s' = mem.more s \<and> cha_id c' = cha_id c \<and> (chat_wf c \<longrightarrow> chat_wf c'))"

lemma find_found:
  "find_or_fetch R i s = Some (Some c, s') \<Longrightarrow> \<exists>cs. c_chats s' = Some cs \<and> cha_find_chat cs i = Some c"
  by (auto simp: find_or_fetch_def elim!: bind_SomeE split: option.split_asm)

lemma on_chat_keeps:
  assumes "on_chat R i f s = Some s'" "tame f" "chats_only s"
  shows "keeps s s'"
proof -
  obtain found s1 where found: "find_or_fetch R i s = Some (found, s1)"
    using assms(1) by (auto simp: on_chat_def elim!: bind_SomeE)
  have k: "keeps s s1" by (rule find_or_fetch_keeps [OF found assms(3)])
  show ?thesis
  proof (cases found)
    case None
    then show ?thesis using assms(1) found k by (simp add: on_chat_def)
  next
    case (Some c)
    then obtain c' s2 cs2 where t: "f c s1 = Some (c', s2)" "c_chats s2 = Some cs2"
      "s' = s2\<lparr>c_chats := Some (put_chat i c' cs2)\<rparr>"
      using assms(1) found by (auto simp: on_chat_def elim!: bind_SomeE)
    have f: "mem.more s2 = mem.more s1" "cha_id c' = cha_id c" "chat_wf c \<Longrightarrow> chat_wf c'"
      using assms(2) t(1) by (auto simp: tame_def)
    obtain cs where cs: "c_chats s1 = Some cs" "cha_find_chat cs i = Some c"
      using find_found found Some by blast
    have "cs2 = cs" using site_more_fields(4) [OF mem_site [OF f(1)]] t(2) cs(1) by simp
    moreover note put_chat_ok [of cs c' i]
    ultimately have "keeps s1 s'"
      unfolding t(3) using find_chat_set [OF cs(2)] f(2,3)
      by (intro put_chats [OF mem_keeps [OF f(1)] cs(1)]) (auto simp: chats_wf_def)
    with k show ?thesis by (rule keeps_trans)
  qed
qed

lemma cha_add_member_more: "cha_add_member c f n m = (r, c', m') \<Longrightarrow> mem.more m' = mem.more m"
  by (auto simp: cha_add_member_def split: prod.split_asm if_split_asm dest: members_add_member_more)

lemma cha_change_admin_more: "cha_change_admin c n m = (r, c', m') \<Longrightarrow> mem.more m' = mem.more m"
  by (auto simp: cha_change_admin_def malloc_def split: if_split_asm)

lemma cha_ids:
  "cha_add_member c f n m = (r, c', m') \<Longrightarrow> cha_id c' = cha_id c"
  "cha_del_member c n = (q, c') \<Longrightarrow> cha_id c' = cha_id c"
  "cha_change_admin c n m = (r, c', m') \<Longrightarrow> cha_id c' = cha_id c"
  by (auto simp: cha_add_member_def cha_del_member_def cha_change_admin_def malloc_def
      split: prod.split_asm if_split_asm)

lemma tameI:
  "(\<And>c s c' s'. f c s = Some (c', s') \<Longrightarrow>
     mem.more s' = mem.more s \<and> cha_id c' = cha_id c \<and> (chat_wf c \<longrightarrow> chat_wf c')) \<Longrightarrow> tame f"
  by (simp add: tame_def)

lemma tame_add_member:
  "tame (\<lambda>chat s. do { fs \<leftarrow> c_friends s; (_, chat, s) \<leftarrow> Some (cha_add_member chat (fri_find_friend fs n) n s); Some (chat, s) })"
proof (rule tameI, goal_cases)
  case (1 c s c' s')
  then obtain fs r where t: "cha_add_member c (fri_find_friend fs n) n s = (r, c', s')"
    by (auto elim!: bind_SomeE split: prod.split_asm)
  show ?case using cha_add_member_more [OF t] cha_ids(1) [OF t] cha_add_member_wf [OF t] by blast
qed

lemma tame_rem_member: "tame (\<lambda>chat s. Some (snd (cha_del_member chat n), s))"
proof (rule tameI, goal_cases)
  case (1 c s c' s')
  then obtain r where "cha_del_member c n = (r, c')" by (metis option.inject prod.collapse prod.inject)
  then show ?case using 1 cha_ids(2) cha_del_member_wf by blast
qed

lemma tame_admin: "tame (\<lambda>chat s. do { (_, chat, s) \<leftarrow> Some (cha_change_admin chat n s); Some (chat, s) })"
proof (rule tameI, goal_cases)
  case (1 c s c' s')
  then obtain r where t: "cha_change_admin c n s = (r, c', s')"
    by (auto elim!: bind_SomeE split: prod.split_asm)
  show ?case using cha_change_admin_more [OF t] cha_ids(3) [OF t] cha_change_admin_wf [OF t] by blast
qed

lemma tame_pending: "tame (\<lambda>chat s. Some (cha_set_pending chat p, s))"
  by (rule tameI) (auto simp: chat_field_defs chat_wf_def)

lemma tame_read: "tame (\<lambda>chat s. Some (cha_set_all_read_timestamp chat t, s))"
  by (rule tameI) (auto simp: chat_field_defs chat_wf_def)

lemmas tame_notifs = tame_add_member tame_rem_member tame_admin tame_pending tame_read

lemma notif_keeps:
  "chats_only s \<Longrightarrow> notif_add_member R x s = Some s' \<Longrightarrow> keeps s s'"
  "chats_only s \<Longrightarrow> notif_rem_member R x s = Some s' \<Longrightarrow> keeps s s'"
  "chats_only s \<Longrightarrow> notif_admin R x s = Some s' \<Longrightarrow> keeps s s'"
  "chats_only s \<Longrightarrow> notif_pending R y s = Some s' \<Longrightarrow> keeps s s'"
  "chats_only s \<Longrightarrow> notif_read R y s = Some s' \<Longrightarrow> keeps s s'"
  unfolding notif_add_member_def notif_rem_member_def notif_admin_def notif_pending_def notif_read_def
  by (erule on_chat_keeps, rule tame_notifs, assumption)+

lemma for_each_keeps:
  "for_each f xs s = Some s' \<Longrightarrow> chats_only s \<Longrightarrow> (\<And>x s s'. chats_only s \<Longrightarrow> f x s = Some s' \<Longrightarrow> keeps s s') \<Longrightarrow>
   keeps s s'"
proof (induction xs arbitrary: s)
  case (Cons x xs)
  then obtain s1 where "f x s = Some s1" "for_each f xs s1 = Some s'" by (auto elim!: bind_SomeE)
  with Cons show ?case by (metis keeps_chats_only keeps_trans)
qed simp

lemma psd_recv_notifications_keeps:
  assumes "psd_recv_notifications R s = Some (r, s')" "Friends_mutex \<notin> held s"
  shows "keeps s s'"
proof -
  obtain s1 cs s2 s3 reply s4 where l: "lock Chats_mutex s = Some s1" "alloc_array (length (entries cs)) s1 = Some s2"
    "alloc_array (length (entries cs)) s2 = Some s3"
    "with_network (net_recv_notifications R (last_notif_timestamp (unlock Chats_mutex s3)) (sync_chats cs))
       (unlock Chats_mutex s3) = Some (reply, s4)" "c_chats s1 = Some cs"
    using assms(1) by (auto simp: psd_recv_notifications_def Let_def elim!: bind_SomeE)
  have "keeps s1 s3"
    using mem_keeps [OF alloc_array_more [OF l(2)]] mem_keeps [OF alloc_array_more [OF l(3)]] by (rule keeps_trans)
  note locked_keeps [OF l(1) this]
  also note network_keeps(15) [OF l(4)]
  finally have k: "keeps s s4" .
  show ?thesis
  proof (cases reply)
    case None
    with assms(1) l k show ?thesis by (simp add: psd_recv_notifications_def)
  next
    case (Some ns)
    obtain s5 s6 s7 s8 s9 where q: "lock Requests_mutex (s4\<lparr>last_notif_timestamp := no_last_timestamp ns\<rparr>) = Some s5"
      "add_requests_loop (no_friend_request ns) s5 = Some s6" "lock Friends_mutex (unlock Requests_mutex s6) = Some s7"
      "add_new_friends_loop (ul_user (no_new_friends ns)) s7 = Some s8" "lock Chats_mutex (unlock Friends_mutex s8) = Some s9"
      using assms(1) l Some by (auto simp: psd_recv_notifications_def Let_def elim!: bind_SomeE)
    obtain t1 t2 t3 t4 t5 t6 where n: "for_each (notif_add_member R) (no_chat_members ns) s9 = Some t1"
      "for_each (notif_rem_member R) (no_rem_chat_members ns) t1 = Some t2" "for_each (notif_admin R) (no_chat_admins ns) t2 = Some t3"
      "lock Chats_mutex (unlock Chats_mutex t3) = Some t4" "for_each (notif_pending R) (no_chats_with_messages ns) t4 = Some t5"
      "for_each (notif_read R) (no_chats_read_times ns) t5 = Some t6" "s' = unlock Chats_mutex t6"
      using assms(1) l Some q by (auto simp: psd_recv_notifications_def Let_def elim!: bind_SomeE)
    have "keeps s (s4\<lparr>last_notif_timestamp := no_last_timestamp ns\<rparr>)" using k by simp
    also note locked_keeps [OF q(1) add_requests_loop_keeps [OF q(2)]]
    also note locked_keeps [OF q(3) add_new_friends_loop_keeps [OF q(4)]]
    finally have k8: "keeps s (unlock Friends_mutex s8)" .
    have c9: "chats_only s9" using q(5) k8 assms(2) by (simp add: chats_only_def lock_Some keeps_def)
    have k1: "keeps s9 t1" by (rule for_each_keeps [OF n(1) c9 notif_keeps(1)])
    have k2: "keeps t1 t2" using keeps_chats_only [OF k1] c9 by (intro for_each_keeps [OF n(2) _ notif_keeps(2)]) simp
    have k3: "keeps t2 t3"
      using keeps_chats_only [OF k1] keeps_chats_only [OF k2] c9 by (intro for_each_keeps [OF n(3) _ notif_keeps(3)]) simp
    have c3: "chats_only t3" using keeps_chats_only [OF k1] keeps_chats_only [OF k2] keeps_chats_only [OF k3] c9 by simp
    have k4: "keeps t3 t4" by (rule relock_keeps [OF _ keeps_refl n(4)]) (use c3 in \<open>simp add: chats_only_def\<close>)
    have c4: "chats_only t4" using keeps_chats_only [OF k4] c3 by simp
    have k5: "keeps t4 t5" by (rule for_each_keeps [OF n(5) c4 notif_keeps(4)])
    have k6: "keeps t5 t6" using keeps_chats_only [OF k5] c4 by (intro for_each_keeps [OF n(6) _ notif_keeps(5)]) simp
    have "keeps s9 t6" using k1 k2 k3 k4 k5 k6 by (meson keeps_trans)
    from keeps_trans [OF k8 locked_keeps [OF q(5) this]] show ?thesis by (simp add: n(7))
  qed
qed

section \<open>Messages\<close>

lemma cha_add_messages_id: "cha_add_messages c xs m = (r, c', m') \<Longrightarrow> cha_id c' = cha_id c"
  unfolding cha_add_messages_def Let_def by (drule add_messages_loop_id) simp

lemma alloc_arrays_keeps: "alloc_arrays n s = Some s' \<Longrightarrow> mem.more s' = mem.more s"
  by (auto simp: alloc_arrays_def elim!: bind_SomeE dest!: alloc_array_more)

lemma recv_messages_keeps:
  assumes "recv_messages R c s = Some (r, c', s')"
  shows "keeps s s' \<and> c_chats s' = c_chats s \<and> cha_id c' = cha_id c \<and> (chat_wf c \<longrightarrow> chat_wf c')"
proof -
  let ?f = "net_recv_pending_messages R (cha_id c) (mes_get_timestamp (cha_messages c))"
  obtain reply s1 where net: "with_network ?f s = Some (reply, s1)"
    using assms by (auto simp: recv_messages_def elim!: bind_SomeE)
  obtain t1 t2 where "lock Network_mutex s = Some t1" "?f t1 = Some (reply, t2)" "s1 = unlock Network_mutex t2"
    using net by (auto simp: with_network_def elim!: bind_SomeE)
  moreover from this have "c_chats t2 = c_chats t1"
    using net_quiet(2) site_more_fields(4) unfolding quiet_def by blast
  ultimately have c1: "c_chats s1 = c_chats s" by (simp add: lock_Some unlock_def)
  show ?thesis
  proof (cases reply)
    case None
    with assms net c1 show ?thesis by (auto simp: recv_messages_def dest: network_keeps)
  next
    case (Some l)
    then obtain s2 msgs q c2 s3 where t: "alloc_arrays (length (xl_messages l)) s1 = Some s2"
      "cha_add_messages c msgs s2 = (q, c2, s3)" "s' = s3"
      "c' = c2 \<or> c' = cha_set_messages_timestamp (cha_set_pending c2 0) (xl_last_timestamp l)"
      using assms net by (auto simp: recv_messages_def elim!: bind_SomeE split: prod.split_asm if_split_asm)
    have more: "mem.more s3 = mem.more s1"
      using cha_add_messages_more [OF t(2)] alloc_arrays_keeps [OF t(1)] by simp
    have c2: "cha_id c2 = cha_id c" "chat_wf c \<longrightarrow> chat_wf c2"
      using cha_add_messages_id [OF t(2)] cha_add_messages_wf [OF t(2)] by blast+
    have "c_chats s3 = c_chats s"
      using site_more_fields(4) [OF mem_site [OF more]] c1 by simp
    moreover have "keeps s s3" using network_keeps(2) [OF net] mem_keeps [OF more] by (rule keeps_trans)
    moreover have "cha_id c' = cha_id c \<and> (chat_wf c \<longrightarrow> chat_wf c')"
      using t(4) c2 by (auto simp: chat_field_defs chat_wf_def keyed_wf_stamp)
    ultimately show ?thesis unfolding t(3) by blast
  qed
qed

lemma recv_chat_messages_keeps:
  assumes "recv_chat_messages R wanted i s = Some (r, s')"
  shows "keeps s s'"
proof -
  obtain s1 cs where l: "lock Chats_mutex s = Some s1" "c_chats s1 = Some cs"
    using assms by (auto simp: recv_chat_messages_def elim!: bind_SomeE)
  consider "s' = unlock Chats_mutex s1"
    | c c' q s2 where "cha_find_chat cs i = Some c" "recv_messages R c s1 = Some (q, c', s2)"
      "s' = unlock Chats_mutex (s2\<lparr>c_chats := Some (put_chat i c' cs)\<rparr>)"
    using assms l by (auto simp: recv_chat_messages_def elim!: bind_SomeE split: option.split_asm if_split_asm)
  then show ?thesis
  proof cases
    case 1
    then show ?thesis using unlock_lock_keeps [OF l(1)] by simp
  next
    case (2 c c' q s2)
    note k = recv_messages_keeps [OF 2(2)]
    have "keeps s1 (s2\<lparr>c_chats := Some (put_chat i c' cs)\<rparr>)"
      using find_chat_set [OF 2(1)] k
      by (intro put_chats [OF conjunct1 [OF k] l(2)] put_chat_ok) (auto simp: chats_wf_def)
    then show ?thesis unfolding 2(3) by (rule locked_keeps [OF l(1)])
  qed
qed

lemma recv_each_keeps:
  "recv_each R wanted cs v s = Some (r, cs', s') \<Longrightarrow>
   keeps s s' \<and> map cha_id cs' = map cha_id cs \<and> ((\<forall>c \<in> set cs. chat_wf c) \<longrightarrow> (\<forall>c \<in> set cs'. chat_wf c))"
proof (induction cs arbitrary: v s r cs')
  case (Cons c cs)
  show ?case
  proof (cases "wanted c")
    case True
    then obtain q c1 s1 v1 cs1 where t: "recv_messages R c s = Some (q, c1, s1)"
      "recv_each R wanted cs (if q < 0 then q else v) s1 = Some (v1, cs1, s')" "cs' = c1 # cs1"
      using Cons.prems by (auto elim!: bind_SomeE)
    show ?thesis
      using recv_messages_keeps [OF t(1)] Cons.IH [OF t(2)] unfolding t(3) by (auto intro: keeps_trans)
  next
    case False
    then obtain v1 cs1 where t: "recv_each R wanted cs v s = Some (v1, cs1, s')" "cs' = c # cs1"
      using Cons.prems by (auto elim!: bind_SomeE)
    show ?thesis using Cons.IH [OF t(1)] unfolding t(2) by auto
  qed
qed simp

lemma recv_all_chats_keeps:
  assumes "recv_all_chats R wanted s = Some (r, s')"
  shows "keeps s s'"
proof -
  obtain s1 cs xs s2 where l: "lock Chats_mutex s = Some s1" "c_chats s1 = Some cs"
    "recv_each R wanted (entries cs) 0 s1 = Some (r, xs, s2)" "s' = unlock Chats_mutex (s2\<lparr>c_chats := Some (cs\<lparr>entries := xs\<rparr>)\<rparr>)"
    using assms by (auto simp: recv_all_chats_def elim!: bind_SomeE)
  note k = recv_each_keeps [OF l(3)]
  have "length xs = length (entries cs)" using k by (metis length_map)
  then have "chats_ok cs \<longrightarrow> chats_ok (cs\<lparr>entries := xs\<rparr>)"
    using k by (auto simp: chats_wf_def keyed_wf_def)
  moreover have "cha_id ` set (entries cs) \<subseteq> cha_id ` set xs" using k by (metis list.set_map order_refl)
  ultimately have "(chats_ok cs \<longrightarrow> chats_ok (cs\<lparr>entries := xs\<rparr>)) \<and>
    cha_id ` set (entries cs) \<subseteq> cha_id ` set (entries (cs\<lparr>entries := xs\<rparr>))" by simp
  then have "keeps s1 (s2\<lparr>c_chats := Some (cs\<lparr>entries := xs\<rparr>)\<rparr>)"
    by (rule put_chats [OF conjunct1 [OF k] l(2)])
  then show ?thesis unfolding l(4) by (rule locked_keeps [OF l(1)])
qed

section \<open>Files\<close>

text \<open>File operations change neither the lists nor the mutexes.\<close>

lemma keeps_disk_fields [simp]:
  "keeps s (s'\<lparr>disk_ops := n\<rparr>) = keeps s s'" "keeps s (s'\<lparr>local_dirs := ds\<rparr>) = keeps s s'"
  "keeps s (s'\<lparr>local_files := fs\<rparr>) = keeps s s'"
  by (simp_all add: keeps_def lists_ok_def)

lemma disk_keeps: "disk R s = (b, s') \<Longrightarrow> keeps s s'"
  by (auto simp: disk_def)

lemma ensure_dir_keeps: "keeps s (ensure_dir R dir s)"
  by (simp add: ensure_dir_def disk_def)

lemma open_write_keeps: "open_write R dir path s = (b, s') \<Longrightarrow> keeps s s'"
  by (auto simp: open_write_def disk_def split: if_split_asm)

lemma open_read_keeps: "open_read R path s = (b, s') \<Longrightarrow> keeps s s'"
  by (auto simp: open_read_def disk_def)

lemma read_bytes_keeps: "read_bytes R n bs s = (xs, s') \<Longrightarrow> keeps s s'"
  by (induction bs arbitrary: n xs s)
    (auto dest!: disk_keeps split: prod.split_asm if_split_asm intro: keeps_trans)

lemma write_bytes_keeps: "write_bytes R n bs out s = Some (xs, s') \<Longrightarrow> keeps s s'"
  by (induction bs arbitrary: out s)
    (auto simp: Let_def dest!: disk_keeps split: prod.split_asm if_split_asm intro: keeps_trans)

lemma psd_recv_message_attachment_keeps:
  assumes "psd_recv_message_attachment R i t s = Some (r, s')"
  shows "keeps s s'"
proof -
  obtain reply s1 where net: "with_network (net_get_attachment R i t) s = Some (reply, s1)"
    using assms by (auto simp: psd_recv_message_attachment_def elim!: bind_SomeE)
  obtain b s2 where w: "open_write R ATTACH_FILES_DIR_RCV (create_file_path_rcv i t) (ensure_dir R ATTACH_FILES_DIR_RCV s1) = (b, s2)"
    by fastforce
  obtain c s3 where d: "disk R s2 = (c, s3)" by fastforce
  have "keeps s1 s2" using ensure_dir_keeps open_write_keeps [OF w] by (rule keeps_trans)
  then have "keeps s s2" "keeps s s3"
    using network_keeps(3) [OF net] disk_keeps [OF d] by (blast intro: keeps_trans)+
  then show ?thesis
    using assms net w d network_keeps(3) [OF net]
    by (auto simp: psd_recv_message_attachment_def Let_def split: option.split_asm bool.split_asm if_split_asm)
qed

lemma read_attachment_keeps:
  assumes "read_attachment R path s = Some (a, s')"
  shows "keeps s s'"
proof -
  obtain p s1 where m: "malloc s = (p, s1)" by fastforce
  obtain q s2 where o: "open_read R path s1 = (q, s2)" by fastforce
  have k: "keeps s s2" using malloc_keeps [OF m] open_read_keeps [OF o] by (rule keeps_trans)
  show ?thesis
  proof (cases q)
    case None
    with assms m o k show ?thesis by (simp add: read_attachment_def)
  next
    case (Some content)
    obtain bs s3 where b: "read_bytes R CLIENT_FILE_CHARS content s2 = (bs, s3)" by fastforce
    have "s' = s3" using assms m o Some b by (simp add: read_attachment_def split: if_split_asm)
    then show ?thesis using keeps_trans [OF k read_bytes_keeps [OF b]] by simp
  qed
qed

lemma keep_copy_keeps:
  assumes "keep_copy R rest i t allocated bytes s = Some (b, s')"
  shows "keeps s s'"
proof -
  obtain c s1 where w: "open_write R ATTACH_FILES_DIR_SND (create_file_path_snd i t) (ensure_dir R ATTACH_FILES_DIR_SND s) = (c, s1)"
    by fastforce
  have k: "keeps s s1" using ensure_dir_keeps open_write_keeps [OF w] by (rule keeps_trans)
  then show ?thesis
    using assms w
    by (auto simp: keep_copy_def Let_def elim!: bind_SomeE split: bool.split_asm if_split_asm dest!: write_bytes_keeps
        intro: keeps_trans)
qed

text \<open>The exception: after \<open>psd_send_message\<close> to an unknown chat, the chats' mutex stays locked.\<close>

lemma psd_send_message_keeps:
  assumes "psd_send_message R rest i x path info s = Some (r, s')"
  shows "(\<exists>cs. c_chats s = Some cs \<and> cha_find_chat cs i = None) \<and> r = -1 \<and> lock Chats_mutex s = Some s' \<or> keeps s s'"
proof -
  obtain s1 cs where l: "lock Chats_mutex s = Some s1" "c_chats s1 = Some cs"
    using assms by (auto simp: psd_send_message_def elim!: bind_SomeE)
  show ?thesis
  proof (cases "cha_find_chat cs i")
    case None
    then show ?thesis using assms l by (auto simp: psd_send_message_def lock_Some)
  next
    case (Some c)
    obtain opened a s2 where o: "read_input R path (unlock Chats_mutex s1) = Some (opened, a, s2)"
      using assms l Some by (auto simp: psd_send_message_def Let_def elim!: bind_SomeE)
    have "keeps (unlock Chats_mutex s1) s2"
      using o by (auto simp: read_input_def split: option.split_asm dest: read_attachment_keeps)
    with unlock_lock_keeps [OF l(1)] have k: "keeps s s2" by (rule keeps_trans)
    have "keeps s2 s'"
      using assms l Some o
      by (auto simp: psd_send_message_def Let_def elim!: bind_SomeE split: if_split_asm option.split_asm prod.split_asm
          dest!: network_keeps keep_copy_keeps) (meson keeps_trans)+
    with k show ?thesis by (blast intro: keeps_trans)
  qed
qed

section \<open>The library as a transition system\<close>

datatype (plugins only: code size) api_call =
    Bind_network string
  | Set_name string
  | Set_pass string
  | Login string string
  | Logout
  | User_register string string string
  | User_unregister string string
  | Recv_all_data
  | Recv_notifications
  | Recv_friends
  | Recv_chats
  | Recv_messages cint
  | Recv_pending_messages cint
  | Recv_all_messages
  | Recv_all_pending_messages
  | Recv_message_attachment cint cint
  | Create_chat string "string option"
  | Add_member_to_chat string cint
  | Del_member_from_chat string cint
  | Quit_from_chat cint
  | Remove_chat cint
  | Send_message cint "string option" "string option" "string option" string
  | Send_friend_request string
  | Send_request_accept string
  | Send_request_decline string

definition after :: "('r \<times> 'w client) option \<Rightarrow> 'w client option" where
  "after res = map_option snd res"

primrec call_api :: "'w remote \<Rightarrow> api_call \<Rightarrow> 'w client \<Rightarrow> 'w client option" where
  "call_api R (Bind_network url) s = after (psd_bind_network url s)"
| "call_api R (Set_name n) s = Some (snd (psd_set_name n s))"
| "call_api R (Set_pass p) s = Some (snd (psd_set_pass p s))"
| "call_api R (Login n p) s = after (psd_login R n p s)"
| "call_api R Logout s = psd_logout s"
| "call_api R (User_register n p i) s = after (psd_user_register R n p i s)"
| "call_api R (User_unregister n p) s = after (psd_user_unregister R n p s)"
| "call_api R Recv_all_data s = after (psd_recv_all_data R s)"
| "call_api R Recv_notifications s = after (psd_recv_notifications R s)"
| "call_api R Recv_friends s = after (psd_recv_friends R s)"
| "call_api R Recv_chats s = after (psd_recv_chats R s)"
| "call_api R (Recv_messages c) s = after (psd_recv_messages R c s)"
| "call_api R (Recv_pending_messages c) s = after (psd_recv_pending_messages R c s)"
| "call_api R Recv_all_messages s = after (psd_recv_all_messages R s)"
| "call_api R Recv_all_pending_messages s = after (psd_recv_all_pending_messages R s)"
| "call_api R (Recv_message_attachment c t) s = after (psd_recv_message_attachment R c t s)"
| "call_api R (Create_chat d x) s = after (psd_create_chat R d x s)"
| "call_api R (Add_member_to_chat x c) s = after (psd_add_member_to_chat R x c s)"
| "call_api R (Del_member_from_chat x c) s = after (psd_del_member_from_chat R x c s)"
| "call_api R (Quit_from_chat c) s = after (psd_quit_from_chat R c s)"
| "call_api R (Remove_chat c) s = after (psd_remove_chat c s)"
| "call_api R (Send_message c x path info rest) s = after (psd_send_message R rest c x path info s)"
| "call_api R (Send_friend_request x) s = after (psd_send_friend_request R x s)"
| "call_api R (Send_request_accept x) s = after (psd_send_request_accept R x s)"
| "call_api R (Send_request_decline x) s = after (psd_send_request_decline R x s)"

lemma after_Some [elim!]: "after res = Some s' \<Longrightarrow> (\<And>r. res = Some (r, s') \<Longrightarrow> P) \<Longrightarrow> P"
  by (auto simp: after_def)

inductive client_run :: "'w remote \<Rightarrow> 'w client \<Rightarrow> bool" for R where
  start: "psd_new_client s0 = Some s \<Longrightarrow> client_run R s"
| call: "client_run R s \<Longrightarrow> call_api R c s = Some s' \<Longrightarrow> client_run R s'"

text \<open>A call to an unknown chat.\<close>

definition unknown_chat :: "api_call \<Rightarrow> 'w client \<Rightarrow> bool" where
  "unknown_chat c s \<longleftrightarrow>
     (case c of Send_message i _ _ _ _ \<Rightarrow> (\<exists>cs. c_chats s = Some cs \<and> cha_find_chat cs i = None) | _ \<Rightarrow> False)"

lemmas api_keeps = psd_bind_network_keeps psd_login_keeps psd_user_register_keeps
  psd_user_unregister_keeps psd_recv_all_data_keeps psd_recv_notifications_keeps psd_recv_friends_keeps
  psd_recv_chats_keeps recv_chat_messages_keeps recv_all_chats_keeps psd_recv_message_attachment_keeps
  psd_create_chat_keeps psd_add_member_to_chat_keeps psd_del_member_from_chat_keeps psd_quit_from_chat_keeps
  psd_send_friend_request_keeps psd_send_request_accept_keeps psd_send_request_decline_keeps

lemma call_api_keeps:
  assumes "call_api R c s = Some s'" "Friends_mutex \<notin> held s"
  shows "unknown_chat c s \<and> lock Chats_mutex s = Some s' \<or> intact s s'"
proof (cases c)
  case (Set_name n)
  then show ?thesis using assms keeps_intact [OF psd_set_name_keeps [OF prod.collapse [symmetric]]] by auto
next
  case (Set_pass n)
  then show ?thesis using assms keeps_intact [OF psd_set_pass_keeps [OF prod.collapse [symmetric]]] by auto
next
  case (Send_message i x path info rest)
  then show ?thesis using assms by (auto simp: unknown_chat_def dest: psd_send_message_keeps keeps_intact)
qed (use assms in \<open>auto simp: psd_recv_messages_def psd_recv_pending_messages_def psd_recv_all_messages_def
    psd_recv_all_pending_messages_def dest: api_keeps keeps_intact psd_logout_intact psd_remove_chat_intact\<close>)

lemma psd_new_client_ok: "psd_new_client s0 = Some s \<Longrightarrow> lists_ok s \<and> held s = {}"
  by (auto simp: psd_new_client_def lists_ok_def split: option.split_asm prod.split_asm dest: new_lists_ok)

lemma client_run_ok: "client_run R s \<Longrightarrow> lists_ok s \<and> held s \<subseteq> {Chats_mutex}"
proof (induction rule: client_run.induct)
  case (start s0 s)
  then show ?case using psd_new_client_ok by blast
next
  case (call s c s')
  then have "Friends_mutex \<notin> held s" by auto
  from call_api_keeps [OF call.hyps(2) this] call.IH show ?case
    by (auto simp: lock_Some intact_def)
qed

end
