(* ===== verification/Console_Safety.thy ===== *)
theory Console_Safety
  imports Console Client_Invariant
begin

text \<open>
  What the user interface keeps: between two inputs no mutex of the client is locked, its lists are
  well-formed, the notifications thread does not wait for a mutex, and, as long as the user is logged in,
  no chat disappears.
\<close>

section \<open>Blocks of iteration\<close>

lemma screen_friend_req_show_keeps: "screen_friend_req_show c = Some (s, c') \<Longrightarrow> keeps c c'"
  by (auto simp: screen_friend_req_show_def psd_begin_req_iteration_def psd_end_req_iteration_def
      elim!: bind_SomeE intro: unlock_lock_keeps)

lemma screen_main_show_keeps: "screen_main_show c = Some (s, c') \<Longrightarrow> keeps c c'"
  by (auto simp: screen_main_show_def psd_begin_chat_iteration_def psd_end_chat_iteration_def
      elim!: bind_SomeE intro: unlock_lock_keeps)

lemma show_friends_keeps: "show_friends c = Some (s, c') \<Longrightarrow> keeps c c'"
  by (auto simp: show_friends_def psd_begin_fri_iteration_def psd_end_fri_iteration_def
      elim!: bind_SomeE intro: unlock_lock_keeps)

text \<open>When a block over the messages or members of a chat begins.\<close>

lemma begin_mes_iteration:
  assumes "psd_begin_mes_iteration i c = Some (x, c')"
  obtains p c1 cs where "malloc c = (p, c1)" "lock Chats_mutex c1 = Some c'" "c_chats c' = Some cs"
    "\<And>y. x = Some y \<Longrightarrow> cha_find_chat cs i = Some (mes_chat y)"
  using assms by (auto simp: psd_begin_mes_iteration_def elim!: bind_SomeE split: prod.split_asm option.split_asm)

lemma begin_member_iteration:
  assumes "psd_begin_member_iteration i c = Some (Some x, c')"
  obtains p c1 where "malloc c = (p, c1)" "lock Chats_mutex c1 = Some c'"
  using assms
  by (auto simp: psd_begin_member_iteration_def elim!: bind_SomeE split: prod.split_asm option.split_asm)

lemma malloc_block_keeps: "malloc c = (p, c1) \<Longrightarrow> lock x c1 = Some c2 \<Longrightarrow> keeps c (unlock x c2)"
  by (rule keeps_trans [OF malloc_keeps unlock_lock_keeps])

lemma show_members_keeps:
  assumes "show_members i c = Some (s, c')"
  shows "keeps c c'"
proof -
  obtain x c1 where b: "psd_begin_member_iteration i c = Some (Some x, c1)" "c' = unlock Chats_mutex c1"
    using assms by (auto simp: show_members_def psd_end_member_iteration_def elim!: bind_SomeE)
  show ?thesis unfolding b(2) by (rule begin_member_iteration [OF b(1)]) (rule malloc_block_keeps)
qed

lemma show_attachments_keeps:
  assumes "show_attachments i c = Some (s, c')"
  shows "keeps c c'"
proof -
  obtain x c1 where b: "psd_begin_mes_iteration i c = Some (x, c1)" "c' = unlock Chats_mutex c1"
    using assms by (auto simp: show_attachments_def psd_end_mes_iteration_def elim!: bind_SomeE)
  show ?thesis unfolding b(2) by (rule begin_mes_iteration [OF b(1)]) (rule malloc_block_keeps)
qed

lemma clear_unread_ok: "cha_id (cha_clear_unread c) = cha_id c" "chat_wf (cha_clear_unread c) = chat_wf c"
  "cha_messages (cha_clear_unread c) = cha_messages c"
  by (simp_all add: cha_clear_unread_def chat_wf_def)

lemma clear_unread_keeps:
  assumes "psd_mes_iterator_clear_unread x c = Some (y, c')" "c_chats c = Some cs"
    and "cha_find_chat cs i = Some (mes_chat x)"
  shows "keeps c c'"
proof -
  have wf: "chats_wf cs \<longrightarrow> chat_wf (mes_chat x)"
    using find_chat_set [OF assms(3)] by (auto simp: chats_wf_def)
  have c': "c' = c\<lparr>c_chats := Some (put_chat (cha_id (mes_chat x)) (cha_clear_unread (mes_chat x)) cs)\<rparr>"
    using assms(1,2) by (auto simp: psd_mes_iterator_clear_unread_def clear_unread_ok)
  show ?thesis unfolding c' using wf
    by (intro put_chats [OF keeps_refl assms(2)] put_chat_ok) (simp_all add: clear_unread_ok)
qed

lemma screen_chat_show_keeps:
  assumes "screen_chat_show E d c = Some (s, c')"
  shows "keeps c c'"
proof -
  obtain x c1 c2 where b: "psd_begin_mes_iteration (data_chat_id d) c = Some (x, c1)" "c' = unlock Chats_mutex c2"
    and t: "c2 = c1 \<or> (\<exists>y z. x = Some y \<and> psd_mes_iterator_clear_unread y c1 = Some (z, c2))"
    using assms by (auto simp: screen_chat_show_def psd_end_mes_iteration_def elim!: bind_SomeE split: option.split_asm)
  from b(1) show ?thesis
  proof (rule begin_mes_iteration)
    fix p c0 cs
    assume m: "malloc c = (p, c0)" "lock Chats_mutex c0 = Some c1" "c_chats c1 = Some cs"
      "\<And>y. x = Some y \<Longrightarrow> cha_find_chat cs (data_chat_id d) = Some (mes_chat y)"
    have "keeps c1 c2" using t m(3,4) clear_unread_keeps by auto
    then show ?thesis unfolding b(2) using malloc_keeps [OF m(1)] locked_keeps [OF m(2)] keeps_trans by blast
  qed
qed

section \<open>The invariant of the user interface\<close>

definition console_ok :: "'w client_graphic \<Rightarrow> bool" where
  "console_ok g \<longleftrightarrow> lists_ok (graphic_client g) \<and> held (graphic_client g) = {} \<and> notifications_tid g \<noteq> Blocked"

abbreviation known_chats :: "'w client_graphic \<Rightarrow> cint set" where
  "known_chats g \<equiv> known_ids (c_chats (graphic_client g))"

definition orderly :: "'w client_graphic \<Rightarrow> 'w client_graphic \<Rightarrow> bool" where
  "orderly g g' \<longleftrightarrow> (console_ok g \<longrightarrow> console_ok g' \<and> known_chats g \<subseteq> known_chats g')"

lemma orderly_refl [simp]: "orderly g g"
  by (simp add: orderly_def)

lemma orderly_trans [trans]: "orderly g h \<Longrightarrow> orderly h k \<Longrightarrow> orderly g k"
  by (auto simp: orderly_def)

lemma orderlyI: "(console_ok g \<Longrightarrow> orderly g g') \<Longrightarrow> orderly g g'"
  by (auto simp: orderly_def)

lemma orderly_fields [simp]:
  "orderly g (h\<lparr>menu_update_screen := x\<rparr>) = orderly g h" "orderly g (h\<lparr>screen_data := d\<rparr>) = orderly g h"
  "orderly g (h\<lparr>continue_fetching := b\<rparr>) = orderly g h" "orderly g (h\<lparr>continue_graphic := b\<rparr>) = orderly g h"
  "orderly g (h\<lparr>screen_updateable := b\<rparr>) = orderly g h" "orderly g (h\<lparr>input_buffer := s\<rparr>) = orderly g h"
  "orderly g (h\<lparr>stdin := ks\<rparr>) = orderly g h" "orderly g (h\<lparr>stdout := s\<rparr>) = orderly g h" "orderly g (h\<lparr>reads := n\<rparr>) = orderly g h"
  "orderly g (print s h) = orderly g h" "orderly g (set_screen_update scr d h) = orderly g h" "orderly g (set_attachment p h) = orderly g h"
  by (simp_all add: orderly_def console_ok_def print_def set_screen_update_def set_attachment_def)

lemma orderly_fields' [simp]:
  "orderly (g\<lparr>menu_update_screen := x\<rparr>) h = orderly g h" "orderly (g\<lparr>screen_data := d\<rparr>) h = orderly g h"
  "orderly (g\<lparr>continue_fetching := b\<rparr>) h = orderly g h" "orderly (g\<lparr>continue_graphic := b\<rparr>) h = orderly g h"
  "orderly (g\<lparr>screen_updateable := b\<rparr>) h = orderly g h" "orderly (g\<lparr>input_buffer := s\<rparr>) h = orderly g h"
  "orderly (g\<lparr>stdin := ks\<rparr>) h = orderly g h" "orderly (g\<lparr>stdout := s\<rparr>) h = orderly g h" "orderly (g\<lparr>reads := n\<rparr>) h = orderly g h"
  "orderly (print s g) h = orderly g h" "orderly (set_screen_update scr d g) h = orderly g h" "orderly (set_attachment p g) h = orderly g h"
  by (simp_all add: orderly_def console_ok_def print_def set_screen_update_def set_attachment_def)

lemma orderly_tid: "orderly g h \<Longrightarrow> t \<noteq> Blocked \<Longrightarrow> orderly g (h\<lparr>notifications_tid := t\<rparr>)"
  by (simp add: orderly_def console_ok_def)

text \<open>A call of the library that keeps the client in order.\<close>

lemma with_client_orderly:
  assumes "with_client f g = Some (r, g')"
    and "\<And>r c. f (graphic_client g) = Some (r, c) \<Longrightarrow> held (graphic_client g) = {} \<Longrightarrow> keeps (graphic_client g) c"
  shows "orderly g g'"
  using assms by (force simp: with_client_def orderly_def console_ok_def keeps_def elim!: bind_SomeE)

section \<open>Input, output and the thread\<close>

lemma notifications_fetch_orderly:
  assumes "notifications_fetch R g = Some g'"
  shows "orderly g g'"
proof -
  obtain r g1 q g2 where t: "with_client (psd_recv_notifications R) g = Some (r, g1)"
    "with_client (psd_recv_all_pending_messages R) g1 = Some (q, g2)" "g' = g2 \<or> g' = g2\<lparr>notifications_tid := Ended\<rparr>"
    using assms by (auto simp: notifications_fetch_def elim!: bind_SomeE split: if_split_asm)
  have "orderly g g1" by (rule with_client_orderly [OF t(1)]) (auto intro: psd_recv_notifications_keeps)
  moreover have "orderly g1 g2"
    by (rule with_client_orderly [OF t(2)]) (auto simp: psd_recv_all_pending_messages_def intro: recv_all_chats_keeps)
  ultimately have "orderly g g2" by (rule orderly_trans)
  with t(3) show ?thesis by (auto intro: orderly_tid)
qed

lemma fetch_turns_orderly: "fetch_turns R n g = Some g' \<Longrightarrow> orderly g g'"
proof (induction n arbitrary: g)
  case (Suc n)
  show ?case
  proof (rule orderlyI)
    assume "console_ok g"
    then have "g' = g \<or> (\<exists>g1. notifications_fetch R g = Some g1 \<and> fetch_turns R n g1 = Some g')"
      using Suc.prems by (auto simp: console_ok_def elim!: bind_SomeE split: if_split_asm)
    then show "orderly g g'" by (auto intro: orderly_trans [OF notifications_fetch_orderly Suc.IH])
  qed
qed simp

lemma await_input_orderly: "await_input E R g = Some g' \<Longrightarrow> orderly g g'"
  unfolding await_input_def by (drule fetch_turns_orderly) simp

lemma join_notifications_orderly: "join_notifications R g = Some g' \<Longrightarrow> orderly g g'"
  by (auto simp: join_notifications_def simp del: fetch_turns.simps elim!: bind_SomeE split: if_split_asm
      dest!: fetch_turns_orderly intro: orderly_tid)

lemma stop_client_orderly: "stop_client R g = Some g' \<Longrightarrow> orderly g g'"
  by (auto simp: stop_client_def elim!: bind_SomeE dest!: join_notifications_orderly)

lemma getchar_orderly: "getchar R g = Some (c, g') \<Longrightarrow> orderly g g'"
  by (auto simp: getchar_def elim!: bind_SomeE split: list.split_asm key.split_asm dest!: stop_client_orderly)

lemma scan_loop_orderly: "scan_loop R n g = Some (ok, s, g') \<Longrightarrow> orderly g g'"
proof (induction n arbitrary: g ok s)
  case (Suc n)
  obtain c g1 where g1: "getchar R g = Some (c, g1)"
    using Suc.prems by (auto elim!: bind_SomeE)
  with Suc.prems consider "g' = g1" | ok' s' where "scan_loop R n g1 = Some (ok', s', g')"
    by (auto elim!: bind_SomeE split: if_split_asm)
  then show ?case using Suc.IH getchar_orderly [OF g1] orderly_trans by cases blast+
qed simp

lemma scan_input_string_orderly: "scan_input_string E R n b g = Some (r, b', g') \<Longrightarrow> orderly g g'"
  by (auto simp: scan_input_string_def elim!: bind_SomeE split: if_split_asm
      dest!: await_input_orderly scan_loop_orderly intro: orderly_trans)

lemma scan_local_orderly: "scan_local E R n g = Some (r, s, g') \<Longrightarrow> orderly g g'"
  by (auto simp: scan_local_def elim!: bind_SomeE dest: scan_input_string_orderly)

lemma get_user_input_orderly: "get_user_input E R g = Some (r, g') \<Longrightarrow> orderly g g'"
  by (auto simp: get_user_input_def elim!: bind_SomeE dest: scan_input_string_orderly)

lemma flush_input_orderly: "flush_input R ks g = Some g' \<Longrightarrow> orderly g g'"
  by (induction R ks g rule: flush_input.induct) (auto split: if_split_asm dest: stop_client_orderly)

lemma wait_user_orderly: "wait_user E R g = Some g' \<Longrightarrow> orderly g g'"
  by (auto simp: wait_user_def elim!: bind_SomeE dest!: await_input_orderly flush_input_orderly intro: orderly_trans)

lemma say_and_wait_orderly: "say_and_wait E R s g = Some g' \<Longrightarrow> orderly g g'"
  by (auto simp: say_and_wait_def dest: wait_user_orderly)

lemmas input_orderly = scan_input_string_orderly scan_local_orderly get_user_input_orderly wait_user_orderly say_and_wait_orderly

lemma screen_update_orderly:
  assumes "screen_update E g = Some g'"
  shows "orderly g g'"
proof (cases "screen_updateable g")
  case True
  then obtain f s g1 where f: "with_client f g = Some (s, g1)" "g' = print s g1"
    and "f = (\<lambda>c. case menu_update_screen g of No_screen \<Rightarrow> None | Screen_login \<Rightarrow> Some (screen_login_show, c)
      | Screen_main \<Rightarrow> screen_main_show c | Screen_friend_req \<Rightarrow> screen_friend_req_show c
      | Screen_chat \<Rightarrow> do { data \<leftarrow> screen_data g; screen_chat_show E data c })"
    using assms by (auto simp: screen_update_def elim!: bind_SomeE)
  then have "keeps c c'" if "f c = Some (q, c')" for c q c'
    using that by (auto elim!: bind_SomeE split: screen.split_asm
        dest: screen_main_show_keeps screen_friend_req_show_keeps screen_chat_show_keeps)
  then show ?thesis unfolding f(2) using with_client_orderly [OF f(1)] by simp
next
  case False
  then show ?thesis using assms by (simp add: screen_update_def)
qed

section \<open>Commands\<close>

text \<open>Commands with one call of the library.\<close>

lemma psd_recv_all_messages_keeps: "psd_recv_all_messages R c = Some (r, c') \<Longrightarrow> keeps c c'"
  unfolding psd_recv_all_messages_def by (rule recv_all_chats_keeps)

lemma client_call_orderly:
  "with_client (psd_send_request_accept R x) g = Some (r, g') \<Longrightarrow> orderly g g'"
  "with_client (psd_send_request_decline R x) g = Some (r, g') \<Longrightarrow> orderly g g'"
  "with_client (psd_add_member_to_chat R x i) g = Some (r, g') \<Longrightarrow> orderly g g'"
  "with_client (psd_del_member_from_chat R x i) g = Some (r, g') \<Longrightarrow> orderly g g'"
  "with_client (psd_quit_from_chat R i) g = Some (r, g') \<Longrightarrow> orderly g g'"
  "with_client (psd_recv_message_attachment R i t) g = Some (r, g') \<Longrightarrow> orderly g g'"
  "with_client (psd_send_friend_request R x) g = Some (r, g') \<Longrightarrow> orderly g g'"
  "with_client (psd_user_register R n p i') g = Some (r, g') \<Longrightarrow> orderly g g'"
  "with_client (psd_user_unregister R n p) g = Some (r, g') \<Longrightarrow> orderly g g'"
  "with_client (psd_login R n p) g = Some (r, g') \<Longrightarrow> orderly g g'"
  "with_client (psd_recv_all_data R) g = Some (r, g') \<Longrightarrow> orderly g g'"
  "with_client (psd_recv_all_messages R) g = Some (r, g') \<Longrightarrow> orderly g g'"
  by (erule with_client_orderly, erule psd_send_request_accept_keeps psd_send_request_decline_keeps
      psd_add_member_to_chat_keeps psd_del_member_from_chat_keeps psd_quit_from_chat_keeps
      psd_recv_message_attachment_keeps psd_send_friend_request_keeps psd_user_register_keeps
      psd_user_unregister_keeps psd_login_keeps psd_recv_all_data_keeps
      psd_recv_all_messages_keeps)+

lemma client_call_orderly':
  "with_client (psd_create_chat R d x) g = Some (i, g') \<Longrightarrow> orderly g g'"
  "with_client show_friends g = Some (s, g') \<Longrightarrow> orderly g g'"
  "with_client (show_members j) g = Some (s, g') \<Longrightarrow> orderly g g'"
  "with_client (show_attachments j) g = Some (s, g') \<Longrightarrow> orderly g g'"
  "with_client (\<lambda>c. Some (open_read R path c)) g = Some (content, g') \<Longrightarrow> orderly g g'"
  "with_client (\<lambda>c. Some (malloc c)) g = Some (p, g') \<Longrightarrow> orderly g g'"
  by (erule with_client_orderly, simp add: psd_create_chat_keeps show_friends_keeps show_members_keeps
      show_attachments_keeps open_read_keeps malloc_keeps)+

lemmas step_orderly = client_call_orderly client_call_orderly' input_orderly screen_update_orderly

text \<open>A chain of such steps.\<close>

lemma accept_friend_req_orderly: "accept_friend_req E R x g = Some g' \<Longrightarrow> orderly g g'"
  by (auto simp: accept_friend_req_def elim!: bind_SomeE split: if_split_asm dest!: step_orderly intro: orderly_trans)

lemma decline_friend_req_orderly: "decline_friend_req E R x g = Some g' \<Longrightarrow> orderly g g'"
  by (auto simp: decline_friend_req_def elim!: bind_SomeE split: if_split_asm dest!: step_orderly intro: orderly_trans)

lemma show_chat_members_orderly: "show_chat_members E R i g = Some g' \<Longrightarrow> orderly g g'"
  by (auto simp: show_chat_members_def elim!: bind_SomeE dest!: step_orderly intro: orderly_trans)

lemma add_member_to_chat_orderly: "add_member_to_chat E R i g = Some g' \<Longrightarrow> orderly g g'"
  by (auto simp: add_member_to_chat_def elim!: bind_SomeE split: if_split_asm dest!: step_orderly) (meson orderly_trans)+

lemma delete_member_from_chat_orderly: "delete_member_from_chat E R i g = Some g' \<Longrightarrow> orderly g g'"
  by (auto simp: delete_member_from_chat_def elim!: bind_SomeE split: if_split_asm dest!: step_orderly) (meson orderly_trans)+

lemma leave_chat_orderly: "leave_chat E R i g = Some g' \<Longrightarrow> orderly g g'"
  by (auto simp: leave_chat_def elim!: bind_SomeE split: if_split_asm dest!: step_orderly intro: orderly_trans)

lemma attach_file_orderly: "attach_file E R path info g = Some (b, info', g') \<Longrightarrow> orderly g g'"
  by (auto simp: attach_file_def elim!: bind_SomeE split: option.split_asm dest!: step_orderly) (meson orderly_trans)+

lemma download_attach_orderly: "download_attach E R i g = Some g' \<Longrightarrow> orderly g g'"
  by (auto simp: download_attach_def elim!: bind_SomeE split: if_split_asm dest!: step_orderly) (meson orderly_trans)+

lemma known_chat: "cha_find_chat cs i = None \<longleftrightarrow> i \<notin> cha_id ` set (entries cs)"
  unfolding cha_find_chat_def by (simp add: chats.find_None)

text \<open>Sending a message to a chat that the client knows.\<close>

lemma send_message_orderly:
  assumes "send_message E R x i path info g = Some g'" "i \<in> known_chats g"
  shows "orderly g g'"
proof -
  obtain r g1 where t: "with_client (psd_send_message R (heap_junk E) i (Some x) path info) g = Some (r, g1)"
    "orderly g1 g'"
    using assms(1) by (auto simp: send_message_def elim!: bind_SomeE split: if_split_asm dest!: say_and_wait_orderly)
  have "\<not> (\<exists>cs. c_chats (graphic_client g) = Some cs \<and> cha_find_chat cs i = None)"
    using assms(2) by (auto simp: known_chat)
  then have "orderly g g1"
    by (intro with_client_orderly [OF t(1)]) (auto dest!: psd_send_message_keeps)
  then show ?thesis using t(2) by (rule orderly_trans)
qed

lemma chat_line_orderly:
  assumes "chat_line E R i info g = Some g'" "i \<in> known_chats g"
  shows "orderly g g'"
  using assms by (auto simp: chat_line_def elim!: bind_SomeE split: if_split_asm dest: send_message_orderly)

lemma friend_req_command_orderly: "friend_req_command E R g = Some (b, g') \<Longrightarrow> orderly g g'"
  by (auto simp: friend_req_command_def split: if_split_asm
      dest: accept_friend_req_orderly decline_friend_req_orderly screen_update_orderly)

lemma friend_req_input_orderly: "friend_req_input E R cont r g = Some (b, g') \<Longrightarrow> orderly g g'"
  by (auto simp: friend_req_input_def split: if_split_asm dest: friend_req_command_orderly)

lemma chat_command_orderly: "chat_command E R i info g = Some (b, info', g') \<Longrightarrow> orderly g g'"
  by (auto simp: chat_command_def Let_def elim!: bind_SomeE split: if_split_asm
      dest: add_member_to_chat_orderly show_chat_members_orderly delete_member_from_chat_orderly leave_chat_orderly
        attach_file_orderly download_attach_orderly screen_update_orderly intro: orderly_trans)

lemma chat_input_orderly:
  "chat_input E R i info r g = Some (b, info', g') \<Longrightarrow> i \<in> known_chats g \<Longrightarrow> orderly g g'"
  by (auto simp: chat_input_def split: if_split_asm dest: chat_command_orderly chat_line_orderly)

section \<open>Menus\<close>

lemma friend_req_loop_orderly: "friend_req_loop E R cont g = Some g' \<Longrightarrow> orderly g g'"
proof (erule friend_req_loop.raw_induct [where P = "\<lambda>E R cont g g'. orderly g g'", rotated], goal_cases)
  case (1 loop E R cont g g')
  obtain g1 r g2 where t: "screen_update E (g\<lparr>screen_updateable := True\<rparr>) = Some g1" "get_user_input E R g1 = Some (r, g2)"
    using 1(2) by (auto elim!: bind_SomeE)
  have k: "orderly g g2" using screen_update_orderly [OF t(1)] get_user_input_orderly [OF t(2)] by (auto intro: orderly_trans)
  from 1(2) t consider "g' = g2" | b g3 where "friend_req_input E R cont r g2 = Some (b, g3)"
      "g' = g3 \<or> loop E R True g3 = Some g'"
    by (auto elim!: bind_SomeE split: if_split_asm)
  then show ?case
  proof cases
    case (2 b g3)
    have k3: "orderly g g3" by (rule orderly_trans [OF k friend_req_input_orderly [OF 2(1)]])
    show ?thesis using 2(2) k3 orderly_trans [OF k3] 1(1) [of E R True g3 g'] by blast
  qed (simp add: k)
qed

lemma chat_loop_orderly: "chat_loop E R i info g = Some g' \<Longrightarrow> i \<in> known_chats g \<longrightarrow> orderly g g'"
proof (erule chat_loop.raw_induct [where P = "\<lambda>E R i info g g'. i \<in> known_chats g \<longrightarrow> orderly g g'", rotated],
    rule impI, rule orderlyI, goal_cases)
  case (1 loop E R i info g g')
  obtain g1 r g2 where t: "screen_update E (g\<lparr>screen_updateable := True\<rparr>) = Some g1" "get_user_input E R g1 = Some (r, g2)"
    using 1(2) by (auto elim!: bind_SomeE)
  have k: "orderly g g2" using screen_update_orderly [OF t(1)] get_user_input_orderly [OF t(2)] by (auto intro: orderly_trans)
  have i: "i \<in> known_chats g2" using k 1(3,4) unfolding orderly_def by blast
  from 1(2) t consider "g' = g2" | b info' g3 where "chat_input E R i info r g2 = Some (b, info', g3)"
      "g' = g3 \<or> loop E R i info' g3 = Some g'"
    by (auto elim!: bind_SomeE split: if_split_asm)
  then show ?case
  proof cases
    case (2 b info' g3)
    have k3: "orderly g g3" by (rule orderly_trans [OF k chat_input_orderly [OF 2(1) i]])
    then have "i \<in> known_chats g3" using 1(3,4) unfolding orderly_def by blast
    then show ?thesis using 2(2) k3 orderly_trans [OF k3] 1(1) [of E R i info' g3 g'] by blast
  qed (simp add: k)
qed

lemma menu_friend_req_orderly: "menu_friend_req E R g = Some g' \<Longrightarrow> orderly g g'"
  unfolding menu_friend_req_def by (drule friend_req_loop_orderly) simp

lemma menu_chat_orderly:
  assumes "menu_chat E R i g = Some g'" "i \<in> known_chats g"
  shows "orderly g g'"
proof (rule orderlyI)
  assume ok: "console_ok g"
  obtain p g1 where t: "with_client (\<lambda>c. Some (malloc c)) g = Some (p, g1)"
    "chat_loop E R i (stack_junk E) (set_screen_update Screen_chat
      (Some \<lparr>data_chat_id = i, data_has_attach = False, data_attach_path = stack_junk E\<rparr>) g1) = Some g'"
    using assms(1) by (auto simp: menu_chat_def elim!: bind_SomeE)
  have k: "orderly g g1" by (rule client_call_orderly'(6) [OF t(1)])
  then have "i \<in> known_chats g1" using ok assms(2) by (auto simp: orderly_def)
  then have "orderly g1 g'" using chat_loop_orderly [OF t(2)] by (simp add: set_screen_update_def)
  with k show "orderly g g'" by (rule orderly_trans)
qed

lemma open_chat_orderly:
  assumes "open_chat E R g = Some g'"
  shows "orderly g g'"
proof -
  let ?i = "atoi (cstring (input_buffer g))"
  consider "g' = g" | g1 cs where "c_chats (graphic_client g) = Some cs" "cha_find_chat cs ?i \<noteq> None"
      "menu_chat E R ?i g = Some g1" "g' = set_screen_update Screen_main None g1"
    using assms by (auto simp: open_chat_def Let_def psd_chat_exists_def elim!: bind_SomeE split: if_split_asm)
  then show ?thesis
  proof cases
    case (2 g1 cs)
    then have "?i \<in> known_chats g" by (simp add: known_chat)
    then show ?thesis using menu_chat_orderly [OF 2(3)] unfolding 2(4) by simp
  qed simp
qed

lemma create_new_chat_orderly: "create_new_chat E R g = Some g' \<Longrightarrow> orderly g g'"
  by (auto simp: create_new_chat_def elim!: bind_SomeE split: if_split_asm dest!: step_orderly) (meson orderly_trans)+

lemma view_friends_orderly: "view_friends E R g = Some g' \<Longrightarrow> orderly g g'"
  by (auto simp: view_friends_def elim!: bind_SomeE dest!: step_orderly intro: orderly_trans)

lemma send_friend_request_orderly: "send_friend_request E R g = Some g' \<Longrightarrow> orderly g g'"
  by (auto simp: send_friend_request_def elim!: bind_SomeE dest!: step_orderly) (meson orderly_trans)+

lemma show_timestamps_orderly: "show_timestamps E R g = Some g' \<Longrightarrow> orderly g g'"
  by (auto simp: show_timestamps_def elim!: bind_SomeE dest: wait_user_orderly)

lemma main_command_orderly: "main_command E R e g = Some (b, e', g') \<Longrightarrow> orderly g g'"
  by (auto simp: main_command_def Let_def split: if_split_asm
      dest: create_new_chat_orderly view_friends_orderly send_friend_request_orderly screen_update_orderly show_timestamps_orderly
        menu_friend_req_orderly)

lemma main_input_orderly: "main_input E R e r g = Some (b, e', g') \<Longrightarrow> orderly g g'"
  by (auto simp: main_input_def split: if_split_asm dest: main_command_orderly open_chat_orderly)

lemma main_loop_orderly: "main_loop E R e g = Some y \<Longrightarrow> orderly g (snd (snd y))"
proof (erule main_loop.raw_induct [where P = "\<lambda>E R e g y. orderly g (snd (snd y))", rotated], goal_cases)
  case (1 loop E R e g y)
  obtain g1 r g2 where t: "screen_update E (g\<lparr>screen_updateable := True\<rparr>) = Some g1" "get_user_input E R g1 = Some (r, g2)"
    using 1(2) by (auto elim!: bind_SomeE)
  have k: "orderly g g2" using screen_update_orderly [OF t(1)] get_user_input_orderly [OF t(2)] by (auto intro: orderly_trans)
  from 1(2) t consider "snd (snd y) = g2" | b e1 g3 where "main_input E R e r g2 = Some (b, e1, g3)"
      "snd (snd y) = g3 \<or> loop E R e1 g3 = Some y"
    by (auto elim!: bind_SomeE split: if_split_asm)
  then show ?case
  proof cases
    case (2 b e1 g3)
    have k3: "orderly g g3" by (rule orderly_trans [OF k main_input_orderly [OF 2(1)]])
    with 2(2) orderly_trans [OF k3] 1(1) [of E R e1 g3 y] show ?thesis by auto
  qed (simp add: k)
qed

section \<open>The whole user interface\<close>

text \<open>The logout forgets the chats, so from here on only \<open>console_ok\<close> is kept.\<close>

lemma orderly_ok: "orderly g g' \<Longrightarrow> console_ok g \<Longrightarrow> console_ok g'"
  by (simp add: orderly_def)

lemma menu_main_ok:
  assumes "menu_main E R e g = Some (e', g')" "console_ok g"
  shows "console_ok g'"
proof -
  obtain left e1 g1 where l: "main_loop E R e (set_screen_update Screen_main None g) = Some (left, e1, g1)"
    using assms(1) by (auto simp: menu_main_def elim!: bind_SomeE)
  have ok1: "console_ok g1" using main_loop_orderly [OF l] assms(2) by (auto intro: orderly_ok)
  show ?thesis
  proof (cases left)
    case True
    then obtain g2 c where j: "join_notifications R (g1\<lparr>continue_fetching := False\<rparr>) = Some g2"
      "psd_logout (graphic_client g2) = Some c" "g' = g2\<lparr>graphic_client := c\<rparr>"
      using assms(1) l by (auto simp: menu_main_def elim!: bind_SomeE)
    have "console_ok g2" using join_notifications_orderly [OF j(1)] ok1 by (auto intro: orderly_ok)
    then show ?thesis using psd_logout_intact [OF j(2)] by (simp add: j(3) console_ok_def intact_def)
  qed (use assms(1) l ok1 in \<open>simp add: menu_main_def\<close>)
qed

lemma user_register_orderly: "user_register E R g = Some g' \<Longrightarrow> orderly g g'"
  by (auto simp: user_register_def elim!: bind_SomeE split: if_split_asm dest!: step_orderly) (meson orderly_trans)+

lemma user_unregister_orderly: "user_unregister E R g = Some g' \<Longrightarrow> orderly g g'"
  by (auto simp: user_unregister_def elim!: bind_SomeE split: if_split_asm dest!: step_orderly) (meson orderly_trans)+

lemma retrieve_user_data_orderly: "retrieve_user_data E R g = Some g' \<Longrightarrow> orderly g g'"
  by (auto simp: retrieve_user_data_def elim!: bind_SomeE split: if_split_asm dest!: step_orderly) (meson orderly_trans)+

lemma login_orderly: "login E R g = Some (b, g') \<Longrightarrow> orderly g g'"
  by (auto simp: login_def elim!: bind_SomeE split: if_split_asm dest!: step_orderly retrieve_user_data_orderly)
    (meson orderly_trans)+

lemma run_notifications_thread_ok: "console_ok g \<Longrightarrow> console_ok (run_notifications_thread E g)"
  by (simp add: run_notifications_thread_def console_ok_def print_def)

lemma login_command_ok:
  assumes "login_command E R g = Some (b, g')" "console_ok g"
  shows "console_ok g'"
proof -
  consider g1 where "login E R g = Some (False, g1)" "g' = g1"
    | g1 e g2 where "login E R g = Some (True, g1)" "menu_main E R False (run_notifications_thread E g1) = Some (e, g2)"
      "g' = set_screen_update Screen_login None g2"
    | "orderly g g'"
    using assms(1)
    by (auto simp: login_command_def Let_def elim!: bind_SomeE split: if_split_asm
        dest: user_register_orderly user_unregister_orderly)
  then show ?thesis
  proof cases
    case (2 g1 e g2)
    have "console_ok g2"
      using menu_main_ok [OF 2(2) run_notifications_thread_ok] login_orderly [OF 2(1)] assms(2) by (auto intro: orderly_ok)
    then show ?thesis by (simp add: 2(3) console_ok_def set_screen_update_def)
  qed (use assms(2) in \<open>auto intro: orderly_ok dest: login_orderly\<close>)
qed

lemma login_loop_ok: "login_loop E R g = Some g' \<Longrightarrow> console_ok g \<longrightarrow> console_ok g'"
proof (erule login_loop.raw_induct [where P = "\<lambda>E R g g'. console_ok g \<longrightarrow> console_ok g'", rotated], goal_cases)
  case (1 loop E R g g')
  obtain g1 r g2 b g3 where t: "screen_update E (g\<lparr>screen_updateable := True\<rparr>) = Some g1"
    "get_user_input E R g1 = Some (r, g2)" "login_command E R (g2\<lparr>screen_updateable := False\<rparr>) = Some (b, g3)"
    "g' = g3 \<or> loop E R g3 = Some g'"
    using 1(2) by (auto elim!: bind_SomeE split: if_split_asm)
  have "orderly g g2" using screen_update_orderly [OF t(1)] get_user_input_orderly [OF t(2)] by (auto intro: orderly_trans)
  then have "console_ok g \<longrightarrow> console_ok (g2\<lparr>screen_updateable := False\<rparr>)"
    by (auto simp: orderly_def console_ok_def)
  with login_command_ok [OF t(3)] t(4) 1(1) [of E R g3 g'] show ?case by auto
qed

lemma graphic_client_run_ok:
  assumes "graphic_client_run E R keys c = Some g" "lists_ok c" "held c = {}"
  shows "console_ok g"
proof -
  note run = assms(1) [unfolded graphic_client_run_def menu_login_def]
  show ?thesis using assms(2,3) by (intro mp [OF login_loop_ok [OF run]]) (simp add: console_ok_def set_screen_update_def)
qed

end
