(* ===== verification/Client_Specs.thy ===== *)
theory Client_Specs
  imports Client_Invariant Client_Iterators
begin

text \<open>
  Properties of the client library: the invariant of all its calls, the mutex that
  \<open>psd_send_message\<close> keeps, the all-or-nothing behaviour of \<open>psd_recv_friends\<close>, and
  \<open>psd_recv_all_messages\<close> as a sequence of \<open>psd_recv_messages\<close>.
\<close>

section \<open>A concrete client\<close>

text \<open>A remote side that knows one user and answers every question about friends with ana and bob, about
  chats with one chat, and about its messages with one message; a call counts up its state.\<close>

definition sample_friends :: user_list where
  "sample_friends = \<lparr>ul_user = [\<lparr>ui_name = ''ana'', ui_information = ''hi''\<rparr>, \<lparr>ui_name = ''bob'', ui_information = ''ho''\<rparr>],
     ul_last_timestamp = 9\<rparr>"

definition silent :: "'a \<Rightarrow> 'b \<Rightarrow> nat \<Rightarrow> ('r option \<times> nat) option" where
  "silent a b n = Some (None, Suc n)"

definition sample_remote :: "nat remote" where
  "sample_remote =
     \<lparr>soap_call_user_register = silent, soap_call_user_unregister = silent,
      soap_call_get_user = (\<lambda>url login n. Some (Some \<lparr>ui_name = ''kim'', ui_information = ''i''\<rparr>, Suc n)),
      soap_call_get_friends = (\<lambda>t url login n. Some (Some sample_friends, Suc n)),
      soap_call_get_friend_info = (\<lambda>_. silent),
      soap_call_get_chats = (\<lambda>t url login n. Some (Some \<lparr>ch_chat_info = [\<lparr>ci_chat_id = 7, ci_description = ''c'',
        ci_admin = ''ana'', ci_read_timestamp = Some 5, ci_all_read_timestamp = 5, ci_members = Some [''ana'', ''kim'']\<rparr>],
        ch_last_timestamp = 5\<rparr>, Suc n)),
      soap_call_get_chat_messages = (\<lambda>c t url login n. Some (Some \<lparr>xl_messages =
        [\<lparr>mi_user = ''ana'', mi_text = ''m'', mi_file_name = None, mi_send_date = of_nat (100 + n)\<rparr>],
        xl_read_timestamp = 0, xl_last_timestamp = of_nat (101 + n)\<rparr>, Suc n)),
      soap_call_get_attachment = (\<lambda>_ _. silent), soap_call_get_pending_notifications = (\<lambda>_ _. silent),
      soap_call_get_all_data = silent, soap_call_create_chat = (\<lambda>_. silent), soap_call_add_member = (\<lambda>_ _. silent),
      soap_call_remove_member = (\<lambda>_ _. silent), soap_call_quit_from_chat = (\<lambda>_. silent),
      soap_call_send_message = (\<lambda>_ _. silent), soap_call_send_attachment = (\<lambda>_ _ _. silent),
      soap_call_send_friend_request = (\<lambda>_. silent), soap_call_accept_request = (\<lambda>_. silent),
      soap_call_decline_request = (\<lambda>_. silent), wire_int = (\<lambda>t. case t of None \<Rightarrow> 0 | Some t \<Rightarrow> t),
      wire_members = (\<lambda>ms. case ms of None \<Rightarrow> [] | Some ms \<Rightarrow> ms), disk_fails = (\<lambda>_. False)\<rparr>"

text \<open>A new client, and the client that kim has logged in.\<close>

definition blank_client :: "'w \<Rightarrow> 'w client" where
  "blank_client w =
     \<lparr>avail = \<lambda>_. True, brk = 0, net = None, outside = w, user_name = Null, user_pass = Null,
      user_information = Dangling, last_connection = 0, last_notif_timestamp = 0, c_friends = None,
      c_requests = None, c_chats = None, held = {}, stray_unlock = False, local_files = Map.empty,
      local_dirs = {}, disk_ops = 0\<rparr>"

definition empty_list :: "'i clist" where
  "empty_list = \<lparr>entries = [], limit = 50, stamp = 0\<rparr>"

definition new_client :: "nat \<Rightarrow> 'w \<Rightarrow> 'w client" where
  "new_client k w = (blank_client w)\<lparr>brk := k, c_friends := Some empty_list, c_requests := Some empty_list,
     c_chats := Some empty_list, net := Some \<lparr>logged = False, login_name = Null, login_password = Null, serverURL = Null\<rparr>\<rparr>"

definition kim_client :: "nat client" where
  "kim_client = (new_client 17 1)\<lparr>user_name := Live ''kim'', user_pass := Live ''k'', user_information := Live ''i'',
     net := Some \<lparr>logged = True, login_name = Live ''kim'', login_password = Live ''k'', serverURL = Null\<rparr>\<rparr>"

lemma psd_new_client_blank: "psd_new_client (blank_client w) = Some (new_client 11 w)"
  by (simp add: psd_new_client_def blank_client_def new_client_def fri_new_def req_new_def cha_new_def net_new_def
      cl_new_def malloc_def empty_list_def)

lemma kim_logs_in: "psd_login sample_remote ''kim'' ''k'' (new_client 11 0) = Some (0, kim_client)"
  by (simp add: psd_login_def with_network_def lock_def unlock_def net_login_def soap_call_def malloc_def
      sample_remote_def new_client_def blank_client_def kim_client_def)

lemma kim_run: "client_run sample_remote kim_client"
proof -
  have "client_run sample_remote (new_client 11 0)" by (rule client_run.start [OF psd_new_client_blank])
  then show ?thesis by (rule client_run.call [where c = "Login ''kim'' ''k''"]) (simp add: kim_logs_in after_def)
qed

section \<open>Friends\<close>

definition friend_of :: "user_info \<Rightarrow> friend_info" where
  "friend_of u = \<lparr>fri_name = ui_name u, fri_information = ui_information u\<rparr>"

lemma friend_of_name [simp]: "fri_name (friend_of u) = ui_name u"
  by (simp add: friend_of_def)

lemma add_friends_loop_result:
  assumes "add_friends_loop us fs s = (rest, fs', s')" "friends_wf fs"
  shows "\<exists>ad. us = ad @ rest \<and> fs' = fs\<lparr>entries := entries fs @ map friend_of ad\<rparr> \<and> friends_wf fs'"
  using assms
proof (induction us arbitrary: fs s)
  case (Cons u us)
  obtain r fs1 s1 where add: "fri_add_friend fs (ui_name u) (ui_information u) s = (r, fs1, s1)" by (metis prod_cases3)
  show ?case
  proof (cases "r = -1")
    case True
    then have "fs1 = fs" using add by (elim fri_add_friend_cases) auto
    with True Cons.prems add show ?thesis by (intro exI [of _ "[]"]) simp
  next
    case False
    then have fs1: "fs1 = fs\<lparr>entries := entries fs @ [friend_of u]\<rparr>"
      using add by (elim fri_add_friend_cases) (auto simp: friend_of_def dest: friends.add_result)
    have "friends_wf fs1" using fri_add_friend_wf [OF add Cons.prems(2)] .
    then obtain ad where "us = ad @ rest" "fs' = fs1\<lparr>entries := entries fs1 @ map friend_of ad\<rparr>" "friends_wf fs'"
      using Cons.IH [of fs1 s1] Cons.prems(1) add False by auto
    then show ?thesis by (intro exI [of _ "u # ad"]) (simp add: fs1)
  qed
qed simp

lemma del_friends_loop_rev:
  "friends_wf (fs\<lparr>entries := es @ map friend_of ad\<rparr>) \<Longrightarrow>
   del_friends_loop (rev ad) (fs\<lparr>entries := es @ map friend_of ad\<rparr>) = (True, fs\<lparr>entries := es\<rparr>)"
proof (induction ad rule: rev_induct)
  case (snoc u ad)
  let ?fs = "fs\<lparr>entries := es @ map friend_of (ad @ [u])\<rparr>"
  have fresh: "ui_name u \<notin> fri_name ` set (es @ map friend_of ad)"
    using snoc.prems by (auto simp: keyed_wf_def)
  then have "filter (\<lambda>x. fri_name x \<noteq> ui_name u) (es @ map friend_of ad) = es @ map friend_of ad"
    by (intro filter_True ballI) (metis image_eqI)
  then have "filter (\<lambda>x. fri_name x \<noteq> ui_name u) (es @ map friend_of (ad @ [u])) = es @ map friend_of ad"
    by simp
  then have "fri_del_friend ?fs (ui_name u) = (0, fs\<lparr>entries := es @ map friend_of ad\<rparr>)"
    using friends.delete_entries [OF snoc.prems, of "ui_name u"] by (simp add: fri_del_friend_def)
  moreover have "friends_wf (fs\<lparr>entries := es @ map friend_of ad\<rparr>)"
    using snoc.prems by (auto simp: keyed_wf_def)
  ultimately show ?case using snoc.IH by simp
qed simp

lemma take_friends_spec:
  assumes "take_friends l s = Some (r, s')" "c_friends s = Some fs" "friends_wf fs"
  shows "r = -1 \<and> c_friends s' = Some fs \<or>
    r = int (length (ul_user l)) \<and> c_friends s' = Some (fs\<lparr>entries := entries fs @ map friend_of (ul_user l),
      stamp := ul_last_timestamp l\<rparr>)"
proof -
  obtain s1 where l: "lock Friends_mutex s = Some s1" "c_friends s1 = Some fs"
    using assms(1,2) by (auto simp: take_friends_def lock_Some elim!: bind_SomeE)
  obtain rest fs1 s2 where loop: "add_friends_loop (ul_user l) fs s1 = (rest, fs1, s2)" by (metis prod_cases3)
  obtain ad where ad: "ul_user l = ad @ rest" "fs1 = fs\<lparr>entries := entries fs @ map friend_of ad\<rparr>" "friends_wf fs1"
    using add_friends_loop_result [OF loop assms(3)] by blast
  have del: "del_friends_loop (rev ad) fs1 = (True, fs)"
    using del_friends_loop_rev [of "entries fs" ad fs] ad(2,3) by simp
  show ?thesis
  proof (cases rest)
    case Nil
    then show ?thesis
      using assms(1) l loop ad by (auto simp: take_friends_def fri_set_timestamp_def unlock_def)
  next
    case (Cons u us)
    then show ?thesis
      using assms(1) l loop ad(1) del by (auto simp: take_friends_def unlock_def split: if_split_asm)
  qed
qed

lemma with_network_lists:
  assumes "with_network f s = Some (r, s')" "quiet f"
  shows "c_friends s' = c_friends s" "c_chats s' = c_chats s" "user_name s' = user_name s"
proof -
  obtain s1 s2 where t: "lock Network_mutex s = Some s1" "f s1 = Some (r, s2)" "s' = unlock Network_mutex s2"
    using assms(1) by (auto simp: with_network_def elim!: bind_SomeE)
  have "site.more s2 = site.more s1" using assms(2) t(2) by (simp add: quiet_def)
  from site_more_fields [OF this] t(1,3)
  show "c_friends s' = c_friends s" "c_chats s' = c_chats s" "user_name s' = user_name s"
    by (simp_all add: lock_Some unlock_def)
qed

lemma net_query_called:
  assumes "with_network (if_logged (net_query stub)) s = Some (Some x, s')"
  shows "\<exists>url login w'. stub url login (outside s) = Some (Some x, w') \<and> outside s' = w'"
  using assms
  by (auto simp: with_network_def lock_Some if_logged_def net_query_def soap_call_def malloc_def Let_def unlock_def
      elim!: bind_SomeE split: if_split_asm option.split_asm prod.split_asm) blast

section \<open>Properties\<close>

text \<open>C6. Whatever the server and the disk answer and whichever allocations fail, after any calls that
  return, every list of the client is well-formed, distinct in its keys and within its 50 elements, and
  the only mutex that may still be locked is that of the chats.\<close>

theorem client_invariant:
  assumes "client_run R s"
  shows "lists_ok s \<and> held s \<subseteq> {Chats_mutex}"
  using client_run_ok [OF assms] .

lemma client_invariant_witness: "lists_ok kim_client \<and> held kim_client \<subseteq> {Chats_mutex}"
  by (rule client_invariant [OF kim_run])

text \<open>C25. It is the message to an unknown chat that leaves it locked.  From then on these calls, which lock the chats
  first, never return: sending a message, receiving the messages of one chat or of all, all of them or the
  pending ones, receiving the chats or the notifications, removing a chat, and going through the chats or the
  messages of a chat.  \<open>psd_recv_all_data\<close>, which asks the server first, never succeeds.
  \<open>psd_chat_exists\<close>, which reads the chats without locking them, still answers.\<close>

theorem send_message_keeps_lock:
  assumes "client_run R s" "held s = {}" "c_chats s = Some cs" "cha_find_chat cs i = None"
  shows "\<exists>s'. psd_send_message R rest i x path info s = Some (-1, s') \<and> held s' = {Chats_mutex} \<and>
    psd_send_message R rest j y path' info' s' = None \<and> psd_recv_messages R j s' = None \<and>
    psd_recv_pending_messages R j s' = None \<and> psd_recv_all_messages R s' = None \<and>
    psd_recv_all_pending_messages R s' = None \<and> psd_recv_chats R s' = None \<and>
    psd_recv_notifications R s' = None \<and> psd_remove_chat j s' = None \<and>
    psd_begin_chat_iteration s' = None \<and> psd_begin_mes_iteration j s' = None \<and>
    (\<forall>r t. psd_recv_all_data R s' = Some (r, t) \<longrightarrow> r = -1) \<and> psd_chat_exists j s' = Some (cha_find_chat cs j \<noteq> None)"
proof -
  let ?s = "s\<lparr>held := {Chats_mutex}\<rparr>"
  have stuck: "lock Chats_mutex ?s = None" by (simp add: lock_def)
  have "psd_send_message R rest i x path info s = Some (-1, ?s)"
    using assms by (simp add: psd_send_message_def lock_def)
  moreover have "psd_begin_mes_iteration j ?s = None"
    by (simp add: psd_begin_mes_iteration_def malloc_def lock_def)
  moreover have "psd_chat_exists j ?s = Some (cha_find_chat cs j \<noteq> None)"
    using assms(3) by (simp add: psd_chat_exists_def)
  ultimately show ?thesis
    using psd_recv_all_data_blocked [of R ?s]
    by (intro exI [of _ ?s])
      (simp add: stuck psd_send_message_def psd_recv_messages_def psd_recv_pending_messages_def recv_chat_messages_def
        psd_recv_all_messages_def psd_recv_all_pending_messages_def recv_all_chats_def psd_recv_chats_def
        psd_recv_notifications_def psd_remove_chat_def psd_begin_chat_iteration_def)
qed

lemma send_message_keeps_lock_witness:
  "\<exists>s'. psd_send_message sample_remote [] 7 (Some ''m'') None None kim_client = Some (-1, s') \<and>
    psd_recv_notifications sample_remote s' = None"
proof -
  have "held kim_client = {}" "c_chats kim_client = Some empty_list" "cha_find_chat empty_list 7 = None"
    by (simp_all add: kim_client_def new_client_def blank_client_def empty_list_def cha_find_chat_def cl_find_def)
  from send_message_keeps_lock [OF kim_run this] show ?thesis by blast
qed

text \<open>C24. \<open>psd_recv_friends\<close> takes over all friends that the server sends, in order, or, when one of them
  cannot be added (it is there already, the list is full, or there is no memory), leaves the list as it
  was.\<close>

theorem recv_friends_all_or_nothing:
  assumes "client_run R s" "psd_recv_friends R s = Some (r, s')" "c_friends s = Some fs"
  shows "r = -1 \<and> c_friends s' = Some fs \<or>
    (\<exists>l url login w'. soap_call_get_friends R (stamp fs) url login (outside s) = Some (Some l, w') \<and>
      r = int (length (ul_user l)) \<and>
      c_friends s' = Some \<lparr>entries = entries fs @ map friend_of (ul_user l), limit = 50, stamp = ul_last_timestamp l\<rparr>)"
proof -
  have fs: "friends_wf fs" "limit fs = 50"
    using client_run_ok [OF assms(1)] assms(3) by (auto simp: lists_ok_def)
  obtain s1 reply s2 where l: "lock Friends_mutex s = Some s1"
    "with_network (net_get_friend_list R (stamp fs)) (unlock Friends_mutex s1) = Some (reply, s2)"
    using assms(2,3) by (auto simp: psd_recv_friends_def Let_def fri_get_timestamp_def lock_Some elim!: bind_SomeE)
  have s1: "c_friends (unlock Friends_mutex s1) = Some fs" "outside (unlock Friends_mutex s1) = outside s"
    using l(1) assms(3) by (simp_all add: lock_Some unlock_def)
  have s2: "c_friends s2 = Some fs" using with_network_lists [OF l(2) net_quiet(5)] s1 by simp
  show ?thesis
  proof (cases reply)
    case None
    then show ?thesis using assms(2,3) l s2
      by (auto simp: psd_recv_friends_def fri_get_timestamp_def lock_Some)
  next
    case (Some fl)
    obtain url login w' where call: "soap_call_get_friends R (stamp fs) url login (outside s) = Some (Some fl, w')"
      using net_query_called [OF l(2) [unfolded net_get_friend_list_def Some]] s1 by auto
    have "take_friends fl s2 = Some (r, s')"
      using assms(2,3) l Some by (auto simp: psd_recv_friends_def fri_get_timestamp_def lock_Some)
    note spec = take_friends_spec [OF this s2 fs(1)]
    have "fs\<lparr>entries := e, stamp := t\<rparr> = \<lparr>entries = e, limit = 50, stamp = t\<rparr>" for e t
      using fs(2) by (cases fs) simp
    with spec call show ?thesis by metis
  qed
qed

lemma recv_friends_all_or_nothing_witness:
  "\<exists>s'. psd_recv_friends sample_remote kim_client = Some (2, s') \<and>
    map fri_name (entries (the (c_friends s'))) = [''ana'', ''bob'']"
proof -
  obtain s' where run: "psd_recv_friends sample_remote kim_client = Some (2, s')"
    by (simp add: psd_recv_friends_def take_friends_def with_network_def lock_def unlock_def net_get_friend_list_def
        if_logged_def net_query_def net_login_info_def soap_call_def malloc_def sample_remote_def sample_friends_def
        kim_client_def new_client_def blank_client_def empty_list_def fri_get_timestamp_def fri_add_friend_def
        friend_comp_def cl_add_def Let_def)
  have "c_friends kim_client = Some empty_list" by (simp add: kim_client_def new_client_def)
  from recv_friends_all_or_nothing [OF kim_run run this] run show ?thesis
    by (auto simp: sample_remote_def sample_friends_def empty_list_def friend_of_def)
qed

end
