(* ===== verification/Client_Turns.thy ===== *)
theory Client_Turns
  imports Client_Specs
begin

text \<open>
  \<open>psd_recv_all_messages\<close>, which walks over the chats with the chats' mutex locked, is the same as
  calling \<open>psd_recv_messages\<close> for one chat after the other.
\<close>

section \<open>Receiving does not look at the list of chats\<close>

abbreviation with_chats :: "chats \<Rightarrow> 'w client \<Rightarrow> 'w client" where
  "with_chats cs s \<equiv> s\<lparr>c_chats := Some cs\<rparr>"

lemma malloc_chats: "malloc (with_chats cs s) = map_prod id (with_chats cs) (malloc s)"
  by (simp add: malloc_def)

lemma dup_option_chats: "dup_option x (with_chats cs s) = map_prod id (with_chats cs) (dup_option x s)"
  by (simp add: dup_option_def malloc_def split: option.split)

lemma cl_add_chats: "cl_add cmp x l (with_chats cs s) = (case cl_add cmp x l s of (r, l, s) \<Rightarrow> (r, l, with_chats cs s))"
  by (simp add: cl_add_def malloc_def)

lemma mes_add_message_chats:
  "mes_add_message ms a x t p (with_chats cs s) =
   (case mes_add_message ms a x t p s of (r, ms, s) \<Rightarrow> (r, ms, with_chats cs s))"
  by (auto simp: mes_add_message_def malloc_chats dup_option_chats cl_add_chats
      split: option.split prod.split bool.split)

lemma add_messages_loop_chats:
  "add_messages_loop i xs c (with_chats cs s) =
   (case add_messages_loop i xs c s of (r, c, s) \<Rightarrow> (r, c, with_chats cs s))"
proof (induction xs arbitrary: i c s)
  case (Cons x xs)
  obtain a b t p where x: "x = (a, b, t, p)" by (cases x)
  obtain r ms s1 where "mes_add_message (cha_messages c) a b t p s = (r, ms, s1)" by (metis prod_cases3)
  then show ?case by (simp add: x mes_add_message_chats Let_def Cons.IH)
qed simp

lemma cha_add_messages_chats:
  "cha_add_messages c xs (with_chats cs s) = (case cha_add_messages c xs s of (r, c, s) \<Rightarrow> (r, c, with_chats cs s))"
  by (simp add: cha_add_messages_def Let_def add_messages_loop_chats)

lemma alloc_array_chats: "alloc_array n (with_chats cs s) = map_option (with_chats cs) (alloc_array n s)"
  by (simp add: alloc_array_def malloc_def)

lemma alloc_arrays_chats: "alloc_arrays n (with_chats cs s) = map_option (with_chats cs) (alloc_arrays n s)"
  by (simp add: alloc_arrays_def alloc_array_chats map_option_bind bind_map_option o_def)

lemma soap_call_chats:
  "soap_call f (with_chats cs s) = map_option (map_prod id (with_chats cs)) (soap_call f s)"
  by (auto simp: soap_call_def malloc_def Let_def map_option_bind split: option.split intro!: Option.bind_cong)

lemma net_pending_chats:
  "net_recv_pending_messages R i t (with_chats cs s) =
   map_option (map_prod id (with_chats cs)) (net_recv_pending_messages R i t s)"
  by (auto simp: net_recv_pending_messages_def if_logged_def net_query_def malloc_chats soap_call_chats
      map_option_bind split: prod.split option.split intro!: Option.bind_cong)

lemma unlock_chats: "unlock x (with_chats cs s) = with_chats cs (unlock x s)"
  by (simp add: unlock_def)

lemma with_network_chats:
  assumes "\<And>s. f (with_chats cs s) = map_option (map_prod id (with_chats cs)) (f s)"
  shows "with_network f (with_chats cs s) = map_option (map_prod id (with_chats cs)) (with_network f s)"
proof -
  have "lock Network_mutex (with_chats cs s) = map_option (with_chats cs) (lock Network_mutex s)"
    by (simp add: lock_def)
  then show ?thesis
    by (simp add: with_network_def unlock_chats assms bind_map_option map_option_bind o_def case_prod_beta)
qed

lemma recv_messages_chats:
  "recv_messages R c (with_chats cs s) = map_option (\<lambda>(r, c, s). (r, c, with_chats cs s)) (recv_messages R c s)"
proof -
  let ?net = "with_network (net_recv_pending_messages R (cha_id c) (mes_get_timestamp (cha_messages c)))"
  have net: "?net (with_chats cs s) = map_option (map_prod id (with_chats cs)) (?net s)"
    by (rule with_network_chats) (rule net_pending_chats)
  have raw: "raw_messages ms (with_chats cs s) = raw_messages ms s" for ms s
    by (simp add: raw_messages_def)
  show ?thesis
  proof (cases "?net s")
    case (Some p)
    obtain reply s1 where p: "p = (reply, s1)" by (cases p)
    show ?thesis
    proof (cases reply)
      case None
      then show ?thesis using net Some by (simp add: recv_messages_def p)
    next
      case (Some l)
      show ?thesis
        using net \<open>?net s = Some p\<close>
        by (simp add: recv_messages_def p Some alloc_arrays_chats bind_map_option map_option_bind raw o_def
            cha_add_messages_chats case_prod_beta if_distrib [of "map_option _"] cong: if_cong)
    qed
  qed (use net in \<open>simp add: recv_messages_def\<close>)
qed

section \<open>One chat after the other\<close>

fun recv_in_turn :: "'w remote \<Rightarrow> cint list \<Rightarrow> int \<Rightarrow> 'w client \<Rightarrow> (int \<times> 'w client) option" where
  "recv_in_turn R [] v s = Some (v, s)"
| "recv_in_turn R (i # ids) v s = do {
     (r, s) \<leftarrow> psd_recv_messages R i s;
     recv_in_turn R ids (if r < 0 then r else v) s
   }"

lemma find_in_middle:
  assumes "distinct (map cha_id (dn @ c # todo))"
  shows "cha_find_chat (cs\<lparr>entries := dn @ c # todo\<rparr>) (cha_id c) = Some c"
    and "cha_id c1 = cha_id c \<Longrightarrow>
      put_chat (cha_id c) c1 (cs\<lparr>entries := dn @ c # todo\<rparr>) = cs\<lparr>entries := dn @ c1 # todo\<rparr>"
proof -
  have "List.find (\<lambda>x. cha_id x = cha_id c) dn = None"
    using assms by (auto simp: find_None_iff_set image_iff)
  moreover have "List.find P (dn @ xs) = (case List.find P dn of None \<Rightarrow> List.find P xs | Some x \<Rightarrow> Some x)" for P xs
    by (induction dn) auto
  ultimately show "cha_find_chat (cs\<lparr>entries := dn @ c # todo\<rparr>) (cha_id c) = Some c"
    by (simp add: cha_find_chat_def cl_find_def chat_id_comp_def)
  have "map (\<lambda>x. if cha_id x = cha_id c then c1 else x) dn = dn" "map (\<lambda>x. if cha_id x = cha_id c then c1 else x) todo = todo"
    using assms by (auto simp: image_iff intro!: map_idI)
  then show "cha_id c1 = cha_id c \<Longrightarrow>
      put_chat (cha_id c) c1 (cs\<lparr>entries := dn @ c # todo\<rparr>) = cs\<lparr>entries := dn @ c1 # todo\<rparr>"
    by (simp add: put_chat_def)
qed

lemma recv_each_in_turn:
  assumes "Chats_mutex \<in> held s" "distinct (map cha_id (dn @ todo))"
  shows "map_option (\<lambda>(r, xs, s'). (r, unlock Chats_mutex (with_chats (cs\<lparr>entries := dn @ xs\<rparr>) s')))
      (recv_each R (\<lambda>_. True) todo v s) =
    recv_in_turn R (map cha_id todo) v (unlock Chats_mutex (with_chats (cs\<lparr>entries := dn @ todo\<rparr>) s))"
  using assms
proof (induction todo arbitrary: dn v s)
  case (Cons c todo)
  let ?cs = "cs\<lparr>entries := dn @ c # todo\<rparr>"
  have locked: "lock Chats_mutex (unlock Chats_mutex (with_chats ?cs s)) = Some (with_chats ?cs s)"
    using Cons.prems(1) by (simp add: unlock_def lock_def insert_absorb)
  note mid = find_in_middle [OF Cons.prems(2)]
  show ?case
  proof (cases "recv_messages R c s")
    case None
    then show ?thesis
      using locked mid(1) by (simp add: psd_recv_messages_def recv_chat_messages_def recv_messages_chats)
  next
    case (Some p)
    obtain r c1 s1 where p: "p = (r, c1, s1)" by (cases p)
    note k = recv_messages_keeps [OF Some [unfolded p]]
    have "Chats_mutex \<in> held s1" "distinct (map cha_id ((dn @ [c1]) @ todo))"
      using k Cons.prems by (auto simp: keeps_def)
    note IH = Cons.IH [OF this, of "if r < 0 then r else v"]
    have put: "put_chat (cha_id c) c1 ?cs = cs\<lparr>entries := (dn @ [c1]) @ todo\<rparr>" using mid(2) k by simp
    have "psd_recv_messages R (cha_id c) (unlock Chats_mutex (with_chats ?cs s)) =
        Some (r, unlock Chats_mutex (with_chats (cs\<lparr>entries := (dn @ [c1]) @ todo\<rparr>) s1))"
      using locked mid(1) Some p put
      by (simp add: psd_recv_messages_def recv_chat_messages_def recv_messages_chats)
    then show ?thesis
      using Some p IH
      by (cases "recv_each R (\<lambda>_. True) todo (if r < 0 then r else v) s1") (auto simp: case_prod_beta)
  qed
qed simp

text \<open>C22. The pass over all chats is equivalent to the sequence of the single calls: same result, same
  client.\<close>

theorem recv_all_in_turn:
  assumes "client_run R s" "held s = {}" "c_chats s = Some cs"
  shows "psd_recv_all_messages R s = recv_in_turn R (map cha_id (entries cs)) 0 s"
proof -
  let ?s1 = "s\<lparr>held := {Chats_mutex}\<rparr>"
  have "distinct (map cha_id ([] @ entries cs))"
    using client_run_ok [OF assms(1)] assms(3) by (simp add: lists_ok_def chats_wf_def keyed_wf_def)
  moreover have "unlock Chats_mutex (with_chats (cs\<lparr>entries := [] @ entries cs\<rparr>) ?s1) = s"
    using assms(2,3) by (cases s) (simp add: unlock_def)
  ultimately show ?thesis
    using recv_each_in_turn [of ?s1 "[]" "entries cs" cs R 0] assms
    by (cases "recv_each R (\<lambda>_. True) (entries cs) 0 ?s1")
      (auto simp: psd_recv_all_messages_def recv_all_chats_def lock_def)
qed

text \<open>Kim's client after \<open>psd_recv_chats\<close>.\<close>

definition kim_chat :: chat_info where
  "kim_chat = \<lparr>cha_id = 7, cha_description = ''c'', cha_read_timestamp = 5, cha_all_read_timestamp = 5, cha_unread = 0,
     cha_pending = 0, cha_admin = Some ''ana'', cha_members = empty_list\<lparr>entries :=
       [\<lparr>member_name = ''ana'', member_friend_info = None\<rparr>, \<lparr>member_name = ''kim'', member_friend_info = None\<rparr>]\<rparr>,
     cha_messages = empty_list\<rparr>"

lemma kim_receives_chat:
  "\<exists>b. psd_recv_chats sample_remote kim_client = Some (1, kim_client\<lparr>brk := b, outside := 2, stray_unlock := True,
     c_chats := Some (empty_list\<lparr>entries := [kim_chat], stamp := 5\<rparr>)\<rparr>)"
  by (simp add: psd_recv_chats_def with_network_def lock_def unlock_def net_get_chat_list_def if_logged_def net_query_def
      net_login_info_def soap_call_def malloc_def sample_remote_def kim_client_def new_client_def blank_client_def
      empty_list_def cha_get_timestamp_def cha_set_timestamp_def chat_people_def add_chat_item_def fri_find_friend_def
      cl_find_def cha_add_chat_def members_new_def mes_new_def cl_new_def members_add_member_def cl_add_def member_comp_def
      kim_chat_def Let_def)

lemma recv_all_in_turn_witness:
  "\<exists>s. client_run sample_remote s \<and> psd_recv_all_messages sample_remote s = recv_in_turn sample_remote [7] 0 s \<and>
    (\<exists>s'. psd_recv_all_messages sample_remote s = Some (0, s'))"
proof -
  obtain b where b: "psd_recv_chats sample_remote kim_client = Some (1, kim_client\<lparr>brk := b, outside := 2,
     stray_unlock := True, c_chats := Some (empty_list\<lparr>entries := [kim_chat], stamp := 5\<rparr>)\<rparr>)" (is "_ = Some (1, ?s)")
    using kim_receives_chat by blast
  have run: "client_run sample_remote ?s"
    by (rule client_run.call [OF kim_run, where c = Recv_chats]) (simp add: b after_def)
  have fields: "held ?s = {}" "c_chats ?s = Some (empty_list\<lparr>entries := [kim_chat], stamp := 5\<rparr>)"
    by (simp_all add: kim_client_def new_client_def blank_client_def)
  have "\<exists>s'. psd_recv_all_messages sample_remote ?s = Some (0, s')"
    by (simp add: psd_recv_all_messages_def recv_all_chats_def recv_messages_def with_network_def lock_def unlock_def
        net_recv_pending_messages_def if_logged_def net_query_def net_login_info_def soap_call_def malloc_def
        sample_remote_def kim_client_def new_client_def blank_client_def empty_list_def kim_chat_def alloc_arrays_def
        alloc_array_def raw_messages_def cha_add_messages_def mes_max_elems_def mes_list_gaps_def cl_gaps_def
        mes_add_message_def dup_option_def cl_add_def mes_get_timestamp_def Let_def)
  with recv_all_in_turn [OF run fields] run show ?thesis by (auto simp: kim_chat_def)
qed

end
