(* ===== verification/Console_Specs.thy ===== *)
theory Console_Specs
  imports Console_Safety Client_Turns
begin

text \<open>
  Properties of the user interface: its invariant, how a line is read, what the screen of a chat shows
  and marks, and how the program ends: at the end of the input, interrupted in a chat, and after a logout.
\<close>

section \<open>Reading a line\<close>

lemma notifications_fetch_input:
  "notifications_fetch R g = Some g' \<Longrightarrow> \<exists>c t. g' = g\<lparr>graphic_client := c, notifications_tid := t\<rparr>"
  by (auto simp: notifications_fetch_def with_client_def elim!: bind_SomeE split: if_split_asm)
    (metis client_graphic.surjective client_graphic.update_convs(1) client_graphic.update_convs(7))+

lemma fetch_turns_input: "fetch_turns R n g = Some g' \<Longrightarrow> \<exists>c t. g' = g\<lparr>graphic_client := c, notifications_tid := t\<rparr>"
proof (induction n arbitrary: g)
  case 0
  then show ?case by (intro exI [of _ "graphic_client g"] exI [of _ "notifications_tid g"]) simp
next
  case (Suc n)
  consider "g' = g" | "g' = g\<lparr>notifications_tid := Blocked\<rparr>" | g1 where "notifications_fetch R g = Some g1" "fetch_turns R n g1 = Some g'"
    using Suc.prems by (auto elim!: bind_SomeE split: if_split_asm)
  then show ?case
  proof cases
    case 1
    then show ?thesis by (intro exI [of _ "graphic_client g"] exI [of _ "notifications_tid g"]) simp
  next
    case 2
    then show ?thesis by (intro exI [of _ "graphic_client g"] exI [of _ Blocked]) simp
  next
    case (3 g1)
    obtain c t c' t' where "g1 = g\<lparr>graphic_client := c, notifications_tid := t\<rparr>"
      "g' = g1\<lparr>graphic_client := c', notifications_tid := t'\<rparr>"
      using notifications_fetch_input [OF 3(1)] Suc.IH [OF 3(2)] by blast
    then show ?thesis by auto
  qed
qed

text \<open>While the main thread waits, only the client and the other thread change.\<close>

lemma await_input_keeps:
  "await_input E R g = Some g' \<Longrightarrow> \<exists>c t. g' = g\<lparr>reads := Suc (reads g), graphic_client := c, notifications_tid := t\<rparr>"
  unfolding await_input_def by (drule fetch_turns_input) simp

lemma scan_loop_line:
  "newline \<notin> set s \<Longrightarrow> CHR 0xFF \<notin> set s \<Longrightarrow>
   scan_loop R n (g\<lparr>stdin := map Key (s @ [newline]) @ ks\<rparr>) =
     Some (True, take n s, g\<lparr>stdin := if length s < n then ks else map Key (drop n s @ [newline]) @ ks\<rparr>)"
proof (induction s arbitrary: n g)
  case Nil
  show ?case by (cases n) (simp_all add: getchar_def)
next
  case (Cons c s)
  show ?case
  proof (cases n)
    case (Suc k)
    have "is_EOF (Some c) = False" "c \<noteq> newline" using Cons.prems by (auto simp: is_EOF_def)
    then show ?thesis using Cons.IH [of k g] Cons.prems by (simp add: Suc getchar_def)
  qed simp
qed

lemma scan_line:
  assumes "await_input E R g = Some g1" "stdin g = map Key (s @ [newline]) @ ks"
    and "newline \<notin> set s" "CHR 0xFF \<notin> set s"
  shows "scan_input_string E R n b g =
    Some (int (length (take (n - 1) s)), overwrite (take (n - 1) s @ [CHR 0x00]) b,
      g1\<lparr>stdin := if length s < n - 1 then ks else map Key (drop (n - 1) s @ [newline]) @ ks\<rparr>)"
proof -
  have "g1 = g1\<lparr>stdin := map Key (s @ [newline]) @ ks\<rparr>"
    using await_input_keeps [OF assms(1)] assms(2) by auto
  then show ?thesis
    using scan_loop_line [OF assms(3,4), where R = R and n = "n - 1" and g = g1 and ks = ks] assms(1)
    by (simp add: scan_input_string_def min_def)
qed

text \<open>C26. Of a line that does not fit into the array the first \<open>max_chars - 1\<close> characters are read; the rest of
  it, which the program means to skip, is what the next call reads, as if the user had begun a new line.\<close>

theorem scan_input_line:
  assumes "await_input E R g = Some g1" "stdin g = map Key (s @ [newline]) @ ks"
    and "newline \<notin> set s" "CHR 0xFF \<notin> set s"
  shows "scan_input_string E R n b g =
    Some (int (length (take (n - 1) s)), overwrite (take (n - 1) s @ [CHR 0x00]) b,
      g1\<lparr>stdin := if length s < n - 1 then ks else map Key (drop (n - 1) s @ [newline]) @ ks\<rparr>)"
  using scan_line [OF assms] .

text \<open>At the end of the input.\<close>

lemma scan_at_end:
  assumes "scan_input_string E R n b g = Some (r, b', g')" "stdin g = []" "1 < n"
  shows "r = -1 \<and> b' = b \<and> (\<exists>c t k. g' = g\<lparr>reads := k, graphic_client := c, notifications_tid := t\<rparr>)"
proof -
  obtain g1 where g1: "await_input E R g = Some g1"
    using assms(1) by (auto simp: scan_input_string_def elim!: bind_SomeE)
  obtain m where m: "n = Suc (Suc m)" using assms(3) by (cases n rule: nat.exhaust; cases "n - 1") auto
  have "stdin g1 = []" using await_input_keeps [OF g1] assms(2) by auto
  then have "scan_loop R (n - 1) g1 = Some (False, [], g1)"
    by (simp add: m getchar_def is_EOF_def newline_def)
  then show ?thesis
    using assms(1) g1 await_input_keeps [OF g1] by (auto simp: scan_input_string_def overwrite_def)
qed

section \<open>The end of the input\<close>

text \<open>Nothing is read, and the menus go on.\<close>

definition stalled :: "'w client_graphic \<Rightarrow> bool" where
  "stalled g \<longleftrightarrow> stdin g = [] \<and> continue_graphic g \<and> at (input_buffer g) 0 \<noteq> CHR ''0''"

lemma stalled_fields [simp]:
  "stalled (g\<lparr>graphic_client := c\<rparr>) = stalled g" "stalled (g\<lparr>notifications_tid := t\<rparr>) = stalled g"
  "stalled (g\<lparr>reads := n\<rparr>) = stalled g" "stalled (g\<lparr>screen_updateable := b\<rparr>) = stalled g"
  "stalled (print s g) = stalled g" "stalled (set_screen_update scr d g) = stalled g"
  by (simp_all add: stalled_def print_def set_screen_update_def)

lemma screen_update_fields: "screen_update E g = Some g' \<Longrightarrow> \<exists>c s. g' = print s (g\<lparr>graphic_client := c\<rparr>) \<or> g' = g"
  by (auto simp: screen_update_def with_client_def elim!: bind_SomeE split: if_split_asm)

lemma screen_update_stalled: "screen_update E g = Some g' \<Longrightarrow> stalled g' = stalled g"
  by (drule screen_update_fields) auto

lemma get_user_input_stalled:
  assumes "get_user_input E R g = Some (r, g')" "stalled g"
  shows "stalled g'"
proof -
  obtain b g1 where "scan_input_string E R 100 (input_buffer g) g = Some (r, b, g1)" "g' = g1\<lparr>input_buffer := b\<rparr>"
    using assms(1) by (auto simp: get_user_input_def elim!: bind_SomeE)
  then show ?thesis using scan_at_end assms(2) by (fastforce simp: stalled_def)
qed

lemma scan_local_stalled:
  assumes "scan_local E R n g = Some (r, s, g')" "stalled g" "1 < n"
  shows "r = -1 \<and> stalled g'"
proof -
  obtain b where "scan_input_string E R n (stack_junk E) g = Some (r, b, g')"
    using assms(1) by (auto simp: scan_local_def elim!: bind_SomeE)
  then show ?thesis using scan_at_end assms(2,3) by (fastforce simp: stalled_def)
qed

lemma login_command_stalled:
  assumes "login_command E R g = Some (b, g')" "stalled g"
  shows "\<not> b \<and> stalled g'"
proof -
  have "\<not> c \<and> stalled h" if "login E R g = Some (c, h)" for c h
    using that assms(2) by (auto simp: login_def elim!: bind_SomeE dest!: scan_local_stalled split: if_split_asm)
  moreover have "stalled h" if "user_register E R g = Some h" for h
    using that assms(2) by (auto simp: user_register_def elim!: bind_SomeE dest!: scan_local_stalled split: if_split_asm)
  moreover have "stalled h" if "user_unregister E R g = Some h" for h
    using that assms(2) by (auto simp: user_unregister_def elim!: bind_SomeE dest!: scan_local_stalled split: if_split_asm)
  ultimately show ?thesis
    using assms by (auto simp: login_command_def Let_def stalled_def elim!: bind_SomeE split: if_split_asm)
qed

lemma login_loop_stalled: "login_loop E R g = Some g' \<Longrightarrow> \<not> stalled g"
proof (erule login_loop.raw_induct [where P = "\<lambda>E R g g'. \<not> stalled g", rotated], rule notI, goal_cases)
  case (1 loop E R g g')
  obtain g1 r g2 b g3 where t: "screen_update E (g\<lparr>screen_updateable := True\<rparr>) = Some g1"
    "get_user_input E R g1 = Some (r, g2)" "login_command E R (g2\<lparr>screen_updateable := False\<rparr>) = Some (b, g3)"
    "\<not> (continue_graphic g3 \<and> \<not> b) \<or> loop E R g3 = Some g'"
    using 1(2) by (auto elim!: bind_SomeE split: if_split_asm)
  have "stalled g2" using screen_update_stalled [OF t(1)] 1(3) by (intro get_user_input_stalled [OF t(2)]) simp
  then have "\<not> b" "stalled g3" using login_command_stalled [OF t(3)] by simp_all
  then have "loop E R g3 = Some g'" using t(4) by (simp add: stalled_def)
  from 1(1) [OF this] \<open>stalled g3\<close> show False by simp
qed

text \<open>At the end of the input the login menu, which does not look at the result of reading, is drawn again
  and again, unless the array happens to hold the choice of leaving.\<close>

theorem login_menu_never_ends:
  assumes "stdin g = []" "continue_graphic g" "at (input_buffer g) 0 \<noteq> CHR ''0''"
  shows "menu_login E R g = None"
proof (rule ccontr)
  assume "menu_login E R g \<noteq> None"
  then obtain g' where "login_loop E R (set_screen_update Screen_login None g) = Some g'"
    by (auto simp: menu_login_def)
  from login_loop_stalled [OF this] show False
    using assms by (simp add: stalled_def set_screen_update_def)
qed

section \<open>Interrupted in a chat\<close>

text \<open>After the signal handler the thread is joined and the graphic stopped.\<close>

definition stopped :: "'w client_graphic \<Rightarrow> bool" where
  "stopped g \<longleftrightarrow> notifications_tid g = Joined \<and> \<not> continue_graphic g"

lemma stop_client_stopped:
  "stop_client R g = Some g' \<Longrightarrow> notifications_tid g \<noteq> No_thread \<Longrightarrow> stopped g' \<and> stdin g' = []"
  by (auto simp: stop_client_def join_notifications_def stopped_def simp del: fetch_turns.simps
      elim!: bind_SomeE split: if_split_asm)

lemma fetch_turns_thread:
  "fetch_turns R n g = Some g' \<Longrightarrow> notifications_tid g \<noteq> No_thread \<Longrightarrow> notifications_tid g' \<noteq> No_thread"
proof (induction n arbitrary: g)
  case (Suc n)
  have step: "notifications_tid g1 \<noteq> No_thread" if "notifications_fetch R g = Some g1" for g1
    using that Suc.prems(2)
    by (auto simp: notifications_fetch_def with_client_def elim!: bind_SomeE split: if_split_asm)
  show ?case
    using Suc.prems by (auto elim!: bind_SomeE split: if_split_asm dest!: Suc.IH dest: step)
qed simp

lemma await_input_thread:
  "await_input E R g = Some g' \<Longrightarrow> notifications_tid g \<noteq> No_thread \<Longrightarrow> notifications_tid g' \<noteq> No_thread"
  unfolding await_input_def by (drule fetch_turns_thread) simp_all

lemma get_user_input_interrupted:
  assumes "get_user_input E R g = Some (r, g')" "stdin g = Interrupt # ks" "notifications_tid g \<noteq> No_thread"
  shows "r = -1 \<and> stopped g'"
proof -
  obtain g1 ok b g2 where t: "await_input E R g = Some g1" "scan_loop R 99 g1 = Some (ok, b, g2)"
    "r = (if ok then int (length b) else -1)"
    "g' = g2\<lparr>input_buffer := overwrite (if ok then b @ [CHR 0x00] else b) (input_buffer g)\<rparr>"
    using assms(1) by (auto simp: get_user_input_def scan_input_string_def elim!: bind_SomeE split: if_split_asm)
  have "stdin g1 = Interrupt # ks" "notifications_tid g1 \<noteq> No_thread"
    using await_input_keeps [OF t(1)] await_input_thread [OF t(1) assms(3)] assms(2) by auto
  with t(2) have "\<not> ok \<and> stopped g2"
    by (auto simp: eval_nat_numeral getchar_def is_EOF_def newline_def elim!: bind_SomeE dest!: stop_client_stopped)
  with t(3,4) show ?thesis by (auto simp: stopped_def)
qed

lemma screen_update_input:
  "screen_update E g = Some g' \<Longrightarrow> stdin g' = stdin g \<and> notifications_tid g' = notifications_tid g \<and>
    continue_graphic g' = continue_graphic g"
  by (drule screen_update_fields) (auto simp: print_def)

lemma menu_chat_interrupted:
  assumes "menu_chat E R i g = Some g'" "stdin g = Interrupt # ks" "notifications_tid g \<noteq> No_thread"
  shows "stopped g'"
proof -
  obtain g0 where "chat_loop E R i (stack_junk E) g0 = Some g'" "stdin g0 = Interrupt # ks" "notifications_tid g0 \<noteq> No_thread"
    using assms by (auto simp: menu_chat_def with_client_def set_screen_update_def elim!: bind_SomeE split: prod.split_asm)
  moreover from this obtain g1 r g2 where "screen_update E (g0\<lparr>screen_updateable := True\<rparr>) = Some g1"
    "get_user_input E R g1 = Some (r, g2)" "r < 0 \<longrightarrow> g' = g2"
    by (auto simp: chat_loop.simps [of E R i "stack_junk E" g0] elim!: bind_SomeE split: if_split_asm)
  ultimately show ?thesis
    using get_user_input_interrupted [of E R g1 r g2 ks] screen_update_input [of E "g0\<lparr>screen_updateable := True\<rparr>" g1] by simp
qed

text \<open>The line that opens a chat.\<close>

lemma digits_no_newline: "list_all is_digit s \<Longrightarrow> newline \<notin> set s \<and> CHR 0xFF \<notin> set s \<and> CHR 0x00 \<notin> set s"
  by (auto simp: list_all_iff is_digit_def newline_def)

lemma get_user_input_line:
  assumes "get_user_input E R g = Some (r, g')" "stdin g = map Key (s @ [newline]) @ ks" "length s < 99"
    and "newline \<notin> set s" "CHR 0xFF \<notin> set s"
  obtains g1 where "await_input E R g = Some g1" "r = int (length s)"
    "g' = g1\<lparr>stdin := ks, input_buffer := s @ [CHR 0x00] @ drop (Suc (length s)) (input_buffer g)\<rparr>"
proof -
  obtain g1 where g1: "await_input E R g = Some g1"
    using assms(1) by (auto simp: get_user_input_def scan_input_string_def elim!: bind_SomeE)
  show ?thesis
    using assms(1,3) scan_line [OF g1 assms(2,4,5), of 100 "input_buffer g"]
    by (intro that [OF g1]) (auto simp: get_user_input_def overwrite_def)
qed

lemma cstring_terminated: "CHR 0x00 \<notin> set s \<Longrightarrow> cstring (s @ CHR 0x00 # b) = s"
  by (induction s) (auto simp: cstring_def)

text \<open>Opening a chat, and interrupting the program there.\<close>

theorem interrupted_chat_joins_twice:
  assumes "console_ok g" "notifications_tid g \<noteq> No_thread"
    and "stdin g = map Key (s @ [newline]) @ Interrupt # ks" "list_all is_digit s" "s \<noteq> []" "length s < 99"
    and "atoi s \<in> known_chats g"
  shows "menu_main E R e g = None"
proof (rule ccontr)
  let ?g0 = "set_screen_update Screen_main None g"
  assume "menu_main E R e g \<noteq> None"
  then obtain left e' g' where l: "main_loop E R e ?g0 = Some (left, e', g')"
    and j: "left \<longrightarrow> join_notifications R (g'\<lparr>continue_fetching := False\<rparr>) \<noteq> None"
    by (auto simp: menu_main_def elim!: bind_SomeE split: if_split_asm)
  obtain g1 r g2 where t: "screen_update E (?g0\<lparr>screen_updateable := True\<rparr>) = Some g1" "get_user_input E R g1 = Some (r, g2)"
    and rest: "(if r < 0 then Some (False, e, g2) else do {
       (exit, e, g) \<leftarrow> main_input E R e r g2; if exit then Some (True, e, g) else main_loop E R e g }) = Some (left, e', g')"
    using l by (auto simp: main_loop.simps [of E R e ?g0] elim!: bind_SomeE)
  have g1: "stdin g1 = map Key (s @ [newline]) @ Interrupt # ks" "notifications_tid g1 \<noteq> No_thread"
    using screen_update_input [OF t(1)] assms(2,3) by (simp_all add: set_screen_update_def)
  from get_user_input_line [OF t(2) g1(1) assms(6)] digits_no_newline [OF assms(4)]
  obtain h where h: "await_input E R g1 = Some h" "r = int (length s)"
    "g2 = h\<lparr>stdin := Interrupt # ks, input_buffer := s @ [CHR 0x00] @ drop (Suc (length s)) (input_buffer g1)\<rparr>"
    by blast
  have tid: "notifications_tid g2 \<noteq> No_thread" using await_input_thread [OF h(1) g1(2)] by (simp add: h(3))
  have str: "cstring (input_buffer g2) = s"
    using digits_no_newline [OF assms(4)] by (simp add: h(3) cstring_terminated)
  have "orderly g g2" using screen_update_orderly [OF t(1)] get_user_input_orderly [OF t(2)] by (auto intro: orderly_trans)
  then have known: "atoi s \<in> known_chats g2" using assms(1,7) unfolding orderly_def by blast
  then obtain cs where cs: "c_chats (graphic_client g2) = Some cs" "cha_find_chat cs (atoi s) \<noteq> None"
    by (auto simp: known_ids_def known_chat split: option.split_asm)
  have first: "at (input_buffer g2) 0 \<noteq> COMMAND_CHAR"
    using assms(4,5) by (cases s) (auto simp: h(3) at_def COMMAND_CHAR_def is_digit_def)
  obtain exit g3 where m: "main_input E R e r g2 = Some (exit, e, g3)"
    and "exit \<longleftrightarrow> \<not> continue_graphic g3" "\<exists>g4. menu_chat E R (atoi s) g2 = Some g4 \<and> g3 = set_screen_update Screen_main None g4"
    using rest assms(4,5) cs first
    by (auto simp: h(2) main_input_def open_chat_def str is_numeric_def psd_chat_exists_def elim!: bind_SomeE)
  moreover have "stdin g2 = Interrupt # ks" by (simp add: h(3))
  ultimately have "exit" "stopped g3"
    using menu_chat_interrupted [OF _ _ tid] by (auto simp: stopped_def set_screen_update_def)
  then have "left" "g' = g3" using rest m h(2) by auto
  then show False using j \<open>stopped g3\<close> by (auto simp: join_notifications_def stopped_def)
qed

section \<open>After a logout\<close>

lemma mem_more_net:
  fixes s s' :: "('w, 'z) site_scheme"
  assumes "mem.more s' = mem.more s"
  shows "net s' = net s"
  using assms by (cases s' rule: site.cases_scheme; cases s rule: site.cases_scheme) simp

text \<open>C27. Logging out frees the login data in \<open>network\<close> but keeps the pointers: neither a second logout nor
  \<open>psd_free_client\<close>, which \<open>main\<close> calls at its end, gets through.\<close>

theorem logout_then_free:
  assumes "psd_logout c = Some c'" "net c = Some n" "login_name n \<noteq> Null"
  shows "psd_free_client c' = None \<and> psd_logout c' = None"
proof -
  obtain p where p: "free_string (login_name n) = Some p" "p = Dangling"
    using assms by (cases "login_name n") (auto simp: psd_logout_def net_logout_def elim!: bind_SomeE)
  obtain c0 fs s1 rs s2 cs s3 where c0: "net_logout c = Some c0"
    and new: "fri_new MAX_FRIENDS (c0\<lparr>user_name := Null, user_pass := Null, user_information := Null,
        last_connection := 0, last_notif_timestamp := 0\<rparr>) = (fs, s1)"
      "req_new MAX_FRIEND_REQUESTS s1 = (rs, s2)" "cha_new MAX_CHATS s2 = (cs, s3)"
    and c': "c' = s3\<lparr>c_friends := fs, c_requests := rs, c_chats := cs\<rparr>"
    using assms(1) by (auto simp: psd_logout_def Let_def elim!: bind_SomeE split: prod.split_asm)
  have "\<exists>m. net c0 = Some m \<and> login_name m = Dangling"
    using c0 assms(2) p by (auto simp: net_logout_def elim!: bind_SomeE)
  moreover have "net c' = net c0"
    using mem_more_net [OF new_more [OF new]] by (simp add: c')
  ultimately obtain m where m: "net c' = Some m" "login_name m = Dangling" by auto
  then show ?thesis by (auto simp: psd_free_client_def psd_logout_def net_free_def net_logout_def elim!: bind_SomeE split: Option.bind_splits)
qed

section \<open>The screen of a chat\<close>

text \<open>C21. It shows every message once, in the order of the list, with a mark on those that everybody has read,
  and then the chat has no unread messages and its read time is that of the last update; the other chats
  are as before.\<close>

theorem chat_screen_marks_read:
  assumes "avail c (brk c)" "Chats_mutex \<notin> held c" "c_chats c = Some cs" "chats_wf cs"
    and "cha_find_chat cs (data_chat_id d) = Some chat" "entries (cha_messages chat) \<noteq> []"
  shows "\<exists>c' cs'. screen_chat_show E d c = Some (chat_heading @
      concat (map (show_message E (cha_all_read_timestamp chat)) (entries (cha_messages chat))) @ chat_footing d, c') \<and>
    c' = c\<lparr>brk := Suc (brk c), c_chats := Some cs'\<rparr> \<and>
    (\<forall>j. cha_find_chat cs' j = (if j = data_chat_id d then
       Some (chat\<lparr>cha_unread := 0, cha_read_timestamp := stamp (cha_messages chat)\<rparr>) else cha_find_chat cs j))"
proof -
  let ?chat = "cha_clear_unread chat"
  let ?cs = "put_chat (data_chat_id d) ?chat cs"
  let ?s = "concat (map (show_message E (cha_all_read_timestamp chat)) (entries (cha_messages chat)))"
  have id: "cha_id chat = data_chat_id d" using find_chat_set [OF assms(5)] by simp
  have it: "cl_iterator (cha_messages chat) = Some 0" using assms(6) by (simp add: cl_iterator_def)
  have "those (map (\<lambda>x. Some (show_message E (cha_all_read_timestamp chat) x)) xs) =
    Some (map (show_message E (cha_all_read_timestamp chat)) xs)" for xs by (induction xs) simp_all
  then have shown: "iterate (\<lambda>x. Some (show_message E (cha_all_read_timestamp chat) x)) (cha_messages chat) (Some 0) = Some ?s"
    using iterate_all [of "\<lambda>x. Some (show_message E (cha_all_read_timestamp chat) x)" "cha_messages chat"] it by simp
  have all: "cha_all_read_timestamp ?chat = cha_all_read_timestamp chat" by (simp add: cha_clear_unread_def)
  have "screen_chat_show E d c = Some (chat_heading @ ?s @ chat_footing d, c\<lparr>brk := Suc (brk c), c_chats := Some ?cs\<rparr>)"
    using assms(1-3,5) it shown
    by (simp add: screen_chat_show_def psd_begin_mes_iteration_def malloc_def lock_def unlock_def
        psd_mes_iterator_clear_unread_def psd_mes_iterator_double_check_time_def psd_end_mes_iteration_def
        clear_unread_ok id all)
  moreover have "cha_find_chat ?cs j = (if j = data_chat_id d then Some ?chat else cha_find_chat cs j)" for j
    using find_put_chat [OF assms(5), of ?chat j] id by (simp add: clear_unread_ok)
  ultimately show ?thesis by (intro exI conjI) (assumption | auto simp: cha_clear_unread_def mes_get_timestamp_def)+
qed

section \<open>The invariant\<close>

lemma fetch_turns_ok: "fetch_turns R n g = Some g' \<Longrightarrow> console_ok g \<Longrightarrow> console_ok g'"
  using fetch_turns_orderly unfolding orderly_def by blast

text \<open>C9. Under the assumption of this model that the notifications thread makes its turns as a whole, any number
  of them whenever the main thread waits for input or for the thread: whatever is typed, whatever the server
  answers and the disk and the allocator do, when the user interface ends the main thread has given back every
  mutex of the client, the lists are well-formed, and the thread does not wait for a mutex.  At the end of the
  input \<open>menu_main\<close> returns without joining the thread; the same then holds after any more turns that it
  makes.  What holds in the middle of a turn, when the thread may have a mutex itself, is not stated.\<close>

theorem console_in_order:
  assumes "client_run R c" "held c = {}" "graphic_client_run E R keys c = Some g"
  shows "lists_ok (graphic_client g) \<and> held (graphic_client g) = {} \<and> notifications_tid g \<noteq> Blocked \<and>
    (\<forall>n g'. fetch_turns R n g = Some g' \<longrightarrow>
       lists_ok (graphic_client g') \<and> held (graphic_client g') = {} \<and> notifications_tid g' \<noteq> Blocked)"
proof -
  have "console_ok g" using graphic_client_run_ok [OF assms(3)] client_run_ok [OF assms(1)] assms(2) by simp
  then show ?thesis using fetch_turns_ok unfolding console_ok_def by blast
qed

section \<open>Samples\<close>

definition sample_terminal :: terminal where
  "sample_terminal = \<lparr>turns = (\<lambda>_. 1), no_thread = (\<lambda>_. False), stack_junk = [], flag_junk = False, heap_junk = [],
     time_text = (\<lambda>_. ''12:00:00'')\<rparr>"

definition typed :: "string list \<Rightarrow> key list" where
  "typed ls = concat (map (\<lambda>l. map Key (line l)) ls)"

definition sample_graphic :: "fetcher \<Rightarrow> key list \<Rightarrow> 'w client \<Rightarrow> 'w client_graphic" where
  "sample_graphic t keys c = \<lparr>graphic_client = c, menu_update_screen = No_screen, screen_data = None,
     continue_fetching = False, continue_graphic = True, screen_updateable = False, notifications_tid = t,
     input_buffer = [], stdin = keys, stdout = [], reads = 0\<rparr>"

lemma scan_input_line_witness:
  "scan_input_string sample_terminal sample_remote 5 [] (sample_graphic No_thread (typed [''abcdefg'', ''0'']) kim_client) =
    Some (4, ''abcd'' @ [CHR 0x00], sample_graphic No_thread (typed [''efg'', ''0'']) kim_client\<lparr>reads := 1\<rparr>)"
  using scan_input_line [of sample_terminal sample_remote "sample_graphic No_thread (typed [''abcdefg'', ''0'']) kim_client"
      "sample_graphic No_thread (typed [''abcdefg'', ''0'']) kim_client\<lparr>reads := 1\<rparr>" "''abcdefg''" "typed [''0'']" 5 "[]"]
  by (simp add: sample_terminal_def sample_graphic_def typed_def line_def newline_def await_input_def overwrite_def)

lemma login_menu_never_ends_witness:
  "menu_login sample_terminal sample_remote (sample_graphic No_thread [] kim_client) = None"
  by (rule login_menu_never_ends) (simp_all add: sample_graphic_def at_def)

lemma logout_then_free_witness:
  "\<exists>c. psd_logout kim_client = Some c \<and> psd_free_client c = None \<and> psd_logout c = None"
proof -
  have "\<exists>c. psd_logout kim_client = Some c"
    by (simp add: psd_logout_def net_logout_def kim_client_def new_client_def blank_client_def fri_new_def req_new_def
        cha_new_def cl_new_def malloc_def empty_list_def Let_def)
  then obtain c where c: "psd_logout kim_client = Some c" ..
  have "net kim_client = Some \<lparr>logged = True, login_name = Live ''kim'', login_password = Live ''k'', serverURL = Null\<rparr>"
    by (simp add: kim_client_def)
  with logout_then_free [OF c this] c show ?thesis by simp
qed

definition ana_says_m :: message_info where
  "ana_says_m = \<lparr>mes_sender = Some ''ana'', mes_text = ''m'', has_attach = False, mes_attach_path = None,
     mes_message_timestamp = 9\<rparr>"

definition chatting_client :: "nat client" where
  "chatting_client = kim_client\<lparr>c_chats := Some (empty_list\<lparr>entries := [kim_chat\<lparr>cha_unread := 1,
     cha_messages := empty_list\<lparr>entries := [ana_says_m], stamp := 9\<rparr>\<rparr>]\<rparr>)\<rparr>"

lemma chatting_fields: "held chatting_client = {}" "c_chats chatting_client = Some (empty_list\<lparr>entries := [kim_chat\<lparr>cha_unread := 1,
    cha_messages := empty_list\<lparr>entries := [ana_says_m], stamp := 9\<rparr>\<rparr>]\<rparr>)"
  "avail chatting_client n" "c_friends chatting_client = Some empty_list" "c_requests chatting_client = Some empty_list"
  by (simp_all add: chatting_client_def kim_client_def new_client_def blank_client_def)

lemma chatting_chats: "chats_wf (empty_list\<lparr>entries := [kim_chat\<lparr>cha_unread := 1,
    cha_messages := empty_list\<lparr>entries := [ana_says_m], stamp := 9\<rparr>\<rparr>]\<rparr>)"
  by (simp add: chats_wf_def chat_wf_def keyed_wf_def kim_chat_def empty_list_def)

lemma chatting_ok: "lists_ok chatting_client"
  using chatting_chats by (simp add: lists_ok_def chatting_fields) (simp add: keyed_wf_def empty_list_def)

lemma interrupted_chat_joins_twice_witness:
  "menu_main sample_terminal sample_remote False (sample_graphic Fetching (typed [''7''] @ [Interrupt]) chatting_client) = None"
proof -
  have "atoi ''7'' = 7" by (simp add: atoi_def atoi_int_def is_space_def is_digit_def)
  then show ?thesis
    by (intro interrupted_chat_joins_twice [where s = "''7''" and ks = "[]"])
      (simp_all add: sample_graphic_def typed_def line_def chatting_ok chatting_fields console_ok_def kim_chat_def is_digit_def)
qed

lemma chat_screen_marks_read_witness:
  "\<exists>c' cs chat. screen_chat_show sample_terminal \<lparr>data_chat_id = 7, data_has_attach = False, data_attach_path = []\<rparr> chatting_client =
      Some (chat_heading @ show_message sample_terminal 5 ana_says_m @ menu_footer_show, c') \<and>
    c_chats c' = Some cs \<and> cha_find_chat cs 7 = Some chat \<and> cha_unread chat = 0 \<and> cha_read_timestamp chat = 9"
proof -
  let ?d = "\<lparr>data_chat_id = 7, data_has_attach = False, data_attach_path = []\<rparr>"
  note m = chat_screen_marks_read [of chatting_client _ ?d _ sample_terminal, OF chatting_fields(3) _ chatting_fields(2) chatting_chats]
  show ?thesis
    using m by (force simp: chatting_fields cha_find_chat_def cl_find_def chat_id_comp_def kim_chat_def empty_list_def chat_footing_def)
qed

text \<open>A session: kim, who has logged in already, tries to register and leaves.\<close>

lemma bind_lazy: "m = m' \<Longrightarrow> Option.bind m f = Option.bind m' f" by simp
lemma map_option_lazy: "m = m' \<Longrightarrow> map_option f m = map_option f m'" by simp

lemmas lazy = bind_lazy map_option_lazy prod.case_cong_weak option.case_cong_weak let_weak_cong if_weak_cong

lemma scan_loop_numeral: "scan_loop R (numeral k) g = do {
     (aux_char, g) \<leftarrow> getchar R g;
     if aux_char = Some newline then Some (True, [], g)
     else if is_EOF aux_char then Some (False, [], g)
     else do {
       (ok, s, g) \<leftarrow> scan_loop R (pred_numeral k) g;
       Some (ok, the aux_char # s, g)
     }
   }"
  by (simp add: numeral_eq_Suc)

lemmas console_eval = scan_loop_numeral sample_terminal_def typed_def line_def newline_def getchar_def is_EOF_def
  overwrite_def cstring_def await_input_def at_def scan_input_string_def get_user_input_def scan_local_def with_client_def
  wait_user_def say_and_wait_def print_def set_screen_update_def screen_update_def login_command_def Let_def

lemma register_refused: "psd_user_register sample_remote n p i kim_client = Some (-1, kim_client\<lparr>outside := 2, brk := 18\<rparr>)"
  by (simp add: psd_user_register_def with_network_def lock_def unlock_def net_user_register_def soap_call_def malloc_def
      silent_def sample_remote_def new_client_def blank_client_def kim_client_def code_of_def)

lemma session_ends:
  "\<exists>g. graphic_client_run sample_terminal sample_remote (typed [''2'', ''kim'', ''k'', ''i'', '''', ''0'']) kim_client = Some g"
  unfolding graphic_client_run_def menu_login_def
  by (simp cong: lazy add: login_loop.simps console_eval user_register_def register_refused)

lemma console_in_order_witness:
  "\<exists>g. graphic_client_run sample_terminal sample_remote (typed [''2'', ''kim'', ''k'', ''i'', '''', ''0'']) kim_client = Some g \<and>
    lists_ok (graphic_client g) \<and> held (graphic_client g) = {}"
proof -
  have "held kim_client = {}" by (simp add: kim_client_def new_client_def blank_client_def)
  with session_ends console_in_order [OF kim_run this] show ?thesis by blast
qed

end
