(* ===== verification/Console_Login.thy ===== *)
theory Console_Login
  imports Console_Specs
begin

text \<open>
  The login menu for a user who types complete lines: what each input does before the notifications
  thread exists.
\<close>

section \<open>Lines typed before the login\<close>

text \<open>There is no notifications thread yet, so nothing happens while the program waits for input.\<close>

definition typable :: "nat \<Rightarrow> string \<Rightarrow> bool" where
  "typable n s \<longleftrightarrow> length s < n - 1 \<and> newline \<notin> set s \<and> CHR 0xFF \<notin> set s \<and> CHR 0x00 \<notin> set s"

definition alone :: "'w client \<Rightarrow> key list \<Rightarrow> 'w client_graphic \<Rightarrow> bool" where
  "alone c ks g \<longleftrightarrow> menu_update_screen g = Screen_login \<and> notifications_tid g = No_thread \<and> continue_graphic g \<and> graphic_client g = c \<and> stdin g = ks"

lemma alone_fields [simp]:
  "alone c ks (print s g) = alone c ks g"
  "alone c ks (g\<lparr>screen_updateable := b\<rparr>) = alone c ks g"
  by (simp_all add: alone_def print_def)

lemma await_input_alone: "alone c ks g \<Longrightarrow> await_input E R g = Some (g\<lparr>reads := Suc (reads g)\<rparr>)"
  unfolding await_input_def by (cases "turns E (reads g)") (simp_all add: alone_def)

lemma scan_alone:
  assumes "alone c (map Key (line s) @ ks) g" "typable n s"
  shows "scan_input_string E R n b g = Some (int (length s), s @ CHR 0x00 # drop (Suc (length s)) b,
    g\<lparr>reads := Suc (reads g), stdin := ks\<rparr>)"
proof -
  have s: "length s < n - 1" "newline \<notin> set s" "CHR 0xFF \<notin> set s" using assms(2) by (simp_all add: typable_def)
  have "stdin g = map Key (s @ [newline]) @ ks" using assms(1) by (simp add: line_def alone_def)
  from scan_line [OF await_input_alone [OF assms(1)] this s(2,3)] s(1) show ?thesis by (simp add: overwrite_def)
qed

lemma ask_alone:
  assumes "alone c (map Key (line s) @ ks) g" "typable n s"
  obtains g' where "scan_local E R n (print p g) = Some (int (length s), s, g')" "alone c ks g'"
proof -
  let ?g = "(print p g)\<lparr>reads := Suc (reads g), stdin := ks\<rparr>"
  have g: "alone c (map Key (line s) @ ks) (print p g)" using assms(1) by simp
  have "scan_local E R n (print p g) = Some (int (length s), s, ?g)"
    using scan_alone [OF g assms(2)] assms(2)
    by (simp add: scan_local_def cstring_terminated typable_def) (simp add: print_def)
  moreover have "alone c ks ?g" using g by (simp add: alone_def)
  ultimately show thesis by (rule that)
qed

lemma get_user_input_alone:
  assumes "alone c (map Key (line s) @ ks) g" "typable 100 s"
  shows "\<exists>g'. get_user_input E R g = Some (int (length s), g') \<and> alone c ks g' \<and> at (input_buffer g') 0 = at (s @ [CHR 0x00]) 0"
  using scan_alone [OF assms] assms by (cases s) (simp_all add: get_user_input_def alone_def at_def)

lemma say_and_wait_alone:
  "alone c (Key newline # ks) g \<Longrightarrow> \<exists>g'. say_and_wait E R s g = Some g' \<and> alone c ks g'"
  using await_input_alone [of c "Key newline # ks" "print ([newline] @ '' Press ENTER to continue...'') (print (line s) g)"]
  by (simp add: say_and_wait_def wait_user_def) (simp add: alone_def print_def)

section \<open>Registration at the keyboard\<close>

lemma with_client_alone:
  "alone c ks g \<Longrightarrow> f c = Some (r, c') \<Longrightarrow> \<exists>g'. with_client f g = Some (r, g') \<and> alone c' ks g'"
  by (simp add: with_client_def alone_def)

lemma user_register_typed:
  assumes "alone c (map Key (line name) @ map Key (line pass) @ map Key (line info) @ Key newline # ks) g"
    and "typable 20 name" "typable 20 pass" "typable 100 info" "psd_user_register R name pass info c = Some (r, c')"
  shows "\<exists>g'. user_register E R g = Some g' \<and> alone c' ks g'"
proof -
  obtain g1 where g1: "scan_local E R 20 (print ([newline] @ '' User name: '') g) = Some (int (length name), name, g1)"
    "alone c (map Key (line pass) @ map Key (line info) @ Key newline # ks) g1"
    by (rule ask_alone [OF assms(1,2)])
  obtain g2 where g2: "scan_local E R 20 (print '' User password: '' g1) = Some (int (length pass), pass, g2)"
    "alone c (map Key (line info) @ Key newline # ks) g2"
    by (rule ask_alone [OF g1(2) assms(3)])
  obtain g3 where g3: "scan_local E R 100 (print '' Describe yourself: '' g2) = Some (int (length info), info, g3)"
    "alone c (Key newline # ks) g3"
    by (rule ask_alone [OF g2(2) assms(4)])
  obtain g4 where g4: "with_client (psd_user_register R name pass info) g3 = Some (r, g4)" "alone c' (Key newline # ks) g4"
    using with_client_alone [where f = "psd_user_register R name pass info", OF g3(2) assms(5)] by (elim exE conjE)
  have "user_register E R g = say_and_wait E R (if r \<noteq> 0
      then '' Register failed, maybe the name is already registered or the conection is failing''
      else '' User '' @ [CHR 0x27] @ name @ [CHR 0x27] @ '' correctly registered'') g4"
    by (simp add: user_register_def g1(1) g2(1) g3(1) g4(1) del: append.simps append_Cons)
  with say_and_wait_alone [OF g4(2)] show ?thesis by simp
qed

text \<open>One round of the login menu.\<close>

lemma login_round:
  assumes "alone c (map Key (line s) @ ks) g" "typable 100 s"
  obtains g' where "alone c ks g'" "at (input_buffer g') 0 = at (s @ [CHR 0x00]) 0"
    "login_loop E R g = do {
      (exit, g) \<leftarrow> login_command E R g';
      if continue_graphic g \<and> \<not> exit then login_loop E R g else Some g
    }"
proof -
  let ?g = "print screen_login_show (g\<lparr>screen_updateable := True\<rparr>)"
  have "with_client (\<lambda>c. Some (screen_login_show, c)) (g\<lparr>screen_updateable := True\<rparr>) = Some (screen_login_show, g\<lparr>screen_updateable := True\<rparr>)"
    by (simp add: with_client_def)
  then have show_menu: "screen_update E (g\<lparr>screen_updateable := True\<rparr>) = Some ?g"
    using assms(1) by (simp add: screen_update_def alone_def)
  have "alone c (map Key (line s) @ ks) ?g" using assms(1) by simp
  from get_user_input_alone [OF this assms(2)] obtain g' where
    "get_user_input E R ?g = Some (int (length s), g')" "alone c ks g'" "at (input_buffer g') 0 = at (s @ [CHR 0x00]) 0"
    by blast
  with show_menu show thesis
    by (intro that [of "g'\<lparr>screen_updateable := False\<rparr>"]) (simp_all add: login_loop.simps [of E R g])
qed

end
