(* ===== verification/Client_Server.thy ===== *)
theory Client_Server
  imports Client_Turns Reading_Specs Account_Specs Message_Times
begin

text \<open>
  The client library and the server program together: the stubs of the client are instantiated by
  the handlers of the server, without a network that loses or changes anything.  A handler gets fresh
  structures for its output; the client sees the reply only with \<open>SOAP_OK\<close>.
\<close>

section \<open>The server behind the stubs\<close>

definition reply_of :: "'a option handled \<Rightarrow> ('a option \<times> world) option" where
  "reply_of res = map_option (\<lambda>(r, out, w). (if r = SOAP_OK then out else None, w)) res"

definition ack_of :: "'a handled \<Rightarrow> (unit option \<times> world) option" where
  "ack_of res = map_option (\<lambda>(r, _, w). (if r = SOAP_OK then Some () else None, w)) res"

definition no_user :: user_info where "no_user = \<lparr>ui_name = [], ui_information = []\<rparr>"
definition no_users :: user_list where "no_users = \<lparr>ul_user = [], ul_last_timestamp = 0\<rparr>"
definition no_chats :: chat_list where "no_chats = \<lparr>ch_chat_info = [], ch_last_timestamp = 0\<rparr>"

definition no_messages :: message_list where
  "no_messages = \<lparr>xl_messages = [], xl_read_timestamp = 0, xl_last_timestamp = 0\<rparr>"

definition no_notifications :: notifications where
  "no_notifications = \<lparr>no_friend_request = [], no_new_friends = no_users, no_chats_with_messages = [],
     no_chats_read_times = [], no_chat_members = [], no_rem_chat_members = [], no_chat_admins = [], no_last_timestamp = 0\<rparr>"

definition no_data :: client_data_info where
  "no_data = \<lparr>cd_chats = no_chats, cd_friends = no_users, cd_friend_requests = [], cd_timestamp = 0\<rparr>"

definition server_remote :: "persistence \<Rightarrow> world remote" where
  "server_remote srv =
     \<lparr>soap_call_user_register = (\<lambda>url u w. ack_of (psdims__user_register srv (Some u) (Some 0) w)),
      soap_call_user_unregister = (\<lambda>url l w. ack_of (psdims__user_unregister srv (Some l) (Some 0) w)),
      soap_call_get_user = (\<lambda>url l w. reply_of (psdims__get_user srv (Some l) (Some no_user) w)),
      soap_call_get_friends = (\<lambda>t url l w. reply_of (psdims__get_friends srv (Some l) t (Some no_users) w)),
      soap_call_get_friend_info = (\<lambda>n url l w. reply_of (psdims__get_friend_info srv (Some l) (Some n) (Some no_user) w)),
      soap_call_get_chats = (\<lambda>t url l w. reply_of (psdims__get_chats srv (Some l) t (Some no_chats) w)),
      soap_call_get_chat_messages = (\<lambda>c t url l w. reply_of (psdims__get_chat_messages srv (Some l) c t (Some no_messages) w)),
      soap_call_get_attachment = (\<lambda>c t url l w. reply_of (psdims__get_attachment srv (Some l) c t (Some []) w)),
      soap_call_get_pending_notifications = (\<lambda>t sync url l w.
        reply_of (psdims__get_pending_notifications srv (Some l) t (Some sync) (Some no_notifications) w)),
      soap_call_get_all_data = (\<lambda>url l w. reply_of (psdims__get_all_data srv (Some l) (Some no_data) w)),
      soap_call_create_chat = (\<lambda>n url l w. reply_of (psdims__create_chat srv (Some l) (Some n) (Some 0) w)),
      soap_call_add_member = (\<lambda>n c url l w. ack_of (psdims__add_member srv (Some l) (Some n) c (Some 0) w)),
      soap_call_remove_member = (\<lambda>n c url l w. ack_of (psdims__remove_member srv (Some l) (Some n) c (Some 0) w)),
      soap_call_quit_from_chat = (\<lambda>c url l w. ack_of (psdims__quit_from_chat srv (Some l) c (Some 0) w)),
      soap_call_send_message = (\<lambda>c m url l w. reply_of (psdims__send_message srv (Some l) c (Some m) (Some 0) w)),
      soap_call_send_attachment = (\<lambda>c t f url l w. ack_of (psdims__send_attachment srv (Some l) c t (Some f) (Some 0) w)),
      soap_call_send_friend_request = (\<lambda>n url l w. reply_of (psdims__send_friend_request srv (Some l) (Some n) (Some 0) w)),
      soap_call_accept_request = (\<lambda>n url l w. reply_of (psdims__accept_request srv (Some l) (Some n) (Some 0) w)),
      soap_call_decline_request = (\<lambda>n url l w. reply_of (psdims__decline_request srv (Some l) (Some n) (Some 0) w)),
      wire_int = (\<lambda>t. case t of None \<Rightarrow> 0 | Some t \<Rightarrow> t),
      wire_members = (\<lambda>ms. case ms of None \<Rightarrow> [] | Some ms \<Rightarrow> ms), disk_fails = (\<lambda>_. False)\<rparr>"

text \<open>The fields of \<open>mem\<close> and \<open>outside\<close>: for an outside that is itself a record over \<open>mem\<close>, these
  equations are needed explicitly.\<close>

lemma outside_mem [simp]:
  "avail (s\<lparr>outside := w\<rparr>) = avail s" "brk (s\<lparr>outside := w\<rparr>) = brk s" "outside (s\<lparr>brk := b\<rparr>) = outside s"
  by simp_all

lemma brk_outside [simp]: "s\<lparr>outside := w, brk := b\<rparr> = s\<lparr>brk := b, outside := w\<rparr>"
  by simp

section \<open>Registration and login\<close>

lemma client_registers:
  fixes s :: "world client"
  assumes "online d (outside s)" "clean name" "clean pass" "clean info"
    and "strlen name \<le> 25" "strlen pass \<le> 25" "strlen info \<le> 100"
    and "named d name (db (outside s)) = []" "\<not> exhausted (user_ids (db (outside s)))"
    and "held s = {}" "net s = Some n" "deref (serverURL n) = Some url"
  obtains k w where "psd_user_register (server_remote srv) name pass info s = Some (0, s\<lparr>outside := w\<rparr>)" "online d w"
    "db w = (db (outside s))\<lparr>t_users := t_users (db (outside s)) @
      [\<lparr>u_id = k, u_valid = Some 1, u_name = name, u_pass = pass, u_info = info\<rparr>]\<rparr>"
proof -
  obtain k w where w: "psdims__user_register srv
      (Some \<lparr>ri_name = Some name, ri_password = Some pass, ri_information = Some info\<rparr>) (Some 0) (outside s) =
        Some (SOAP_OK, Some 1, w)" "online d w"
    "db w = (db (outside s))\<lparr>t_users := t_users (db (outside s)) @
      [\<lparr>u_id = k, u_valid = Some 1, u_name = name, u_pass = pass, u_info = info\<rparr>]\<rparr>"
    using register_online [OF assms(1-9)] by blast
  have "psd_user_register (server_remote srv) name pass info s = Some (0, s\<lparr>outside := w\<rparr>)"
    using assms(10-12) w(1)
    by (simp add: psd_user_register_def with_network_def lock_def unlock_def net_user_register_def soap_call_def
        server_remote_def ack_of_def code_of_def)
  with w show thesis by (intro that)
qed

text \<open>C23. A user who registers through the client and then logs in is logged in and has the information
  given at the registration; the lists of the client are those of before.\<close>

theorem client_register_login:
  fixes s :: "world client"
  assumes "online d (outside s)" "clean name" "clean pass" "clean info"
    and "strlen name \<le> 25" "strlen pass \<le> 25" "strlen info \<le> 100"
    and "named d name (db (outside s)) = []" "\<not> exhausted (user_ids (db (outside s)))"
    and "plenty s" "held s = {}" "net s = Some n" "deref (serverURL n) = Some url"
  shows "\<exists>s1 s2. psd_user_register (server_remote srv) name pass info s = Some (0, s1) \<and>
    psd_login (server_remote srv) name pass s1 = Some (0, s2) \<and> held s2 = {} \<and>
    client.user_name s2 = Live name \<and> user_information s2 = Live info \<and>
    map_option logged (net s2) = Some True \<and>
    c_friends s2 = c_friends s \<and> c_requests s2 = c_requests s \<and> c_chats s2 = c_chats s"
proof -
  let ?login = "\<lparr>li_name = Some name, li_password = Some pass\<rparr>"
  obtain k w1 where reg: "psd_user_register (server_remote srv) name pass info s = Some (0, s\<lparr>outside := w1\<rparr>)"
    and w1: "online d w1" "db w1 = (db (outside s))\<lparr>t_users := t_users (db (outside s)) @
      [\<lparr>u_id = k, u_valid = Some 1, u_name = name, u_pass = pass, u_info = info\<rparr>]\<rparr>"
    by (rule client_registers [OF assms(1-9,11-13)])
  let ?u = "\<lparr>u_id = k, u_valid = Some 1, u_name = name, u_pass = pass, u_info = info\<rparr>"
  have login: "login_user d (Some ?login) (db w1) = Some ?u"
    using named_find [OF assms(8)] by (simp add: login_user_def w1(2) find_user_append valid_user_def)
  have "login_fit (Some ?login)" using assms(2,5) by (simp add: login_fit_def short_def)
  then obtain w2 where w2: "psdims__get_user srv (Some ?login) (Some no_user) w1 =
      Some (SOAP_OK, Some \<lparr>ui_name = name, ui_information = info\<rparr>, w2)"
    using get_user_online [OF w1(1) _ login, of srv no_user] by auto
  let ?s1 = "s\<lparr>outside := w1\<rparr>"
  have av: "avail s (brk s)" "avail s (Suc (brk s))" "avail s (Suc (Suc (brk s)))" "avail s (Suc (Suc (Suc (brk s))))"
    "avail s (Suc (Suc (Suc (Suc (brk s)))))" "avail s (Suc (Suc (Suc (Suc (Suc (brk s))))))"
    using assms(10) by (simp_all add: plenty_def)
  let ?n = "n\<lparr>login_name := Live name, login_password := Live pass, logged := True\<rparr>"
  let ?s2 = "?s1\<lparr>brk := 6 + brk s, outside := w2, net := Some ?n, client.user_name := Live name,
    client.user_pass := Live pass, user_information := Live info\<rparr>"
  have "psd_login (server_remote srv) name pass ?s1 = Some (0, ?s2)"
    using assms(11-13) w2
    by (simp add: psd_login_def with_network_def lock_def unlock_def net_login_def soap_call_def malloc_def av
        server_remote_def reply_of_def eval_nat_numeral)
  then show ?thesis using reg assms(11) by (intro exI conjI) (assumption | simp)+
qed

lemma client_register_login_witness:
  "\<exists>s1 s2. psd_user_register (server_remote sample_server) ''kim'' ''k'' ''i'' (new_client 11 sample_world) = Some (0, s1) \<and>
    psd_login (server_remote sample_server) ''kim'' ''k'' s1 = Some (0, s2) \<and> user_information s2 = Live ''i''"
proof -
  have s: "plenty (new_client 11 sample_world)" "held (new_client 11 sample_world) = {}"
    "net (new_client 11 sample_world) = Some \<lparr>logged = False, login_name = Null, login_password = Null, serverURL = Null\<rparr>"
    "outside (new_client 11 sample_world) = sample_world"
    by (simp_all add: new_client_def blank_client_def plenty_def)
  have "online sample_dialect (outside (new_client 11 sample_world))" using sample_online s(4) by simp
  from client_register_login [OF this, of "''kim''" "''k''" "''i''" _ None sample_server] s show ?thesis
    by (auto simp: sample_eval)
qed

section \<open>Reading a chat\<close>

lemma distinct_acc_keys: "distinct (map k (distinct_acc k seen xs)) \<and> k ` set (distinct_acc k seen xs) \<inter> set seen = {}"
proof (induction xs arbitrary: seen)
  case (Cons x xs)
  show ?case using Cons [of seen] Cons [of "k x # seen"] by auto
qed simp

lemma times_unique_inj:
  assumes "times_unique D" "x \<in> set (t_messages D)" "y \<in> set (t_messages D)" "s_chat x = s_chat y" "s_time x = s_time y"
  shows "x = y"
  using assms by (auto simp: times_unique_def distinct_map dest: inj_onD)

lemma user_by_id: "db_ok d D \<Longrightarrow> u \<in> set (t_users D) \<Longrightarrow> v \<in> set (t_users D) \<Longrightarrow> u_id u = u_id v \<Longrightarrow> u = v"
  by (auto simp: db_ok_def distinct_map dest: inj_onD)

lemma select_messages_times:
  assumes "db_ok d D" "times_unique D"
  shows "distinct (map mi_send_date (map message_row_item (select d (Sel_messages c i t) D)))"
proof -
  let ?key = "\<lambda>(n, x). (map_option (weight d) n, weight d (s_text x), s_time x, map_option (weight d) (s_file x))"
  define Lst where "Lst = [(map_option u_name o_u, x). x \<leftarrow> t_messages D,
           m \<leftarrow> filter (\<lambda>m. m_chat m = s_chat x) (t_members D),
           o_u \<leftarrow> left_join (filter (\<lambda>u. u_id u = s_sender x) (t_users D)),
           sint (m_time m) < sint (s_time x) \<and> s_chat x = c \<and> sint t \<le> sint (s_time x) \<and> m_user m = i]"
  have sel: "select d (Sel_messages c i t) D =
      map (\<lambda>(n, x). [n, Some (s_text x), cell (s_time x), s_file x]) (distinct_by ?key Lst)"
    by (simp add: select_def Lst_def)
  have L: "x \<in> set (t_messages D) \<and> s_chat x = c \<and> (\<exists>u \<in> set (t_users D). u_id u = s_sender x \<and> n = Some (u_name u))"
    if "(n, x) \<in> set Lst" for n x
  proof -
    have x: "x \<in> set (t_messages D)" using that unfolding Lst_def by (auto simp del: filter_filter)
    have "(n, x) \<in> set Lst \<longleftrightarrow> s_chat x = c \<and> sint t \<le> sint (s_time x) \<and>
        (\<exists>m \<in> set (t_members D). m_user m = i \<and> m_chat m = c \<and> sint (m_time m) < sint (s_time x)) \<and>
        (\<exists>o_u \<in> set (left_join (filter (\<lambda>u. u_id u = s_sender x) (t_users D))). n = map_option u_name o_u)"
      unfolding Lst_def using x by (auto simp del: filter_filter)
    with that have "s_chat x = c"
      "\<exists>o_u \<in> set (left_join (filter (\<lambda>u. u_id u = s_sender x) (t_users D))). n = map_option u_name o_u" by blast+
    with x show ?thesis using left_join_sender [OF assms(1) x] by fastforce
  qed
  have "inj_on (\<lambda>(n, x). s_time x) (set (distinct_by ?key Lst))"
  proof (rule inj_onI, clarify)
    fix n x m y assume "(n, x) \<in> set (distinct_by ?key Lst)" "(m, y) \<in> set (distinct_by ?key Lst)" "s_time x = s_time y"
    then have "(n, x) \<in> set Lst" "(m, y) \<in> set Lst" and t: "s_time x = s_time y"
      by (blast intro: subsetD [OF distinct_acc_subset])+
    note nx = L [OF this(1)] and my = L [OF this(2)]
    have "x = y" by (rule times_unique_inj [OF assms(2)]) (use nx my t in auto)
    moreover obtain u v where "u \<in> set (t_users D)" "u_id u = s_sender x" "n = Some (u_name u)"
        "v \<in> set (t_users D)" "u_id v = s_sender y" "m = Some (u_name v)"
      using nx my by blast
    moreover from this \<open>x = y\<close> have "u = v" by (intro user_by_id [OF assms(1)]) simp_all
    ultimately show "n = m \<and> x = y" by blast
  qed
  moreover have "distinct (distinct_by ?key Lst)"
    using conjunct1 [OF distinct_acc_keys [of ?key "[]" Lst]] by (simp only: distinct_map)
  ultimately have "distinct (map (\<lambda>(n, x). s_time x) (distinct_by ?key Lst))"
    by (simp add: distinct_map)
  moreover have "mi_send_date (message_row_item [n, Some (s_text x), cell (s_time x), s_file x]) = s_time x" for n and x :: message_row
    by (simp add: message_row_item_def)
  moreover have "(\<lambda>(n, x). s_time x) = (\<lambda>p :: string option \<times> message_row. s_time (snd p))" by auto
  ultimately show ?thesis by (simp add: sel o_def case_prod_beta)
qed

text \<open>An item is determined by its message.\<close>

lemma shown_unique: "db_ok d D \<Longrightarrow> shown D x itm \<Longrightarrow> shown D x itm' \<Longrightarrow> itm = itm'"
  unfolding shown_def using user_by_id [of d D] by (metis (no_types, lifting))

text \<open>A message as the client keeps it.\<close>

definition raw_item :: "string \<Rightarrow> message_item \<Rightarrow> raw_message" where
  "raw_item own x = (if mi_user x = own then None else Some (mi_user x), Some (mi_text x), mi_send_date x, mi_file_name x)"

definition local_message :: "string \<Rightarrow> message_item \<Rightarrow> message_info" where
  "local_message own x = message_of (raw_item own x)"

lemma raw_messages_eq:
  "client.user_name s = Live own \<Longrightarrow> raw_messages ms s = Some (map (raw_item own) ms)"
  by (auto simp: raw_messages_def raw_item_def intro!: those_map_Some)

lemma alloc_arrays_plenty: "plenty s \<Longrightarrow> alloc_arrays n s = Some (s\<lparr>brk := 4 + brk s\<rparr>)"
  by (simp add: alloc_arrays_def alloc_array_def eval_nat_numeral)

text \<open>A successful reply and enough memory: the batch goes into the chat.\<close>

lemma recv_messages_ok:
  assumes "plenty s" "Network_mutex \<notin> held s" "net s = Some n" "logged n" "deref (serverURL n) = Some url"
    and "net_login_info n = Some l" "client.user_name s = Live own" "chat_wf c" "0 \<le> limit (cha_messages c)"
    and "soap_call_get_chat_messages R (cha_id c) (stamp (cha_messages c)) url l (outside s) = Some (Some ms, w')"
    and "distinct (map mi_send_date (xl_messages ms))"
    and "mi_send_date ` set (xl_messages ms) \<inter> mes_message_timestamp ` set (entries (cha_messages c)) = {}"
  shows "\<exists>c' s'. recv_messages R c s = Some (int (length (xl_messages ms)), c', s') \<and> cha_id c' = cha_id c \<and>
    cha_pending c' = 0 \<and> stamp (cha_messages c') = xl_last_timestamp ms \<and> entries (cha_messages c') =
      last_n (nat (limit (cha_messages c))) (entries (cha_messages c) @ map (local_message own) (xl_messages ms))"
proof -
  let ?its = "xl_messages ms" and ?s1 = "s\<lparr>brk := Suc (brk s), outside := w'\<rparr>"
  let ?s2 = "?s1\<lparr>brk := 4 + brk ?s1\<rparr>" and ?msgs = "map (raw_item own) (xl_messages ms)"
  have net: "with_network (net_recv_pending_messages R (cha_id c) (stamp (cha_messages c))) s = Some (Some ms, ?s1)"
    using assms(1-6,10)
    by (simp add: with_network_def lock_def unlock_def net_recv_pending_messages_def if_logged_def net_query_def
        soap_call_def malloc_def plenty_def)
  have plenty: "plenty ?s1" "plenty ?s2" using assms(1) by (simp_all add: plenty_def)
  have raw: "raw_messages ?its ?s2 = Some ?msgs" by (rule raw_messages_eq) (simp add: assms(7))
  have ok: "\<forall>x \<in> set ?msgs. has_text x" "distinct (map raw_time ?msgs)"
    "\<forall>x \<in> set ?msgs. raw_time x \<notin> mes_message_timestamp ` set (entries (cha_messages c))"
    using assms(11,12) by (auto simp: has_text_def raw_time_def raw_item_def o_def)
  obtain c1 s3 where add: "cha_add_messages c ?msgs ?s2 = (0, c1, s3)" "entries (cha_messages c1) =
      last_n (nat (limit (cha_messages c))) (entries (cha_messages c) @ map message_of ?msgs)"
    using cha_add_messages_spec [OF assms(8) plenty(2) assms(9) ok] by auto
  have "recv_messages R c s = Some (int (length ?its),
      cha_set_messages_timestamp (cha_set_pending c1 0) (xl_last_timestamp ms), s3)"
    using net raw add(1) alloc_arrays_plenty [OF plenty(1)] by (simp add: recv_messages_def mes_get_timestamp_def)
  with add(2) cha_add_messages_id [OF add(1)] show ?thesis
    by (auto simp: chat_field_defs local_message_def [abs_def] o_def)
qed

text \<open>C4. A client that is logged in as a member of a chat and calls \<open>psd_recv_messages\<close> gets, each once and
  each with the sender, the text, the file and the time that the database has, exactly the messages that
  the member may see since the time of the last call; the chat then holds the most recent of the old and
  the new messages, up to its limit, the user's own ones without a sender, and is not pending.\<close>

theorem client_reads_chat:
  fixes s :: "world client"
  assumes "online d (outside s)" "times_unique (db (outside s))" "login_fit (Some l)"
    and "login_user d (Some l) (db (outside s)) = Some u"
    and "valid_chat (db (outside s)) c \<and> member_of (db (outside s)) (u_id u) c"
    and "net s = Some n" "logged n" "deref (serverURL n) = Some url" "net_login_info n = Some l"
    and "plenty s" "held s = {}" "client.user_name s = Live own"
    and "c_chats s = Some cs" "chats_wf cs" "cha_find_chat cs c = Some chat" "0 \<le> limit (cha_messages chat)"
    and "\<forall>x \<in> set (entries (cha_messages chat)). sint (mes_message_timestamp x) < sint (stamp (cha_messages chat))"
  shows "\<exists>its s' cs' chat'. psd_recv_messages (server_remote srv) c s = Some (int (length its), s') \<and>
    (\<forall>itm. itm \<in> set its \<longleftrightarrow>
      (\<exists>x. may_see (db (outside s)) c (u_id u) (stamp (cha_messages chat)) x \<and> shown (db (outside s)) x itm)) \<and>
    distinct (map mi_send_date its) \<and> c_chats s' = Some cs' \<and> cha_find_chat cs' c = Some chat' \<and> cha_pending chat' = 0 \<and>
    entries (cha_messages chat') =
      last_n (nat (limit (cha_messages chat))) (entries (cha_messages chat) @ map (local_message own) its)"
proof -
  let ?D = "db (outside s)" and ?t = "stamp (cha_messages chat)" and ?R = "server_remote srv"
  let ?s1 = "s\<lparr>held := {Chats_mutex}\<rparr>"
  note dbok = online_db [OF assms(1)]
  obtain ms w' where get: "psdims__get_chat_messages srv (Some l) c ?t (Some no_messages) (outside s) = Some (SOAP_OK, Some ms, w')"
    "mset (xl_messages ms) = image_mset message_row_item (mset (select d (Sel_messages c (u_id u) ?t) ?D))"
    using get_chat_messages_online [OF assms(1,3,4), of c srv ?t no_messages] assms(5) by auto
  note items = shown_items [OF dbok get(2)]
  have id: "cha_id chat = c" and wf: "chat_wf chat"
    using find_chat_set [OF assms(15)] assms(14) by (auto simp: chats_wf_def)
  have exact: "itm \<in> set (xl_messages ms) \<longleftrightarrow> (\<exists>x. may_see ?D c (u_id u) ?t x \<and> shown ?D x itm)" for itm
  proof
    assume "\<exists>x. may_see ?D c (u_id u) ?t x \<and> shown ?D x itm"
    then obtain x where x: "may_see ?D c (u_id u) ?t x" "shown ?D x itm" by blast
    then obtain y itm' where y: "may_see ?D c (u_id u) ?t y" "s_time y = s_time x" "itm' \<in> set (xl_messages ms)" "shown ?D y itm'"
      using items(2) by blast
    have "y = x" by (rule times_unique_inj [OF assms(2)]) (use x(1) y(1,2) in \<open>auto simp: may_see_def\<close>)
    with x(2) y(4) have "itm' = itm" using shown_unique [OF dbok] by blast
    with y(3) show "itm \<in> set (xl_messages ms)" by simp
  qed (rule items(1))
  have "distinct (map mi_send_date (xl_messages ms))"
    using mset_eq_imp_distinct_iff [of "map mi_send_date (xl_messages ms)"] get(2)
      select_messages_times [OF dbok assms(2), of c "u_id u" ?t] by (metis mset_map)
  moreover have "sint ?t \<le> sint (mi_send_date itm)" if "itm \<in> set (xl_messages ms)" for itm
    using items(1) [OF that] by (auto simp: may_see_def shown_def)
  then have "mi_send_date ` set (xl_messages ms) \<inter> mes_message_timestamp ` set (entries (cha_messages chat)) = {}"
    using assms(17) by (force simp: disjoint_iff)
  moreover have "soap_call_get_chat_messages ?R (cha_id chat) ?t url l (outside s) = Some (Some ms, w')"
    by (simp add: server_remote_def reply_of_def id get(1))
  ultimately obtain chat' s' where run: "recv_messages ?R chat ?s1 = Some (int (length (xl_messages ms)), chat', s')"
    "cha_id chat' = cha_id chat" "cha_pending chat' = 0" "entries (cha_messages chat') =
      last_n (nat (limit (cha_messages chat))) (entries (cha_messages chat) @ map (local_message own) (xl_messages ms))"
    using recv_messages_ok [of ?s1 n url l own chat ?R ms w'] assms wf by (auto simp: plenty_def)
  let ?s' = "unlock Chats_mutex (s'\<lparr>c_chats := Some (put_chat c chat' cs)\<rparr>)"
  have "psd_recv_messages ?R c s = Some (int (length (xl_messages ms)), ?s')"
    using run(1) assms(11,13,15) by (simp add: psd_recv_messages_def recv_chat_messages_def lock_def)
  moreover have "c_chats ?s' = Some (put_chat c chat' cs)" by (simp add: unlock_def)
  moreover have "cha_find_chat (put_chat c chat' cs) c = Some chat'"
    using find_put_chat run(2) id assms(15) by auto
  moreover have "distinct (map mi_send_date (xl_messages ms))" by fact
  ultimately show ?thesis using exact run(3,4) by blast
qed

text \<open>Bob's client, before he reads ana's message in chat 7.\<close>

definition bob_chat :: chat_info where
  "bob_chat = \<lparr>cha_id = 7, cha_description = ''c'', cha_read_timestamp = 0, cha_all_read_timestamp = 0, cha_unread = 0,
     cha_pending = 1, cha_admin = Some ''ana'', cha_members = empty_list, cha_messages = empty_list\<lparr>stamp := 50\<rparr>\<rparr>"

definition bob_client :: "world client" where
  "bob_client = (new_client 11 sample_world)\<lparr>client.user_name := Live ''bob'', c_chats := Some (empty_list\<lparr>entries := [bob_chat]\<rparr>),
     net := Some \<lparr>logged = True, login_name = Live ''bob'', login_password = Live ''b'', serverURL = Null\<rparr>\<rparr>"

lemma client_reads_chat_witness:
  "\<exists>its s' cs' chat'. psd_recv_messages (server_remote sample_server) 7 bob_client = Some (int (length its), s') \<and>
    c_chats s' = Some cs' \<and> cha_find_chat cs' 7 = Some chat' \<and> mi_text ` set its = {''m''} \<and>
    entries (cha_messages chat') = last_n 50 (map (local_message ''bob'') its)"
proof -
  have s: "outside bob_client = sample_world" "plenty bob_client" "held bob_client = {}"
    "client.user_name bob_client = Live ''bob''" "c_chats bob_client = Some (empty_list\<lparr>entries := [bob_chat]\<rparr>)"
    "net bob_client = Some \<lparr>logged = True, login_name = Live ''bob'', login_password = Live ''b'', serverURL = Null\<rparr>"
    by (simp_all add: bob_client_def new_client_def blank_client_def plenty_def)
  have chat: "cha_find_chat (empty_list\<lparr>entries := [bob_chat]\<rparr>) 7 = Some bob_chat" "chats_wf (empty_list\<lparr>entries := [bob_chat]\<rparr>)"
    by (simp_all add: cha_find_chat_def cl_find_def chat_id_comp_def bob_chat_def empty_list_def chats_wf_def keyed_wf_def
        chat_wf_def)
  have unique: "times_unique (db (outside bob_client))" by (simp add: s times_unique_def sample_world_def sample_db_def)
  have on: "online sample_dialect (outside bob_client)" using sample_online s(1) by simp
  have login: "net_login_info \<lparr>logged = True, login_name = Live ''bob'', login_password = Live ''b'', serverURL = Null\<rparr> =
      Some \<lparr>li_name = Some ''bob'', li_password = Some ''b''\<rparr>"
    by (simp add: net_login_info_def)
  have user: "login_user sample_dialect (Some \<lparr>li_name = Some ''bob'', li_password = Some ''b''\<rparr>) (db (outside bob_client)) =
      Some (t_users sample_db ! 2)"
    using sample_logins(2) by (simp add: login_of_def s(1))
  obtain its s' cs' chat' where run: "psd_recv_messages (server_remote sample_server) 7 bob_client = Some (int (length its), s')"
    "\<forall>i. i \<in> set its \<longleftrightarrow> (\<exists>x. may_see sample_db 7 3 50 x \<and> shown sample_db x i)" "c_chats s' = Some cs'"
    "cha_find_chat cs' 7 = Some chat'" "entries (cha_messages chat') = last_n 50 (map (local_message ''bob'') its)"
    using client_reads_chat [OF on unique _ user _ s(6) _ _ login s(2-5) chat(2,1), of None sample_server]
    by (auto simp: s(1) sample_eval bob_chat_def empty_list_def)
  have "set its = {\<lparr>mi_user = ''ana'', mi_text = ''m'', mi_file_name = Some ''f'', mi_send_date = 100\<rparr>}"
    using run(2) by (auto simp: set_eq_iff may_see_def shown_def sample_db_def)
  with run show ?thesis by (intro exI conjI) auto
qed

end
