(* ===== verification/Console_Server.thy ===== *)
theory Console_Server
  imports Console_Login Client_Server
begin

text \<open>
  The whole program, from the keyboard to the database: what a user types into the login menu registers
  an account.
\<close>

text \<open>C5. A user who types \<open>2\<close>, a free name, a password and a description, each of which fits its array, and leaves
  with \<open>0\<close> has an account in the database of the server with exactly what was typed, and nothing else has
  changed there; the program ends.\<close>

theorem console_registers:
  fixes s :: "world client"
  assumes "online d (outside s)" "clean name" "clean pass" "clean info"
    and "typable 20 name" "typable 20 pass" "typable 100 info"
    and "named d name (db (outside s)) = []" "\<not> exhausted (user_ids (db (outside s)))"
    and "held s = {}" "net s = Some n" "deref (serverURL n) = Some url"
  shows "\<exists>g k. graphic_client_run E (server_remote srv) (typed [''2'', name, pass, info, '''', ''0'']) s = Some g \<and>
    db (outside (graphic_client g)) = (db (outside s))\<lparr>t_users := t_users (db (outside s)) @
      [\<lparr>u_id = k, u_valid = Some 1, u_name = name, u_pass = pass, u_info = info\<rparr>]\<rparr>"
proof -
  let ?R = "server_remote srv"
  have "strlen name \<le> 25" "strlen pass \<le> 25" "strlen info \<le> 100" using assms(5-7) by (simp_all add: typable_def)
  then obtain k w where w: "psd_user_register ?R name pass info s = Some (0, s\<lparr>outside := w\<rparr>)"
    "db w = (db (outside s))\<lparr>t_users := t_users (db (outside s)) @
      [\<lparr>u_id = k, u_valid = Some 1, u_name = name, u_pass = pass, u_info = info\<rparr>]\<rparr>"
    using client_registers [OF assms(1-4) _ _ _ assms(8-12), where srv = srv] by metis
  let ?rest = "map Key (line name) @ map Key (line pass) @ map Key (line info) @ Key newline # map Key (line ''0'')"
  have keys: "typed [''2'', name, pass, info, '''', ''0''] = map Key (line ''2'') @ ?rest"
    by (simp add: typed_def line_def)
  have fit: "typable 100 ''2''" "typable 100 ''0''" by (simp_all add: typable_def newline_def)
  let ?g = "set_screen_update Screen_login None (sample_graphic No_thread (map Key (line ''2'') @ ?rest) s\<lparr>input_buffer := terminal.stack_junk E\<rparr>)"
  have "alone s (map Key (line ''2'') @ ?rest) ?g"
    by (simp add: alone_def set_screen_update_def sample_graphic_def)
  then obtain g1 where g1: "alone s ?rest g1" "at (input_buffer g1) 0 = CHR ''2''" "login_loop E ?R ?g = do {
      (exit, g) \<leftarrow> login_command E ?R g1;
      if continue_graphic g \<and> \<not> exit then login_loop E ?R g else Some g }"
    by (rule login_round [OF _ fit(1)]) (simp add: at_def)
  obtain g2 where g2: "user_register E ?R g1 = Some g2" "alone (s\<lparr>outside := w\<rparr>) (map Key (line ''0'')) g2"
    using user_register_typed [OF g1(1) assms(5-7) w(1)] by blast
  have "alone (s\<lparr>outside := w\<rparr>) (map Key (line ''0'') @ []) g2" using g2(2) by simp
  then obtain g3 where g3: "alone (s\<lparr>outside := w\<rparr>) [] g3" "at (input_buffer g3) 0 = CHR ''0''" "login_loop E ?R g2 = do {
      (exit, g) \<leftarrow> login_command E ?R g3;
      if continue_graphic g \<and> \<not> exit then login_loop E ?R g else Some g }"
    by (rule login_round [OF _ fit(2)]) (simp add: at_def)
  have "login_loop E ?R ?g = Some g3"
    using g1(2,3) g2 g3(2,3) by (simp add: login_command_def alone_def)
  then have "graphic_client_run E ?R (typed [''2'', name, pass, info, '''', ''0'']) s = Some g3"
    by (simp add: graphic_client_run_def menu_login_def keys sample_graphic_def)
  with g3(1) w(2) show ?thesis by (auto simp: alone_def)
qed

lemma console_registers_witness:
  "\<exists>g k. graphic_client_run sample_terminal (server_remote sample_server)
      (typed [''2'', ''kim'', ''k'', ''i'', '''', ''0'']) (new_client 11 sample_world) = Some g \<and>
    t_users (db (outside (graphic_client g))) = t_users sample_db @
      [\<lparr>u_id = k, u_valid = Some 1, u_name = ''kim'', u_pass = ''k'', u_info = ''i''\<rparr>]"
proof -
  have s: "held (new_client 11 sample_world) = {}" "outside (new_client 11 sample_world) = sample_world"
    "net (new_client 11 sample_world) = Some \<lparr>logged = False, login_name = Null, login_password = Null, serverURL = Null\<rparr>"
    by (simp_all add: new_client_def blank_client_def)
  have on: "online sample_dialect (outside (new_client 11 sample_world))" using sample_online s(2) by simp
  have fit: "typable 20 ''kim''" "typable 20 ''k''" "typable 100 ''i''" by (simp_all add: typable_def newline_def)
  have D: "db (outside (new_client 11 sample_world)) = sample_db" unfolding s(2) by (simp add: sample_world_def)
  have ok: "clean ''kim''" "clean ''k''" "clean ''i''" "named sample_dialect ''kim'' (db (outside (new_client 11 sample_world))) = []"
    "\<not> exhausted (user_ids (db (outside (new_client 11 sample_world))))"
    unfolding D by (simp_all add: sample_eval)
  from console_registers [OF on ok(1-3) fit ok(4,5) s(1,3), of None sample_terminal sample_server] D show ?thesis
    by auto
qed

end
