(* ===== verification/Server_Races.thy ===== *)
theory Server_Races
  imports Message_Times Message_Specs
begin

text \<open>
  Handlers that run at the same time, as under \<open>mthread_listen_connection\<close>: an invariant of the server that
  answers one request after the other is lost, two messages of a chat may get the same time.
\<close>

section \<open>A race\<close>

text \<open>\<open>psdims__send_message\<close> in two parts: up to the end of the loop that looks for a free second, and from the
  insertion on.\<close>

definition find_second :: "persistence \<Rightarrow> cint \<Rightarrow> cint \<Rightarrow> world \<Rightarrow> (cint option \<times> world) option" where
  "find_second p id_user chat_id w = do {
     (r, w) \<leftarrow> Some (exist_user_in_chat p id_user chat_id w);
     if r \<noteq> 1 then Some (None, w)
     else do {
       (local_time, w) \<leftarrow> Some (now w);
       (local_time, w) \<leftarrow> send_wait p chat_id local_time w;
       Some (Some local_time, w)
     }
   }"

definition store_message ::
  "persistence \<Rightarrow> cint \<Rightarrow> cint \<Rightarrow> sent_message \<Rightarrow> cint \<Rightarrow> cint option \<Rightarrow> world \<Rightarrow> cint option handled" where
  "store_message p id_user chat_id m local_time timestamp w = do {
     msg \<leftarrow> sm_text m;
     (r, w) \<leftarrow> Some (send_messages p chat_id id_user local_time (sm_file_name m) msg w);
     if r \<noteq> 0 then Some (SOAP_USER_ERROR, timestamp, w)
     else Some (SOAP_OK, Some local_time, free_persistence p w)
   }"

lemma send_message_parts:
  "psdims__send_message srv login chat_id message timestamp w =
     with_login srv login (message \<noteq> None \<and> timestamp \<noteq> None) timestamp
       (\<lambda>p id_user w. do {
          m \<leftarrow> message;
          (found, w) \<leftarrow> find_second p id_user chat_id w;
          case found of None \<Rightarrow> Some (SOAP_USER_ERROR, timestamp, w)
          | Some local_time \<Rightarrow> store_message p id_user chat_id m local_time timestamp w
        }) w"
proof -
  have "(\<lambda>p id_user w. do {
          m \<leftarrow> message;
          (r, w) \<leftarrow> Some (exist_user_in_chat p id_user chat_id w);
          if r \<noteq> 1 then Some (SOAP_USER_ERROR, timestamp, w)
          else do {
            (local_time, w) \<leftarrow> Some (now w);
            (local_time, w) \<leftarrow> send_wait p chat_id local_time w;
            msg \<leftarrow> sm_text m;
            (r, w) \<leftarrow> Some (send_messages p chat_id id_user local_time (sm_file_name m) msg w);
            if r \<noteq> 0 then Some (SOAP_USER_ERROR, timestamp, w)
            else Some (SOAP_OK, Some local_time, free_persistence p w)
          }
        }) = (\<lambda>p id_user w. do {
          m \<leftarrow> message;
          (found, w) \<leftarrow> find_second p id_user chat_id w;
          case found of None \<Rightarrow> Some (SOAP_USER_ERROR, timestamp, w)
          | Some local_time \<Rightarrow> store_message p id_user chat_id m local_time timestamp w
        })"
    by (auto simp: fun_eq_iff find_second_def store_message_def bind_assoc case_prod_unfold split: bind_splits)
  then show ?thesis unfolding psdims__send_message_def by (rule arg_cong)
qed

lemma find_second_free:
  assumes "mysql p = Some h" "online d w" "member_of (db w) i c" "messages_at (db w) c (first_time w) = []"
  shows "\<exists>w'. find_second p i c w = Some (Some (first_time w), w') \<and> online d w' \<and> db w' = db w \<and> env w' = env w \<and>
    ticks w' = Suc (ticks w)"
  using assms(2-4) by (simp add: find_second_def online_eqs [where d = d, OF assms(1)] send_wait.simps)

lemma store_message_online:
  assumes "mysql p = Some h" "online d w" "member_of (db w) i c" "clean msg" "strlen msg \<le> 80"
    and "case f of None \<Rightarrow> True | Some s \<Rightarrow> clean s \<and> length s \<le> 50"
  shows "\<exists>w'. store_message p i c \<lparr>sm_text = Some msg, sm_file_name = f\<rparr> t t0 w = Some (SOAP_OK, Some t, w') \<and>
    online d w' \<and> db w' = sent i c f msg t (db w)"
proof -
  note ok = online_db [OF assms(2)]
  have "message_fits i c t msg"
    using assms(5) length_str_d_le [of i] length_str_d_le [of c] length_str_d_le [of t] by (simp add: message_fits_def)
  from send_messages_online [OF assms(1,2) this assms(4) member_user_id [OF ok assms(3)] member_chat_id [OF ok assms(3)] assms(6)]
  show ?thesis by (simp add: store_message_def case_prod_unfold)
qed

text \<open>C17. Two handlers that serve messages to the same chat and read the clock in the same second both find the second
  free, if neither has stored its message before the other has looked; both succeed, and the chat has two
  messages with the same time, which the program cannot tell apart.\<close>

theorem send_message_race:
  assumes "online d w" "mysql p = Some h" "mysql p' = Some h'"
    and "member_of (db w) i c" "member_of (db w) i' c" "messages_at (db w) c t = []"
    and "first_time w = t" "clock (env w) (Suc (ticks w)) = t"
    and "clean msg" "strlen msg \<le> 80" "clean msg'" "strlen msg' \<le> 80"
  shows "\<exists>w1 w2 w3 w4. find_second p i c w = Some (Some t, w1) \<and> find_second p' i' c w1 = Some (Some t, w2) \<and>
    store_message p i c \<lparr>sm_text = Some msg, sm_file_name = None\<rparr> t t0 w2 = Some (SOAP_OK, Some t, w3) \<and>
    store_message p' i' c \<lparr>sm_text = Some msg', sm_file_name = None\<rparr> t t0' w3 = Some (SOAP_OK, Some t, w4) \<and>
    length (messages_at (db w4) c t) = 2 \<and> \<not> times_unique (db w4)"
proof -
  obtain w1 where 1: "find_second p i c w = Some (Some t, w1)" "online d w1" "db w1 = db w" "env w1 = env w"
      "ticks w1 = Suc (ticks w)"
    using find_second_free [OF assms(2,1,4)] assms(6,7) by auto
  obtain w2 where 2: "find_second p' i' c w1 = Some (Some t, w2)" "online d w2" "db w2 = db w"
    using find_second_free [OF assms(3) 1(2), of i' c] 1(3-5) assms(5,6,8) by auto
  obtain w3 where 3: "store_message p i c \<lparr>sm_text = Some msg, sm_file_name = None\<rparr> t t0 w2 = Some (SOAP_OK, Some t, w3)"
      "online d w3" "db w3 = sent i c None msg t (db w)"
    using store_message_online [OF assms(2) 2(2), of i c msg None t t0] 2(3) assms(4,9,10) by auto
  have "member_of (db w3) i' c" using assms(5) by (simp add: 3(3) sent_def member_of_def)
  then obtain w4 where 4: "store_message p' i' c \<lparr>sm_text = Some msg', sm_file_name = None\<rparr> t t0' w3 = Some (SOAP_OK, Some t, w4)"
      "db w4 = sent i' c None msg' t (sent i c None msg t (db w))"
    using store_message_online [OF assms(3) 3(2), of i' c msg' None t t0'] 3(3) assms(11,12) by auto
  have "length (messages_at (db w4) c t) = 2" using assms(6) by (simp add: 4(2) sent_def messages_at_def)
  moreover have "\<not> times_unique (db w4)" by (simp add: 4(2) sent_def times_unique_def)
  ultimately show ?thesis using 1(1) 2(1) 3(1) 4(1) by blast
qed

theorem send_message_race_witness:
  "\<exists>w1 w2 w3 w4. find_second (sample_server\<lparr>mysql := Some 0\<rparr>) 2 7
      (sample_world\<lparr>env := sample_env\<lparr>clock := \<lambda>_. 200\<rparr>\<rparr>) = Some (Some 200, w1) \<and>
    find_second (sample_server\<lparr>mysql := Some 1\<rparr>) 3 7 w1 = Some (Some 200, w2) \<and>
    store_message (sample_server\<lparr>mysql := Some 0\<rparr>) 2 7 \<lparr>sm_text = Some ''hi'', sm_file_name = None\<rparr> 200 (Some 0) w2 =
      Some (SOAP_OK, Some 200, w3) \<and>
    store_message (sample_server\<lparr>mysql := Some 1\<rparr>) 3 7 \<lparr>sm_text = Some ''yo'', sm_file_name = None\<rparr> 200 (Some 0) w3 =
      Some (SOAP_OK, Some 200, w4) \<and>
    length (messages_at (db w4) 7 200) = 2 \<and> \<not> times_unique (db w4)"
proof (rule send_message_race [where d = sample_dialect])
  show "online sample_dialect (sample_world\<lparr>env := sample_env\<lparr>clock := \<lambda>_. 200\<rparr>\<rparr>)"
    using sample_db_ok sample_served sample_plenty
    by (simp add: online_def sound_def served_def plenty_def sample_world_def sample_env_def del: online_sound online_served)
qed (simp_all add: sample_eval)

end
