(* ===== verification/Blocks.thy ===== *)
theory Blocks
  imports IMS_Prelude
begin

text \<open>
  Memory as the set of blocks that are allocated, and the blocks that a gSOAP context manages:
  \<open>soap_end\<close> frees those, unless they have been taken out with \<open>soap_unlink\<close>.  Only addresses
  matter here, not what is stored there.
\<close>

type_synonym ptr = "nat option" \<comment> \<open>\<open>NULL\<close> is \<^const>\<open>None\<close>\<close>

record arena =
  live :: "nat set"
  managed :: "nat set"

text \<open>To free a block that is not allocated has no result.\<close>

definition free :: "ptr \<Rightarrow> arena \<Rightarrow> arena option" where
  "free p a =
     (case p of None \<Rightarrow> Some a
      | Some x \<Rightarrow> if x \<in> live a then Some (a\<lparr>live := live a - {x}\<rparr>) else None)"

lemma free_simps [simp]:
  "free None a = Some a"
  "free (Some x) a = (if x \<in> live a then Some (a\<lparr>live := live a - {x}\<rparr>) else None)"
  by (simp_all add: free_def)

lemma diff_union: "A - (B \<union> C) = A - B - C" "A - insert x C = A - {x} - C"
  by blast+

definition soap_unlink :: "ptr \<Rightarrow> arena \<Rightarrow> arena" where
  "soap_unlink p a = (case p of None \<Rightarrow> a | Some x \<Rightarrow> a\<lparr>managed := managed a - {x}\<rparr>)"

definition soap_end :: "arena \<Rightarrow> arena option" where
  "soap_end a =
     (if managed a \<subseteq> live a then Some (a\<lparr>live := live a - managed a, managed := {}\<rparr>) else None)"

text \<open>A loop over the elements of an array.\<close>

primrec each :: "('i \<Rightarrow> arena \<Rightarrow> arena option) \<Rightarrow> 'i list \<Rightarrow> arena \<Rightarrow> arena option" where
  "each f [] a = Some a"
| "each f (x # xs) a = do { a \<leftarrow> f x a; each f xs a }"

section \<open>Sequences of calls\<close>

definition addrs :: "ptr list \<Rightarrow> nat list" where
  "addrs ps = map the (filter (\<lambda>p. p \<noteq> None) ps)"

lemma addrs_simps [simp]:
  "addrs [] = []" "addrs (None # ps) = addrs ps" "addrs (Some x # ps) = x # addrs ps"
  "addrs (ps @ qs) = addrs ps @ addrs qs"
  by (simp_all add: addrs_def)

abbreviation free_all :: "ptr list \<Rightarrow> arena \<Rightarrow> arena option" where
  "free_all \<equiv> each free"

definition unlink_all :: "ptr list \<Rightarrow> arena \<Rightarrow> arena" where
  "unlink_all ps a = a\<lparr>managed := managed a - set (addrs ps)\<rparr>"

lemma unlink_all_simps [simp]:
  "unlink_all [] a = a" "unlink_all (p # ps) a = unlink_all ps (soap_unlink p a)"
  by (simp_all add: unlink_all_def soap_unlink_def diff_union(2) [of _ _ "set _"] split: option.split)

lemma unlink_all_append: "unlink_all (ps @ qs) a = unlink_all qs (unlink_all ps a)"
  by (simp add: unlink_all_def diff_union)

lemma each_append: "each f (xs @ ys) a = Option.bind (each f xs a) (each f ys)"
  by (induction xs arbitrary: a) simp_all

lemma each_concat: "each (\<lambda>x. each f (g x)) xs a = each f (concat (map g xs)) a"
  by (induction xs arbitrary: a) (simp_all add: each_append)

text \<open>The same as equations between functions, for bodies that end in a call.\<close>

lemma each_Nil_fun: "each f [] = Some"
  and each_Cons_fun: "each f (x # xs) = (\<lambda>a. Option.bind (f x a) (each f xs))"
  and each_append_fun: "each f (xs @ ys) = (\<lambda>a. Option.bind (each f xs a) (each f ys))"
  by (simp_all add: fun_eq_iff each_append)

lemma each_fun: "each f [x] = f x" "each f (x # y # ys) = (\<lambda>a. Option.bind (f x a) (each f (y # ys)))"
  by (simp_all only: each_Cons_fun each_Nil_fun bind_runit)

text \<open>Blocks that are allocated and different can be freed one after the other.\<close>

lemma free_all_ok:
  assumes "distinct (addrs ps)" "set (addrs ps) \<subseteq> live a"
  shows "free_all ps a = Some (a\<lparr>live := live a - set (addrs ps)\<rparr>)"
  using assms
proof (induction ps arbitrary: a)
  case (Cons p ps)
  show ?case
  proof (cases p)
    case (Some x)
    have "free_all ps (a\<lparr>live := live a - {x}\<rparr>) = Some (a\<lparr>live := live a - {x} - set (addrs ps)\<rparr>)"
      using Cons.prems Some by (subst Cons.IH) auto
    then show ?thesis using Cons.prems Some by (simp add: diff_union(2) [of _ x "set (addrs ps)"])
  qed (use Cons in simp)
qed simp

end
