(* ===== verification/Reply_Memory.thy ===== *)
theory Reply_Memory
  imports Blocks
begin

text \<open>
  The memory of the replies that \<open>network.c\<close> hands over: gSOAP allocates what a reply points to and
  manages it; \<open>_net_unlink_*\<close> takes blocks out of this management, and \<open>net_free_*\<close>, which
  \<open>psd_ims_client.c\<close> calls when it has used a reply, frees them.  At the end \<open>net_free\<close> calls
  \<open>soap_end\<close>.  The theory \<open>Network\<close> models what the replies say.
\<close>

section \<open>The structures of \<open>rpc/ims.h\<close> as pointers\<close>

record user_ptrs =
  up_name :: ptr
  up_information :: ptr

record user_list_ptrs =
  ulp_user :: ptr
  ulp_users :: "user_ptrs list"

record message_ptrs =
  mp_user :: ptr
  mp_text :: ptr
  mp_file_name :: ptr

record message_list_ptrs =
  mlp_messages :: ptr
  mlp_items :: "message_ptrs list"

record name_list_ptrs =
  nlp_array :: ptr
  nlp_names :: "ptr list"

record chat_ptrs =
  cp_description :: ptr
  cp_admin :: ptr
  cp_members :: name_list_ptrs

record chat_list_ptrs =
  clp_chat_info :: ptr
  clp_chats :: "chat_ptrs list"

record notification_ptrs =
  np_friend_request :: name_list_ptrs
  np_new_friends :: user_list_ptrs
  np_chats_with_messages :: ptr
  np_chats_read_times :: ptr
  np_chat_members :: name_list_ptrs
  np_rem_chat_members :: name_list_ptrs
  np_chat_admins :: name_list_ptrs

record client_data_ptrs =
  dp_chats :: chat_list_ptrs
  dp_friends :: user_list_ptrs
  dp_friend_requests :: name_list_ptrs

section \<open>\<open>_net_unlink_*\<close>\<close>

definition net_unlink_file :: "ptr \<Rightarrow> arena \<Rightarrow> arena" where
  "net_unlink_file bytes a = soap_unlink bytes a"

definition net_unlink_user :: "user_ptrs \<Rightarrow> arena \<Rightarrow> arena" where
  "net_unlink_user user a =
     (let a = soap_unlink (up_name user) a
      in soap_unlink (up_information user) a)"

definition net_unlink_user_list :: "user_list_ptrs \<Rightarrow> arena \<Rightarrow> arena" where
  "net_unlink_user_list users a =
     (let a = fold net_unlink_user (ulp_users users) a
      in soap_unlink (ulp_user users) a)"

definition net_unlink_notification_list :: "notification_ptrs \<Rightarrow> arena \<Rightarrow> arena" where
  "net_unlink_notification_list n a =
     (let a = fold soap_unlink (nlp_names (np_friend_request n)) a;
          a = soap_unlink (nlp_array (np_friend_request n)) a
      in soap_unlink (np_chats_with_messages n) a)"

definition net_unlink_message_list :: "message_list_ptrs \<Rightarrow> arena \<Rightarrow> arena" where
  "net_unlink_message_list messages a =
     (let a = fold (\<lambda>x a. let a = soap_unlink (mp_user x) a in soap_unlink (mp_text x) a) (mlp_items messages) a
      in soap_unlink (mlp_messages messages) a)"

definition net_unlink_chat_list :: "chat_list_ptrs \<Rightarrow> arena \<Rightarrow> arena" where
  "net_unlink_chat_list chats a =
     (let a = fold (\<lambda>c a.
            let a = fold soap_unlink (nlp_names (cp_members c)) a;
                a = soap_unlink (nlp_array (cp_members c)) a;
                a = soap_unlink (cp_description c) a
            in soap_unlink (cp_admin c) a) (clp_chats chats) a
      in soap_unlink (clp_chat_info chats) a)"

section \<open>\<open>net_free_*\<close>\<close>

text \<open>\<open>self\<close> is the address of the structure.\<close>

definition net_free_file :: "nat \<Rightarrow> ptr \<Rightarrow> arena \<Rightarrow> arena option" where
  "net_free_file self bytes a = do { a \<leftarrow> free bytes a; free (Some self) a }"

definition net_free_user :: "nat \<Rightarrow> user_ptrs \<Rightarrow> arena \<Rightarrow> arena option" where
  "net_free_user self user a = do {
     a \<leftarrow> free (up_name user) a;
     a \<leftarrow> free (up_information user) a;
     free (Some self) a
   }"

text \<open>Its body is empty.\<close>

definition net_free_user_list :: "arena \<Rightarrow> arena option" where
  "net_free_user_list a = Some a"

definition net_free_notification_list :: "nat \<Rightarrow> notification_ptrs \<Rightarrow> arena \<Rightarrow> arena option" where
  "net_free_notification_list self n a = do {
     a \<leftarrow> each free (nlp_names (np_friend_request n)) a;
     a \<leftarrow> free (nlp_array (np_friend_request n)) a;
     a \<leftarrow> free (np_chats_with_messages n) a;
     free (Some self) a
   }"

text \<open>It does not free the structure.\<close>

definition net_free_message_list :: "message_list_ptrs \<Rightarrow> arena \<Rightarrow> arena option" where
  "net_free_message_list messages a = do {
     a \<leftarrow> each (\<lambda>x a. do { a \<leftarrow> free (mp_user x) a; free (mp_text x) a }) (mlp_items messages) a;
     free (mlp_messages messages) a
   }"

definition net_free_chat_list :: "nat \<Rightarrow> chat_list_ptrs \<Rightarrow> arena \<Rightarrow> arena option" where
  "net_free_chat_list self chats a = do {
     a \<leftarrow> each (\<lambda>c a. do {
         a \<leftarrow> each free (nlp_names (cp_members c)) a;
         a \<leftarrow> free (nlp_array (cp_members c)) a;
         a \<leftarrow> free (cp_description c) a;
         free (cp_admin c) a
       }) (clp_chats chats) a;
     a \<leftarrow> free (clp_chat_info chats) a;
     free (Some self) a
   }"

section \<open>The uses of a reply\<close>

text \<open>The kinds of replies.  The flag: in \<open>psd_login\<close> an allocation fails, in \<open>_recv_messages\<close> the messages
  cannot be added, in \<open>psd_recv_all_data\<close> an array for the members of a chat cannot be allocated.\<close>

datatype reply_use =
  Got_user bool user_ptrs
| Got_friends user_list_ptrs
| Got_messages bool message_list_ptrs
| Got_chats chat_list_ptrs
| Got_notifications notification_ptrs
| Got_file ptr
| Got_data bool client_data_ptrs

text \<open>The reply of a successful call: the structure, allocated by the client, and what gSOAP has
  allocated for its pointers.\<close>

definition arrive :: "nat \<Rightarrow> ptr list \<Rightarrow> arena \<Rightarrow> arena" where
  "arrive self ps a = a\<lparr>live := insert self (live a \<union> set (addrs ps)), managed := managed a \<union> set (addrs ps)\<rparr>"

text \<open>The end of the calls in \<open>network.c\<close>; in \<open>net_recv_all_data\<close> the hand-over is commented out.\<close>

fun hand_over :: "reply_use \<Rightarrow> arena \<Rightarrow> arena" where
  "hand_over (Got_user _ user) a = net_unlink_user user a"
| "hand_over (Got_friends users) a = net_unlink_user_list users a"
| "hand_over (Got_messages _ messages) a = net_unlink_message_list messages a"
| "hand_over (Got_chats chats) a = net_unlink_chat_list chats a"
| "hand_over (Got_notifications n) a = net_unlink_notification_list n a"
| "hand_over (Got_file bytes) a = net_unlink_file bytes a"
| "hand_over (Got_data _ _) a = a"

text \<open>The end of its use in \<open>psd_ims_client.c\<close>.  The chats are the first field of \<open>client_data\<close>, so their
  address is that of the structure.\<close>

fun dispose :: "nat \<Rightarrow> reply_use \<Rightarrow> arena \<Rightarrow> arena option" where
  "dispose self (Got_user failed user) a = (if failed then Some a else net_free_user self user a)"
| "dispose self (Got_friends users) a = net_free_user_list a"
| "dispose self (Got_messages failed messages) a = (if failed then Some a else net_free_message_list messages a)"
| "dispose self (Got_chats chats) a = net_free_chat_list self chats a"
| "dispose self (Got_notifications n) a = net_free_notification_list self n a"
| "dispose self (Got_file bytes) a = net_free_file self bytes a"
| "dispose self (Got_data failed d) a = (if failed then net_free_chat_list self (dp_chats d) a else Some a)"

section \<open>Which blocks\<close>

definition user_blocks :: "user_ptrs \<Rightarrow> ptr list" where
  "user_blocks u = [up_name u, up_information u]"

definition users_blocks :: "user_list_ptrs \<Rightarrow> ptr list" where
  "users_blocks us = concat (map user_blocks (ulp_users us)) @ [ulp_user us]"

definition names_blocks :: "name_list_ptrs \<Rightarrow> ptr list" where
  "names_blocks ns = nlp_names ns @ [nlp_array ns]"

definition message_blocks :: "message_list_ptrs \<Rightarrow> ptr list" where
  "message_blocks ms = concat (map (\<lambda>x. [mp_user x, mp_text x]) (mlp_items ms)) @ [mlp_messages ms]"

definition chats_blocks :: "chat_list_ptrs \<Rightarrow> ptr list" where
  "chats_blocks cs =
     concat (map (\<lambda>c. names_blocks (cp_members c) @ [cp_description c, cp_admin c]) (clp_chats cs)) @ [clp_chat_info cs]"

definition notification_blocks :: "notification_ptrs \<Rightarrow> ptr list" where
  "notification_blocks n = names_blocks (np_friend_request n) @ [np_chats_with_messages n]"

text \<open>What is taken out of gSOAP's management, what is left there, and what is freed after the use.\<close>

fun unlinked :: "reply_use \<Rightarrow> ptr list" where
  "unlinked (Got_user _ u) = user_blocks u"
| "unlinked (Got_friends us) = users_blocks us"
| "unlinked (Got_messages _ ms) = message_blocks ms"
| "unlinked (Got_chats cs) = chats_blocks cs"
| "unlinked (Got_notifications n) = notification_blocks n"
| "unlinked (Got_file p) = [p]"
| "unlinked (Got_data _ _) = []"

fun kept_managed :: "reply_use \<Rightarrow> ptr list" where
  "kept_managed (Got_messages _ ms) = map mp_file_name (mlp_items ms)"
| "kept_managed (Got_notifications n) = users_blocks (np_new_friends n) @ [np_chats_read_times n] @
     names_blocks (np_chat_members n) @ names_blocks (np_rem_chat_members n) @ names_blocks (np_chat_admins n)"
| "kept_managed (Got_data _ d) = chats_blocks (dp_chats d) @ users_blocks (dp_friends d) @ names_blocks (dp_friend_requests d)"
| "kept_managed _ = []"

fun disposed :: "nat \<Rightarrow> reply_use \<Rightarrow> ptr list" where
  "disposed self (Got_user failed u) = (if failed then [] else user_blocks u @ [Some self])"
| "disposed self (Got_friends us) = []"
| "disposed self (Got_messages failed ms) = (if failed then [] else message_blocks ms)"
| "disposed self (Got_chats cs) = chats_blocks cs @ [Some self]"
| "disposed self (Got_notifications n) = notification_blocks n @ [Some self]"
| "disposed self (Got_file p) = [p, Some self]"
| "disposed self (Got_data failed d) = (if failed then chats_blocks (dp_chats d) @ [Some self] else [])"

lemma fold_unlink: "fold (\<lambda>x. unlink_all (g x)) xs a = unlink_all (concat (map g xs)) a"
  by (induction xs arbitrary: a) (simp_all add: unlink_all_append)

lemma fold_soap_unlink: "fold soap_unlink ps a = unlink_all ps a"
  by (induction ps arbitrary: a) simp_all

lemma hand_over_eq: "hand_over u a = unlink_all (unlinked u) a"
proof (cases u)
  case (Got_user failed p)
  then show ?thesis by (simp add: net_unlink_user_def user_blocks_def Let_def)
next
  case (Got_friends us)
  have e: "net_unlink_user = (\<lambda>p. unlink_all (user_blocks p))"
    by (simp add: fun_eq_iff net_unlink_user_def user_blocks_def Let_def)
  show ?thesis
    by (simp only: Got_friends hand_over.simps net_unlink_user_list_def Let_def e fold_unlink)
      (simp add: users_blocks_def unlink_all_append)
next
  case (Got_messages failed ms)
  have e: "(\<lambda>x a. soap_unlink (mp_text x) (soap_unlink (mp_user x) a)) = (\<lambda>x. unlink_all [mp_user x, mp_text x])"
    by (simp add: fun_eq_iff)
  show ?thesis
    by (simp only: Got_messages hand_over.simps net_unlink_message_list_def Let_def e fold_unlink)
      (simp add: message_blocks_def unlink_all_append)
next
  case (Got_chats cs)
  have e: "(\<lambda>c a. soap_unlink (cp_admin c) (soap_unlink (cp_description c)
      (soap_unlink (nlp_array (cp_members c)) (fold soap_unlink (nlp_names (cp_members c)) a)))) =
    (\<lambda>c. unlink_all (names_blocks (cp_members c) @ [cp_description c, cp_admin c]))"
    by (simp add: fun_eq_iff names_blocks_def fold_soap_unlink unlink_all_append)
  show ?thesis
    by (simp only: Got_chats hand_over.simps net_unlink_chat_list_def Let_def e fold_unlink)
      (simp add: chats_blocks_def unlink_all_append)
next
  case (Got_notifications n)
  then show ?thesis
    by (simp add: net_unlink_notification_list_def notification_blocks_def names_blocks_def Let_def fold_soap_unlink
        unlink_all_append)
qed (simp_all add: net_unlink_file_def)

lemma net_free_chat_list_eq: "net_free_chat_list self cs a = free_all (chats_blocks cs @ [Some self]) a"
proof -
  have e: "(\<lambda>c a. do {
         a \<leftarrow> each free (nlp_names (cp_members c)) a;
         a \<leftarrow> free (nlp_array (cp_members c)) a;
         a \<leftarrow> free (cp_description c) a;
         free (cp_admin c) a
       }) = (\<lambda>c. free_all (names_blocks (cp_members c) @ [cp_description c, cp_admin c]))"
    by (simp add: fun_eq_iff names_blocks_def each_append each_fun del: free_simps)
  show ?thesis
    by (simp only: net_free_chat_list_def e each_concat)
      (simp add: chats_blocks_def each_append each_fun del: free_simps)
qed

lemma dispose_eq: "dispose self u a = free_all (disposed self u) a"
proof (cases u)
  case (Got_messages failed ms)
  have e: "(\<lambda>x a. do { a \<leftarrow> free (mp_user x) a; free (mp_text x) a }) = (\<lambda>x. free_all [mp_user x, mp_text x])"
    by (simp add: fun_eq_iff del: free_simps)
  show ?thesis
    by (simp only: Got_messages dispose.simps net_free_message_list_def e each_concat)
      (simp add: message_blocks_def each_append each_fun del: free_simps)
qed (simp_all add: net_free_user_def net_free_user_list_def net_free_chat_list_eq net_free_notification_list_def
    net_free_file_def user_blocks_def notification_blocks_def names_blocks_def each_append each_fun del: free_simps)

end
