(* ===== verification/Memory_Specs.thy ===== *)
theory Memory_Specs
  imports Reply_Memory
begin

text \<open>
  Whole runs: replies arrive and are disposed of in any order, as when \<open>psd_recv_notifications\<close> fetches
  chats in between or two threads use the client; at the end \<open>net_free\<close> calls \<open>soap_end\<close>.
\<close>

section \<open>Runs\<close>

type_synonym got = "nat \<times> reply_use"

definition received :: "got \<Rightarrow> ptr list" where
  "received x = Some (fst x) # unlinked (snd x) @ kept_managed (snd x)"

text \<open>An allocation gives blocks that are not in use, each of them once.  The numbers stand for blocks, not for
  addresses: a block that is freed too early does not come back under its number while gSOAP still has it in
  its list.\<close>

definition newly :: "got \<Rightarrow> arena \<Rightarrow> bool" where
  "newly x a \<longleftrightarrow> distinct (addrs (received x)) \<and> set (addrs (received x)) \<inter> (live a \<union> managed a) = {}"

definition receive :: "got \<Rightarrow> arena \<Rightarrow> arena" where
  "receive x a = hand_over (snd x) (arrive (fst x) (unlinked (snd x) @ kept_managed (snd x)) a)"





section \<open>The invariant\<close>

definition tidy :: "arena \<Rightarrow> bool" where
  "tidy a \<longleftrightarrow> managed a \<subseteq> live a"





lemma receive_simps:
  "live (receive x b) = live b \<union> set (addrs (received x))"
  "managed (receive x b) = managed b \<union> set (addrs (unlinked (snd x) @ kept_managed (snd x))) - set (addrs (unlinked (snd x)))"
  by (simp_all add: receive_def hand_over_eq unlink_all_def arrive_def received_def)







section \<open>The properties\<close>









text \<open>a chat's array that cannot be allocated while \<open>psd_recv_all_data\<close> reads the chats: the reply is
  freed although gSOAP still manages its blocks, so \<open>soap_end\<close> frees them a second time.\<close>

theorem all_data_double_free:
  assumes "tidy a" "newly (self, Got_data True d) a" "clp_chat_info (dp_chats d) = Some x"
  shows "\<exists>b. dispose self (Got_data True d) (receive (self, Got_data True d) a) = Some b \<and> soap_end b = None"
proof -
  let ?r = "receive (self, Got_data True d) a" and ?F = "chats_blocks (dp_chats d) @ [Some self]"
  have x: "x \<in> set (addrs (chats_blocks (dp_chats d)))" by (simp add: chats_blocks_def assms(3))
  have "distinct (addrs ?F)" "set (addrs ?F) \<subseteq> live ?r"
    using assms(2) by (auto simp: newly_def received_def receive_simps)
  then have "dispose self (Got_data True d) ?r = Some (?r\<lparr>live := live ?r - set (addrs ?F)\<rparr>)"
    unfolding dispose_eq by (simp only: disposed.simps if_True free_all_ok)
  moreover have "x \<in> managed ?r" using x by (simp add: receive_simps)
  then have "soap_end (?r\<lparr>live := live ?r - set (addrs ?F)\<rparr>) = None" using x by (auto simp: soap_end_def)
  ultimately show ?thesis by blast
qed

theorem all_data_double_free_witness:
  "\<exists>b. dispose 2 (Got_data True \<lparr>dp_chats = \<lparr>clp_chat_info = Some 3, clp_chats = []\<rparr>,
        dp_friends = \<lparr>ulp_user = Some 4, ulp_users = []\<rparr>, dp_friend_requests = \<lparr>nlp_array = None, nlp_names = []\<rparr>\<rparr>)
      (receive (2, Got_data True \<lparr>dp_chats = \<lparr>clp_chat_info = Some 3, clp_chats = []\<rparr>,
        dp_friends = \<lparr>ulp_user = Some 4, ulp_users = []\<rparr>, dp_friend_requests = \<lparr>nlp_array = None, nlp_names = []\<rparr>\<rparr>)
        \<lparr>live = {12}, managed = {}\<rparr>) = Some b \<and> soap_end b = None"
  by (rule all_data_double_free [where x = 3])
    (simp_all add: tidy_def newly_def received_def chats_blocks_def users_blocks_def names_blocks_def)

end
