(* ===== verification/List_Memory.thy ===== *)
theory List_Memory
  imports Chats Friend_Requests Blocks "HOL-Library.Multiset"
begin

text \<open>
  The memory of the client's lists.  The theories \<open>Friends\<close> to \<open>Chats\<close> say what the lists contain; here
  the same operations are modelled with the blocks they allocate and free, on every branch: nodes, items,
  the strings of an item, the ghost node, \<open>list_info\<close> and the structure of a list.  They compute what
  those theories say, and the judgement \<open>owns\<close> accounts for every block.
\<close>

section \<open>Blocks that are owned\<close>

definition allocate :: "'z mem_scheme \<Rightarrow> arena \<Rightarrow> ptr \<times> 'z mem_scheme \<times> arena" where
  "allocate m a =
     (case malloc m of (None, m) \<Rightarrow> (None, m, a)
      | (Some x, m) \<Rightarrow> (Some x, m, a\<lparr>live := insert x (live a)\<rparr>))"

text \<open>The blocks \<open>ps\<close> are allocated, each of them once; \<open>R\<close> is the rest of the memory.\<close>

definition owns :: "nat set \<Rightarrow> ptr list \<Rightarrow> 'z mem_scheme \<Rightarrow> arena \<Rightarrow> bool" where
  "owns R ps m a \<longleftrightarrow> distinct (addrs ps) \<and> live a = R \<union> set (addrs ps) \<and> R \<inter> set (addrs ps) = {} \<and>
     (\<forall>x \<in> live a. x < brk m)"

lemma set_addrs: "set (addrs ps) = {x. Some x \<in> set ps}"
  by (induction ps) (auto simp: addrs_def)

lemma owns_perm:
  assumes "owns R ps m a" "mset ps = mset qs"
  shows "owns R qs m a"
proof -
  have "set ps = set qs" using assms(2) by (rule mset_eq_setD)
  moreover have "mset (addrs ps) = mset (addrs qs)" using assms(2) by (simp add: addrs_def mset_filter)
  then have "distinct (addrs ps) = distinct (addrs qs)" by (rule mset_eq_imp_distinct_iff)
  ultimately show ?thesis using assms(1) by (simp add: owns_def set_addrs)
qed

lemma owns_free_all:
  assumes "owns R (qs @ ps) m a"
  shows "\<exists>a'. free_all qs a = Some a' \<and> owns R ps m a'"
proof -
  have "free_all qs a = Some (a\<lparr>live := live a - set (addrs qs)\<rparr>)"
    using assms by (intro free_all_ok) (auto simp: owns_def)
  moreover have "owns R ps m (a\<lparr>live := live a - set (addrs qs)\<rparr>)"
    using assms by (auto simp: owns_def)
  ultimately show ?thesis by blast
qed

lemma owns_leak: "owns R (qs @ ps) m a \<Longrightarrow> owns (R \<union> set (addrs qs)) ps m a"
  by (auto simp: owns_def)

lemma owns_append:
  "owns R (qs @ ps) m a \<longleftrightarrow>
   owns (R \<union> set (addrs ps)) qs m a \<and> distinct (addrs ps) \<and> R \<inter> set (addrs ps) = {}"
  by (auto simp: owns_def)

lemma owns_None [simp]: "owns R (None # ps) m a = owns R ps m a"
  by (simp add: owns_def)

lemma owns_malloc:
  assumes "owns R ps m a"
  obtains (none) m' where "malloc m = (None, m')" "allocate m a = (None, m', a)" "owns R ps m' a"
  | (one) x m' a' where "malloc m = (Some x, m')" "allocate m a = (Some x, m', a')" "owns R (Some x # ps) m' a'"
proof (cases "avail m (brk m)")
  case True
  let ?a = "a\<lparr>live := insert (brk m) (live a)\<rparr>" and ?m = "m\<lparr>brk := Suc (brk m)\<rparr>"
  have "brk m \<notin> live a" using assms by (auto simp: owns_def)
  then have "owns R (Some (brk m) # ps) ?m ?a" using assms by (auto simp: owns_def less_Suc_eq)
  with True show thesis by (intro one [of "brk m" ?m ?a]) (simp_all add: malloc_def allocate_def)
next
  case False
  let ?m = "m\<lparr>brk := Suc (brk m)\<rparr>"
  have "owns R ps ?m a" using assms by (auto simp: owns_def less_Suc_eq)
  with False show thesis by (intro none [of ?m]) (simp_all add: malloc_def allocate_def)
qed

section \<open>\<open>list.c\<close>\<close>

record 'p placed =
  pl_self :: nat
  pl_ghost :: nat
  pl_info :: nat
  pl_limit :: int
  pl_stamp :: cint
  pl_nodes :: "(nat \<times> 'p) list"

definition contents :: "('p \<Rightarrow> 'i) \<Rightarrow> 'p placed \<Rightarrow> 'i clist" where
  "contents f l = \<lparr>entries = map (f \<circ> snd) (pl_nodes l), limit = pl_limit l, stamp = pl_stamp l\<rparr>"

definition list_new_at :: "nat \<Rightarrow> int \<Rightarrow> 'z mem_scheme \<Rightarrow> arena \<Rightarrow> ('p placed option \<times> 'z mem_scheme \<times> arena) option" where
  "list_new_at info n m a =
     (case allocate m a of (None, m, a) \<Rightarrow> Some (None, m, a)
      | (Some self, m, a) \<Rightarrow>
     (case allocate m a of (None, m, a) \<Rightarrow> do { a \<leftarrow> free (Some self) a; Some (None, m, a) }
      | (Some ghost, m, a) \<Rightarrow>
         Some (Some \<lparr>pl_self = self, pl_ghost = ghost, pl_info = info, pl_limit = n, pl_stamp = 0, pl_nodes = []\<rparr>, m, a)))"

definition list_add_item_at ::
  "('p \<Rightarrow> 'i) \<Rightarrow> ('i \<Rightarrow> 'i \<Rightarrow> int) \<Rightarrow> 'p \<Rightarrow> 'p placed \<Rightarrow> 'z mem_scheme \<Rightarrow> arena \<Rightarrow> int \<times> 'p placed \<times> 'z mem_scheme \<times> arena" where
  "list_add_item_at f cmp x l m a =
     (if pl_limit l \<le> int (length (pl_nodes l)) then (-1, l, m, a)
      else if List.find (\<lambda>(_, y). cmp (f y) (f x) = 0) (pl_nodes l) \<noteq> None then (-1, l, m, a)
      else case allocate m a of
        (None, m, a) \<Rightarrow> (-1, l, m, a)
      | (Some node, m, a) \<Rightarrow> (0, l\<lparr>pl_nodes := pl_nodes l @ [(node, x)]\<rparr>, m, a))"

definition node_delete_at :: "('p \<Rightarrow> arena \<Rightarrow> arena option) \<Rightarrow> nat \<times> 'p \<Rightarrow> arena \<Rightarrow> arena option" where
  "node_delete_at dtor = (\<lambda>(node, x) a. do { a \<leftarrow> dtor x a; free (Some node) a })"

definition list_free_at :: "('p \<Rightarrow> arena \<Rightarrow> arena option) \<Rightarrow> 'p placed \<Rightarrow> arena \<Rightarrow> arena option" where
  "list_free_at dtor l a = do {
     a \<leftarrow> each (node_delete_at dtor) (pl_nodes l) a;
     a \<leftarrow> free (Some (pl_ghost l)) a;
     a \<leftarrow> free (Some (pl_info l)) a;
     free (Some (pl_self l)) a
   }"

text \<open>\<open>list_find_node\<close> and \<open>list_delete_node\<close>, as the \<open>*_del_*\<close> functions call them.\<close>

definition list_delete_at ::
  "('p \<Rightarrow> arena \<Rightarrow> arena option) \<Rightarrow> ('p \<Rightarrow> bool) \<Rightarrow> 'p placed \<Rightarrow> arena \<Rightarrow> (int \<times> 'p placed \<times> arena) option" where
  "list_delete_at dtor P l a =
     (case List.extract (\<lambda>(_, x). P x) (pl_nodes l) of
        None \<Rightarrow> Some (-1, l, a)
      | Some (earlier, node, later) \<Rightarrow> do {
          a \<leftarrow> node_delete_at dtor node a;
          Some (0, l\<lparr>pl_nodes := earlier @ later\<rparr>, a)
        })"

definition list_delete_first_at :: "('p \<Rightarrow> arena \<Rightarrow> arena option) \<Rightarrow> int \<Rightarrow> 'p placed \<Rightarrow> arena \<Rightarrow> ('p placed \<times> arena) option" where
  "list_delete_first_at dtor k l a = do {
     a \<leftarrow> each (node_delete_at dtor) (take (nat k) (pl_nodes l)) a;
     Some (l\<lparr>pl_nodes := drop (nat k) (pl_nodes l)\<rparr>, a)
   }"

text \<open>What the \<open>*_add_*\<close> functions do with a new item: add it to the list or free it.\<close>

definition attach ::
  "('p \<Rightarrow> arena \<Rightarrow> arena option) \<Rightarrow> ('p \<Rightarrow> 'i) \<Rightarrow> ('i \<Rightarrow> 'i \<Rightarrow> int) \<Rightarrow> 'p \<Rightarrow> 'p placed \<Rightarrow> 'z mem_scheme \<Rightarrow> arena \<Rightarrow>
   (int \<times> 'p placed \<times> 'z mem_scheme \<times> arena) option" where
  "attach dtor f cmp x l m a =
     (case list_add_item_at f cmp x l m a of (r, l, m, a) \<Rightarrow>
        if r \<noteq> 0 then do { a \<leftarrow> dtor x a; Some (-1, l, m, a) } else Some (0, l, m, a))"

section \<open>The blocks of a list\<close>

definition list_blocks :: "('p \<Rightarrow> ptr list) \<Rightarrow> 'p placed \<Rightarrow> ptr list" where
  "list_blocks owned l = concat (map (\<lambda>(node, x). owned x @ [Some node]) (pl_nodes l)) @
     [Some (pl_ghost l), Some (pl_info l), Some (pl_self l)]"

text \<open>An operation on a list: it ends without an invalid \<open>free\<close>, does to the contents what \<open>spec\<close> says, and
  the blocks \<open>L\<close>, about which \<open>Q\<close> holds, are lost.\<close>

definition follows ::
  "nat set \<Rightarrow> (int \<Rightarrow> nat set \<Rightarrow> bool) \<Rightarrow> ('p \<Rightarrow> ptr list) \<Rightarrow> ('p \<Rightarrow> 'i) \<Rightarrow>
   (int \<times> 'p placed \<times> 'z mem_scheme \<times> arena) option \<Rightarrow> int \<times> 'i clist \<times> 'z mem_scheme \<Rightarrow> bool" where
  "follows R Q owned f result spec \<longleftrightarrow>
     (\<exists>r l m a L. result = Some (r, l, m, a) \<and> spec = (r, contents f l, m) \<and>
        owns (R \<union> L) (list_blocks owned l) m a \<and> Q r L)"

abbreviation nothing_lost :: "int \<Rightarrow> nat set \<Rightarrow> bool" where
  "nothing_lost \<equiv> \<lambda>r L. L = {}"

lemma follows_malloc:
  assumes "owns R ps m a"
    and "\<And>m. owns R ps m a \<Longrightarrow> follows R Q own f (A m a) (A' m)"
    and "\<And>x m a. owns R (Some x # ps) m a \<Longrightarrow> follows R Q own f (B x m a) (B' x m)"
  shows "follows R Q own f (case allocate m a of (None, m, a) \<Rightarrow> A m a | (Some x, m, a) \<Rightarrow> B x m a)
    (case malloc m of (None, m) \<Rightarrow> A' m | (Some x, m) \<Rightarrow> B' x m)"
  using owns_malloc [OF assms(1)] by (cases rule: owns_malloc [OF assms(1)]) (use assms(2,3) in simp_all)

lemma owns_free:
  assumes "owns R (p # ps) m a"
  shows "\<exists>a'. free p a = Some a' \<and> owns R ps m a'"
  using owns_free_all [of R "[p]" ps m a] assms by (simp add: each_fun del: free_simps)

lemma follows_free:
  assumes "owns R (p # ps) m a" "\<And>a. owns R ps m a \<Longrightarrow> follows R Q own f (K a) spec"
  shows "follows R Q own f (Option.bind (free p a) K) spec"
  using owns_free [OF assms(1)] assms(2) by auto

lemma follows_free_below:
  assumes "owns R (q # p # ps) m a" "\<And>a. owns R (q # ps) m a \<Longrightarrow> follows R Q own f (K a) spec"
  shows "follows R Q own f (Option.bind (free p a) K) spec"
proof (rule follows_free)
  show "owns R (p # q # ps) m a" using assms(1) by (rule owns_perm) simp
qed (rule assms(2))

lemma follows_return:
  assumes "owns R (list_blocks own l) m a" "Q r {}" "contents f l = l'"
  shows "follows R Q own f (Some (r, l, m, a)) (r, l', m)"
  using assms by (auto simp: follows_def intro!: exI [of _ "{}"])

lemma mset_concat_add:
  "(\<And>x. mset (f x) = mset (g x) + mset (h x)) \<Longrightarrow>
   mset (concat (map f xs)) = mset (concat (map g xs)) + mset (concat (map h xs))"
  by (induction xs) simp_all

text \<open>The same for a function that creates a list.\<close>

definition creates ::
  "nat set \<Rightarrow> ptr list \<Rightarrow> ('p \<Rightarrow> ptr list) \<Rightarrow> ('p \<Rightarrow> 'i) \<Rightarrow> ('p placed option \<times> 'z mem_scheme \<times> arena) option \<Rightarrow>
   'i clist option \<times> 'z mem_scheme \<Rightarrow> bool" where
  "creates R ps owned f result spec \<longleftrightarrow>
     (\<exists>l m a. result = Some (l, m, a) \<and> spec = (map_option (contents f) l, m) \<and>
        (case l of None \<Rightarrow> owns R ps m a | Some l \<Rightarrow> pl_nodes l = [] \<and> owns R (list_blocks owned l @ ps) m a))"

lemma follows_mono: "follows R Q own f res spec \<Longrightarrow> (\<And>r L. Q r L \<Longrightarrow> Q' r L) \<Longrightarrow> follows R Q' own f res spec"
  unfolding follows_def by blast

section \<open>What a destructor promises\<close>

text \<open>The destructor of an item frees some of its blocks; the others are lost.  Only \<open>chat_free\<close> loses any.\<close>

locale destructor =
  fixes dtor :: "'p \<Rightarrow> arena \<Rightarrow> arena option" and freed kept :: "'p \<Rightarrow> ptr list"
  assumes dtor_frees: "dtor x a = free_all (freed x) a"
begin

abbreviation owned :: "'p \<Rightarrow> ptr list" where
  "owned \<equiv> \<lambda>x. freed x @ kept x"

abbreviation lost_of :: "'p list \<Rightarrow> nat set" where
  "lost_of xs \<equiv> set (addrs (concat (map kept xs)))"

lemma node_delete_frees: "node_delete_at dtor = (\<lambda>(node, x). free_all (freed x @ [Some node]))"
  by (simp add: node_delete_at_def fun_eq_iff dtor_frees each_append each_fun del: free_simps)

lemma nodes_delete_frees:
  "each (node_delete_at dtor) nodes a = free_all (concat (map (\<lambda>(node, x). freed x @ [Some node]) nodes)) a"
  by (simp add: node_delete_frees each_concat [symmetric] case_prod_unfold)

lemma list_free_frees: "list_free_at dtor l a = free_all (list_blocks freed l) a"
  by (simp add: list_free_at_def list_blocks_def nodes_delete_frees each_append each_fun del: free_simps)

lemma mset_owned_nodes:
  "mset (concat (map (\<lambda>(node, x). owned x @ [Some node]) nodes)) =
   mset (concat (map (\<lambda>(node, x). freed x @ [Some node]) nodes)) + mset (concat (map kept (map snd nodes)))"
  unfolding map_map by (rule mset_concat_add) auto

lemma owns_nodes_delete:
  assumes "owns R (concat (map (\<lambda>(node, x). owned x @ [Some node]) nodes) @ ps) m a"
  shows "\<exists>a'. each (node_delete_at dtor) nodes a = Some a' \<and> owns (R \<union> lost_of (map snd nodes)) ps m a'"
proof -
  have "owns R (concat (map (\<lambda>(node, x). freed x @ [Some node]) nodes) @ concat (map kept (map snd nodes)) @ ps) m a"
    using assms by (rule owns_perm) (simp only: mset_append mset_owned_nodes add.assoc)
  from owns_free_all [OF this] show ?thesis by (auto simp: nodes_delete_frees dest: owns_leak)
qed

lemma owns_list_free:
  assumes "owns R (list_blocks owned l @ ps) m a"
  shows "\<exists>a'. list_free_at dtor l a = Some a' \<and> owns (R \<union> lost_of (map snd (pl_nodes l))) ps m a'"
proof -
  let ?rest = "[Some (pl_ghost l), Some (pl_info l), Some (pl_self l)]"
  obtain b where b: "each (node_delete_at dtor) (pl_nodes l) a = Some b"
    and o: "owns (R \<union> lost_of (map snd (pl_nodes l))) (?rest @ ps) m b"
    using owns_nodes_delete [of R "pl_nodes l" "?rest @ ps" m a] assms by (auto simp: list_blocks_def)
  from owns_free_all [OF o] b show ?thesis by (simp add: list_free_at_def each_fun del: free_simps)
qed

lemma attach_follows:
  assumes "owns R (owned x @ list_blocks owned l) m a"
  shows "follows R (\<lambda>r L. L = (if r = 0 then {} else set (addrs (kept x)))) owned f
    (attach dtor f cmp x l m a) (cl_add cmp (f x) (contents f l) m)"
proof -
  have fail: "follows R (\<lambda>r L. L = (if r = 0 then {} else set (addrs (kept x)))) owned f
      (do { a \<leftarrow> dtor x a; Some (-1, l, m, a) }) (-1, contents f l, m)"
    if o: "owns R (owned x @ list_blocks owned l) m a" for m :: "'z mem_scheme" and a
  proof -
    obtain a' where "dtor x a = Some a'" "owns R (kept x @ list_blocks owned l) m a'"
      using owns_free_all [of R "freed x" "kept x @ list_blocks owned l"] o by (auto simp: dtor_frees)
    then show ?thesis by (auto simp: follows_def dest: owns_leak)
  qed
  have find: "(List.find (\<lambda>y. cmp y (f x) = 0) (map (f \<circ> snd) nodes) = None) =
      (List.find (\<lambda>(_, y). cmp (f y) (f x) = 0) nodes = None)" for nodes :: "(nat \<times> 'p) list"
    by (induction nodes) auto
  consider (bad) "pl_limit l \<le> int (length (pl_nodes l)) \<or> List.find (\<lambda>(_, y). cmp (f y) (f x) = 0) (pl_nodes l) \<noteq> None"
    | (good) "\<not> pl_limit l \<le> int (length (pl_nodes l))" "List.find (\<lambda>(_, y). cmp (f y) (f x) = 0) (pl_nodes l) = None"
    by blast
  then show ?thesis
  proof cases
    case bad
    then show ?thesis using fail [OF assms]
      by (auto simp: attach_def list_add_item_at_def cl_add_def contents_def find)
  next
    case good
    show ?thesis
      using assms
    proof (cases rule: owns_malloc)
      case (none m')
      then show ?thesis using good fail [OF none(3)]
        by (simp add: attach_def list_add_item_at_def cl_add_def contents_def find)
    next
      case (one node m' a')
      let ?l = "l\<lparr>pl_nodes := pl_nodes l @ [(node, x)]\<rparr>"
      have "owns R (list_blocks owned ?l) m' a'"
        using one(3) by (rule owns_perm) (simp add: list_blocks_def)
      moreover have "contents f ?l = contents f l\<lparr>entries := entries (contents f l) @ [f x]\<rparr>"
        by (simp add: contents_def)
      ultimately show ?thesis using good one(1,2)
        by (simp add: attach_def list_add_item_at_def cl_add_def follows_def contents_def find)
    qed
  qed
qed

lemma attach_follows_all:
  assumes "owns R (owned x @ list_blocks owned l) m a" "kept x = []"
  shows "follows R nothing_lost owned f (attach dtor f cmp x l m a) (cl_add cmp (f x) (contents f l) m)"
  using attach_follows [OF assms(1)] by (rule follows_mono) (simp add: assms(2))

lemma list_delete_follows:
  assumes "owns R (list_blocks owned l) m a"
  shows "\<exists>r l' a' L. list_delete_at dtor (\<lambda>x. vcmp (f x) v = 0) l a = Some (r, l', a') \<and>
    cl_delete vcmp v (contents f l) = (r, contents f l') \<and> owns (R \<union> L) (list_blocks owned l') m a' \<and>
    L \<subseteq> lost_of (map snd (pl_nodes l))"
proof (cases "List.extract (\<lambda>(_, x). vcmp (f x) v = 0) (pl_nodes l)")
  case None
  then have "drop_match (\<lambda>x. vcmp x v = 0) (map (f \<circ> snd) (pl_nodes l)) = None"
    by (auto simp: drop_match_split extract_None_iff find_None_iff_set split: option.split)
  with None assms show ?thesis
    by (intro exI [of _ "-1"] exI [of _ l] exI [of _ a] exI [of _ "{}"])
      (simp add: list_delete_at_def cl_delete_def contents_def)
next
  case (Some e)
  then obtain ys node x zs where e: "List.extract (\<lambda>(_, x). vcmp (f x) v = 0) (pl_nodes l) = Some (ys, (node, x), zs)"
    by (metis prod.exhaust)
  then have nodes: "pl_nodes l = ys @ (node, x) # zs" "vcmp (f x) v = 0" "\<forall>y \<in> set ys. vcmp (f (snd y)) v \<noteq> 0"
    by (auto simp: extract_Some_iff)
  let ?l = "l\<lparr>pl_nodes := ys @ zs\<rparr>"
  have "drop_match P (map g ys @ y # zs') = Some (map g ys @ zs')" if "\<forall>y \<in> set ys. \<not> P (g y)" "P y"
    for P :: "'b \<Rightarrow> bool" and g y zs' using that by (induction ys) auto
  then have spec: "cl_delete vcmp v (contents f l) = (0, contents f ?l)"
    using nodes by (simp add: cl_delete_def contents_def)
  have "owns R (concat (map (\<lambda>(node, x). owned x @ [Some node]) [(node, x)]) @ list_blocks owned ?l) m a"
    using assms by (rule owns_perm) (simp add: list_blocks_def nodes)
  from owns_nodes_delete [OF this] obtain a' where
    "node_delete_at dtor (node, x) a = Some a'" "owns (R \<union> lost_of [x]) (list_blocks owned ?l) m a'"
    by (auto simp: each_fun)
  then show ?thesis using spec e
    by (intro exI [of _ 0] exI [of _ ?l] exI [of _ a'] exI [of _ "lost_of [x]"]) (auto simp: list_delete_at_def nodes)
qed

lemma list_delete_first_follows:
  assumes "owns R (list_blocks owned l) m a"
  shows "\<exists>l' a' L. list_delete_first_at dtor k l a = Some (l', a') \<and> contents f l' = cl_delete_first k (contents f l) \<and>
    owns (R \<union> L) (list_blocks owned l') m a' \<and> L \<subseteq> lost_of (map snd (pl_nodes l))"
proof -
  let ?l = "l\<lparr>pl_nodes := drop (nat k) (pl_nodes l)\<rparr>" and ?first = "take (nat k) (pl_nodes l)"
  have split: "pl_nodes l = ?first @ drop (nat k) (pl_nodes l)" by simp
  have "list_blocks owned l = concat (map (\<lambda>(node, x). owned x @ [Some node]) ?first) @ list_blocks owned ?l"
    unfolding list_blocks_def by (subst split) (simp del: append_take_drop_id)
  with owns_nodes_delete [of R ?first "list_blocks owned ?l" m a] assms
  obtain a' where "each (node_delete_at dtor) ?first a = Some a'"
    "owns (R \<union> lost_of (map snd ?first)) (list_blocks owned ?l) m a'" by auto
  moreover have "lost_of (map snd ?first) \<subseteq> lost_of (map snd (pl_nodes l))"
    using set_take_subset [of "nat k" "pl_nodes l"] by (auto simp: set_addrs)
  ultimately show ?thesis
    by (auto simp: list_delete_first_at_def cl_delete_first_def contents_def drop_map)
qed

lemma list_new_creates:
  assumes "owns R (Some info # ps) m a"
  shows "\<exists>l m' a'. list_new_at info n m a = Some (l, m', a') \<and> cl_new 0 n m = (map_option (contents f) l, m') \<and>
    (case l of None \<Rightarrow> owns R (Some info # ps) m' a' | Some l \<Rightarrow> pl_nodes l = [] \<and> owns R (list_blocks owned l @ ps) m' a')"
  using assms
proof (cases rule: owns_malloc)
  case (none m1)
  then show ?thesis by (simp add: list_new_at_def cl_new_def)
next
  case (one self m1 a1)
  show ?thesis
    using one(3)
  proof (cases rule: owns_malloc)
    case (none m2)
    with owns_free [OF none(3)] one(1,2) show ?thesis
      by (auto simp: list_new_at_def cl_new_def split: if_splits)
  next
    case (one ghost m2 a2)
    have "owns R ([Some ghost, Some info, Some self] @ ps) m2 a2"
      using one(3) by (rule owns_perm) simp
    then show ?thesis using one(1,2) \<open>malloc m = (Some self, m1)\<close> \<open>allocate m a = (Some self, m1, a1)\<close>
      by (simp add: list_new_at_def cl_new_def list_blocks_def contents_def)
  qed
qed

lemma new_creates:
  assumes "owns R ps m a"
  shows "creates R ps owned f
    (case allocate m a of (None, m, a) \<Rightarrow> Some (None, m, a)
     | (Some info, m, a) \<Rightarrow> do {
         (l, m, a) \<leftarrow> list_new_at info n m a;
         case l of None \<Rightarrow> do { a \<leftarrow> free (Some info) a; Some (None, m, a) } | Some l \<Rightarrow> Some (Some l, m, a)
       })
    (case malloc m of (None, m) \<Rightarrow> (None, m) | (Some _, m) \<Rightarrow> cl_new 0 n m)"
  using assms
proof (cases rule: owns_malloc)
  case (none m1)
  then show ?thesis by (simp add: creates_def)
next
  case (one info m1 a1)
  from list_new_creates [OF one(3), of n f] obtain l m2 a2 where
    l: "list_new_at info n m1 a1 = Some (l, m2, a2)" "cl_new 0 n m1 = (map_option (contents f) l, m2)"
    "case l of None \<Rightarrow> owns R (Some info # ps) m2 a2 | Some l \<Rightarrow> pl_nodes l = [] \<and> owns R (list_blocks owned l @ ps) m2 a2"
    by blast
  show ?thesis
  proof (cases l)
    case None
    with l(3) obtain a3 where "free (Some info) a2 = Some a3" "owns R ps m2 a3" using owns_free by fastforce
    with None one(1,2) l(1,2) show ?thesis by (simp add: creates_def)
  qed (use one(1,2) l in \<open>simp add: creates_def\<close>)
qed

text \<open>Without the \<open>free\<close>, \<open>list_info\<close> may be lost.\<close>

lemma new_creates_leaking:
  assumes "owns R ps m a"
  shows "\<exists>L. creates (R \<union> L) ps owned f
    (case allocate m a of (None, m, a) \<Rightarrow> Some (None, m, a) | (Some info, m, a) \<Rightarrow> list_new_at info n m a)
    (case malloc m of (None, m) \<Rightarrow> (None, m) | (Some _, m) \<Rightarrow> cl_new 0 n m)"
  using assms
proof (cases rule: owns_malloc)
  case (none m1)
  then show ?thesis by (intro exI [of _ "{}"]) (simp add: creates_def)
next
  case (one info m1 a1)
  from list_new_creates [OF one(3), of n f] obtain l m2 a2 where
    l: "list_new_at info n m1 a1 = Some (l, m2, a2)" "cl_new 0 n m1 = (map_option (contents f) l, m2)"
    "case l of None \<Rightarrow> owns R (Some info # ps) m2 a2 | Some l \<Rightarrow> pl_nodes l = [] \<and> owns R (list_blocks owned l @ ps) m2 a2"
    by blast
  show ?thesis
  proof (cases l)
    case None
    with l(3) have "owns (R \<union> {info}) ps m2 a2" using owns_leak [of R "[Some info]" ps] by simp
    with None one(1,2) l(1,2) show ?thesis by (intro exI [of _ "{info}"]) (simp add: creates_def)
  qed (use one(1,2) l in \<open>intro exI [of _ "{}"], simp add: creates_def\<close>)
qed

end

end
