(* ===== verification/Client_Memory.thy ===== *)
theory Client_Memory
  imports List_Memory
begin

text \<open>
  The blocks of \<open>friends.c\<close>, \<open>friend_requests.c\<close>, \<open>chat_members.c\<close>, \<open>messages.c\<close> and \<open>chats.c\<close>: for every
  list its items as they lie in memory, the destructors, and the functions that create a list, add to it and
  delete from it, which compute what \<open>Friends\<close> to \<open>Chats\<close> say.
\<close>

section \<open>Items in memory\<close>

text \<open>The fields are addresses: of the structure, named \<open>self\<close>, and of its strings; \<open>item\<close> is the content.\<close>

record friend_place =
  frp_self :: nat
  frp_name :: nat
  frp_information :: nat
  frp_item :: friend_info

record request_place =
  rqp_self :: nat
  rqp_name :: nat
  rqp_item :: request_info

record member_place =
  mbp_self :: nat
  mbp_name :: nat
  mbp_item :: member_info

record message_place =
  msp_self :: nat
  msp_sender :: ptr
  msp_text :: nat
  msp_attach_path :: ptr
  msp_item :: message_info

text \<open>The members and messages of a chat are those of its two lists.\<close>

record chat_place =
  chp_self :: nat
  chp_description :: nat
  chp_admin :: ptr
  chp_members :: "member_place placed"
  chp_messages :: "message_place placed"
  chp_item :: chat_info

definition chat_at :: "chat_place \<Rightarrow> chat_info" where
  "chat_at p = chp_item p\<lparr>cha_members := contents mbp_item (chp_members p), cha_messages := contents msp_item (chp_messages p)\<rparr>"

section \<open>Destructors\<close>

definition friend_free :: "friend_place \<Rightarrow> arena \<Rightarrow> arena option" where
  "friend_free p a = do {
     a \<leftarrow> free (Some (frp_name p)) a;
     a \<leftarrow> free (Some (frp_information p)) a;
     free (Some (frp_self p)) a
   }"

definition request_free :: "request_place \<Rightarrow> arena \<Rightarrow> arena option" where
  "request_free p a = do {
     a \<leftarrow> free (Some (rqp_name p)) a;
     free (Some (rqp_self p)) a
   }"

text \<open>\<open>member_free\<close> gets an untyped pointer; it frees what the first field of the structure points to, and
  the structure.\<close>

definition member_free :: "nat \<Rightarrow> nat \<Rightarrow> arena \<Rightarrow> arena option" where
  "member_free self first_field a = do {
     a \<leftarrow> free (Some first_field) a;
     free (Some self) a
   }"

definition member_item_free :: "member_place \<Rightarrow> arena \<Rightarrow> arena option" where
  "member_item_free p a = member_free (mbp_self p) (mbp_name p) a"

definition message_free :: "message_place \<Rightarrow> arena \<Rightarrow> arena option" where
  "message_free p a = do {
     a \<leftarrow> free (msp_sender p) a;
     a \<leftarrow> free (Some (msp_text p)) a;
     a \<leftarrow> free (msp_attach_path p) a;
     free (Some (msp_self p)) a
   }"

definition mes_free :: "message_place placed \<Rightarrow> arena \<Rightarrow> arena option" where
  "mes_free l a = list_free_at message_free l a"

definition members_free :: "member_place placed \<Rightarrow> arena \<Rightarrow> arena option" where
  "members_free l a = list_free_at member_item_free l a"

text \<open>\<open>chat_free\<close> hands the list of the members to \<open>member_free\<close>, as if it were one member; the first field of
  a list is its ghost node.\<close>

definition chat_free :: "chat_place \<Rightarrow> arena \<Rightarrow> arena option" where
  "chat_free p a = do {
     a \<leftarrow> free (Some (chp_description p)) a;
     a \<leftarrow> free (chp_admin p) a;
     a \<leftarrow> mes_free (chp_messages p) a;
     a \<leftarrow> member_free (pl_self (chp_members p)) (pl_ghost (chp_members p)) a;
     free (Some (chp_self p)) a
   }"

definition fri_free :: "friend_place placed \<Rightarrow> arena \<Rightarrow> arena option" where
  "fri_free l a = list_free_at friend_free l a"

definition req_free :: "request_place placed \<Rightarrow> arena \<Rightarrow> arena option" where
  "req_free l a = list_free_at request_free l a"

definition cha_free :: "chat_place placed \<Rightarrow> arena \<Rightarrow> arena option" where
  "cha_free l a = list_free_at chat_free l a"

text \<open>What they free.\<close>

definition friend_blocks :: "friend_place \<Rightarrow> ptr list" where
  "friend_blocks p = [Some (frp_name p), Some (frp_information p), Some (frp_self p)]"

definition request_blocks :: "request_place \<Rightarrow> ptr list" where
  "request_blocks p = [Some (rqp_name p), Some (rqp_self p)]"

definition member_blocks :: "member_place \<Rightarrow> ptr list" where
  "member_blocks p = [Some (mbp_name p), Some (mbp_self p)]"

definition message_item_blocks :: "message_place \<Rightarrow> ptr list" where
  "message_item_blocks p = [msp_sender p, Some (msp_text p), msp_attach_path p, Some (msp_self p)]"

definition chat_freed :: "chat_place \<Rightarrow> ptr list" where
  "chat_freed p = Some (chp_description p) # chp_admin p # list_blocks message_item_blocks (chp_messages p) @
     [Some (pl_ghost (chp_members p)), Some (pl_self (chp_members p)), Some (chp_self p)]"

text \<open>What \<open>chat_free\<close> does not free: the members, their nodes and \<open>list_info\<close>.\<close>

definition chat_kept :: "chat_place \<Rightarrow> ptr list" where
  "chat_kept p = concat (map (\<lambda>(node, x). member_blocks x @ [Some node]) (pl_nodes (chp_members p))) @
     [Some (pl_info (chp_members p))]"

abbreviation chat_blocks :: "chat_place \<Rightarrow> ptr list" where
  "chat_blocks \<equiv> \<lambda>p. chat_freed p @ chat_kept p"

interpretation friend_dtor: destructor friend_free friend_blocks "\<lambda>_. []"
  by unfold_locales (simp add: friend_free_def friend_blocks_def each_fun del: free_simps)

interpretation request_dtor: destructor request_free request_blocks "\<lambda>_. []"
  by unfold_locales (simp add: request_free_def request_blocks_def each_fun del: free_simps)

interpretation member_dtor: destructor member_item_free member_blocks "\<lambda>_. []"
  by unfold_locales (simp add: member_item_free_def member_free_def member_blocks_def each_fun del: free_simps)

interpretation message_dtor: destructor message_free message_item_blocks "\<lambda>_. []"
  by unfold_locales (simp add: message_free_def message_item_blocks_def each_fun del: free_simps)

interpretation chat_dtor: destructor chat_free chat_freed chat_kept
  by unfold_locales (simp add: chat_free_def chat_freed_def mes_free_def message_dtor.list_free_frees member_free_def
      each_Nil_fun each_Cons_fun each_append_fun del: free_simps)

section \<open>New lists\<close>

definition fri_new_at :: "int \<Rightarrow> 'z mem_scheme \<Rightarrow> arena \<Rightarrow> (friend_place placed option \<times> 'z mem_scheme \<times> arena) option" where
  "fri_new_at n m a =
     (case allocate m a of (None, m, a) \<Rightarrow> Some (None, m, a)
      | (Some info, m, a) \<Rightarrow> do {
          (l, m, a) \<leftarrow> list_new_at info n m a;
          case l of None \<Rightarrow> do { a \<leftarrow> free (Some info) a; Some (None, m, a) } | Some l \<Rightarrow> Some (Some l, m, a)
        })"

text \<open>\<open>req_new\<close> does not free \<open>list_info\<close> when there is no memory for the list.\<close>

definition req_new_at :: "int \<Rightarrow> 'z mem_scheme \<Rightarrow> arena \<Rightarrow> (request_place placed option \<times> 'z mem_scheme \<times> arena) option" where
  "req_new_at n m a =
     (case allocate m a of (None, m, a) \<Rightarrow> Some (None, m, a)
      | (Some info, m, a) \<Rightarrow> list_new_at info n m a)"

definition members_new_at :: "int \<Rightarrow> 'z mem_scheme \<Rightarrow> arena \<Rightarrow> (member_place placed option \<times> 'z mem_scheme \<times> arena) option" where
  "members_new_at n m a =
     (case allocate m a of (None, m, a) \<Rightarrow> Some (None, m, a)
      | (Some info, m, a) \<Rightarrow> do {
          (l, m, a) \<leftarrow> list_new_at info n m a;
          case l of None \<Rightarrow> do { a \<leftarrow> free (Some info) a; Some (None, m, a) } | Some l \<Rightarrow> Some (Some l, m, a)
        })"

definition mes_new_at :: "int \<Rightarrow> 'z mem_scheme \<Rightarrow> arena \<Rightarrow> (message_place placed option \<times> 'z mem_scheme \<times> arena) option" where
  "mes_new_at n m a =
     (case allocate m a of (None, m, a) \<Rightarrow> Some (None, m, a)
      | (Some info, m, a) \<Rightarrow> do {
          (l, m, a) \<leftarrow> list_new_at info n m a;
          case l of None \<Rightarrow> do { a \<leftarrow> free (Some info) a; Some (None, m, a) } | Some l \<Rightarrow> Some (Some l, m, a)
        })"

definition cha_new_at :: "int \<Rightarrow> 'z mem_scheme \<Rightarrow> arena \<Rightarrow> (chat_place placed option \<times> 'z mem_scheme \<times> arena) option" where
  "cha_new_at n m a =
     (case allocate m a of (None, m, a) \<Rightarrow> Some (None, m, a)
      | (Some info, m, a) \<Rightarrow> do {
          (l, m, a) \<leftarrow> list_new_at info n m a;
          case l of None \<Rightarrow> do { a \<leftarrow> free (Some info) a; Some (None, m, a) } | Some l \<Rightarrow> Some (Some l, m, a)
        })"

section \<open>Adding\<close>

definition fri_add_friend_at ::
  "friend_place placed \<Rightarrow> string \<Rightarrow> string \<Rightarrow> 'z mem_scheme \<Rightarrow> arena \<Rightarrow> (int \<times> friend_place placed \<times> 'z mem_scheme \<times> arena) option" where
  "fri_add_friend_at friends name information m a =
     (case allocate m a of (None, m, a) \<Rightarrow> Some (-1, friends, m, a)
      | (Some info, m, a) \<Rightarrow>
     (case allocate m a of (None, m, a) \<Rightarrow> do { a \<leftarrow> free (Some info) a; Some (-1, friends, m, a) }
      | (Some n, m, a) \<Rightarrow>
     (case allocate m a of
        (None, m, a) \<Rightarrow> do { a \<leftarrow> free (Some n) a; a \<leftarrow> free (Some info) a; Some (-1, friends, m, a) }
      | (Some i, m, a) \<Rightarrow>
        attach friend_free frp_item friend_comp
          \<lparr>frp_self = info, frp_name = n, frp_information = i,
           frp_item = \<lparr>fri_name = name, fri_information = information\<rparr>\<rparr> friends m a)))"

definition req_add_request_at ::
  "request_place placed \<Rightarrow> string \<Rightarrow> cint \<Rightarrow> 'z mem_scheme \<Rightarrow> arena \<Rightarrow> (int \<times> request_place placed \<times> 'z mem_scheme \<times> arena) option" where
  "req_add_request_at requests name timestamp m a =
     (case allocate m a of (None, m, a) \<Rightarrow> Some (-1, requests, m, a)
      | (Some info, m, a) \<Rightarrow>
     (case allocate m a of (None, m, a) \<Rightarrow> do { a \<leftarrow> free (Some info) a; Some (-1, requests, m, a) }
      | (Some n, m, a) \<Rightarrow>
        attach request_free rqp_item request_comp
          \<lparr>rqp_self = info, rqp_name = n, rqp_item = \<lparr>req_name = name, req_time = timestamp\<rparr>\<rparr> requests m a))"

definition members_add_member_at ::
  "member_place placed \<Rightarrow> string \<Rightarrow> friend_info option \<Rightarrow> 'z mem_scheme \<Rightarrow> arena \<Rightarrow> (int \<times> member_place placed \<times> 'z mem_scheme \<times> arena) option" where
  "members_add_member_at members name friend m a =
     (case allocate m a of (None, m, a) \<Rightarrow> Some (-1, members, m, a)
      | (Some info, m, a) \<Rightarrow>
     (case allocate m a of (None, m, a) \<Rightarrow> do { a \<leftarrow> free (Some info) a; Some (-1, members, m, a) }
      | (Some n, m, a) \<Rightarrow>
        attach member_item_free mbp_item member_comp
          \<lparr>mbp_self = info, mbp_name = n, mbp_item = \<lparr>member_name = name, member_friend_info = friend\<rparr>\<rparr> members m a))"

text \<open>The copy of a string that may be \<open>NULL\<close>: whether it succeeds, and its address.\<close>

definition dup_option_at :: "string option \<Rightarrow> 'z mem_scheme \<Rightarrow> arena \<Rightarrow> bool \<times> ptr \<times> 'z mem_scheme \<times> arena" where
  "dup_option_at s m a =
     (case s of None \<Rightarrow> (True, None, m, a)
      | Some _ \<Rightarrow> (case allocate m a of (p, m, a) \<Rightarrow> (p \<noteq> None, p, m, a)))"

definition mes_add_message_at ::
  "message_place placed \<Rightarrow> string option \<Rightarrow> string option \<Rightarrow> cint \<Rightarrow> string option \<Rightarrow> 'z mem_scheme \<Rightarrow> arena \<Rightarrow>
   (int \<times> message_place placed \<times> 'z mem_scheme \<times> arena) option" where
  "mes_add_message_at messages sender txt send_timestamp attach_path m a =
     (case txt of None \<Rightarrow> Some (-1, messages, m, a)
      | Some txt \<Rightarrow>
     (case allocate m a of (None, m, a) \<Rightarrow> Some (-1, messages, m, a)
      | (Some info, m, a) \<Rightarrow>
     (case dup_option_at sender m a of
        (False, _, m, a) \<Rightarrow> do { a \<leftarrow> free (Some info) a; Some (-1, messages, m, a) }
      | (True, s, m, a) \<Rightarrow>
     (case allocate m a of
        (None, m, a) \<Rightarrow> do { a \<leftarrow> free s a; a \<leftarrow> free (Some info) a; Some (-1, messages, m, a) }
      | (Some x, m, a) \<Rightarrow>
     (case dup_option_at attach_path m a of
        (False, _, m, a) \<Rightarrow>
          do { a \<leftarrow> free s a; a \<leftarrow> free (Some x) a; a \<leftarrow> free (Some info) a; Some (-1, messages, m, a) }
      | (True, p, m, a) \<Rightarrow>
        attach message_free msp_item message_comp
          \<lparr>msp_self = info, msp_sender = s, msp_text = x, msp_attach_path = p,
           msp_item = \<lparr>mes_sender = sender, mes_text = txt, has_attach = (attach_path \<noteq> None),
             mes_attach_path = attach_path, mes_message_timestamp = send_timestamp\<rparr>\<rparr> messages m a)))))"

text \<open>A chat.  When the copy of the administrator's name or something later fails, the description or that copy
  is not freed.\<close>

fun add_members_loop_at ::
  "(string \<times> friend_info option) list \<Rightarrow> member_place placed \<Rightarrow> 'z mem_scheme \<Rightarrow> arena \<Rightarrow>
   (bool \<times> member_place placed \<times> 'z mem_scheme \<times> arena) option" where
  "add_members_loop_at [] cs m a = Some (True, cs, m, a)"
| "add_members_loop_at ((name, info) # rest) cs m a = do {
     (r, cs, m, a) \<leftarrow> members_add_member_at cs name info m a;
     if r \<noteq> 0 then Some (False, cs, m, a) else add_members_loop_at rest cs m a
   }"

definition cha_add_chat_at ::
  "chat_place placed \<Rightarrow> cint \<Rightarrow> string \<Rightarrow> string \<Rightarrow> (string \<times> friend_info option) list \<Rightarrow> int \<Rightarrow> int \<Rightarrow> cint \<Rightarrow> cint \<Rightarrow>
   'z mem_scheme \<Rightarrow> arena \<Rightarrow> (int \<times> chat_place placed \<times> 'z mem_scheme \<times> arena) option" where
  "cha_add_chat_at chats chat_id description admin members max_members max_messages
      read_timestamp all_read_timestamp m a =
     (case allocate m a of (None, m, a) \<Rightarrow> Some (-1, chats, m, a)
      | (Some info, m, a) \<Rightarrow>
     (case allocate m a of (None, m, a) \<Rightarrow> do { a \<leftarrow> free (Some info) a; Some (-1, chats, m, a) }
      | (Some d, m, a) \<Rightarrow>
     (case allocate m a of (None, m, a) \<Rightarrow> do { a \<leftarrow> free (Some info) a; Some (-1, chats, m, a) }
      | (Some ad, m, a) \<Rightarrow> do {
     (cs, m, a) \<leftarrow> members_new_at max_members m a;
     case cs of
       None \<Rightarrow> do { a \<leftarrow> free (Some d) a; a \<leftarrow> free (Some info) a; Some (-1, chats, m, a) }
     | Some cs \<Rightarrow> do {
     (ms, m, a) \<leftarrow> mes_new_at max_messages m a;
     case ms of
       None \<Rightarrow> do { a \<leftarrow> members_free cs a; a \<leftarrow> free (Some d) a; a \<leftarrow> free (Some info) a; Some (-1, chats, m, a) }
     | Some ms \<Rightarrow> do {
     (ok, cs, m, a) \<leftarrow> add_members_loop_at members cs m a;
     if \<not> ok then do {
       a \<leftarrow> mes_free ms a;
       a \<leftarrow> members_free cs a;
       a \<leftarrow> free (Some d) a;
       a \<leftarrow> free (Some info) a;
       Some (-1, chats, m, a)
     } else
       attach chat_free chat_at chat_comp
         \<lparr>chp_self = info, chp_description = d, chp_admin = Some ad, chp_members = cs, chp_messages = ms,
          chp_item = \<lparr>cha_id = chat_id, cha_description = description, cha_read_timestamp = read_timestamp,
            cha_all_read_timestamp = all_read_timestamp, cha_unread = 0, cha_pending = 0, cha_admin = Some admin,
            cha_members = contents mbp_item cs, cha_messages = contents msp_item ms\<rparr>\<rparr> chats m a
     }}})))"

text \<open>The new administrator's name replaces the old one.\<close>

definition cha_change_admin_at ::
  "chat_place \<Rightarrow> string \<Rightarrow> 'z mem_scheme \<Rightarrow> arena \<Rightarrow> (int \<times> chat_place \<times> 'z mem_scheme \<times> arena) option" where
  "cha_change_admin_at p name m a =
     (if member_find_member (contents mbp_item (chp_members p)) name = None then Some (-1, p, m, a)
      else case allocate m a of (None, m, a) \<Rightarrow> Some (-1, p, m, a)
      | (Some ad, m, a) \<Rightarrow> do {
          a \<leftarrow> free (chp_admin p) a;
          Some (0, p\<lparr>chp_admin := Some ad, chp_item := chp_item p\<lparr>cha_admin := Some name\<rparr>\<rparr>, m, a)
        })"

section \<open>Deleting\<close>

definition fri_del_friend_at :: "friend_place placed \<Rightarrow> string \<Rightarrow> arena \<Rightarrow> (int \<times> friend_place placed \<times> arena) option" where
  "fri_del_friend_at friends name a = list_delete_at friend_free (\<lambda>p. friend_name_comp (frp_item p) name = 0) friends a"

definition req_del_request_at :: "request_place placed \<Rightarrow> string \<Rightarrow> arena \<Rightarrow> (int \<times> request_place placed \<times> arena) option" where
  "req_del_request_at requests name a = list_delete_at request_free (\<lambda>p. request_name_comp (rqp_item p) name = 0) requests a"

definition members_del_member_at :: "member_place placed \<Rightarrow> string \<Rightarrow> arena \<Rightarrow> (int \<times> member_place placed \<times> arena) option" where
  "members_del_member_at members name a =
     list_delete_at member_item_free (\<lambda>p. member_name_comp (mbp_item p) name = 0) members a"

definition mes_del_first_messages_at :: "message_place placed \<Rightarrow> int \<Rightarrow> arena \<Rightarrow> (message_place placed \<times> arena) option" where
  "mes_del_first_messages_at messages n a = list_delete_first_at message_free n messages a"

definition cha_del_chat_at :: "chat_place placed \<Rightarrow> cint \<Rightarrow> arena \<Rightarrow> (int \<times> chat_place placed \<times> arena) option" where
  "cha_del_chat_at chats chat_id a = list_delete_at chat_free (\<lambda>p. chat_id_comp (chat_at p) chat_id = 0) chats a"

section \<open>Adding follows the specification and loses nothing\<close>

lemma cl_add_ret: "(case cl_add cmp x l m of (r, l, m) \<Rightarrow> if r \<noteq> 0 then (-1, l, m) else (0, l, m)) = cl_add cmp x l m"
  "(case cl_add cmp x l m of (r, l, m) \<Rightarrow> if r = -1 then (-1, l, m) else (0, l, m)) = cl_add cmp x l m"
  by (auto simp: cl_add_def malloc_def)

lemmas friend_attach = friend_dtor.attach_follows_all [simplified]
  and request_attach = request_dtor.attach_follows_all [simplified]
  and member_attach = member_dtor.attach_follows_all [simplified]
  and message_attach = message_dtor.attach_follows_all [simplified]

lemma placed_blocks:
  "request_blocks \<lparr>rqp_self = x, rqp_name = y, rqp_item = ri\<rparr> = [Some y, Some x]"
  "member_blocks \<lparr>mbp_self = x, mbp_name = y, mbp_item = mi\<rparr> = [Some y, Some x]"
  by (simp_all add: request_blocks_def member_blocks_def)

lemma fri_add_friend_follows:
  assumes "owns R (list_blocks friend_blocks l) m a"
  shows "follows R nothing_lost friend_blocks frp_item (fri_add_friend_at l name information m a)
    (fri_add_friend (contents frp_item l) name information m)"
proof -
  have at: "follows R nothing_lost friend_blocks frp_item (attach friend_free frp_item friend_comp
       \<lparr>frp_self = x, frp_name = y, frp_information = z, frp_item = i\<rparr> l m a) (cl_add friend_comp i (contents frp_item l) m)"
    if "owns R (Some z # Some y # Some x # list_blocks friend_blocks l) m a" for x y z i and m :: "'a mem_scheme" and a
  proof -
    let ?p = "\<lparr>frp_self = x, frp_name = y, frp_information = z, frp_item = i\<rparr>"
    have "owns R (friend_blocks ?p @ list_blocks friend_blocks l) m a"
      using that by (rule owns_perm) (simp add: friend_blocks_def)
    from friend_attach [OF this, where f = frp_item and cmp = friend_comp] show ?thesis by simp
  qed
  show ?thesis
    using assms unfolding fri_add_friend_at_def fri_add_friend_def cl_add_ret
    by (elim follows_malloc follows_free follows_return at) simp_all
qed

lemma req_add_request_follows:
  assumes "owns R (list_blocks request_blocks l) m a"
  shows "follows R nothing_lost request_blocks rqp_item (req_add_request_at l name t m a)
    (req_add_request (contents rqp_item l) name t m)"
proof -
  have at: "follows R nothing_lost request_blocks rqp_item
      (attach request_free rqp_item request_comp \<lparr>rqp_self = x, rqp_name = y, rqp_item = i\<rparr> l m a)
      (cl_add request_comp i (contents rqp_item l) m)"
    if "owns R (Some y # Some x # list_blocks request_blocks l) m a" for x y i and m :: "'a mem_scheme" and a
    using request_attach [of R "\<lparr>rqp_self = x, rqp_name = y, rqp_item = i\<rparr>" l m a rqp_item request_comp] that
    by (simp add: placed_blocks)
  show ?thesis
    using assms unfolding req_add_request_at_def req_add_request_def cl_add_ret
    by (elim follows_malloc follows_free follows_return at) simp_all
qed

lemma members_add_member_follows:
  assumes "owns R (list_blocks member_blocks l) m a"
  shows "follows R nothing_lost member_blocks mbp_item (members_add_member_at l name info m a)
    (members_add_member (contents mbp_item l) name info m)"
proof -
  have at: "follows R nothing_lost member_blocks mbp_item
      (attach member_item_free mbp_item member_comp \<lparr>mbp_self = x, mbp_name = y, mbp_item = i\<rparr> l m a)
      (cl_add member_comp i (contents mbp_item l) m)"
    if "owns R (Some y # Some x # list_blocks member_blocks l) m a" for x y i and m :: "'a mem_scheme" and a
    using member_attach [of R "\<lparr>mbp_self = x, mbp_name = y, mbp_item = i\<rparr>" l m a mbp_item member_comp] that
    by (simp add: placed_blocks)
  show ?thesis
    using assms unfolding members_add_member_at_def members_add_member_def cl_add_ret
    by (elim follows_malloc follows_free follows_return at) simp_all
qed

lemma follows_dup:
  assumes "owns R ps m a"
    and "\<And>m. owns R ps m a \<Longrightarrow> follows R Q own f (A m a) (A' m)"
    and "\<And>p m a. owns R (p # ps) m a \<Longrightarrow> follows R Q own f (B p m a) (B' m)"
  shows "follows R Q own f (case dup_option_at s m a of (False, _, m, a) \<Rightarrow> A m a | (True, p, m, a) \<Rightarrow> B p m a)
    (case dup_option s m of (False, m) \<Rightarrow> A' m | (True, m) \<Rightarrow> B' m)"
proof (cases s)
  case None
  then show ?thesis using assms(1) assms(3) [of None m a] by (simp add: dup_option_at_def dup_option_def)
next
  case (Some x)
  show ?thesis
    by (cases rule: owns_malloc [OF assms(1)]) (use Some assms(2,3) in \<open>simp_all add: dup_option_at_def dup_option_def\<close>)
qed

lemma mes_add_message_follows:
  assumes "owns R (list_blocks message_item_blocks l) m a"
  shows "follows R nothing_lost message_item_blocks msp_item (mes_add_message_at l sender txt t att m a)
    (mes_add_message (contents msp_item l) sender txt t att m)"
proof (cases "txt")
  case None
  then show ?thesis
    using assms by (auto simp: mes_add_message_at_def mes_add_message_def intro!: follows_return)
next
  case (Some text_copy)
  have at: "follows R nothing_lost message_item_blocks msp_item
      (attach message_free msp_item message_comp
        \<lparr>msp_self = w, msp_sender = x, msp_text = y, msp_attach_path = z, msp_item = i\<rparr> l m a)
      (cl_add message_comp i (contents msp_item l) m)"
    if o: "owns R (z # Some y # x # Some w # list_blocks message_item_blocks l) m a"
    for w x y z i and m :: "'a mem_scheme" and a
  proof -
    let ?p = "\<lparr>msp_self = w, msp_sender = x, msp_text = y, msp_attach_path = z, msp_item = i\<rparr>"
    have "owns R (message_item_blocks ?p @ list_blocks message_item_blocks l) m a"
      using o by (rule owns_perm) (simp add: message_item_blocks_def)
    from message_attach [OF this, where f = msp_item and cmp = message_comp] show ?thesis by simp
  qed
  show ?thesis
    using assms unfolding mes_add_message_at_def mes_add_message_def cl_add_ret Some option.case
    by (elim follows_malloc follows_dup follows_free follows_free_below follows_return at) simp_all
qed

section \<open>New lists follow the specification\<close>

lemma fri_new_creates: "owns R ps m a \<Longrightarrow> creates R ps friend_blocks frp_item (fri_new_at n m a) (fri_new n m)"
  using friend_dtor.new_creates [of R ps m a frp_item n] by (simp add: fri_new_at_def fri_new_def)

lemma members_new_creates: "owns R ps m a \<Longrightarrow> creates R ps member_blocks mbp_item (members_new_at n m a) (members_new n m)"
  using member_dtor.new_creates [of R ps m a mbp_item n] by (simp add: members_new_at_def members_new_def)

lemma mes_new_creates: "owns R ps m a \<Longrightarrow> creates R ps message_item_blocks msp_item (mes_new_at n m a) (mes_new n m)"
  using message_dtor.new_creates [of R ps m a msp_item n] by (simp add: mes_new_at_def mes_new_def)

lemma cha_new_creates: "owns R ps m a \<Longrightarrow> creates R ps chat_blocks chat_at (cha_new_at n m a) (cha_new n m)"
  using chat_dtor.new_creates [of R ps m a chat_at n] by (simp add: cha_new_at_def cha_new_def)

lemma req_new_creates:
  "owns R ps m a \<Longrightarrow> \<exists>L. creates (R \<union> L) ps request_blocks rqp_item (req_new_at n m a) (req_new n m)"
  using request_dtor.new_creates_leaking [of R ps m a rqp_item n] by (simp add: req_new_at_def req_new_def)

section \<open>Adding a chat\<close>

lemma add_members_loop_follows:
  assumes "owns R (list_blocks member_blocks l) m a"
  shows "\<exists>ok l' m' a'. add_members_loop_at people l m a = Some (ok, l', m', a') \<and>
    add_members_loop people (contents mbp_item l) m = (ok, contents mbp_item l', m') \<and>
    owns R (list_blocks member_blocks l') m' a'"
  using assms
proof (induction people arbitrary: l m a)
  case (Cons x people)
  obtain name info where x: "x = (name, info)" by (cases x)
  from members_add_member_follows [OF Cons.prems, of name info] obtain r l1 m1 a1 where
    "members_add_member_at l name info m a = Some (r, l1, m1, a1)"
    "members_add_member (contents mbp_item l) name info m = (r, contents mbp_item l1, m1)"
    "owns R (list_blocks member_blocks l1) m1 a1"
    by (auto simp: follows_def)
  then show ?case using Cons.IH [of l1 m1 a1] by (cases "r = 0") (auto simp: x)
qed auto

text \<open>The failures after the two strings have been copied: the copy of the administrator's name is lost.\<close>

lemma chat_failed:
  assumes "owns R ([Some d, Some info, Some ad] @ list_blocks own l) m a"
  shows "follows R (\<lambda>r L. L = {} \<longleftrightarrow> r = 0) own f
    (do { a \<leftarrow> free (Some d) a; a \<leftarrow> free (Some info) a; Some (-1, l, m, a) }) (-1, contents f l, m)"
  using assms
proof (simp only: append.simps, elim follows_free)
  fix a
  assume "owns R (Some ad # list_blocks own l) m a"
  then have "owns (R \<union> {ad}) (list_blocks own l) m a" using owns_leak [of R "[Some ad]"] by simp
  then show "follows R (\<lambda>r L. L = {} \<longleftrightarrow> r = 0) own f (Some (-1, l, m, a)) (-1, contents f l, m)"
    by (simp add: follows_def) (intro exI [of _ "{ad}"], simp)
qed

lemma follows_list_free:
  assumes "destructor dtor freed" "owns R (list_blocks freed x @ ps) m a"
    and "\<And>a. owns R ps m a \<Longrightarrow> follows R Q own f (K a) spec"
  shows "follows R Q own f (Option.bind (list_free_at dtor x a) K) spec"
  using owns_free_all [OF assms(2)] assms(3) by (auto simp: destructor.list_free_frees [OF assms(1)])

lemma malloc_brk: "malloc m = (p, m') \<Longrightarrow> m' = m\<lparr>brk := Suc (brk m)\<rparr> \<and> (p \<noteq> None \<longleftrightarrow> avail m (brk m))"
  by (auto simp: malloc_def split: if_splits)

text \<open>The part with the two lists and the members.\<close>

lemma chat_lists_follow:
  assumes o: "owns R (Some ad # Some d # Some info # list_blocks chat_blocks l) m a"
    and c: "\<And>cs ms. (c cs ms)\<lparr>cha_members := cs, cha_messages := ms\<rparr> = c cs ms"
  shows "follows R (\<lambda>r L. L = {} \<longleftrightarrow> r = 0) chat_blocks chat_at
    (do {
     (cs, m, a) \<leftarrow> members_new_at mm m a;
     case cs of
       None \<Rightarrow> do { a \<leftarrow> free (Some d) a; a \<leftarrow> free (Some info) a; Some (-1, l, m, a) }
     | Some cs \<Rightarrow> do {
     (ms, m, a) \<leftarrow> mes_new_at mx m a;
     case ms of
       None \<Rightarrow> do { a \<leftarrow> members_free cs a; a \<leftarrow> free (Some d) a; a \<leftarrow> free (Some info) a; Some (-1, l, m, a) }
     | Some ms \<Rightarrow> do {
     (ok, cs, m, a) \<leftarrow> add_members_loop_at people cs m a;
     if \<not> ok then do {
       a \<leftarrow> mes_free ms a;
       a \<leftarrow> members_free cs a;
       a \<leftarrow> free (Some d) a;
       a \<leftarrow> free (Some info) a;
       Some (-1, l, m, a)
     } else
       attach chat_free chat_at chat_comp
         \<lparr>chp_self = info, chp_description = d, chp_admin = Some ad, chp_members = cs, chp_messages = ms,
          chp_item = c (contents mbp_item cs) (contents msp_item ms)\<rparr> l m a
     }}})
    (case members_new mm m of (None, m) \<Rightarrow> (-1, contents chat_at l, m)
      | (Some cs, m) \<Rightarrow>
     (case mes_new mx m of (None, m) \<Rightarrow> (-1, contents chat_at l, m)
      | (Some ms, m) \<Rightarrow>
     (case add_members_loop people cs m of (False, cs, m) \<Rightarrow> (-1, contents chat_at l, m)
      | (True, cs, m) \<Rightarrow>
        cl_add chat_comp (c cs ms) (contents chat_at l) m)))"
proof -
  let ?B = "[Some d, Some info, Some ad] @ list_blocks chat_blocks l"
  have o1: "owns R ?B m a" using o by (rule owns_perm) simp
  from members_new_creates [OF o1, of mm] obtain cs m1 a1 where
    cs: "members_new_at mm m a = Some (cs, m1, a1)" "members_new mm m = (map_option (contents mbp_item) cs, m1)"
    "case cs of None \<Rightarrow> owns R ?B m1 a1 | Some l \<Rightarrow> pl_nodes l = [] \<and> owns R (list_blocks member_blocks l @ ?B) m1 a1"
    unfolding creates_def by blast
  show ?thesis
  proof (cases cs)
    case None
    with cs chat_failed [of R d info ad chat_blocks l m1 a1 chat_at] show ?thesis by simp
  next
    case (Some cs')
    with cs(3) have o2: "owns R (list_blocks member_blocks cs' @ ?B) m1 a1" by simp
    from mes_new_creates [OF o2, of mx] obtain ms m2 a2 where
      ms: "mes_new_at mx m1 a1 = Some (ms, m2, a2)" "mes_new mx m1 = (map_option (contents msp_item) ms, m2)"
      "case ms of None \<Rightarrow> owns R (list_blocks member_blocks cs' @ ?B) m2 a2
       | Some l \<Rightarrow> pl_nodes l = [] \<and> owns R (list_blocks message_item_blocks l @ list_blocks member_blocks cs' @ ?B) m2 a2"
      unfolding creates_def by blast
    show ?thesis
    proof (cases ms)
      case None
      with ms(3) have "owns R (list_blocks member_blocks cs' @ ?B) m2 a2" by simp
      from follows_list_free [OF member_dtor.destructor_axioms this chat_failed]
      show ?thesis using None \<open>cs = Some cs'\<close> cs(1,2) ms(1,2) by (simp add: members_free_def)
    next
      case (Some ms')
      let ?M = "list_blocks message_item_blocks ms'"
      have "owns R (list_blocks member_blocks cs' @ ?M @ ?B) m2 a2"
        using ms(3) Some by (auto elim: owns_perm)
      then have o3: "owns (R \<union> set (addrs (?M @ ?B))) (list_blocks member_blocks cs') m2 a2"
        and frame: "distinct (addrs (?M @ ?B))" "R \<inter> set (addrs (?M @ ?B)) = {}"
        by (simp_all only: owns_append [of _ "list_blocks member_blocks cs'"])
      from add_members_loop_follows [OF o3] obtain ok cs2 m3 a3 where
        loop: "add_members_loop_at people cs' m2 a2 = Some (ok, cs2, m3, a3)"
          "add_members_loop people (contents mbp_item cs') m2 = (ok, contents mbp_item cs2, m3)"
        and o4: "owns (R \<union> set (addrs (?M @ ?B))) (list_blocks member_blocks cs2) m3 a3" by blast
      have o5: "owns R (list_blocks member_blocks cs2 @ ?M @ ?B) m3 a3"
        using o4 frame by (simp only: owns_append [of _ "list_blocks member_blocks cs2"])
      show ?thesis
      proof (cases ok)
        case False
        have "owns R (?M @ list_blocks member_blocks cs2 @ ?B) m3 a3" using o5 by (rule owns_perm) simp
        from follows_list_free [OF message_dtor.destructor_axioms this
            follows_list_free [OF member_dtor.destructor_axioms _ chat_failed]]
        show ?thesis using False Some \<open>cs = Some cs'\<close> cs(1,2) ms(1,2) loop by (simp add: members_free_def mes_free_def)
      next
        case True
        let ?p = "\<lparr>chp_self = info, chp_description = d, chp_admin = Some ad, chp_members = cs2, chp_messages = ms',
          chp_item = c (contents mbp_item cs2) (contents msp_item ms')\<rparr>"
        have o6: "owns R (chat_blocks ?p @ list_blocks chat_blocks l) m3 a3"
          using o5 by (rule owns_perm) (simp add: chat_freed_def chat_kept_def list_blocks_def)
        have at: "chat_at ?p = c (contents mbp_item cs2) (contents msp_item ms')"
          by (simp add: chat_at_def c)
        from chat_dtor.attach_follows [OF o6, of chat_at chat_comp, unfolded at]
        have "follows R (\<lambda>r L. L = {} \<longleftrightarrow> r = 0) chat_blocks chat_at (attach chat_free chat_at chat_comp ?p l m3 a3)
          (cl_add chat_comp (c (contents mbp_item cs2) (contents msp_item ms')) (contents chat_at l) m3)"
          by (rule follows_mono) (auto simp: chat_kept_def)
        then show ?thesis using True Some \<open>cs = Some cs'\<close> cs(1,2) ms(1,2) loop by simp
      qed
    qed
  qed
qed

text \<open>Something is lost if and only if the chat is not added although its description could be copied.\<close>

lemma cha_add_chat_follows:
  assumes "owns R (list_blocks chat_blocks l) m a"
  shows "follows R (\<lambda>r L. L = {} \<longleftrightarrow> r = 0 \<or> \<not> (avail m (brk m) \<and> avail m (Suc (brk m)))) chat_blocks chat_at
    (cha_add_chat_at l i d ad people mm mx rt art m a) (cha_add_chat (contents chat_at l) i d ad people mm mx rt art m)"
  using assms
proof (cases rule: owns_malloc)
  case (none m1)
  then have "\<not> avail m (brk m)" by (auto dest: malloc_brk)
  with none show ?thesis
    by (auto simp: cha_add_chat_at_def cha_add_chat_def intro!: follows_return)
next
  case (one info m1 a1)
  note first = this malloc_brk [OF one(1)]
  show ?thesis
    using one(3)
  proof (cases rule: owns_malloc)
    case (none m2)
    then have "\<not> avail m (Suc (brk m))" using first(4) by (auto dest: malloc_brk)
    with none first show ?thesis
      by (auto simp: cha_add_chat_at_def cha_add_chat_def simp del: free_simps intro!: follows_return elim!: follows_free)
  next
    case (one dp m2 a2)
    note second = this malloc_brk [OF one(1)]
    have both: "avail m (brk m)" "avail m (Suc (brk m))" using first(4) second(4) by auto
    show ?thesis
      using one(3)
  proof (cases rule: owns_malloc)
      case (none m3)
      have "follows R (\<lambda>r L. L = {} \<longleftrightarrow> r = 0) chat_blocks chat_at (do { a \<leftarrow> free (Some info) a2; Some (-1, l, m3, a) })
        (-1, contents chat_at l, m3)" using none(3)
      proof (elim follows_free_below)
        fix a
        assume "owns R (Some dp # list_blocks chat_blocks l) m3 a"
        then have "owns (R \<union> {dp}) (list_blocks chat_blocks l) m3 a" using owns_leak [of R "[Some dp]"] by simp
        then show "follows R (\<lambda>r L. L = {} \<longleftrightarrow> r = 0) chat_blocks chat_at (Some (-1, l, m3, a)) (-1, contents chat_at l, m3)"
          by (simp add: follows_def) (intro exI [of _ "{dp}"], simp)
      qed
      with none(1,2) first(1,2) second(1,2) both show ?thesis by (simp add: cha_add_chat_at_def cha_add_chat_def del: free_simps)
    next
      case (one adp m3 a3)
      let ?c = "\<lambda>cs ms. \<lparr>cha_id = i, cha_description = d, cha_read_timestamp = rt, cha_all_read_timestamp = art, cha_unread = 0,
        cha_pending = 0, cha_admin = Some ad, cha_members = cs, cha_messages = ms\<rparr>"
      from chat_lists_follow [OF one(3), of ?c mm mx people] one(1,2) first(1,2) second(1,2) both show ?thesis
        unfolding cha_add_chat_at_def cha_add_chat_def cl_add_ret by (simp del: free_simps)
    qed
  qed
qed

end
