(* ===== verification/Client_Memory_Specs.thy ===== *)
theory Client_Memory_Specs
  imports Client_Memory
begin

text \<open>
  What the client's lists do with memory: adding and deleting keeps account of every block, a chat that
  cannot be added leaves blocks behind, and the members of the chats are never freed.
\<close>

section \<open>Deleting\<close>

text \<open>The function \<open>follows\<close> of \<open>List_Memory\<close> for operations that do not allocate.\<close>

definition deletes ::
  "nat set \<Rightarrow> ('p \<Rightarrow> ptr list) \<Rightarrow> ('p \<Rightarrow> 'i) \<Rightarrow> 'z mem_scheme \<Rightarrow> (int \<times> 'p placed \<times> arena) option \<Rightarrow> int \<times> 'i clist \<Rightarrow> bool" where
  "deletes R owned f m result spec \<longleftrightarrow>
     (\<exists>r l a. result = Some (r, l, a) \<and> spec = (r, contents f l) \<and> owns R (list_blocks owned l) m a)"

lemma no_addrs: "addrs (concat (map (\<lambda>_. []) xs)) = []" "addrs (concat (map ((\<lambda>_. []) \<circ> g) xs)) = []"
  by (induction xs) simp_all

lemma fri_del_friend_deletes:
  "owns R (list_blocks friend_blocks l) m a \<Longrightarrow>
   deletes R friend_blocks frp_item m (fri_del_friend_at l name a) (fri_del_friend (contents frp_item l) name)"
  using friend_dtor.list_delete_follows [of R l m a friend_name_comp frp_item name]
  by (auto simp: deletes_def fri_del_friend_at_def fri_del_friend_def no_addrs)

lemma req_del_request_deletes:
  "owns R (list_blocks request_blocks l) m a \<Longrightarrow>
   deletes R request_blocks rqp_item m (req_del_request_at l name a) (req_del_request (contents rqp_item l) name)"
  using request_dtor.list_delete_follows [of R l m a request_name_comp rqp_item name]
  by (auto simp: deletes_def req_del_request_at_def req_del_request_def no_addrs)

lemma members_del_member_deletes:
  "owns R (list_blocks member_blocks l) m a \<Longrightarrow>
   deletes R member_blocks mbp_item m (members_del_member_at l name a) (members_del_member (contents mbp_item l) name)"
  using member_dtor.list_delete_follows [of R l m a member_name_comp mbp_item name]
  by (auto simp: deletes_def members_del_member_at_def members_del_member_def no_addrs)

lemma mes_del_first_messages_follows:
  "owns R (list_blocks message_item_blocks l) m a \<Longrightarrow>
   \<exists>l' a'. mes_del_first_messages_at l n a = Some (l', a') \<and>
     contents msp_item l' = mes_del_first_messages (contents msp_item l) n \<and>
     owns R (list_blocks message_item_blocks l') m a'"
  using message_dtor.list_delete_first_follows [of R l m a n msp_item]
  by (auto simp: mes_del_first_messages_at_def mes_del_first_messages_def no_addrs)

section \<open>The simple lists\<close>

text \<open>C3. Adding to and deleting from the lists of friends, requests, members and messages does to their contents
  what the specification says, whichever calls of \<open>malloc\<close> fail, and to memory nothing else than it
  should: no block is freed twice, and every block is part of the list or was there before.\<close>

theorem list_operations_account:
  assumes "owns R (list_blocks friend_blocks fs) m a" "owns R' (list_blocks request_blocks rs) m a"
    and "owns S (list_blocks member_blocks cs) m a" "owns S' (list_blocks message_item_blocks ms) m a"
  shows "follows R nothing_lost friend_blocks frp_item (fri_add_friend_at fs name info m a)
      (fri_add_friend (contents frp_item fs) name info m) \<and>
    follows R' nothing_lost request_blocks rqp_item (req_add_request_at rs name t m a)
      (req_add_request (contents rqp_item rs) name t m) \<and>
    follows S nothing_lost member_blocks mbp_item (members_add_member_at cs name friend m a)
      (members_add_member (contents mbp_item cs) name friend m) \<and>
    follows S' nothing_lost message_item_blocks msp_item (mes_add_message_at ms sender text_of t att m a)
      (mes_add_message (contents msp_item ms) sender text_of t att m) \<and>
    deletes R friend_blocks frp_item m (fri_del_friend_at fs name a) (fri_del_friend (contents frp_item fs) name) \<and>
    deletes R' request_blocks rqp_item m (req_del_request_at rs name a) (req_del_request (contents rqp_item rs) name) \<and>
    deletes S member_blocks mbp_item m (members_del_member_at cs name a) (members_del_member (contents mbp_item cs) name) \<and>
    (\<exists>ms' a'. mes_del_first_messages_at ms n a = Some (ms', a') \<and>
      contents msp_item ms' = mes_del_first_messages (contents msp_item ms) n \<and>
      owns S' (list_blocks message_item_blocks ms') m a')"
  by (intro conjI fri_add_friend_follows req_add_request_follows members_add_member_follows mes_add_message_follows
      fri_del_friend_deletes req_del_request_deletes members_del_member_deletes mes_del_first_messages_follows assms)

text \<open>Four lists in one memory, with a friend to delete.\<close>

definition few_friends :: "friend_place placed" where
  "few_friends = \<lparr>pl_self = 2, pl_ghost = 3, pl_info = 4, pl_limit = 10, pl_stamp = 0,
     pl_nodes = [(5, \<lparr>frp_self = 6, frp_name = 7, frp_information = 8,
       frp_item = \<lparr>fri_name = ''ana'', fri_information = ''''\<rparr>\<rparr>)]\<rparr>"

definition empty_at :: "nat \<Rightarrow> 'p placed" where
  "empty_at x = \<lparr>pl_self = x, pl_ghost = x + 1, pl_info = x + 2, pl_limit = 10, pl_stamp = 0, pl_nodes = []\<rparr>"

definition small_arena :: arena where
  "small_arena = \<lparr>live = {2, 3, 4, 5, 6, 7, 8, 12, 13, 14, 22, 23, 24, 32, 33, 34}, managed = {}\<rparr>"

theorem list_operations_account_witness:
  "follows {12, 13, 14, 22, 23, 24, 32, 33, 34} nothing_lost friend_blocks frp_item
      (fri_add_friend_at few_friends ''bob'' ''x'' \<lparr>avail = (\<lambda>k. k < 42), brk = 40\<rparr> small_arena)
      (fri_add_friend (contents frp_item few_friends) ''bob'' ''x'' \<lparr>avail = (\<lambda>k. k < 42), brk = 40\<rparr>)"
  by (rule list_operations_account [of "{12, 13, 14, 22, 23, 24, 32, 33, 34}" few_friends _ _
        "{2, 3, 4, 5, 6, 7, 8, 22, 23, 24, 32, 33, 34}" "empty_at 12"
        "{2, 3, 4, 5, 6, 7, 8, 12, 13, 14, 32, 33, 34}" "empty_at 22"
        "{2, 3, 4, 5, 6, 7, 8, 12, 13, 14, 22, 23, 24}" "empty_at 32", THEN conjunct1])
    (auto simp: owns_def list_blocks_def few_friends_def empty_at_def friend_blocks_def small_arena_def)

section \<open>Chats\<close>

text \<open>C35. \<open>cha_add_chat\<close> does to the contents of the list what the specification says and frees no block twice, but when
  it fails after it has copied the description, and only then, it leaves blocks behind that nothing points to.\<close>

theorem add_chat_leaks:
  assumes "owns R (list_blocks chat_blocks cs) m a"
  shows "\<exists>r cs' m' a' L. cha_add_chat_at cs i d ad people mm mx rt art m a = Some (r, cs', m', a') \<and>
    cha_add_chat (contents chat_at cs) i d ad people mm mx rt art m = (r, contents chat_at cs', m') \<and>
    owns (R \<union> L) (list_blocks chat_blocks cs') m' a' \<and>
    (L = {} \<longleftrightarrow> r = 0 \<or> \<not> (avail m (brk m) \<and> avail m (Suc (brk m))))"
  using cha_add_chat_follows [OF assms] unfolding follows_def by blast

theorem add_chat_leaks_witness:
  "\<exists>r cs' m' a' L. cha_add_chat_at (empty_at 2) 7 ''d'' ''ana'' [(''ana'', None)] 10 10 0 0
      \<lparr>avail = (\<lambda>k. k < 13), brk = 10\<rparr> \<lparr>live = {2, 3, 4}, managed = {}\<rparr> = Some (r, cs', m', a') \<and>
    cha_add_chat (contents chat_at (empty_at 2)) 7 ''d'' ''ana'' [(''ana'', None)] 10 10 0 0
      \<lparr>avail = (\<lambda>k. k < 13), brk = 10\<rparr> = (r, contents chat_at cs', m') \<and>
    owns ({} \<union> L) (list_blocks chat_blocks cs') m' a' \<and> (L = {} \<longleftrightarrow> r = 0)"
proof -
  have "owns {} (list_blocks chat_blocks (empty_at 2)) \<lparr>avail = (\<lambda>k. k < 13), brk = 10\<rparr> \<lparr>live = {2, 3, 4}, managed = {}\<rparr>"
    by (auto simp: owns_def list_blocks_def empty_at_def)
  from add_chat_leaks [OF this, of 7 "''d''" "''ana''" "[(''ana'', None)]" 10 10 0 0] show ?thesis by simp
qed

text \<open>Deleting a chat leaves its members behind.\<close>

lemma cha_del_chat_leaves:
  "owns R (list_blocks chat_blocks l) m a \<Longrightarrow>
   \<exists>r l' a' L. cha_del_chat_at l i a = Some (r, l', a') \<and>
     cha_del_chat (contents chat_at l) i = (r, contents chat_at l') \<and>
     owns (R \<union> L) (list_blocks chat_blocks l') m a' \<and> L \<subseteq> set (addrs (concat (map chat_kept (map snd (pl_nodes l)))))"
  unfolding cha_del_chat_at_def cha_del_chat_def by (rule chat_dtor.list_delete_follows)

lemma cha_change_admin_accounts:
  assumes "owns R (chat_blocks p @ ps) m a"
  shows "\<exists>r p' m' a'. cha_change_admin_at p name m a = Some (r, p', m', a') \<and>
    cha_change_admin (chat_at p) name m = (r, chat_at p', m') \<and> owns R (chat_blocks p' @ ps) m' a'"
proof (cases "member_find_member (contents mbp_item (chp_members p)) name = None")
  case True
  with assms show ?thesis by (auto simp: cha_change_admin_at_def cha_change_admin_def chat_at_def)
next
  case False
  show ?thesis
    using assms
  proof (cases rule: owns_malloc)
    case (none m1)
    with False show ?thesis by (auto simp: cha_change_admin_at_def cha_change_admin_def chat_at_def)
  next
    case (one x m1 a1)
    let ?p = "p\<lparr>chp_admin := Some x, chp_item := chp_item p\<lparr>cha_admin := Some name\<rparr>\<rparr>"
    have "owns R (chp_admin p # chat_blocks ?p @ ps) m1 a1"
      using one(3) by (rule owns_perm) (simp add: chat_freed_def chat_kept_def)
    from owns_free [OF this] one(1,2) False show ?thesis
      by (auto simp: cha_change_admin_at_def cha_change_admin_def chat_at_def simp del: free_simps)
  qed
qed

section \<open>The end of a client\<close>

text \<open>The calls in \<open>psd_logout\<close> and \<open>psd_free_client\<close>.\<close>

definition client_lists_free ::
  "friend_place placed \<Rightarrow> request_place placed \<Rightarrow> chat_place placed \<Rightarrow> arena \<Rightarrow> arena option" where
  "client_lists_free fs rs cs a = do {
     a \<leftarrow> fri_free fs a;
     a \<leftarrow> req_free rs a;
     cha_free cs a
   }"

text \<open>The blocks of the members of a chat: nodes, structures and names, and the \<open>list_info\<close> of the list.\<close>

definition members_left :: "chat_place placed \<Rightarrow> nat set" where
  "members_left cs = (\<Union>(_, c) \<in> set (pl_nodes cs). insert (pl_info (chp_members c))
     (\<Union>(node, x) \<in> set (pl_nodes (chp_members c)). {node, mbp_name x, mbp_self x}))"

lemma set_addrs_concat: "set (addrs (concat xss)) = (\<Union>xs \<in> set xss. set (addrs xs))"
  by (induction xss) simp_all

lemma chat_kept_blocks:
  "set (addrs (chat_kept c)) = insert (pl_info (chp_members c))
     (\<Union>(node, x) \<in> set (pl_nodes (chp_members c)). {node, mbp_name x, mbp_self x})"
proof -
  have "set (addrs (case p of (node, x) \<Rightarrow> member_blocks x @ [Some node])) =
    (case p of (node, x) \<Rightarrow> {node, mbp_name x, mbp_self x})" for p
    by (cases p) (auto simp: member_blocks_def)
  then show ?thesis by (simp add: chat_kept_def set_addrs_concat)
qed

lemma members_left_kept: "set (addrs (concat (map chat_kept (map snd (pl_nodes cs))))) = members_left cs"
  by (simp add: set_addrs_concat chat_kept_blocks members_left_def case_prod_unfold)

lemmas friend_list_free = friend_dtor.owns_list_free [simplified no_addrs, simplified]
  and request_list_free = request_dtor.owns_list_free [simplified no_addrs, simplified]

text \<open>C8. Freeing the lists of a client frees no block twice and frees everything they consist of, with one
  exception: of every chat, the nodes, structures and names of its members and the \<open>list_info\<close> of their
  list stay allocated.\<close>

theorem freed_client_leaves_members:
  assumes "owns R (list_blocks friend_blocks fs @ list_blocks request_blocks rs @ list_blocks chat_blocks cs) m a"
  shows "\<exists>a'. client_lists_free fs rs cs a = Some a' \<and> live a' = R \<union> members_left cs"
proof -
  obtain a1 where 1: "fri_free fs a = Some a1" "owns R (list_blocks request_blocks rs @ list_blocks chat_blocks cs) m a1"
    using friend_list_free [OF assms] by (auto simp: fri_free_def)
  obtain a2 where 2: "req_free rs a1 = Some a2" "owns R (list_blocks chat_blocks cs @ []) m a2"
    using request_list_free [OF 1(2)] by (auto simp: req_free_def)
  from chat_dtor.owns_list_free [OF 2(2)] obtain a3 where "cha_free cs a2 = Some a3" "owns (R \<union> members_left cs) [] m a3"
    by (auto simp only: cha_free_def members_left_kept)
  with 1(1) 2(1) show ?thesis by (simp add: client_lists_free_def owns_def)
qed

definition one_chat :: "chat_place placed" where
  "one_chat = \<lparr>pl_self = 2, pl_ghost = 3, pl_info = 4, pl_limit = 10, pl_stamp = 0,
     pl_nodes = [(5, \<lparr>chp_self = 6, chp_description = 7, chp_admin = None,
       chp_members = \<lparr>pl_self = 42, pl_ghost = 43, pl_info = 44, pl_limit = 10, pl_stamp = 0,
         pl_nodes = [(45, \<lparr>mbp_self = 46, mbp_name = 47,
           mbp_item = \<lparr>member_name = ''ana'', member_friend_info = None\<rparr>\<rparr>)]\<rparr>,
       chp_messages = empty_at 52,
       chp_item = \<lparr>cha_id = 1, cha_description = ''d'', cha_read_timestamp = 0, cha_all_read_timestamp = 0,
         cha_unread = 0, cha_pending = 0, cha_admin = None,
         cha_members = \<lparr>entries = [], limit = 10, stamp = 0\<rparr>, cha_messages = \<lparr>entries = [], limit = 10, stamp = 0\<rparr>\<rparr>\<rparr>)]\<rparr>"

theorem freed_client_leaves_members_witness:
  "\<exists>a'. client_lists_free (empty_at 12) (empty_at 22) one_chat
      \<lparr>live = {2, 3, 4, 5, 6, 7, 12, 13, 14, 22, 23, 24, 42, 43, 44, 45, 46, 47, 52, 53, 54, 60}, managed = {}\<rparr> = Some a' \<and>
    live a' = {60} \<union> members_left one_chat"
proof (rule freed_client_leaves_members)
  show "owns {60} (list_blocks friend_blocks (empty_at 12) @ list_blocks request_blocks (empty_at 22) @
      list_blocks chat_blocks one_chat) \<lparr>avail = (\<lambda>k. False), brk = 70\<rparr>
      \<lparr>live = {2, 3, 4, 5, 6, 7, 12, 13, 14, 22, 23, 24, 42, 43, 44, 45, 46, 47, 52, 53, 54, 60}, managed = {}\<rparr>"
    by (auto simp: owns_def list_blocks_def empty_at_def one_chat_def chat_freed_def chat_kept_def member_blocks_def)
qed

end
