(* ===== verification/Spec2Isabelle.thy ===== *)
theory Spec2Isabelle
  imports List_Traces Client_Data Message_Times Reading_Specs Server_Limits Server_Program Console_Server
    Server_Races Memory_Specs Client_Memory_Specs
begin

text \<open>
  A verification library for PSD-IMS, an instant messaging system in C: a gSOAP server over MySQL
  (\<open>src/server\<close>), a client library (\<open>src/client\<close>) and a generic list that the client's data
  structures use (\<open>src/common/list\<close>).

  \<^bold>\<open>The program.\<close>  The client keeps friends, friend requests, chats, chat members and messages in
  bounded circular lists.  It talks to the server through the twenty operations declared in
  \<open>rpc/ims.h\<close>.  A handler of the server (\<open>psdims__*\<close> in \<open>psd_ims_server.c\<close>) opens a
  database connection of its own, checks the login and works through the functions of
  \<open>persistence.c\<close>, each of which puts together the text of an SQL statement in a character array,
  sends it and reads the rows.  Attachments are files named after the chat and the time of the message.

  \<^bold>\<open>The theories\<close>, in the order of their imports.
  \<^item> \<open>IMS_Prelude\<close>: C's \<open>int\<close> as \<^typ>\<open>32 word\<close>, strings, \<open>sprintf\<close>/\<open>atoi\<close>, the allocator.
  \<^item> \<open>Linked_List\<close>, \<open>List_Refinement\<close>, \<open>List_Traces\<close>: \<open>common/list.c\<close> on an explicit heap
    of nodes; every operation refines one on a bounded list, and whole programs free every item once.
  \<^item> \<open>Keyed_List\<close>: the contract of a container with keys, a locale that \<open>Friends\<close>,
    \<open>Friend_Requests\<close>, \<open>Chat_Members\<close>, \<open>Messages\<close> and \<open>Chats\<close> interpret; \<open>Client_Data\<close> has
    the invariant of the client's data and what batches of messages do.
  \<^item> \<open>Sql\<close>: the statements of \<open>persistence.c\<close> as a datatype and their texts, split like the code into
    the initial content of the array (\<open>sql_head\<close>) and what \<open>strcat\<close> adds (\<open>sql_tail\<close>).
    \<open>Sql_Decode\<close>: a text whose arguments contain no quote, backslash or byte above 127 can be read back,
    so it determines the statement.
  \<^item> \<open>Database\<close>: the tables of \<open>script/sql/db-psd.sql\<close>, what a statement means (\<open>exec\<close>), the
    constraints of the schema (\<open>db_ok\<close>), and \<open>sql_server\<close>, the hypothesis on MySQL.
  \<^item> \<open>World\<close>: the state a handler acts on, and the environment: oracles for refused connections, failing
    queries, failing file operations and the clock.
  \<^item> \<open>Persistence\<close>, \<open>Persistence_Chats\<close>, \<open>Persistence_Lists\<close>: \<open>persistence.c\<close>, function by
    function.  The lemmas \<open>*_eq\<close> give the result of a query function in any environment, \<open>*_wrote\<close>
    the effect of an update.  \<open>Evolution\<close>: which statements a function may execute, whatever fails.
  \<^item> \<open>Server_Login\<close>, \<open>Server_Users\<close>, \<open>Server_Chats\<close>, \<open>Server_Files\<close>: the handlers.
    \<open>with_login\<close> is the prologue that nineteen of them share.
  \<^item> \<open>Sample_World\<close>: a concrete server, on which the witnesses evaluate.
  \<^item> \<open>Server_Specs\<close>, \<open>Chat_Specs\<close>, \<open>Message_Specs\<close>, \<open>Reading_Specs\<close>, \<open>Account_Specs\<close>,
    \<open>Attachment_Specs\<close>: abstract operations on the database and the proofs that the handlers implement
    them when the environment works (\<open>online\<close>).
  \<^item> \<open>Server_Safety\<close>, \<open>Server_States\<close>, \<open>Server_Guard\<close>, \<open>Server_History\<close>, \<open>Message_Times\<close>:
    any environment.  The locale \<open>confined\<close> says which statements a handler may execute, \<open>guarded\<close> that
    it does nothing before the login, which refuses everything but a right login and, when the query for the
    password fails, a password equal to the content of the stack; both are interpreted for every handler.  The server is a transition
    system; its invariants are the schema, that accounts, chats and messages are never forgotten, and that
    the time of a message identifies it in its chat.
  \<^item> \<open>Server_Races\<close>: handlers that run at the same time: the times of messages are not safe from a race.
  \<^item> \<open>Server_Limits\<close>: arrays that are too small, and error codes that pass for answers.
  \<^item> \<open>Server_Listen\<close>: threads, their counter and the loop of \<open>main\<close>; \<open>Server_Program\<close>: \<open>server.c\<close>,
    with connections, signals and the turns of the threads in any order, and how a signal ends it.
  \<^item> \<open>Soap_Types\<close>: the structures of \<open>rpc/ims.h\<close> that client and server exchange.
  \<^item> \<open>Network\<close>: \<open>network.c\<close>.  The stubs \<open>soap_call_*\<close>, which gSOAP generates, are the fields of
    a record \<open>remote\<close>, functions on the state of what is behind the network.  Strings are pointers
    that may be \<open>NULL\<close>, uninitialised or dangling.
  \<^item> \<open>Client_Api\<close>, \<open>Client_Lists\<close>, \<open>Client_Messages\<close>: \<open>psd_ims_client.c\<close>, function by function:
    the structure with the mutexes it holds, the orders to the server, the updates of the lists, messages
    and attachments.
  \<^item> \<open>Client_Safety\<close>, \<open>Client_Invariant\<close>, \<open>Client_Specs\<close>, \<open>Client_Turns\<close>: any server, disk and
    allocator.  What the calls leave alone (\<open>keeps\<close>), the runs of the library (\<open>client_run\<close>), the
    invariant of all of them, and properties of single calls.
  \<^item> \<open>Client_Server\<close>: the stubs are instantiated by the handlers of the server (\<open>server_remote\<close>), so
    that client, network layer, handlers, persistence and database are composed: registration and login,
    and reading the messages of a chat.

  \<^item> \<open>Client_Iterators\<close>: the blocks of iteration of \<open>psd_ims_client.h\<close>; their indices stand for the
    node addresses of \<open>list.h\<close>, and a loop over an iterator visits every item once.
  \<^item> \<open>Terminal\<close>, \<open>Console\<close>: the user interface \<open>client_graphic_v2.c\<close> and \<open>main\<close> of \<open>client.c\<close>:
    lines read from the keyboard, the notifications thread, the signal handler, the screens, commands and
    menus.  The loops of the menus are \<open>partial_function\<close>s.
  \<^item> \<open>Console_Safety\<close>, \<open>Console_Specs\<close>: the invariant of the user interface (\<open>console_ok\<close>,
    \<open>orderly\<close>), for any input, server, disk, allocator and order of turns, and properties of reading lines,
    of the screens and of how the program ends.
  \<^item> \<open>Console_Login\<close>, \<open>Console_Server\<close>: the user interface on top of \<open>Client_Server\<close>: registration from
    the keyboard to the database.

  \<^item> \<open>Blocks\<close>: memory as a set of allocated blocks, with those gSOAP manages (\<open>soap_unlink\<close>, \<open>soap_end\<close>);
    freeing a block that is not allocated has no result.
  \<^item> \<open>Reply_Memory\<close>, \<open>Memory_Specs\<close>: the hand-over of replies in \<open>network.c\<close> (\<open>_net_unlink_*\<close>,
    \<open>net_free_*\<close>) and whole runs, in which replies arrive and are used up in any order, also on the error
    paths; a run keeps the set of blocks that were freed although gSOAP manages them.
  \<^item> \<open>List_Memory\<close>, \<open>Client_Memory\<close>, \<open>Client_Memory_Specs\<close>: the client's lists once more, with the
    blocks that every branch of their functions allocates and frees.  The functions \<open>*_at\<close> refine those of
    \<open>Friends\<close> to \<open>Chats\<close> (\<open>follows\<close>, \<open>creates\<close>, \<open>deletes\<close>), and \<open>owns\<close> accounts for every block; the
    locale \<open>destructor\<close> is the contract of the functions that free an item.

  \<^bold>\<open>Conventions.\<close>  A function of the code becomes a function of its arguments and the world, with the
  result and the next world; a pointer that may be \<open>NULL\<close> is an option; an output parameter is part of the
  result.  The result \<^const>\<open>None\<close> is a run that crashes or does not end.  A write beyond an array sets
  \<open>corrupted\<close> and the run goes on with the intended values, so that functional properties say what the
  program means to do and the properties about \<open>corrupted\<close> where it may do otherwise.  The only loop
  without a bound is the one in \<open>psdims__send_message\<close>; it is a \<open>partial_function\<close>, and both its
  termination with an advancing clock and its divergence when the database is lost are proved.  The menus of the client end only when the user ends them.

  \<^bold>\<open>Hypotheses.\<close>  \<open>sql_server d eng\<close> is the documented behaviour of MySQL: a statement in which no
  argument can end its quotation is executed as \<open>exec\<close> says, under a collation and a mode (\<open>dialect\<close>) that
  are parameters.  \<open>reference_engine\<close> satisfies it.  \<open>online\<close>: no query, connection or allocation
  fails.  \<open>login_fit\<close>, \<open>short\<close>: names that cannot end the quotation and fit the arrays.

  Of the client, a run that waits for a mutex its own thread holds, or that frees or reads a dangling
  pointer, has the result \<^const>\<open>None\<close>.  Its loops run over the reply or over a list, so they need no
  fuel.

  \<^bold>\<open>Not modelled.\<close>  The code gSOAP generates (\<open>serve\<close> stands for its dispatch on the server, the record
  \<open>remote\<close> for its stubs in the client), and a network that loses or changes messages in \<open>Client_Server\<close>;
  two handlers running at the same time in general: in \<open>Server_Program\<close> a thread serves its request as a whole,
  and \<open>Server_Races\<close> follows only one pair of interleaved handlers; signals that come before \<open>init_server\<close>
  has returned, although the handler is attached earlier;
  the notifications thread of the client runs only while the main thread waits for input, a number of turns
  of its loop at a time, and signals arrive only then; the three mutexes of \<open>client_graphic\<close>, which are
  held for single statements only, are left out.  Debugging output and the leak detector; the memory that
  \<open>mysql_store_result\<close> leaks.  \<open>client_graphic.c\<close>, the older version of \<open>client_graphic_v2.c\<close>: the
  Makefile does not build it, and it calls \<open>psd_print_chats\<close> and \<open>psd_print_friends\<close>, which are defined
  nowhere.  The theories of memory know blocks, not what is stored there: that nothing reads a block after it
  has been freed is shown only for the nodes of \<open>Linked_List\<close> and the strings of \<open>Network\<close>; the pointers from
  the members of a chat to friends are outside.
\<close>

end
